(* ===== verification/Prelude.thy ===== *)
theory Prelude
  imports Main "HOL-Library.Multiset"
begin

text \<open>
  What every component of the provider uses: the error values of Go, the functions of the
  packages \<open>strings\<close>, \<open>strconv\<close> and \<open>fmt\<close> that the provider calls, slices and maps, and
  the lemma collections of the development.

  A Go string is a byte sequence and is modelled by \<^typ>\<open>string\<close>. The functions that
  change or test letter case (\<open>strings.ToUpper\<close>, the flag \<open>(?i)\<close> of a regular expression)
  and the ones that know white space act on the ASCII characters; bytes of the range
  128--255, which make up the other characters in UTF-8, are left as they are.

  A Go map is an association list with distinct keys. The position of an entry is the moment
  at which \<open>range\<close> visits it; Go leaves that order open, and a theorem about a map quantifies
  over the list and so over every order. Where the program builds a map itself and then ranges
  over it, the order is an argument \<open>ord\<close> of the operation, constrained by \<open>perm_order\<close>.
\<close>

named_theorems go_string \<open>equations of the string functions on constructors\<close>
named_theorems go_effect \<open>how an operation acts on the world\<close>
named_theorems go_plan \<open>an effectful operation as the execution of a list of statements\<close>

section \<open>Errors\<close>

text \<open>
  An \<open>error\<close> value of Go. \<open>ErrorString\<close> is \<open>errors.New\<close> (and \<open>fmt.Errorf\<close> without
  \<open>%w\<close>); \<open>Wrapped\<close> is \<open>fmt.Errorf\<close> with a final \<open>%w\<close> and \<open>errors.Wrap\<close>: the text
  in front and the wrapped error. The other constructors are the errors the program tells apart
  with \<open>errors.Is\<close> and \<open>errors.As\<close>: \<open>sql.ErrNoRows\<close>, an error of the HANA driver with its
  code, a status error of the Kubernetes API with its reason, and the three sentinel errors of
  the user client. \<open>Panic\<close> is a run-time panic (a nil dereference): it is not a value of the
  type \<open>error\<close>, but ends a handler in the same way.
\<close>

datatype error =
    ErrorString string
  | Wrapped string error
  | ErrNoRows
  | DriverError int string
  | ApiStatus string string
  | ErrValidityPeriod
  | ErrUserDeactivated
  | ErrUserLocked
  | Panic string

fun error_chain :: "error \<Rightarrow> error list" where
  "error_chain (Wrapped m e) = Wrapped m e # error_chain e"
| "error_chain e = [e]"

definition errors_Is :: "error option \<Rightarrow> error \<Rightarrow> bool" where
  "errors_Is err target = (case err of None \<Rightarrow> False | Some e \<Rightarrow> target \<in> set (error_chain e))"

fun error_root :: "error \<Rightarrow> error" where
  "error_root (Wrapped m e) = error_root e"
| "error_root e = e"

text \<open>\<open>errors.As(err, &dbError)\<close> for the driver's error type.\<close>

fun errors_As_driver :: "error option \<Rightarrow> int option" where
  "errors_As_driver None = None"
| "errors_As_driver (Some (DriverError c t)) = Some c"
| "errors_As_driver (Some (Wrapped m e)) = errors_As_driver (Some e)"
| "errors_As_driver (Some e) = None"

text \<open>The method \<open>Error()\<close>.\<close>

fun Error_text :: "error \<Rightarrow> string" where
  "Error_text (ErrorString t) = t"
| "Error_text (Wrapped m e) = m @ Error_text e"
| "Error_text ErrNoRows = ''sql: no rows in result set''"
| "Error_text (DriverError c t) = t"
| "Error_text (ApiStatus r t) = t"
| "Error_text ErrValidityPeriod = ''connect attempt outside user'' @ [CHR 0x27] @ ''s validity period''"
| "Error_text ErrUserDeactivated = ''user is deactivated''"
| "Error_text ErrUserLocked = ''user is locked''"
| "Error_text (Panic t) = t"

lemma errors_Is_Wrapped [simp]:
  "\<forall>m' e'. t \<noteq> Wrapped m' e' \<Longrightarrow> errors_Is (Some (Wrapped m e)) t = errors_Is (Some e) t"
  by (auto simp: errors_Is_def)

lemma errors_Is_None [simp]: "errors_Is None t = False"
  by (simp add: errors_Is_def)

lemma error_chain_not_Nil [simp]: "error_chain e \<noteq> []"
  by (cases e) auto

lemma errors_Is_root:
  "\<forall>m' e'. t \<noteq> Wrapped m' e' \<Longrightarrow> errors_Is (Some e) t = (error_root e = t)"
  by (induction e) (auto simp: errors_Is_def)

section \<open>Strings\<close>

abbreviation dq :: char where "dq \<equiv> CHR 0x22"
abbreviation sq :: char where "sq \<equiv> CHR 0x27"
abbreviation bslash :: char where "bslash \<equiv> CHR 0x5C"

definition upper_char :: "char \<Rightarrow> char" where
  "upper_char c =
     (let n = of_char c :: nat in if 97 \<le> n \<and> n \<le> 122 then char_of (n - 32) else c)"

definition ToUpper :: "string \<Rightarrow> string" where
  "ToUpper s = map upper_char s"

text \<open>\<open>unicode.IsSpace\<close> on ASCII: tab, newline, vertical tab, form feed, return, blank.\<close>

definition is_space :: "char \<Rightarrow> bool" where
  "is_space c = (let n = of_char c :: nat in n = 32 \<or> (9 \<le> n \<and> n \<le> 13))"

definition TrimSpace :: "string \<Rightarrow> string" where
  "TrimSpace s = rev (dropWhile is_space (rev (dropWhile is_space s)))"

definition HasPrefix :: "string \<Rightarrow> string \<Rightarrow> bool" where
  "HasPrefix s p = (take (length p) s = p)"

definition HasSuffix :: "string \<Rightarrow> string \<Rightarrow> bool" where
  "HasSuffix s p = (length p \<le> length s \<and> drop (length s - length p) s = p)"

definition TrimPrefix :: "string \<Rightarrow> string \<Rightarrow> string" where
  "TrimPrefix s p = (if HasPrefix s p then drop (length p) s else s)"

definition TrimSuffix :: "string \<Rightarrow> string \<Rightarrow> string" where
  "TrimSuffix s p = (if HasSuffix s p then take (length s - length p) s else s)"

text \<open>\<open>strings.Index\<close>; the result \<open>-1\<close> is \<^term>\<open>None\<close>.\<close>

fun Index :: "string \<Rightarrow> string \<Rightarrow> nat option" where
  "Index [] p = (if p = [] then Some 0 else None)"
| "Index (c # cs) p = (if HasPrefix (c # cs) p then Some 0 else map_option Suc (Index cs p))"

definition Contains :: "string \<Rightarrow> string \<Rightarrow> bool" where
  "Contains s p = (Index s p \<noteq> None)"

text \<open>\<open>strings.SplitN(s, sep, 2)\<close>.\<close>

definition SplitN2 :: "string \<Rightarrow> string \<Rightarrow> string list" where
  "SplitN2 s sep = (case Index s sep of None \<Rightarrow> [s]
     | Some i \<Rightarrow> [take i s, drop (i + length sep) s])"

fun Join :: "string list \<Rightarrow> string \<Rightarrow> string" where
  "Join [] sep = []"
| "Join [x] sep = x"
| "Join (x # y # xs) sep = x @ sep @ Join (y # xs) sep"

text \<open>\<open>strings.ReplaceAll(s, old, new)\<close>; \<open>old\<close> is never empty in this program.\<close>

function ReplaceAll :: "string \<Rightarrow> string \<Rightarrow> string \<Rightarrow> string" where
  "ReplaceAll [] old new = []"
| "ReplaceAll (c # cs) old new =
     (if old \<noteq> [] \<and> HasPrefix (c # cs) old
      then new @ ReplaceAll (drop (length old) (c # cs)) old new
      else c # ReplaceAll cs old new)"
  by pat_completeness auto
termination
  by (relation "measure (\<lambda>(s, old, new). length s)") (auto simp: le_imp_less_Suc)

fun Count :: "string \<Rightarrow> char \<Rightarrow> nat" where
  "Count [] c = 0"
| "Count (d # ds) c = (if d = c then Suc (Count ds c) else Count ds c)"

text \<open>\<open>strconv.Itoa\<close> and the verb \<open>%d\<close>.\<close>

fun digits :: "nat \<Rightarrow> string" where
  "digits n = (if n < 10 then [char_of (48 + n)] else digits (n div 10) @ [char_of (48 + n mod 10)])"

declare digits.simps [simp del]

definition Itoa :: "int \<Rightarrow> string" where
  "Itoa i = (if i < 0 then CHR ''-'' # digits (nat (- i)) else digits (nat i))"

text \<open>
  \<open>strconv.Quote\<close>, the verb \<open>%q\<close>: a Go string literal. The control characters of ASCII are
  escaped; the bytes of other characters stay, as those of every printable character do.
\<close>

definition hex_digit :: "nat \<Rightarrow> char" where
  "hex_digit n = char_of (if n < 10 then 48 + n else 87 + n)"

definition Quote_char :: "char \<Rightarrow> string" where
  "Quote_char c =
     (let n = of_char c :: nat in
      if c = dq \<or> c = bslash then [bslash, c]
      else if n = 7 then [bslash, CHR ''a''] else if n = 8 then [bslash, CHR ''b'']
      else if n = 12 then [bslash, CHR ''f''] else if n = 10 then [bslash, CHR ''n'']
      else if n = 13 then [bslash, CHR ''r''] else if n = 9 then [bslash, CHR ''t'']
      else if n = 11 then [bslash, CHR ''v'']
      else if n < 32 \<or> n = 127 then [bslash, CHR ''x'', hex_digit (n div 16), hex_digit (n mod 16)]
      else [c])"

definition Quote :: "string \<Rightarrow> string" where
  "Quote s = [dq] @ concat (map Quote_char s) @ [dq]"

section \<open>Slices and maps\<close>

definition perm_order :: "('a list \<Rightarrow> 'a list) \<Rightarrow> bool" where
  "perm_order ord \<longleftrightarrow> (\<forall>xs. mset (ord xs) = mset xs)"

lemma perm_order_set: "perm_order ord \<Longrightarrow> set (ord xs) = set xs"
  unfolding perm_order_def by (metis set_mset_mset)

lemma perm_order_length: "perm_order ord \<Longrightarrow> length (ord xs) = length xs"
  unfolding perm_order_def by (metis size_mset)

lemma perm_order_Nil: "perm_order ord \<Longrightarrow> (ord xs = []) = (xs = [])"
  using perm_order_length [of ord xs] by (metis length_0_conv)

lemma perm_order_distinct: "perm_order ord \<Longrightarrow> distinct (ord xs) = distinct xs"
  unfolding perm_order_def by (metis mset_eq_imp_distinct_iff)

lemma perm_order_single: "perm_order ord \<Longrightarrow> ord [x] = [x]"
  using perm_order_length [of ord "[x]"] perm_order_set [of ord "[x]"]
  by (cases "ord [x]") auto

text \<open>A slice that can be nil; the program tells nil from an empty slice in few places.\<close>

type_synonym gomap = "(string \<times> string) list"

definition gomap_get :: "('k \<times> 'v) list \<Rightarrow> 'k \<Rightarrow> 'v option" where
  "gomap_get m k = map_of m k"

text \<open>\<open>m[k] = v\<close>: replaces the value of a key that is present, adds the entry otherwise.\<close>

fun gomap_set :: "('k \<times> 'v) list \<Rightarrow> 'k \<Rightarrow> 'v \<Rightarrow> ('k \<times> 'v) list" where
  "gomap_set [] k v = [(k, v)]"
| "gomap_set ((k', v') # m) k v = (if k' = k then (k, v) # m else (k', v') # gomap_set m k v)"

definition gomap_ok :: "('k \<times> 'v) list \<Rightarrow> bool" where
  "gomap_ok m = distinct (map fst m)"

lemma map_of_gomap_set [simp]: "map_of (gomap_set m k v) = (map_of m)(k \<mapsto> v)"
  by (induction m k v rule: gomap_set.induct) auto

lemma keys_gomap_set [simp]: "fst ` set (gomap_set m k v) = insert k (fst ` set m)"
  by (induction m k v rule: gomap_set.induct) auto

lemma gomap_ok_set [simp]: "gomap_ok m \<Longrightarrow> gomap_ok (gomap_set m k v)"
  by (induction m k v rule: gomap_set.induct) (auto simp: gomap_ok_def)

text \<open>\<open>maps.Equal\<close>: the same keys with the same values.\<close>

definition maps_Equal :: "('k \<times> 'v) list \<Rightarrow> ('k \<times> 'v) list \<Rightarrow> bool" where
  "maps_Equal m1 m2 = (length m1 = length m2 \<and> list_all (\<lambda>(k, v). map_of m2 k = Some v) m1)"

lemma map_of_eqI_card:
  assumes ok: "gomap_ok m1" "gomap_ok m2" and len: "length m1 = length m2"
    and sub: "\<And>k v. (k, v) \<in> set m1 \<Longrightarrow> map_of m2 k = Some v"
  shows "map_of m1 = map_of m2"
proof -
  have s: "set m1 \<subseteq> set m2" using sub by (auto dest: map_of_SomeD)
  have c: "card (set m1) = card (set m2)"
    using ok len by (simp add: gomap_ok_def distinct_map distinct_card)
  have "set m1 = set m2" by (rule card_subset_eq) (use s c in auto)
  then show ?thesis using ok by (metis gomap_ok_def map_of_inject_set)
qed

lemma maps_Equal_iff:
  assumes ok: "gomap_ok m1" "gomap_ok m2"
  shows "maps_Equal m1 m2 \<longleftrightarrow> map_of m1 = map_of m2"
proof
  assume "maps_Equal m1 m2"
  then show "map_of m1 = map_of m2"
    by (intro map_of_eqI_card ok) (auto simp: maps_Equal_def list_all_iff)
next
  assume e: "map_of m1 = map_of m2"
  then have s: "set m1 = set m2" using ok by (metis gomap_ok_def map_of_inject_set)
  then have "length m1 = length m2"
    using ok by (metis distinct_card distinct_map gomap_ok_def)
  moreover have "list_all (\<lambda>(k, v). map_of m2 k = Some v) m1"
    using s ok by (auto simp: list_all_iff gomap_ok_def)
  ultimately show "maps_Equal m1 m2" by (simp add: maps_Equal_def)
qed

section \<open>Lemmas on strings\<close>

lemma HasPrefix_append [simp]: "HasPrefix (p @ s) p"
  by (simp add: HasPrefix_def)

lemma HasPrefix_Cons [go_string]: "HasPrefix (c # cs) (d # ds) = (c = d \<and> HasPrefix cs ds)"
  by (auto simp: HasPrefix_def)

lemma HasPrefix_Nil [simp]: "HasPrefix s []"
  by (simp add: HasPrefix_def)

lemma HasPrefix_Nil_Cons [simp]: "HasPrefix [] (d # ds) = False"
  by (simp add: HasPrefix_def)

lemma Index_first:
  assumes "c \<notin> set pre" "c \<notin> set p1" "p = p1 @ [c]"
  shows "Index (pre @ p @ s) p = Some (length pre)"
  using assms(1)
proof (induction pre)
  case Nil
  obtain d ds where t: "p @ s = d # ds" using assms(3) by (cases "p @ s") auto
  have "HasPrefix (d # ds) p" unfolding t [symmetric] by (rule HasPrefix_append)
  then show ?case unfolding append_Nil t by simp
next
  case (Cons a pre)
  let ?t = "a # pre @ p @ s"
  have "\<not> HasPrefix ?t p"
  proof
    assume "HasPrefix ?t p"
    then have "?t ! length p1 = p ! length p1" using assms(3) by (metis HasPrefix_def length_append_singleton lessI nth_take)
    then have c: "?t ! length p1 = c" using assms(3) by simp
    show False
    proof (cases "length p1 < length (a # pre)")
      case True
      then have "?t ! length p1 = (a # pre) ! length p1" by (metis append_Cons nth_append)
      then have "?t ! length p1 \<in> set (a # pre)" using nth_mem [OF True] by simp
      then show False using c Cons.prems by simp
    next
      case False
      have k: "length p1 - length (a # pre) < length p1" using False by auto
      have "?t = (a # pre) @ p @ s" by simp
      then have "?t ! length p1 = (p @ s) ! (length p1 - length (a # pre))" using False by (metis nth_append)
      also have "\<dots> = p1 ! (length p1 - length (a # pre))" using assms(3) k by (simp add: nth_append)
      finally show False using c assms(2) nth_mem [OF k] by simp
    qed
  qed
  then show ?case using Cons by simp
qed

lemma TrimPrefix_append [simp]: "TrimPrefix (p @ s) p = s"
  by (simp add: TrimPrefix_def)

lemma HasSuffix_append [simp]: "HasSuffix (s @ p) p"
  by (simp add: HasSuffix_def)

lemma TrimSuffix_append [simp]: "TrimSuffix (s @ p) p = s"
  by (simp add: TrimSuffix_def)

lemma TrimSuffix_not [simp]: "\<not> HasSuffix s p \<Longrightarrow> TrimSuffix s p = s"
  by (simp add: TrimSuffix_def)

lemma Join_snoc: "xs \<noteq> [] \<Longrightarrow> Join (xs @ [y]) sep = Join xs sep @ sep @ y"
  by (induction xs sep rule: Join.induct) auto

lemma Join_Cons: "xs \<noteq> [] \<Longrightarrow> Join (x # xs) sep = x @ sep @ Join xs sep"
  by (cases xs) auto

text \<open>A clause of items, each preceded by a blank and followed by a comma, with the last comma cut off.\<close>

lemma comma_items_trim:
  "xs \<noteq> [] \<Longrightarrow>
   TrimSuffix (q @ concat (map (\<lambda>x. '' '' @ f x @ '','') xs)) '','' = q @ '' '' @ Join (map f xs) '', ''"
proof (induction xs rule: rev_induct)
  case Nil
  then show ?case by simp
next
  case (snoc x xs)
  have "concat (map (\<lambda>x. '' '' @ f x @ '','') xs) @ '' '' @ f x =
      '' '' @ Join (map f (xs @ [x])) '', ''"
    by (induction xs) (auto simp: Join_Cons)
  moreover have "q @ concat (map (\<lambda>x. '' '' @ f x @ '','') (xs @ [x])) =
      (q @ concat (map (\<lambda>x. '' '' @ f x @ '','') xs) @ '' '' @ f x) @ '',''"
    by simp
  ultimately show ?case by (metis TrimSuffix_append append.assoc)
qed

end
