(* ===== verification/Regexp.thy ===== *)
theory Regexp
  imports Prelude
begin

text \<open>
  The part of Go's package \<open>regexp\<close> that the provider uses. An expression is a value of
  \<open>rx\<close>; \<open>rx_matches\<close> lists the ways to match a prefix of a string in the order in which the
  leftmost-first semantics of the package prefers them, each with the rest of the string and the
  submatches. Every expression of the privilege parser is anchored at both ends, so
  \<open>FindStringSubmatch\<close> takes the first way that consumes the whole string.

  The second half gives the matcher in continuation form (\<open>rx_run\<close>), which is the form the
  proofs about parsing use: it stops at the first way that succeeds.
\<close>

section \<open>Expressions and their matches\<close>

text \<open>
  \<open>Cls\<close> is a character class, \<open>Star\<close> and \<open>Lazy\<close> are the greedy and the non-greedy
  repetition, \<open>Grp\<close> a numbered submatch. \<open>Word_End\<close> is \<open>\b\<close> behind a word character:
  what follows is the end of the text or no word character.
\<close>

datatype rx =
    Eps
  | Cls "char \<Rightarrow> bool"
  | Word_End
  | Seq rx rx
  | Alt rx rx
  | Star rx
  | Lazy rx
  | Grp nat rx

type_synonym submatches = "(nat \<times> string) list"
type_synonym rx_result = "string \<times> submatches"

definition is_word_char :: "char \<Rightarrow> bool" where
  "is_word_char c = (let n = of_char c :: nat in
     (48 \<le> n \<and> n \<le> 57) \<or> (65 \<le> n \<and> n \<le> 90) \<or> (97 \<le> n \<and> n \<le> 122) \<or> n = 95)"

definition add_caps :: "submatches \<Rightarrow> rx_result \<Rightarrow> rx_result" where
  "add_caps c r = (fst r, c @ snd r)"

function (sequential) rx_matches :: "rx \<Rightarrow> string \<Rightarrow> rx_result list" where
  "rx_matches Eps s = [(s, [])]"
| "rx_matches (Cls P) s = (case s of [] \<Rightarrow> [] | c # cs \<Rightarrow> if P c then [(cs, [])] else [])"
| "rx_matches Word_End s =
     (case s of [] \<Rightarrow> [(s, [])] | c # cs \<Rightarrow> if is_word_char c then [] else [(s, [])])"
| "rx_matches (Seq a b) s =
     concat (map (\<lambda>r. map (add_caps (snd r)) (rx_matches b (fst r))) (rx_matches a s))"
| "rx_matches (Alt a b) s = rx_matches a s @ rx_matches b s"
| "rx_matches (Star a) s =
     concat (map (\<lambda>r. if length (fst r) < length s
                       then map (add_caps (snd r)) (rx_matches (Star a) (fst r)) else [])
                 (rx_matches a s)) @ [(s, [])]"
| "rx_matches (Lazy a) s =
     (s, []) # concat (map (\<lambda>r. if length (fst r) < length s
                       then map (add_caps (snd r)) (rx_matches (Lazy a) (fst r)) else [])
                 (rx_matches a s))"
| "rx_matches (Grp n a) s =
     map (\<lambda>r. (fst r, (n, take (length s - length (fst r)) s) # snd r)) (rx_matches a s)"
  by pat_completeness auto
termination
  by (relation "measures [\<lambda>(r, s). size r, \<lambda>(r, s). length s]") auto

declare rx_matches.simps(6,7) [simp del]

definition Opt :: "rx \<Rightarrow> rx" where
  "Opt a = Alt a Eps"

definition Plus :: "rx \<Rightarrow> rx" where
  "Plus a = Seq a (Star a)"

text \<open>A literal text under the flag \<open>(?i)\<close>, and a single character.\<close>

fun Text_ci :: "string \<Rightarrow> rx" where
  "Text_ci [] = Eps"
| "Text_ci (c # cs) = Seq (Cls (\<lambda>d. upper_char d = upper_char c)) (Text_ci cs)"

definition Chr :: "char \<Rightarrow> rx" where
  "Chr c = Cls (\<lambda>d. d = c)"

fun Seqs :: "rx list \<Rightarrow> rx" where
  "Seqs [] = Eps"
| "Seqs [r] = r"
| "Seqs (r # rs) = Seq r (Seqs rs)"

text \<open>\<open>\s\<close>: blank, tab, newline, form feed and return, but not the vertical tab.\<close>

definition rx_space :: "char \<Rightarrow> bool" where
  "rx_space c = (let n = of_char c :: nat in n = 32 \<or> n = 9 \<or> n = 10 \<or> n = 12 \<or> n = 13)"

definition Spaces0 :: rx where
  "Spaces0 = Star (Cls rx_space)"

definition Spaces1 :: rx where
  "Spaces1 = Plus (Cls rx_space)"

text \<open>
  \<open>FindStringSubmatch\<close> for an expression anchored by \<open>^\<close> and \<open>$\<close>. The submatch of a group
  that took no part in the match is the empty string.
\<close>

definition FindStringSubmatch :: "rx \<Rightarrow> string \<Rightarrow> submatches option" where
  "FindStringSubmatch r s = map_option snd (find (\<lambda>m. fst m = []) (rx_matches r s))"

definition submatch :: "submatches \<Rightarrow> nat \<Rightarrow> string" where
  "submatch c n = (case map_of c n of None \<Rightarrow> [] | Some t \<Rightarrow> t)"

text \<open>
  \<open>ReplaceAllString\<close> for an expression that matches no empty string: \<open>f\<close> computes the
  replacement from the submatches of the leftmost match.
\<close>

function ReplaceAllString :: "rx \<Rightarrow> (submatches \<Rightarrow> string) \<Rightarrow> string \<Rightarrow> string" where
  "ReplaceAllString r f [] = []"
| "ReplaceAllString r f (c # cs) =
     (case rx_matches r (c # cs) of
        [] \<Rightarrow> c # ReplaceAllString r f cs
      | m # _ \<Rightarrow> if length (fst m) < length (c # cs)
                then f (snd m) @ ReplaceAllString r f (fst m)
                else c # ReplaceAllString r f cs)"
  by pat_completeness auto
termination
  by (relation "measure (\<lambda>(r, f, s). length s)") auto

section \<open>The texts of an expression\<close>

text \<open>
  \<open>rx_rel r u c\<close>: the expression can produce the text \<open>u\<close> with the submatches \<open>c\<close>. Every
  match is one of these, and every such text is matched (up to \<open>\b\<close>, which looks at what
  follows). To show that an expression does not match, it is enough to look at this relation.
\<close>

inductive rx_rel :: "rx \<Rightarrow> string \<Rightarrow> submatches \<Rightarrow> bool" where
  Eps: "rx_rel Eps [] []"
| Cls: "P c \<Longrightarrow> rx_rel (Cls P) [c] []"
| Word_End: "rx_rel Word_End [] []"
| Seq: "rx_rel a u c \<Longrightarrow> rx_rel b v d \<Longrightarrow> rx_rel (Seq a b) (u @ v) (c @ d)"
| Alt1: "rx_rel a u c \<Longrightarrow> rx_rel (Alt a b) u c"
| Alt2: "rx_rel b u c \<Longrightarrow> rx_rel (Alt a b) u c"
| Star_Nil: "rx_rel (Star a) [] []"
| Star_Cons: "rx_rel a u c \<Longrightarrow> rx_rel (Star a) v d \<Longrightarrow> rx_rel (Star a) (u @ v) (c @ d)"
| Lazy_Nil: "rx_rel (Lazy a) [] []"
| Lazy_Cons: "rx_rel a u c \<Longrightarrow> rx_rel (Lazy a) v d \<Longrightarrow> rx_rel (Lazy a) (u @ v) (c @ d)"
| Grp: "rx_rel a u c \<Longrightarrow> rx_rel (Grp n a) u ((n, u) # c)"

inductive_simps rx_rel_simps:
  "rx_rel Eps u c" "rx_rel (Cls P) u c" "rx_rel Word_End u c" "rx_rel (Seq a b) u c"
  "rx_rel (Alt a b) u c" "rx_rel (Grp n a) u c"

lemma rx_matches_sound: "m \<in> set (rx_matches r s) \<Longrightarrow> \<exists>u. s = u @ fst m \<and> rx_rel r u (snd m)"
proof (induction r s arbitrary: m rule: rx_matches.induct)
  case (4 a b s)
  from "4.prems" obtain r m' where r: "r \<in> set (rx_matches a s)"
    and m': "m' \<in> set (rx_matches b (fst r))" "m = (fst m', snd r @ snd m')"
    by (auto simp: add_caps_def)
  obtain u v where "s = u @ fst r" "rx_rel a u (snd r)" "fst r = v @ fst m'" "rx_rel b v (snd m')"
    using "4.IH"(1) [OF r] "4.IH"(2) [OF r m'(1)] by blast
  then have "s = (u @ v) @ fst m \<and> rx_rel (Seq a b) (u @ v) (snd m)"
    using m'(2) by (auto intro: rx_rel.Seq)
  then show ?case ..
next
  case (6 a s)
  show ?case
  proof (cases "m = (s, [])")
    case False
    with "6.prems" obtain r m' where r: "r \<in> set (rx_matches a s)" "length (fst r) < length s"
      and m': "m' \<in> set (rx_matches (Star a) (fst r))" "m = (fst m', snd r @ snd m')"
      unfolding rx_matches.simps(6) [of a s] by (auto simp: add_caps_def split: if_splits)
    obtain u v where "s = u @ fst r" "rx_rel a u (snd r)" "fst r = v @ fst m'" "rx_rel (Star a) v (snd m')"
      using "6.IH"(1) [OF r(1)] "6.IH"(2) [OF r m'(1)] by blast
    then have "s = (u @ v) @ fst m \<and> rx_rel (Star a) (u @ v) (snd m)"
      using m'(2) by (auto intro: rx_rel.Star_Cons)
    then show ?thesis ..
  qed (auto intro: rx_rel.intros)
next
  case (7 a s)
  show ?case
  proof (cases "m = (s, [])")
    case False
    with "7.prems" obtain r m' where r: "r \<in> set (rx_matches a s)" "length (fst r) < length s"
      and m': "m' \<in> set (rx_matches (Lazy a) (fst r))" "m = (fst m', snd r @ snd m')"
      unfolding rx_matches.simps(7) [of a s] by (auto simp: add_caps_def split: if_splits)
    obtain u v where "s = u @ fst r" "rx_rel a u (snd r)" "fst r = v @ fst m'" "rx_rel (Lazy a) v (snd m')"
      using "7.IH"(1) [OF r(1)] "7.IH"(2) [OF r m'(1)] by blast
    then have "s = (u @ v) @ fst m \<and> rx_rel (Lazy a) (u @ v) (snd m)"
      using m'(2) by (auto intro: rx_rel.Lazy_Cons)
    then show ?thesis ..
  qed (auto intro: rx_rel.intros)
next
  case (5 a b s)
  then show ?case by (fastforce intro: rx_rel.Alt1 rx_rel.Alt2)
next
  case (8 n a s)
  then obtain r where r: "r \<in> set (rx_matches a s)"
    and m: "m = (fst r, (n, take (length s - length (fst r)) s) # snd r)" by auto
  obtain u where "s = u @ fst r" "rx_rel a u (snd r)" using "8.IH" [OF r] by blast
  then show ?case using m by (auto intro: rx_rel.intros)
qed (auto intro: rx_rel.intros split: list.splits if_splits)

fun no_Word_End :: "rx \<Rightarrow> bool" where
  "no_Word_End Word_End = False"
| "no_Word_End (Seq a b) = (no_Word_End a \<and> no_Word_End b)"
| "no_Word_End (Alt a b) = (no_Word_End a \<and> no_Word_End b)"
| "no_Word_End (Star a) = no_Word_End a"
| "no_Word_End (Lazy a) = no_Word_End a"
| "no_Word_End (Grp n a) = no_Word_End a"
| "no_Word_End _ = True"

lemma rx_matches_complete:
  "rx_rel r u c \<Longrightarrow> no_Word_End r \<Longrightarrow> \<exists>d. (rest, d) \<in> set (rx_matches r (u @ rest))"
proof (induction r u c arbitrary: rest rule: rx_rel.induct)
  case (Seq a u c b v d)
  obtain d1 where d1: "(v @ rest, d1) \<in> set (rx_matches a (u @ v @ rest))"
    using Seq.IH(1) [of "v @ rest"] Seq.prems by auto
  obtain d2 where d2: "(rest, d2) \<in> set (rx_matches b (v @ rest))"
    using Seq.IH(2) Seq.prems by auto
  then have "(rest, d1 @ d2) \<in> set (rx_matches (Seq a b) ((u @ v) @ rest))"
    using d1 by (force simp: add_caps_def)
  then show ?case ..
next
  case (Star_Cons a u c v d)
  obtain d1 where d1: "(v @ rest, d1) \<in> set (rx_matches a (u @ v @ rest))"
    using Star_Cons.IH(1) [of "v @ rest"] Star_Cons.prems by auto
  obtain d2 where d2: "(rest, d2) \<in> set (rx_matches (Star a) (v @ rest))"
    using Star_Cons.IH(2) Star_Cons.prems by auto
  show ?case
  proof (cases "u = []")
    case False
    then have "(rest, d1 @ d2) \<in> set (rx_matches (Star a) ((u @ v) @ rest))"
      using d1 d2 by (subst rx_matches.simps(6)) (force simp: add_caps_def)
    then show ?thesis ..
  qed (use d2 in auto)
next
  case (Lazy_Cons a u c v d)
  obtain d1 where d1: "(v @ rest, d1) \<in> set (rx_matches a (u @ v @ rest))"
    using Lazy_Cons.IH(1) [of "v @ rest"] Lazy_Cons.prems by auto
  obtain d2 where d2: "(rest, d2) \<in> set (rx_matches (Lazy a) (v @ rest))"
    using Lazy_Cons.IH(2) Lazy_Cons.prems by auto
  show ?case
  proof (cases "u = []")
    case False
    then have "(rest, d1 @ d2) \<in> set (rx_matches (Lazy a) ((u @ v) @ rest))"
      using d1 d2 by (subst rx_matches.simps(7)) (force simp: add_caps_def)
    then show ?thesis ..
  qed (use d2 in auto)
next
  case (Grp a u c n)
  then obtain d where "(rest, d) \<in> set (rx_matches a (u @ rest))" by auto
  then have "(rest, (n, take (length (u @ rest) - length rest) (u @ rest)) # d)
      \<in> set (rx_matches (Grp n a) (u @ rest))"
    by force
  then show ?case ..
next
  case (Star_Nil a)
  then show ?case by (subst rx_matches.simps(6)) auto
next
  case (Lazy_Nil a)
  then show ?case by (subst rx_matches.simps(7)) auto
next
  case (Alt1 a u c b)
  then show ?case by fastforce
next
  case (Alt2 b u c a)
  then show ?case by fastforce
qed auto

lemma FindStringSubmatch_None:
  "(\<And>c. \<not> rx_rel r s c) \<Longrightarrow> FindStringSubmatch r s = None"
  by (auto simp: FindStringSubmatch_def find_None_iff dest!: rx_matches_sound)

section \<open>The matcher in continuation form\<close>

fun first_some :: "('a \<Rightarrow> 'b option) \<Rightarrow> 'a list \<Rightarrow> 'b option" where
  "first_some k [] = None"
| "first_some k (x # xs) = (case k x of None \<Rightarrow> first_some k xs | Some y \<Rightarrow> Some y)"

definition or_else :: "'a option \<Rightarrow> 'a option \<Rightarrow> 'a option" where
  "or_else a b = (case a of None \<Rightarrow> b | Some y \<Rightarrow> Some y)"

lemma or_else_simps [simp]:
  "or_else None b = b" "or_else (Some y) b = Some y" "or_else a None = a"
  by (auto simp: or_else_def split: option.split)

lemma or_else_None [simp]: "or_else a b = None \<longleftrightarrow> a = None \<and> b = None"
  by (auto simp: or_else_def split: option.split)

lemma first_some_append: "first_some k (xs @ ys) = or_else (first_some k xs) (first_some k ys)"
  by (induction xs) (auto simp: or_else_def split: option.split)

lemma first_some_concat:
  "first_some k (concat (map f xs)) = first_some (\<lambda>x. first_some k (f x)) xs"
  by (induction xs) (auto simp: first_some_append or_else_def)

lemma first_some_map: "first_some k (map f xs) = first_some (\<lambda>x. k (f x)) xs"
  by (induction xs) (auto split: option.split)

lemma first_some_None: "first_some k xs = None \<longleftrightarrow> (\<forall>x\<in>set xs. k x = None)"
  by (induction xs) (auto split: option.split)

lemma first_some_cong:
  "(\<And>x. x \<in> set xs \<Longrightarrow> k x = k' x) \<Longrightarrow> first_some k xs = first_some k' xs"
  by (induction xs) (auto split: option.split)

definition rx_run :: "rx \<Rightarrow> string \<Rightarrow> (string \<Rightarrow> submatches \<Rightarrow> 'a option) \<Rightarrow> 'a option" where
  "rx_run r s k = first_some (\<lambda>m. k (fst m) (snd m)) (rx_matches r s)"

named_theorems rx_run \<open>one step of the matcher in continuation form\<close>

lemma rx_run_Eps [rx_run]: "rx_run Eps s k = k s []"
  by (simp add: rx_run_def split: option.split)

lemma rx_run_Cls_Nil [rx_run]: "rx_run (Cls P) [] k = None"
  by (simp add: rx_run_def)

lemma rx_run_Cls_Cons [rx_run]: "rx_run (Cls P) (c # cs) k = (if P c then k cs [] else None)"
  by (simp add: rx_run_def split: option.split)

lemma rx_run_Word_End_Cons [rx_run]:
  "rx_run Word_End (c # cs) k = (if is_word_char c then None else k (c # cs) [])"
  by (simp add: rx_run_def split: option.split)

lemma rx_run_Word_End_Nil [rx_run]: "rx_run Word_End [] k = k [] []"
  by (simp add: rx_run_def split: option.split)

lemma rx_run_Seq [rx_run]:
  "rx_run (Seq a b) s k = rx_run a s (\<lambda>s1 c1. rx_run b s1 (\<lambda>s2 c2. k s2 (c1 @ c2)))"
  by (simp add: rx_run_def first_some_concat first_some_map add_caps_def)

lemma rx_run_Alt [rx_run]: "rx_run (Alt a b) s k = or_else (rx_run a s k) (rx_run b s k)"
  by (simp add: rx_run_def first_some_append)

lemma rx_run_Grp [rx_run]:
  "rx_run (Grp n a) s k =
   rx_run a s (\<lambda>s1 c1. k s1 ((n, take (length s - length s1) s) # c1))"
  by (simp add: rx_run_def first_some_map)

lemma rx_run_Opt [rx_run]: "rx_run (Opt a) s k = or_else (rx_run a s k) (k s [])"
  by (simp add: Opt_def rx_run)

lemma rx_run_Plus [rx_run]:
  "rx_run (Plus a) s k = rx_run a s (\<lambda>s1 c1. rx_run (Star a) s1 (\<lambda>s2 c2. k s2 (c1 @ c2)))"
  by (simp add: Plus_def rx_run)

lemma rx_run_Star:
  "rx_run (Star a) s k =
   or_else (rx_run a s (\<lambda>s1 c1. if length s1 < length s
                        then rx_run (Star a) s1 (\<lambda>s2 c2. k s2 (c1 @ c2)) else None))
           (k s [])"
  unfolding rx_run_def rx_matches.simps(6) [of a s] first_some_append first_some_concat
  by (rule arg_cong2 [where f = or_else])
     (auto intro!: first_some_cong simp: first_some_map add_caps_def split: option.split)

lemma rx_run_Lazy:
  "rx_run (Lazy a) s k =
   or_else (k s [])
     (rx_run a s (\<lambda>s1 c1. if length s1 < length s
                        then rx_run (Lazy a) s1 (\<lambda>s2 c2. k s2 (c1 @ c2)) else None))"
  unfolding rx_run_def rx_matches.simps(7) [of a s]
  by (auto intro!: first_some_cong simp: first_some_concat first_some_map add_caps_def or_else_def
      split: option.split)

text \<open>The repetition of a single class: a character at a time.\<close>

lemma rx_run_Star_Cls_Nil [rx_run]: "rx_run (Star (Cls P)) [] k = k [] []"
  by (subst rx_run_Star) (simp add: rx_run)

lemma rx_run_Star_Cls_Cons [rx_run]:
  "rx_run (Star (Cls P)) (c # cs) k =
   (if P c then or_else (rx_run (Star (Cls P)) cs k) (k (c # cs) []) else k (c # cs) [])"
  by (subst rx_run_Star) (simp add: rx_run)

lemma rx_run_Lazy_Cls_Nil [rx_run]: "rx_run (Lazy (Cls P)) [] k = k [] []"
  by (subst rx_run_Lazy) (simp add: rx_run)

lemma rx_run_Lazy_Cls_Cons [rx_run]:
  "rx_run (Lazy (Cls P)) (c # cs) k =
   or_else (k (c # cs) []) (if P c then rx_run (Lazy (Cls P)) cs k else None)"
  by (subst rx_run_Lazy) (simp add: rx_run)

lemma FindStringSubmatch_run:
  "FindStringSubmatch r s = rx_run r s (\<lambda>s' c. if s' = [] then Some c else None)"
proof -
  have "map_option snd (find (\<lambda>m. fst m = []) ms) =
      first_some (\<lambda>m. if fst m = [] then Some (snd m) else None) ms" for ms :: "rx_result list"
    by (induction ms) auto
  then show ?thesis by (simp add: FindStringSubmatch_def rx_run_def)
qed

lemma rx_run_None: "(\<And>s' c. k s' c = None) \<Longrightarrow> rx_run r s k = None"
  by (simp add: rx_run_def first_some_None)

lemma rx_run_Text_ci_Cons [rx_run]:
  "rx_run (Text_ci (c # cs)) s k =
   rx_run (Cls (\<lambda>d. upper_char d = upper_char c)) s (\<lambda>s1 c1. rx_run (Text_ci cs) s1 (\<lambda>s2 c2. k s2 (c1 @ c2)))"
  by (simp add: rx_run)

lemma rx_run_Text_ci_Nil [rx_run]: "rx_run (Text_ci []) s k = k s []"
  by (simp add: rx_run)

lemma rx_run_unique:
  assumes e: "(rest, d) \<in> set (rx_matches r s)"
    and u: "\<And>m. m \<in> set (rx_matches r s) \<Longrightarrow> m = m0"
  shows "rx_run r s k = k (fst m0) (snd m0)"
proof -
  have all: "first_some (\<lambda>m. k (fst m) (snd m)) xs = (if xs = [] then None else k (fst m0) (snd m0))"
    if "\<forall>m \<in> set xs. m = m0" for xs :: "rx_result list"
    using that by (induction xs) (auto split: option.split)
  have "rx_matches r s \<noteq> []" using e by auto
  then show ?thesis unfolding rx_run_def using all u by simp
qed

end
