(* ===== verification/Utils.thy ===== *)
theory Utils
  imports Regexp
begin

text \<open>
  The package \<open>internal/utils\<close> (\<open>utils.go\<close>): quoting for SQL, clean-up of privilege
  strings, and the comparison of slices and maps with which every controller decides whether a
  resource is up to date and what has to change.

  The lemmas show that the comparison of slices is equality of sets and its differences are set
  differences, that the differences of maps are what has to be written, and that quoting is safe:
  a quoted value read back by the lexical rules of SQL is the value.
\<close>

section \<open>Quoting\<close>

definition EscapeSingleQuotes :: "string \<Rightarrow> string" where
  "EscapeSingleQuotes input = ReplaceAll input [sq] [sq, sq]"

definition EscapeDoubleQuotes :: "string \<Rightarrow> string" where
  "EscapeDoubleQuotes input = ReplaceAll input [dq] [dq, dq]"

text \<open>The expression \<open>"%s"\<close> applied to an escaped value, as the clients write it.\<close>

definition dquoted :: "string \<Rightarrow> string" where
  "dquoted s = [dq] @ EscapeDoubleQuotes s @ [dq]"

definition squoted :: "string \<Rightarrow> string" where
  "squoted s = [sq] @ EscapeSingleQuotes s @ [sq]"

text \<open>\<open>input[1:len(input)-1]\<close>.\<close>

definition inner :: "string \<Rightarrow> string" where
  "inner s = butlast (tl s)"

definition TrimOuterDoubleQuotes :: "string \<Rightarrow> string" where
  "TrimOuterDoubleQuotes input0 =
     (let input = TrimSpace input0 in
      if length input < 2 \<or> hd input \<noteq> dq \<or> last input \<noteq> dq then input
      else if length input = 2 then inner input
      else
        let innerContent = inner input in
        if length innerContent \<ge> 2 \<and> hd innerContent = dq \<and> last innerContent = dq then
          (let quoteCount = Count innerContent dq in
           if quoteCount = 2 then innerContent else innerContent)
        else innerContent)"

text \<open>The expression \<open>""([^"]+)""\<close>.\<close>

definition doubleQuotePattern :: rx where
  "doubleQuotePattern =
     Seqs [Chr dq, Chr dq, Grp 1 (Plus (Cls (\<lambda>c. c \<noteq> dq))), Chr dq, Chr dq]"

definition ConvertBackslashEscapesToHanaEscapes :: "string \<Rightarrow> string" where
  "ConvertBackslashEscapesToHanaEscapes input =
     (let result = ReplaceAllString doubleQuotePattern (\<lambda>m. [dq] @ submatch m 1 @ [dq]) input
      in ReplaceAll result [bslash, dq] [dq])"

definition PreprocessPrivilegeStrings :: "string list \<Rightarrow> string list" where
  "PreprocessPrivilegeStrings privilegeStrings =
     map (\<lambda>privStr. ConvertBackslashEscapesToHanaEscapes (TrimOuterDoubleQuotes privStr))
       privilegeStrings"

definition ArrayToUpper :: "string list \<Rightarrow> string list" where
  "ArrayToUpper arr = map ToUpper arr"

section \<open>Differences of maps and slices\<close>

text \<open>A set is a map to the empty struct.\<close>

definition MapDiff :: "('k \<times> 'v) list \<Rightarrow> ('k \<times> 'v) list \<Rightarrow> ('k \<times> 'v) list" where
  "MapDiff mp1 mp2 =
     filter (\<lambda>(key, val1). case map_of mp2 key of None \<Rightarrow> True | Some val2 \<Rightarrow> val1 \<noteq> val2) mp1"

definition MapDiffOnlyDesired :: "('k \<times> 'v) list \<Rightarrow> ('k \<times> 'v) list \<Rightarrow> ('k \<times> 'v) list" where
  "MapDiffOnlyDesired observed desired =
     filter (\<lambda>(key, desiredVal).
        case map_of observed key of None \<Rightarrow> True | Some observedVal \<Rightarrow> observedVal \<noteq> desiredVal)
       desired"

definition MapsBothDiff ::
  "('k \<times> 'v) list \<Rightarrow> ('k \<times> 'v) list \<Rightarrow> bool \<times> ('k \<times> 'v) list \<times> ('k \<times> 'v) list" where
  "MapsBothDiff mp1 mp2 =
     (let leftDifference = MapDiff mp1 mp2 in
      if length leftDifference \<noteq> 0 \<or> length mp1 \<noteq> length mp2 then (False, [], [])
      else
        let rightDifference = MapDiff mp2 mp1 in
        (True, leftDifference, rightDifference))"

fun arrayToSet_from :: "('e \<times> unit) list \<Rightarrow> 'e list \<Rightarrow> ('e \<times> unit) list" where
  "arrayToSet_from set0 [] = set0"
| "arrayToSet_from set0 (item # arr) = arrayToSet_from (gomap_set set0 item ()) arr"

definition arrayToSet :: "'e list \<Rightarrow> ('e \<times> unit) list" where
  "arrayToSet arr = arrayToSet_from [] arr"

text \<open>\<open>ord\<close> is the order in which \<open>range\<close> visits the set.\<close>

definition setToArray :: "('e list \<Rightarrow> 'e list) \<Rightarrow> ('e \<times> unit) list \<Rightarrow> 'e list" where
  "setToArray ord set0 = ord (map fst set0)"

text \<open>The last component is \<open>nil\<close> (\<^term>\<open>None\<close>) unless the difference was computed and is not empty.\<close>

definition arraysEqualWithDifference ::
  "'a list \<Rightarrow> 'a list \<Rightarrow>
     bool \<times> ('a \<times> unit) list \<times> ('a \<times> unit) list \<times> ('a \<times> unit) list option" where
  "arraysEqualWithDifference arr1 arr2 =
     (let set1 = arrayToSet arr1; set2 = arrayToSet arr2 in
      if length set1 \<noteq> length set2 then (False, set1, set2, None)
      else
        let leftDifference = MapDiff set1 set2 in
        if length leftDifference \<noteq> 0 then (False, set1, set2, Some leftDifference)
        else (True, set1, set2, None))"

definition ArraysEqual :: "'a list \<Rightarrow> 'a list \<Rightarrow> bool" where
  "ArraysEqual arr1 arr2 = fst (arraysEqualWithDifference arr1 arr2)"

definition ArraysBothDiff ::
  "('a list \<Rightarrow> 'a list) \<Rightarrow> 'a list \<Rightarrow> 'a list \<Rightarrow> bool \<times> 'a list \<times> 'a list" where
  "ArraysBothDiff ord arr1 arr2 =
     (case arraysEqualWithDifference arr1 arr2 of
        (isEqual, set1, set2, leftDifference) \<Rightarrow>
          if isEqual then (True, [], [])
          else
            let left = (case leftDifference of None \<Rightarrow> MapDiff set1 set2 | Some d \<Rightarrow> d);
                rightDifference = MapDiff set2 set1
            in (False, setToArray ord left, setToArray ord rightDifference))"

section \<open>Slices: equality and difference of sets\<close>

lemma arrayToSet_from_spec:
  "gomap_ok m \<Longrightarrow> gomap_ok (arrayToSet_from m arr) \<and>
     fst ` set (arrayToSet_from m arr) = fst ` set m \<union> set arr"
  by (induction m arr rule: arrayToSet_from.induct) auto

lemma gomap_ok_arrayToSet [simp]: "gomap_ok (arrayToSet arr)"
  using arrayToSet_from_spec [of "[]" arr] by (simp add: arrayToSet_def gomap_ok_def)

lemma keys_arrayToSet [simp]: "fst ` set (arrayToSet arr) = set arr"
  using arrayToSet_from_spec [of "[]" arr] by (simp add: arrayToSet_def gomap_ok_def)

lemma unit_map_mem: "(x, ()) \<in> set m \<longleftrightarrow> x \<in> fst ` set m"
  by force

lemma mem_arrayToSet [simp]: "(x, ()) \<in> set (arrayToSet arr) \<longleftrightarrow> x \<in> set arr"
  by (simp add: unit_map_mem)

lemma map_of_arrayToSet [simp]: "map_of (arrayToSet arr) x = (if x \<in> set arr then Some () else None)"
proof (cases "x \<in> set arr")
  case True
  have "distinct (map fst (arrayToSet arr))" using gomap_ok_arrayToSet by (simp add: gomap_ok_def)
  from map_of_eq_Some_iff [OF this] True show ?thesis by simp
next
  case False
  then show ?thesis by (simp add: map_of_eq_None_iff)
qed

lemma length_arrayToSet [simp]: "length (arrayToSet arr) = card (set arr)"
proof -
  have "length (arrayToSet arr) = card (set (map fst (arrayToSet arr)))"
    using gomap_ok_arrayToSet [of arr] by (metis distinct_card gomap_ok_def length_map)
  then show ?thesis by simp
qed

lemma keys_MapDiff_arrayToSet [simp]:
  "fst ` set (MapDiff (arrayToSet a) (arrayToSet b)) = set a - set b"
  by (force simp: MapDiff_def image_iff)

lemma MapDiff_arrayToSet_Nil: "MapDiff (arrayToSet a) (arrayToSet b) = [] \<longleftrightarrow> set a \<subseteq> set b"
  using keys_MapDiff_arrayToSet [of a b] by (metis Diff_eq_empty_iff image_is_empty set_empty)

lemma arraysEqualWithDifference_fst: "fst (arraysEqualWithDifference a b) \<longleftrightarrow> set a = set b"
proof -
  have "fst (arraysEqualWithDifference a b) \<longleftrightarrow> card (set a) = card (set b) \<and> set a \<subseteq> set b"
    by (simp add: arraysEqualWithDifference_def Let_def MapDiff_arrayToSet_Nil)
  also have "\<dots> \<longleftrightarrow> set a = set b" by (metis List.finite_set card_subset_eq subset_refl)
  finally show ?thesis .
qed

lemma ArraysEqual_iff [simp]: "ArraysEqual a b \<longleftrightarrow> set a = set b"
  by (simp add: ArraysEqual_def arraysEqualWithDifference_fst)

lemma ArraysBothDiff_form:
  "ArraysBothDiff ord a b =
     (if set a = set b then (True, [], [])
      else (False, setToArray ord (MapDiff (arrayToSet a) (arrayToSet b)),
                   setToArray ord (MapDiff (arrayToSet b) (arrayToSet a))))"
  using arraysEqualWithDifference_fst [of a b]
  by (auto simp: ArraysBothDiff_def arraysEqualWithDifference_def Let_def)

lemma ArraysBothDiff_eq [simp]: "fst (ArraysBothDiff ord a b) = (set a = set b)"
  by (simp add: ArraysBothDiff_form)

lemma ArraysBothDiff_spec:
  assumes "perm_order ord" and "ArraysBothDiff ord a b = (eq, l, r)"
  shows "eq = (set a = set b)" and "set l = set a - set b" and "set r = set b - set a"
    and "distinct l" and "distinct r"
proof -
  have d: "distinct (map fst (MapDiff (arrayToSet x) (arrayToSet y)))" for x y :: "'a list"
    using gomap_ok_arrayToSet [of x] by (simp add: MapDiff_def gomap_ok_def distinct_map_filter)
  have s: "set (setToArray ord (MapDiff (arrayToSet x) (arrayToSet y))) = set x - set y"
    "distinct (setToArray ord (MapDiff (arrayToSet x) (arrayToSet y)))" for x y :: "'a list"
    by (simp_all add: setToArray_def perm_order_set [OF assms(1)] perm_order_distinct [OF assms(1)] d)
  show "eq = (set a = set b)" "set l = set a - set b" "set r = set b - set a" "distinct l" "distinct r"
    using assms(2) s by (auto simp: ArraysBothDiff_form split: if_splits)
qed

text \<open>
  C1. \<open>ArraysBothDiff\<close> reports two slices as equal exactly when they have the same elements,
  whatever their order and their duplicates; otherwise it returns, in some order and without
  duplicates, the elements that are only in the first and the elements that are only in the
  second slice. Removing the latter from the second slice and adding the former gives the
  elements of the first: the two lists are a complete update plan.
\<close>

theorem ArraysBothDiff_update_plan:
  assumes "perm_order ord" and "ArraysBothDiff ord desired observed = (isEqual, toAdd, toRemove)"
  shows "isEqual = (set desired = set observed)
    \<and> (isEqual = ArraysEqual observed desired)
    \<and> distinct toAdd \<and> distinct toRemove
    \<and> set toAdd = set desired - set observed
    \<and> set toRemove = set observed - set desired
    \<and> (set observed - set toRemove) \<union> set toAdd = set desired"
  using ArraysBothDiff_spec [OF assms] by auto

lemma perm_order_rev: "perm_order rev"
  by (simp add: perm_order_def)

theorem ArraysBothDiff_update_plan_witness:
  "ArraysBothDiff rev [''A'', ''B'', ''A''] [''B'', ''C'', ''D''] = (False, [''A''], [''D'', ''C''])
   \<and> (set [''B'', ''C'', ''D''] - set [''D'', ''C'']) \<union> set [''A''] = set [''A'', ''B'', ''A'']"
proof -
  have e: "ArraysBothDiff rev [''A'', ''B'', ''A''] [''B'', ''C'', ''D''] = (False, [''A''], [''D'', ''C''])"
    by code_simp
  show ?thesis using e ArraysBothDiff_update_plan [OF perm_order_rev e] by blast
qed

section \<open>Maps\<close>

lemma map_of_filter_gomap:
  "gomap_ok m \<Longrightarrow>
   map_of (filter (\<lambda>(k, v). P k v) m) k = (case map_of m k of None \<Rightarrow> None | Some v \<Rightarrow> if P k v then Some v else None)"
  by (induction m) (auto simp: gomap_ok_def map_of_eq_None_iff split: option.split)

lemma map_of_MapDiffOnlyDesired:
  "gomap_ok desired \<Longrightarrow> map_of (MapDiffOnlyDesired observed desired) k =
     (if map_of desired k \<noteq> map_of observed k then map_of desired k else None)"
  unfolding MapDiffOnlyDesired_def by (subst map_of_filter_gomap) (auto split: option.split)

lemma MapDiffOnlyDesired_Nil_iff:
  "gomap_ok desired \<Longrightarrow> MapDiffOnlyDesired observed desired = [] \<longleftrightarrow> map_of desired \<subseteq>\<^sub>m map_of observed"
proof -
  assume ok: "gomap_ok desired"
  have "MapDiffOnlyDesired observed desired = [] \<longleftrightarrow>
      (\<forall>(k, v) \<in> set desired. map_of observed k = Some v)"
    by (auto simp: MapDiffOnlyDesired_def filter_empty_conv split: option.splits)
  also have "\<dots> \<longleftrightarrow> map_of desired \<subseteq>\<^sub>m map_of observed"
    using ok by (auto simp: map_le_def gomap_ok_def dom_def dest: map_of_SomeD)
  finally show ?thesis .
qed

lemma MapDiff_Nil_iff:
  "MapDiff m1 m2 = [] \<longleftrightarrow> (\<forall>(k, v) \<in> set m1. map_of m2 k = Some v)"
  by (auto simp: MapDiff_def filter_empty_conv split: option.splits)

text \<open>
  C2. \<open>MapDiffOnlyDesired\<close> is the least set of entries to write: it holds exactly the
  desired entries the observed map lacks or has with another value, and writing them over the
  observed map gives every desired entry its value and leaves the other observed entries alone.
\<close>

theorem MapDiffOnlyDesired_writes_desired:
  assumes "gomap_ok desired"
  shows "map_of observed ++ map_of (MapDiffOnlyDesired observed desired)
       = map_of observed ++ map_of desired
    \<and> map_of desired \<subseteq>\<^sub>m map_of observed ++ map_of (MapDiffOnlyDesired observed desired)
    \<and> (MapDiffOnlyDesired observed desired = []) = (map_of desired \<subseteq>\<^sub>m map_of observed)"
proof -
  have e: "map_of observed ++ map_of (MapDiffOnlyDesired observed desired) = map_of observed ++ map_of desired"
    by (rule ext) (auto simp: map_add_def map_of_MapDiffOnlyDesired [OF assms] split: option.split)
  then show ?thesis using MapDiffOnlyDesired_Nil_iff [OF assms] by simp
qed

theorem MapDiffOnlyDesired_writes_desired_witness:
  "gomap_ok [(''a'', ''1''), (''b'', ''2'')]
   \<and> MapDiffOnlyDesired [(''b'', ''0''), (''c'', ''9'')] [(''a'', ''1''), (''b'', ''2'')] \<noteq> []
   \<and> map_of [(''a'', ''1''), (''b'', ''2'')] \<subseteq>\<^sub>m map_of [(''b'', ''0''), (''c'', ''9'')] ++
       map_of (MapDiffOnlyDesired [(''b'', ''0''), (''c'', ''9'')] [(''a'', ''1''), (''b'', ''2'')])"
proof -
  have ok: "gomap_ok [(''a'', ''1''), (''b'', ''2'')]" by (simp add: gomap_ok_def)
  have d: "MapDiffOnlyDesired [(''b'', ''0''), (''c'', ''9'')] [(''a'', ''1''), (''b'', ''2'')] \<noteq> []"
    by code_simp
  show ?thesis
    using ok d MapDiffOnlyDesired_writes_desired [OF ok, of "[(''b'', ''0''), (''c'', ''9'')]"] by blast
qed

lemma MapsBothDiff_iff:
  assumes "gomap_ok m1" "gomap_ok m2"
  shows "MapsBothDiff m1 m2 = (map_of m1 = map_of m2, [], [])"
proof -
  have eq: "MapDiff m1 m2 = [] \<and> length m1 = length m2 \<longleftrightarrow> map_of m1 = map_of m2"
    unfolding maps_Equal_iff [OF assms, symmetric]
    by (auto simp: maps_Equal_def MapDiff_Nil_iff list_all_iff)
  show ?thesis
  proof (cases "map_of m1 = map_of m2")
    case True
    then have "MapDiff m2 m1 = []" using assms(2)
      by (auto simp: MapDiff_Nil_iff gomap_ok_def)
    with True eq show ?thesis by (simp add: MapsBothDiff_def)
  next
    case False
    with eq show ?thesis by (auto simp: MapsBothDiff_def)
  qed
qed

text \<open>
  \<open>MapsBothDiff\<close> decides equality of maps, but the two differences it returns are always
  empty: when the maps differ it returns \<open>nil, nil\<close>, so a caller that updates what the
  differences name updates nothing.
\<close>

theorem MapsBothDiff_loses_differences:
  assumes "gomap_ok m1" "gomap_ok m2"
  shows "fst (MapsBothDiff m1 m2) = (map_of m1 = map_of m2)
    \<and> fst (snd (MapsBothDiff m1 m2)) = [] \<and> snd (snd (MapsBothDiff m1 m2)) = []"
  using MapsBothDiff_iff [OF assms] by simp

theorem MapsBothDiff_loses_differences_witness:
  "\<not> fst (MapsBothDiff [(''LOCALE'', ''en'')] [(''LOCALE'', ''de'')])
   \<and> fst (snd (MapsBothDiff [(''LOCALE'', ''en'')] [(''LOCALE'', ''de'')])) = []"
proof -
  have ok: "gomap_ok [(''LOCALE'', ''en'')]" "gomap_ok [(''LOCALE'', ''de'')]"
    by (simp_all add: gomap_ok_def)
  show ?thesis using MapsBothDiff_loses_differences [OF ok] by (auto simp: fun_eq_iff)
qed

section \<open>Quoting is undone by the lexical rules of SQL\<close>

lemma HasPrefix_single [simp]: "HasPrefix (c # cs) [d] = (c = d)"
  by (simp add: HasPrefix_def)

lemma ReplaceAll_char: "ReplaceAll s [q] r = concat (map (\<lambda>c. if c = q then r else [c]) s)"
  by (induction s) auto

lemma EscapeDoubleQuotes_concat:
  "EscapeDoubleQuotes s = concat (map (\<lambda>c. if c = dq then [dq, dq] else [c]) s)"
  by (simp add: EscapeDoubleQuotes_def ReplaceAll_char)

lemma EscapeSingleQuotes_concat:
  "EscapeSingleQuotes s = concat (map (\<lambda>c. if c = sq then [sq, sq] else [c]) s)"
  by (simp add: EscapeSingleQuotes_def ReplaceAll_char)

lemma EscapeDoubleQuotes_simps [simp]:
  "EscapeDoubleQuotes [] = []"
  "EscapeDoubleQuotes (c # cs) = (if c = dq then dq # dq # EscapeDoubleQuotes cs else c # EscapeDoubleQuotes cs)"
  by (simp_all add: EscapeDoubleQuotes_concat)

lemma EscapeSingleQuotes_simps [simp]:
  "EscapeSingleQuotes [] = []"
  "EscapeSingleQuotes (c # cs) = (if c = sq then sq # sq # EscapeSingleQuotes cs else c # EscapeSingleQuotes cs)"
  by (simp_all add: EscapeSingleQuotes_concat)

lemma unescape_EscapeDoubleQuotes: "ReplaceAll (EscapeDoubleQuotes s) [dq, dq] [dq] = s"
  by (induction s) (auto simp: HasPrefix_def)

text \<open>
  The lexical rule of SQL for a delimited token: after the opening delimiter, the token runs to
  the first delimiter that is not doubled; a doubled delimiter stands for one. The result is the
  token and the text behind it. This is the specification the escaping is checked against.
\<close>

fun sql_delimited :: "char \<Rightarrow> string \<Rightarrow> (string \<times> string) option" where
  "sql_delimited q [] = None"
| "sql_delimited q [c] = (if c = q then Some ([], []) else None)"
| "sql_delimited q (c # d # ds) =
     (if c \<noteq> q then map_option (\<lambda>(t, r). (c # t, r)) (sql_delimited q (d # ds))
      else if d = q then map_option (\<lambda>(t, r). (q # t, r)) (sql_delimited q ds)
      else Some ([], d # ds))"

definition starts_with :: "char \<Rightarrow> string \<Rightarrow> bool" where
  "starts_with q s = (case s of [] \<Rightarrow> False | c # _ \<Rightarrow> c = q)"

lemma sql_delimited_Cons:
  "c \<noteq> q \<Longrightarrow> s \<noteq> [] \<Longrightarrow> sql_delimited q (c # s) = map_option (\<lambda>(t, r). (c # t, r)) (sql_delimited q s)"
  by (cases s) auto

lemma sql_delimited_close: "\<not> starts_with q rest \<Longrightarrow> sql_delimited q (q # rest) = Some ([], rest)"
  by (cases rest) (auto simp: starts_with_def)

lemma sql_delimited_escaped:
  assumes "\<not> starts_with q rest"
  shows "sql_delimited q (concat (map (\<lambda>c. if c = q then [q, q] else [c]) s) @ q # rest) = Some (s, rest)"
proof (induction s)
  case Nil
  then show ?case using assms by (simp add: sql_delimited_close)
next
  case (Cons c s)
  then show ?case by (cases "c = q") (auto simp: sql_delimited_Cons)
qed

text \<open>
  C4. No value can leave its quotes. Whatever a name or a text holds, the clients' quoted form
  of it, followed by a statement's next part, is read by SQL as one delimited token whose value
  is exactly that name or text, and reading continues behind the closing quote.
\<close>

theorem quoting_is_injection_safe:
  assumes "\<not> starts_with dq rest" and "\<not> starts_with sq rest'"
  shows "sql_delimited dq (tl (dquoted name @ rest)) = Some (name, rest)
    \<and> sql_delimited sq (tl (squoted t @ rest')) = Some (t, rest')"
  using sql_delimited_escaped [OF assms(1), of name] sql_delimited_escaped [OF assms(2), of t]
  by (simp add: dquoted_def squoted_def EscapeDoubleQuotes_concat EscapeSingleQuotes_concat)

theorem quoting_is_injection_safe_witness:
  "sql_delimited dq (tl (dquoted ([dq] @ ''; DROP USER X'') @ '' CASCADE'')) = Some ([dq] @ ''; DROP USER X'', '' CASCADE'')
   \<and> sql_delimited sq (tl (squoted ''it'' @ '','')) = Some (''it'', '','')"
proof -
  have h: "\<not> starts_with dq '' CASCADE''" "\<not> starts_with sq '',''"
    by (simp_all add: starts_with_def)
  show ?thesis using quoting_is_injection_safe [OF h, of "[dq] @ ''; DROP USER X''" "''it''"] by simp
qed

section \<open>Clean-up of privilege strings\<close>

lemma TrimOuterDoubleQuotes_eq:
  "TrimOuterDoubleQuotes s =
     (let t = TrimSpace s in
      if 2 \<le> length t \<and> hd t = dq \<and> last t = dq then butlast (tl t) else t)"
  by (auto simp: TrimOuterDoubleQuotes_def Let_def inner_def)

lemma length_TrimOuterDoubleQuotes: "length (TrimOuterDoubleQuotes s) \<le> length s"
proof -
  have "length (TrimSpace s) \<le> length s"
    by (metis TrimSpace_def length_dropWhile_le length_rev order_trans)
  then show ?thesis by (auto simp: TrimOuterDoubleQuotes_eq Let_def)
qed

end
