(* ===== verification/Xsql.thy ===== *)
theory Xsql
  imports Utils
begin

text \<open>
  The database as the clients see it: the interface \<open>xsql.DB\<close>
  (\<open>internal/clients/xsql/common.go\<close>) and what the clients use of \<open>database/sql\<close> (rows, the
  conversions of \<open>Scan\<close>, \<open>sql.ErrNoRows\<close>).

  The database server is not part of the program. It is a value of \<open>DB\<close>, a record of
  functions over a world of an arbitrary type \<open>'w\<close>, and every operation that calls it takes the
  record and the world and returns the new world. A theorem for every such record holds for
  every server and for every way it can fail.

  A write operation of a client is a \<open>plan\<close>: the statements it wants to execute, with what
  it does to the error of each, and the error it returns by itself at the end. \<open>run_plan\<close>
  executes a plan, stopping at the first statement that fails. The clients' theories show that
  each write operation is \<open>run_plan\<close> of its plan; what a client does to a database is then a
  question about a list.
\<close>

section \<open>Values, rows and Scan\<close>

text \<open>
  A value of the driver. A \<open>time.Time\<close> is copied by the program and never inspected; it is
  represented by its text in RFC 3339.
\<close>

datatype sqlval = SNull | SText string | SInt int | SBool bool | STime string

text \<open>
  The rows of a query: what \<open>Next\<close> and \<open>Scan\<close> see, what \<open>Err\<close> returns at the end, and what
  \<open>Close\<close> returns.
\<close>

record rows =
  rows_data :: "sqlval list list"
  rows_Err :: "error option"
  rows_Close :: "error option"

definition scan_error :: error where
  "scan_error = ErrorString ''sql: Scan error''"

definition scan_string :: "sqlval \<Rightarrow> error + string" where
  "scan_string v = (case v of
     SText s \<Rightarrow> Inr s
   | SInt i \<Rightarrow> Inr (Itoa i)
   | SBool b \<Rightarrow> Inr (if b then ''true'' else ''false'')
   | STime t \<Rightarrow> Inr t
   | SNull \<Rightarrow> Inl scan_error)"

text \<open>\<open>strconv.ParseBool\<close>.\<close>

definition ParseBool :: "string \<Rightarrow> error + bool" where
  "ParseBool s =
     (if s \<in> set [''1'', ''t'', ''T'', ''TRUE'', ''true'', ''True''] then Inr True
      else if s \<in> set [''0'', ''f'', ''F'', ''FALSE'', ''false'', ''False''] then Inr False
      else Inl scan_error)"

definition scan_bool :: "sqlval \<Rightarrow> error + bool" where
  "scan_bool v = (case v of
     SBool b \<Rightarrow> Inr b
   | SText s \<Rightarrow> ParseBool s
   | SInt i \<Rightarrow> if i = 1 then Inr True else if i = 0 then Inr False else Inl scan_error
   | _ \<Rightarrow> Inl scan_error)"

definition is_digit :: "char \<Rightarrow> bool" where
  "is_digit c = (let n = of_char c :: nat in 48 \<le> n \<and> n \<le> 57)"

fun digits_value :: "nat \<Rightarrow> string \<Rightarrow> nat" where
  "digits_value a [] = a"
| "digits_value a (c # cs) = digits_value (10 * a + (of_char c - 48)) cs"

text \<open>\<open>strconv.ParseInt(s, 10, 64)\<close>: an optional sign, digits, and the range of \<open>int64\<close>.\<close>

definition ParseInt :: "string \<Rightarrow> int option" where
  "ParseInt s =
     (let (neg, ds) = (case s of [] \<Rightarrow> (False, [])
                       | c # cs \<Rightarrow> if c = CHR ''-'' then (True, cs)
                                   else if c = CHR ''+'' then (False, cs) else (False, s));
          v = (if neg then - int (digits_value 0 ds) else int (digits_value 0 ds))
      in if ds \<noteq> [] \<and> list_all is_digit ds \<and> - (2 ^ 63) \<le> v \<and> v < 2 ^ 63 then Some v else None)"

definition scan_int :: "sqlval \<Rightarrow> error + int" where
  "scan_int v = (case v of
     SInt i \<Rightarrow> Inr i
   | SText s \<Rightarrow> (case ParseInt s of Some i \<Rightarrow> Inr i | None \<Rightarrow> Inl scan_error)
   | _ \<Rightarrow> Inl scan_error)"

definition scan_time :: "sqlval \<Rightarrow> error + string" where
  "scan_time v = (case v of STime t \<Rightarrow> Inr t | _ \<Rightarrow> Inl scan_error)"

text \<open>\<open>sql.NullString\<close> and \<open>sql.NullInt64\<close>: \<^term>\<open>None\<close> is \<open>Valid = false\<close>.\<close>

definition scan_null :: "(sqlval \<Rightarrow> error + 'a) \<Rightarrow> sqlval \<Rightarrow> error + 'a option" where
  "scan_null f v = (case v of SNull \<Rightarrow> Inr None | _ \<Rightarrow> map_sum id Some (f v))"

text \<open>The field \<open>String\<close> of a \<open>sql.NullString\<close>.\<close>

definition NullString_String :: "string option \<Rightarrow> string" where
  "NullString_String s = (case s of None \<Rightarrow> [] | Some t \<Rightarrow> t)"

section \<open>The interface DB\<close>

text \<open>
  A transaction is driven through the same world: \<open>BeginTx\<close> opens it, and the operations of
  \<open>sql.Tx\<close> that the program uses act on the one that is open.
\<close>

record 'w DB =
  ExecContext :: "string \<Rightarrow> 'w \<Rightarrow> error option \<times> 'w"
  QueryRowContext :: "string \<Rightarrow> string list \<Rightarrow> 'w \<Rightarrow> (error + sqlval list) \<times> 'w"
  QueryContext :: "string \<Rightarrow> string list \<Rightarrow> 'w \<Rightarrow> (error + rows) \<times> 'w"
  BeginTx :: "'w \<Rightarrow> error option \<times> 'w"
  Tx_ExecContext :: "string \<Rightarrow> 'w \<Rightarrow> error option \<times> 'w"
  Tx_Commit :: "'w \<Rightarrow> error option \<times> 'w"
  Tx_Rollback :: "'w \<Rightarrow> error option \<times> 'w"

definition IsNoRows :: "error option \<Rightarrow> bool" where
  "IsNoRows err = errors_Is err ErrNoRows"

text \<open>A server on which a query leaves the world as it is.\<close>

definition reads_only :: "'w DB \<Rightarrow> bool" where
  "reads_only db \<longleftrightarrow>
     (\<forall>q a w. snd (QueryRowContext db q a w) = w) \<and> (\<forall>q a w. snd (QueryContext db q a w) = w)"

lemma reads_only_QueryRow [go_effect]:
  "reads_only db \<Longrightarrow> QueryRowContext db q a w = (r, w') \<Longrightarrow> w' = w"
  unfolding reads_only_def by (metis snd_conv)

lemma reads_only_Query [go_effect]:
  "reads_only db \<Longrightarrow> QueryContext db q a w = (r, w') \<Longrightarrow> w' = w"
  unfolding reads_only_def by (metis snd_conv)

text \<open>\<open>QueryRowContext(...).Scan(...)\<close>.\<close>

definition query_row ::
  "'w DB \<Rightarrow> string \<Rightarrow> string list \<Rightarrow> (sqlval list \<Rightarrow> error + 'a) \<Rightarrow> 'w \<Rightarrow> (error + 'a) \<times> 'w" where
  "query_row db query args scan w =
     (case QueryRowContext db query args w of
        (Inl err, w') \<Rightarrow> (Inl err, w')
      | (Inr vals, w') \<Rightarrow> (scan vals, w'))"

lemma query_row_pure [go_effect]: "reads_only db \<Longrightarrow> snd (query_row db q args scan w) = w"
  by (auto simp: query_row_def split: prod.split sum.split dest: reads_only_QueryRow)

lemma query_row_pureD [go_effect]: "reads_only db \<Longrightarrow> query_row db q args scan w = (r, w') \<Longrightarrow> w' = w"
  by (metis query_row_pure snd_conv)

definition scan2 :: "(sqlval \<Rightarrow> error + 'a) \<Rightarrow> (sqlval \<Rightarrow> error + 'b) \<Rightarrow> sqlval list \<Rightarrow> error + 'a \<times> 'b" where
  "scan2 f g row = (case row of
     [x, y] \<Rightarrow> (case f x of Inl e \<Rightarrow> Inl e | Inr a \<Rightarrow> (case g y of Inl e \<Rightarrow> Inl e | Inr b \<Rightarrow> Inr (a, b)))
   | _ \<Rightarrow> Inl scan_error)"

definition scan3 ::
  "(sqlval \<Rightarrow> error + 'a) \<Rightarrow> (sqlval \<Rightarrow> error + 'b) \<Rightarrow> (sqlval \<Rightarrow> error + 'c) \<Rightarrow> sqlval list \<Rightarrow> error + 'a \<times> 'b \<times> 'c" where
  "scan3 f g h row = (case row of
     x # rest \<Rightarrow> (case f x of Inl e \<Rightarrow> Inl e
                  | Inr a \<Rightarrow> (case scan2 g h rest of Inl e \<Rightarrow> Inl e | Inr p \<Rightarrow> Inr (a, p)))
   | _ \<Rightarrow> Inl scan_error)"

text \<open>
  The loop \<open>for rows.Next() { ... }\<close> followed by the test of \<open>rows.Err()\<close>: \<open>step\<close> is the body,
  which continues with a new value or returns an error.
\<close>

fun each_row :: "('a \<Rightarrow> sqlval list \<Rightarrow> error + 'a) \<Rightarrow> 'a \<Rightarrow> sqlval list list \<Rightarrow> error option \<times> 'a" where
  "each_row step a [] = (None, a)"
| "each_row step a (r # rs) =
     (case step a r of Inl e \<Rightarrow> (Some e, a) | Inr a' \<Rightarrow> each_row step a' rs)"

lemma each_row_append:
  "each_row step a (rs @ rs') =
     (case each_row step a rs of (Some e, a') \<Rightarrow> (Some e, a') | (None, a') \<Rightarrow> each_row step a' rs')"
  by (induction step a rs rule: each_row.induct) (auto split: sum.split)

section \<open>Plans\<close>

text \<open>A statement with what the operation makes of its error (\<open>fmt.Errorf\<close> or nothing).\<close>

type_synonym planned_step = "string \<times> (error \<Rightarrow> error)"
type_synonym plan = "planned_step list \<times> error option"

fun exec_steps :: "'w DB \<Rightarrow> planned_step list \<Rightarrow> 'w \<Rightarrow> error option \<times> 'w" where
  "exec_steps db [] w = (None, w)"
| "exec_steps db ((q, f) # qs) w =
     (case ExecContext db q w of
        (Some e, w') \<Rightarrow> (Some (f e), w')
      | (None, w') \<Rightarrow> exec_steps db qs w')"

definition run_plan :: "'w DB \<Rightarrow> plan \<Rightarrow> 'w \<Rightarrow> error option \<times> 'w" where
  "run_plan db p w =
     (case exec_steps db (fst p) w of
        (Some e, w') \<Rightarrow> (Some e, w')
      | (None, w') \<Rightarrow> (snd p, w'))"

definition statements :: "plan \<Rightarrow> string list" where
  "statements p = map fst (fst p)"

definition plan_exec :: "string \<Rightarrow> plan" where
  "plan_exec q = ([(q, \<lambda>e. e)], None)"

definition plan_skip :: plan where
  "plan_skip = ([], None)"

definition plan_fail :: "error \<Rightarrow> plan" where
  "plan_fail e = ([], Some e)"

text \<open>One plan after the other, the second only when the first returns no error.\<close>

definition plan_then :: "plan \<Rightarrow> plan \<Rightarrow> plan" where
  "plan_then p q = (if snd p = None then (fst p @ fst q, snd q) else p)"

text \<open>\<open>if err := ...; err != nil { return fmt.Errorf(..., err) }\<close>.\<close>

definition plan_wrap :: "(error \<Rightarrow> error) \<Rightarrow> plan \<Rightarrow> plan" where
  "plan_wrap f p = (map (map_prod id (\<lambda>g. f \<circ> g)) (fst p), map_option f (snd p))"

definition and_then :: "error option \<times> 'w \<Rightarrow> ('w \<Rightarrow> error option \<times> 'w) \<Rightarrow> error option \<times> 'w" where
  "and_then r k = (case r of (Some e, w) \<Rightarrow> (Some e, w) | (None, w) \<Rightarrow> k w)"

text \<open>\<open>fmt.Errorf("...: %w", err)\<close> around an operation.\<close>

definition wrap_err :: "string \<Rightarrow> error option \<times> 'w \<Rightarrow> error option \<times> 'w" where
  "wrap_err m r = map_prod (map_option (Wrapped m)) id r"

text \<open>A loop that executes statements and returns at the first error.\<close>

fun exec_all :: "'w DB \<Rightarrow> string list \<Rightarrow> 'w \<Rightarrow> error option \<times> 'w" where
  "exec_all db [] w = (None, w)"
| "exec_all db (q # qs) w =
     (case ExecContext db q w of
        (Some err, w') \<Rightarrow> (Some err, w')
      | (None, w') \<Rightarrow> exec_all db qs w')"

definition plan_execs :: "string list \<Rightarrow> plan" where
  "plan_execs qs = (map (\<lambda>q. (q, \<lambda>e. e)) qs, None)"

lemma exec_steps_append:
  "exec_steps db (xs @ ys) w = and_then (exec_steps db xs w) (exec_steps db ys)"
  by (induction db xs w rule: exec_steps.induct) (auto simp: and_then_def split: option.split prod.split)

lemma exec_steps_wrap:
  "exec_steps db (map (map_prod id (\<lambda>g. f \<circ> g)) xs) w =
   map_prod (map_option f) id (exec_steps db xs w)"
  by (induction db xs w rule: exec_steps.induct) (auto split: option.split prod.split)

lemma run_plan_skip [go_plan]: "run_plan db plan_skip w = (None, w)"
  by (simp add: run_plan_def plan_skip_def)

lemma run_plan_fail [go_plan]: "run_plan db (plan_fail e) w = (Some e, w)"
  by (simp add: run_plan_def plan_fail_def)

lemma run_plan_exec [go_plan]: "run_plan db (plan_exec q) w = ExecContext db q w"
  by (auto simp: run_plan_def plan_exec_def split: option.split prod.split)

lemma run_plan_then [go_plan]:
  "run_plan db (plan_then p q) w = and_then (run_plan db p w) (run_plan db q)"
  by (cases "exec_steps db (fst p) w")
     (auto simp: run_plan_def plan_then_def exec_steps_append and_then_def split: option.split prod.split)

lemma run_plan_wrap:
  "run_plan db (plan_wrap f p) w = map_prod (map_option f) id (run_plan db p w)"
  by (auto simp: run_plan_def plan_wrap_def exec_steps_wrap split: option.split prod.split)

lemma run_plan_execs [go_plan]: "run_plan db (plan_execs qs) w = exec_all db qs w"
proof -
  have "exec_steps db (map (\<lambda>q. (q, \<lambda>e. e)) qs) w = exec_all db qs w"
    by (induction db qs w rule: exec_all.induct) (auto split: option.split prod.split)
  then show ?thesis by (auto simp: run_plan_def plan_execs_def split: option.split prod.split)
qed

lemma run_plan_wrap_err [go_plan]: "run_plan db (plan_wrap (Wrapped m) p) w = wrap_err m (run_plan db p w)"
  by (simp add: run_plan_wrap wrap_err_def)

lemma and_then_None [simp]: "and_then (None, w) k = k w"
  by (simp add: and_then_def)

lemma and_then_Some [simp]: "and_then (Some e, w) k = (Some e, w)"
  by (simp add: and_then_def)

lemma statements_simps [simp]:
  "statements plan_skip = []" "statements (plan_fail e) = []" "statements (plan_exec q) = [q]"
  "statements (plan_wrap f p) = statements p" "statements (plan_execs qs) = qs"
  by (auto simp: statements_def plan_skip_def plan_fail_def plan_exec_def plan_wrap_def plan_execs_def
      comp_def)

lemma statements_then:
  "statements (plan_then p q) = (if snd p = None then statements p @ statements q else statements p)"
  by (simp add: statements_def plan_then_def)

lemma plan_then_skip [simp]: "plan_then plan_skip p = p" "plan_then p plan_skip = p"
  by (cases p; simp add: plan_then_def plan_skip_def)+

lemma snd_plan_simps [simp]:
  "snd plan_skip = None" "snd (plan_fail e) = Some e" "snd (plan_exec q) = None"
  "snd (plan_wrap f p) = map_option f (snd p)" "snd (plan_execs qs) = None"
  "snd (plan_then p p') = (if snd p = None then snd p' else snd p)"
  by (auto simp: plan_skip_def plan_fail_def plan_exec_def plan_wrap_def plan_then_def plan_execs_def)

text \<open>
  A server that accepts every statement and appends it to a log is the most liberal one; the
  log of a run on it is the list of statements of the plan. A server that rejects the
  statements of a set stops the run there.
\<close>

definition recording :: "(string \<Rightarrow> error option) \<Rightarrow> (string list) DB" where
  "recording rejects =
     \<lparr>ExecContext = (\<lambda>q w. (rejects q, w @ [q])),
      QueryRowContext = (\<lambda>q a w. (Inl ErrNoRows, w)),
      QueryContext = (\<lambda>q a w. (Inr \<lparr>rows_data = [], rows_Err = None, rows_Close = None\<rparr>, w)),
      BeginTx = (\<lambda>w. (None, w)),
      Tx_ExecContext = (\<lambda>q w. (rejects q, w @ [q])),
      Tx_Commit = (\<lambda>w. (None, w)),
      Tx_Rollback = (\<lambda>w. (None, w))\<rparr>"

lemma recording_Exec [simp]: "ExecContext (recording rej) q w = (rej q, w @ [q])"
  by (simp add: recording_def)

lemma reads_only_recording [simp]: "reads_only (recording rej)"
  by (simp add: reads_only_def recording_def)

lemma exec_steps_recording:
  "list_all (\<lambda>(q, f). rej q = None) xs \<Longrightarrow> exec_steps (recording rej) xs w = (None, w @ map fst xs)"
  by (induction xs arbitrary: w) auto

lemma run_plan_recording:
  "list_all (\<lambda>q. rej q = None) (statements p) \<Longrightarrow>
   run_plan (recording rej) p w = (snd p, w @ statements p)"
  by (simp add: run_plan_def statements_def exec_steps_recording list_all_iff split_beta)

text \<open>The world is touched by a plan only through its statements.\<close>

lemma exec_steps_invariant:
  assumes "\<And>q w. q \<in> fst ` set xs \<Longrightarrow> P w \<Longrightarrow> P (snd (ExecContext db q w))" and "P w"
  shows "P (snd (exec_steps db xs w))"
  using assms
proof (induction db xs w rule: exec_steps.induct)
  case (2 db q f qs w)
  obtain r w' where x: "ExecContext db q w = (r, w')" by (cases "ExecContext db q w")
  have p': "P w'" using "2.prems"(1) [of q w] "2.prems"(2) x by simp
  show ?case
  proof (cases r)
    case None
    then show ?thesis using "2.IH" [OF x [symmetric] None _ p'] "2.prems"(1) x by simp
  next
    case (Some e)
    then show ?thesis using x p' by simp
  qed
qed simp

lemma run_plan_invariant:
  assumes "\<And>q w. q \<in> set (statements p) \<Longrightarrow> P w \<Longrightarrow> P (snd (ExecContext db q w))" and "P w"
  shows "P (snd (run_plan db p w))"
  using exec_steps_invariant [of "fst p" P db w] assms
  by (auto simp: run_plan_def statements_def split: prod.split option.split)

lemma run_plan_Nil: "statements p = [] \<Longrightarrow> run_plan db p w = (snd p, w)"
  by (simp add: run_plan_def statements_def)

section \<open>The interface QueryClient\<close>

text \<open>
  \<open>hana.QueryClient[P, O]\<close> (\<open>internal/clients/hana/hana.go\<close>), which the clients of the roles,
  role groups, user groups, schemas, audit policies and X.509 providers implement: \<open>Read\<close>,
  \<open>Create\<close> and \<open>Delete\<close>. What the controllers rely on: reading changes nothing, and creating and
  deleting execute a plan that depends on the parameters only.
\<close>

locale query_client =
  fixes read :: "'w DB \<Rightarrow> 'p \<Rightarrow> 'w \<Rightarrow> (error + 'o) \<times> 'w"
    and create :: "'w DB \<Rightarrow> 'p \<Rightarrow> 'w \<Rightarrow> error option \<times> 'w"
    and delete :: "'w DB \<Rightarrow> 'p \<Rightarrow> 'w \<Rightarrow> error option \<times> 'w"
    and create_plan :: "'p \<Rightarrow> plan"
    and delete_plan :: "'p \<Rightarrow> plan"
  assumes read_pure: "reads_only db \<Longrightarrow> snd (read db p w) = w"
    and create_planned: "create db p w = run_plan db (create_plan p) w"
    and delete_planned: "delete db p w = run_plan db (delete_plan p) w"
    and delete_single: "\<exists>q. delete_plan p = plan_exec q"
begin

lemma delete_executes_once: "\<exists>q. \<forall>db w. delete db p w = ExecContext db q w"
  using delete_single [of p] by (auto simp: delete_planned run_plan_exec)

lemma create_preserves:
  assumes "\<And>q w. q \<in> set (statements (create_plan p)) \<Longrightarrow> P w \<Longrightarrow> P (snd (ExecContext db q w))" and "P w"
  shows "P (snd (create db p w))"
  unfolding create_planned using run_plan_invariant [of "create_plan p" P db w] assms by blast

lemma read_then_create:
  "reads_only db \<Longrightarrow> create db p (snd (read db p w)) = run_plan db (create_plan p) w"
  by (simp add: read_pure create_planned)

end

end
