(* ===== verification/Apis.thy ===== *)
theory Apis
  imports Prelude
begin

text \<open>
  The custom resources of the provider (\<open>apis/admin\<close>, \<open>apis/schema\<close>, \<open>apis/inventory\<close> and
  \<open>apis/v1alpha1\<close>): for every kind the parameters of its specification (\<open>forProvider\<close>), the
  observation in its status (\<open>atProvider\<close>), and the resource itself.

  A pointer field is an option. The one pointer the program compares by identity, the
  reference of an X.509 mapping, carries its address. A slice that the program tests against
  nil is an optional list.
\<close>

section \<open>Common parts\<close>

text \<open>
  The conditions a controller hands to \<open>SetConditions\<close>; how the Crossplane runtime merges them
  into the status is left to it. \<open>set_conditions\<close> is the list of these calls, oldest first;
  \<open>status_conditions\<close> are the type and the status of the conditions found in a resource that was
  read. The annotation written by \<open>meta.SetExternalName\<close> is the last field of the metadata.
\<close>

datatype Condition = Creating | Available | Unavailable string | Deleting

record ObjectMeta =
  om_Name :: string
  om_Namespace :: string
  om_UID :: string
  om_ExternalName :: "string option"

record managed_resource =
  metadata :: ObjectMeta
  providerConfigReference :: "string option"
  set_conditions :: "Condition list"
  status_conditions :: "(string \<times> string) list"

text \<open>\<open>xpv1.SecretReference\<close> and \<open>xpv1.SecretKeySelector\<close>.\<close>

record SecretReference =
  sr_Name :: string
  sr_Namespace :: string

record SecretKeySelector = SecretReference +
  sk_Key :: string

record ProviderConfig =
  pc_ConnectionSecretRef :: "SecretReference option"

text \<open>\<open>[]T\<close> with its nil value; ranging over a nil slice visits nothing.\<close>

definition elems :: "'a list option \<Rightarrow> 'a list" where
  "elems s = (case s of None \<Rightarrow> [] | Some xs \<Rightarrow> xs)"

lemma elems_simps [simp]: "elems None = []" "elems (Some xs) = xs"
  by (simp_all add: elems_def)

section \<open>Kinds of the group admin\<close>

text \<open>\<open>*xpv1.Reference\<close>: the address of the object and the name it refers to.\<close>

record X509ProviderRef =
  xr_Name :: string
  xr_ProviderRef :: "(nat \<times> string) option"

record X509UserMapping = X509ProviderRef +
  xm_SubjectName :: string

record CertificateRef =
  cr_ID :: "int option"
  cr_Name :: "string option"

record Password =
  pw_PasswordSecretRef :: "SecretKeySelector option"
  pw_ForceFirstPasswordChange :: bool

record Authentication =
  au_Password :: "Password option"
  au_X509Providers :: "X509UserMapping list option"

record UserParameters =
  up_Username :: string
  up_RestrictedUser :: bool
  up_Authentication :: Authentication
  up_Privileges :: "string list"
  up_Roles :: "string list"
  up_Parameters :: gomap
  up_Usergroup :: string
  up_IsPasswordLifetimeCheckEnabled :: bool

record UserObservation =
  uo_Username :: "string option"
  uo_RestrictedUser :: "bool option"
  uo_X509Providers :: "X509UserMapping list"
  uo_LastPasswordChangeTime :: string
  uo_PasswordUpToDate :: "bool option"
  uo_CreatedAt :: string
  uo_Privileges :: "string list"
  uo_Roles :: "string list"
  uo_Parameters :: gomap
  uo_Usergroup :: "string option"
  uo_IsPasswordLifetimeCheckEnabled :: "bool option"
  uo_IsPasswordEnabled :: "bool option"

record User = managed_resource +
  user_ForProvider :: UserParameters
  user_PrivilegeManagementPolicy :: string
  user_AtProvider :: UserObservation

record RoleParameters =
  rp_RoleName :: string
  rp_Schema :: string
  rp_LdapGroups :: "string list"
  rp_Privileges :: "string list"
  rp_Rolegroup :: string
  rp_NoGrantToCreator :: bool

record RoleObservation =
  ro_RoleName :: string
  ro_Schema :: string
  ro_LdapGroups :: "string list"
  ro_Privileges :: "string list"
  ro_Rolegroup :: string

record Role = managed_resource +
  role_ForProvider :: RoleParameters
  role_AtProvider :: RoleObservation

record RolegroupParameters =
  gp_RolegroupName :: string
  gp_DisableRoleAdmin :: bool
  gp_NoGrantToCreator :: bool
  gp_ForGrantsOnTenantObjects :: bool

record RolegroupObservation =
  go_RolegroupName :: string
  go_DisableRoleAdmin :: bool

record Rolegroup = managed_resource +
  rolegroup_ForProvider :: RolegroupParameters
  rolegroup_AtProvider :: RolegroupObservation

record UsergroupParameters =
  ugp_UsergroupName :: string
  ugp_DisableUserAdmin :: bool
  ugp_NoGrantToCreator :: bool
  ugp_Parameters :: gomap
  ugp_EnableParameterSet :: string

record UsergroupObservation =
  ugo_UsergroupName :: string
  ugo_DisableUserAdmin :: bool
  ugo_Parameters :: gomap

record Usergroup = managed_resource +
  usergroup_ForProvider :: UsergroupParameters
  usergroup_AtProvider :: UsergroupObservation

record AuditPolicyParameters =
  ap_PolicyName :: string
  ap_AuditActions :: "string list"
  ap_AuditStatus :: string
  ap_AuditLevel :: string
  ap_AuditTrailRetention :: "int option"
  ap_Enabled :: "bool option"

record AuditPolicyObservation =
  ao_PolicyName :: string
  ao_AuditActions :: "string list"
  ao_AuditStatus :: string
  ao_AuditLevel :: string
  ao_AuditTrailRetention :: "int option"
  ao_Enabled :: "bool option"

record AuditPolicy = managed_resource +
  auditpolicy_ForProvider :: AuditPolicyParameters
  auditpolicy_AtProvider :: AuditPolicyObservation

record X509ProviderParameters =
  xp_Name :: string
  xp_Issuer :: string
  xp_MatchingRules :: "string list"
  xp_Priority :: "int option"

record X509ProviderObservation =
  xo_Name :: "string option"
  xo_Issuer :: "string option"
  xo_MatchingRules :: "string list"
  xo_Priority :: "int option"

record X509Provider = managed_resource +
  x509provider_ForProvider :: X509ProviderParameters
  x509provider_AtProvider :: X509ProviderObservation

record PersonalSecurityEnvironmentParameters =
  psp_Name :: string
  psp_X509ProviderRef :: "X509ProviderRef option"
  psp_CertificateRefs :: "CertificateRef list"

record PersonalSecurityEnvironmentObservation =
  pso_Name :: string
  pso_X509ProviderName :: string
  pso_CertificateRefs :: "CertificateRef list"

record PersonalSecurityEnvironment = managed_resource +
  pse_ForProvider :: PersonalSecurityEnvironmentParameters
  pse_AtProvider :: PersonalSecurityEnvironmentObservation

record CertificateParameters =
  cp_Name :: string
  cp_CertificateSecretRef :: "SecretKeySelector option"

record ImportedCertificate =
  ic_ID :: "int option"
  ic_Name :: string

record CertificateObservation =
  co_Certificates :: "ImportedCertificate list"

record Certificate = managed_resource +
  certificate_ForProvider :: CertificateParameters
  certificate_AtProvider :: CertificateObservation

section \<open>The kind of the group schema\<close>

record DbSchemaParameters =
  dp_SchemaName :: string
  dp_Owner :: string

record DbSchemaObservation =
  do_SchemaName :: string
  do_Owner :: string

record DbSchema = managed_resource +
  dbschema_ForProvider :: DbSchemaParameters
  dbschema_AtProvider :: DbSchemaObservation

section \<open>Kinds of the group inventory\<close>

record InstanceMappingParameters =
  imp_ServiceInstanceID :: string
  imp_Platform :: string
  imp_PrimaryID :: string
  imp_SecondaryID :: "string option"
  imp_IsDefault :: bool
  imp_AdminCredentialsSecretRef :: SecretKeySelector

record InstanceMappingObservation =
  imo_MappingExists :: bool
  imo_LastSyncTime :: "string option"

record InstanceMapping = managed_resource +
  instancemapping_ForProvider :: InstanceMappingParameters
  instancemapping_AtProvider :: InstanceMappingObservation

record ResourceReference =
  rr_Name :: string
  rr_Namespace :: string

record KymaConnectionReference =
  kc_SecretRef :: SecretReference
  kc_KubeconfigKey :: string

record KymaInstanceMappingParameters =
  kp_KymaConnectionRef :: "KymaConnectionReference option"
  kp_AdminBindingRef :: ResourceReference
  kp_ServiceInstanceRef :: ResourceReference
  kp_TargetNamespace :: "string option"
  kp_ClusterIDConfigMapRef :: "ResourceReference option"
  kp_IsDefault :: bool
  kp_CredentialsSecretNamespace :: string

record KymaClusterObservation =
  kco_ServiceInstanceID :: string
  kco_ClusterID :: string
  kco_ServiceInstanceName :: string
  kco_ServiceInstanceReady :: bool

record MappingID =
  mi_ServiceInstanceID :: string
  mi_PrimaryID :: string
  mi_SecondaryID :: "string option"

record HANACloudObservation =
  hc_MappingID :: "MappingID option"
  hc_Ready :: bool

record ChildResourcesReference =
  ch_InstanceMappingName :: string
  ch_CredentialsSecretName :: string
  ch_CredentialsSecretNamespace :: string
  ch_InstanceMappingReady :: bool
  ch_InstanceMappingSynced :: bool

record KymaInstanceMappingObservation =
  ko_Kyma :: "KymaClusterObservation option"
  ko_Hana :: "HANACloudObservation option"
  ko_ChildResources :: "ChildResourcesReference option"

record KymaInstanceMapping = managed_resource +
  kyma_ForProvider :: KymaInstanceMappingParameters
  kyma_AtProvider :: KymaInstanceMappingObservation

section \<open>Managed resources\<close>

text \<open>
  \<open>resource.Managed\<close>: what the runtime hands to a controller. The type assertion
  \<open>mg.(*v1alpha1.User)\<close> is a match on the constructor.
\<close>

datatype Managed =
    MUser User
  | MRole Role
  | MRolegroup Rolegroup
  | MUsergroup Usergroup
  | MDbSchema DbSchema
  | MAuditPolicy AuditPolicy
  | MX509Provider X509Provider
  | MPersonalSecurityEnvironment PersonalSecurityEnvironment
  | MCertificate Certificate
  | MInstanceMapping InstanceMapping
  | MKymaInstanceMapping KymaInstanceMapping

definition SetConditions :: "Condition \<Rightarrow> ('a managed_resource_scheme) \<Rightarrow> 'a managed_resource_scheme" where
  "SetConditions c mg = mg\<lparr>set_conditions := set_conditions mg @ [c]\<rparr>"

definition SetExternalName :: "string \<Rightarrow> ('a managed_resource_scheme) \<Rightarrow> 'a managed_resource_scheme" where
  "SetExternalName n mg = mg\<lparr>metadata := (metadata mg)\<lparr>om_ExternalName := Some n\<rparr>\<rparr>"

lemma SetConditions_frame [simp]:
  "metadata (SetConditions c mg) = metadata mg"
  "providerConfigReference (SetConditions c mg) = providerConfigReference mg"
  "set_conditions (SetConditions c mg) = set_conditions mg @ [c]"
  "managed_resource.more (SetConditions c mg) = managed_resource.more mg"
  by (simp_all add: SetConditions_def)

end
