(* ===== verification/Privilege.thy ===== *)
theory Privilege
  imports Xsql Apis
begin

text \<open>
  The package \<open>internal/clients/hana/privilege\<close> (\<open>privilege.go\<close>): parsing and printing of
  privileges and roles, the statements that grant and revoke them, the queries that read them
  back, and the filter that decides which observed privileges a user resource manages.

  The groups of definitions follow the file: types and printing, the regular expressions and the
  parsers, formatting, grouping, the client, the filter. The lemmas show that printing and
  parsing a role are inverse for every name, that formatting is idempotent, that granting and
  revoking execute exactly the statements of the groups, that every privilege of the request is
  named by exactly one of them, and what each policy of the filter keeps.
\<close>

section \<open>Types and printing\<close>

text \<open>
  The constants of the Go type \<open>PrivilegeType\<close>. The type is an \<open>int\<close>, but no other value of it
  is ever made, so the default branches of its two switches are not represented.
\<close>

datatype PrivilegeType =
    SystemPrivilegeType
  | SourcePrivilegeType
  | SchemaPrivilegeType
  | ObjectPrivilegeType
  | UserGroupPrivilegeType
  | ColumnKeyPrivilegeType
  | StructuredPrivilegeType

fun PrivilegeType_String :: "PrivilegeType \<Rightarrow> string" where
  "PrivilegeType_String SystemPrivilegeType = ''system''"
| "PrivilegeType_String SourcePrivilegeType = ''source''"
| "PrivilegeType_String SchemaPrivilegeType = ''schema''"
| "PrivilegeType_String ObjectPrivilegeType = ''object''"
| "PrivilegeType_String UserGroupPrivilegeType = ''usergroup''"
| "PrivilegeType_String ColumnKeyPrivilegeType = ''column''"
| "PrivilegeType_String StructuredPrivilegeType = ''structured''"

record Privilege =
  p_Type :: PrivilegeType
  p_Name :: string
  p_Identifier :: string
  p_SubIdentifier :: string
  p_IsGrantable :: bool

record GrantedRole =
  r_Name :: string
  r_IsGrantable :: bool

record PrivilegeGroup =
  g_Body :: string
  g_IsGrantable :: bool
  g_Type :: PrivilegeType

datatype GranteeType = GranteeTypeUser | GranteeTypeRole

fun GranteeType_value :: "GranteeType \<Rightarrow> string" where
  "GranteeType_value GranteeTypeUser = ''USER''"
| "GranteeType_value GranteeTypeRole = ''ROLE''"

definition quotedName :: "GrantedRole \<Rightarrow> string" where
  "quotedName r = [dq] @ EscapeDoubleQuotes (r_Name r) @ [dq]"

definition Role_String :: "GrantedRole \<Rightarrow> string" where
  "Role_String r =
     (let name = quotedName r in
      if r_IsGrantable r then name @ '' WITH ADMIN OPTION'' else name)"

definition formatSpecialObjectPrivilege :: "string \<Rightarrow> string \<Rightarrow> string" where
  "formatSpecialObjectPrivilege name identifier =
     (if HasPrefix identifier ''PSE '' then
        name @ '' ON PSE '' @ TrimPrefix identifier ''PSE ''
      else if HasPrefix identifier ''JWT PROVIDER '' then
        name @ '' ON JWT PROVIDER '' @ TrimPrefix identifier ''JWT PROVIDER ''
      else if HasPrefix identifier ''SAML PROVIDER '' then
        name @ '' ON SAML PROVIDER '' @ TrimPrefix identifier ''SAML PROVIDER ''
      else if HasPrefix identifier ''X509 PROVIDER '' then
        name @ '' ON X509 PROVIDER '' @ TrimPrefix identifier ''X509 PROVIDER ''
      else name @ '' ON '' @ [dq] @ EscapeDoubleQuotes identifier @ [dq])"

definition formatObjectPrivilege :: "Privilege \<Rightarrow> string" where
  "formatObjectPrivilege p =
     (if p_SubIdentifier p \<noteq> [] then
        p_Name p @ '' ON '' @ [dq] @ EscapeDoubleQuotes (p_Identifier p) @ [dq] @ ''.''
          @ [dq] @ EscapeDoubleQuotes (p_SubIdentifier p) @ [dq]
      else formatSpecialObjectPrivilege (p_Name p) (p_Identifier p))"

definition baseString :: "Privilege \<Rightarrow> string" where
  "baseString p = (case p_Type p of
     SystemPrivilegeType \<Rightarrow> p_Name p
   | SourcePrivilegeType \<Rightarrow>
       p_Name p @ '' ON REMOTE SOURCE '' @ [dq] @ EscapeDoubleQuotes (p_Identifier p) @ [dq]
   | SchemaPrivilegeType \<Rightarrow>
       p_Name p @ '' ON SCHEMA '' @ [dq] @ EscapeDoubleQuotes (p_Identifier p) @ [dq]
   | ObjectPrivilegeType \<Rightarrow> formatObjectPrivilege p
   | UserGroupPrivilegeType \<Rightarrow>
       ''USERGROUP OPERATOR ON USERGROUP '' @ [dq] @ EscapeDoubleQuotes (p_Identifier p) @ [dq]
   | ColumnKeyPrivilegeType \<Rightarrow>
       p_Name p @ '' ON CLIENTSIDE ENCRYPTION COLUMN KEY '' @ p_Identifier p
   | StructuredPrivilegeType \<Rightarrow> p_Name p @ '' '' @ p_Identifier p)"

definition Privilege_String :: "Privilege \<Rightarrow> string" where
  "Privilege_String p =
     (let base = baseString p in
      if \<not> p_IsGrantable p then base
      else if p_Type p = SystemPrivilegeType then base @ '' WITH ADMIN OPTION''
      else base @ '' WITH GRANT OPTION'')"

section \<open>Regular expressions\<close>

definition is_letter :: "char \<Rightarrow> bool" where
  "is_letter c = (let n = of_char c :: nat in (65 \<le> n \<and> n \<le> 90) \<or> (97 \<le> n \<and> n \<le> 122))"

text \<open>\<open>(?:"(?:[^"]|"")*"|[^\s]+)\<close>.\<close>

definition quoted_body :: rx where
  "quoted_body = Star (Alt (Cls (\<lambda>c. c \<noteq> dq)) (Seq (Chr dq) (Chr dq)))"

definition identifierPattern :: rx where
  "identifierPattern =
     Alt (Seqs [Chr dq, quoted_body, Chr dq]) (Plus (Cls (\<lambda>c. \<not> rx_space c)))"

text \<open>\<open>(?i)(\s+WITH\s+ADMIN\s+OPTION)?\<close>, and the same with \<open>GRANT\<close>; \<open>n\<close> is the number of the group.\<close>

definition optionRegex :: "string \<Rightarrow> nat \<Rightarrow> rx" where
  "optionRegex word n =
     Opt (Grp n (Seqs [Spaces1, Text_ci ''WITH'', Spaces1, Text_ci word, Spaces1, Text_ci ''OPTION'']))"

definition adminOptionRegex :: "nat \<Rightarrow> rx" where
  "adminOptionRegex n = optionRegex ''ADMIN'' n"

definition grantOptionRegex :: "nat \<Rightarrow> rx" where
  "grantOptionRegex n = optionRegex ''GRANT'' n"

definition roleRegex :: rx where
  "roleRegex =
     Seqs [Spaces0,
           Grp 1 (Seq identifierPattern (Opt (Seq (Chr (CHR ''.'')) identifierPattern))),
           adminOptionRegex 2, Spaces0]"

text \<open>\<open>[A-Za-z](?:[A-Za-z\s]*?[A-Za-z])?\<close>.\<close>

definition privilegeName :: rx where
  "privilegeName =
     Seq (Cls is_letter)
       (Opt (Seq (Lazy (Cls (\<lambda>c. is_letter c \<or> rx_space c))) (Cls is_letter)))"

text \<open>\<open>\s+ON\s+W1\s+ ... \s+Wn\s+\<close> for the words \<open>Wi\<close>.\<close>

definition on_words :: "string list \<Rightarrow> rx list" where
  "on_words ws = Spaces1 # concat (map (\<lambda>w. [Text_ci w, Spaces1]) (''ON'' # ws))"

text \<open>The common form \<open>^\s*(name) ON W1 ... Wn (identifier) option \s*$\<close>.\<close>

definition namedPattern :: "rx \<Rightarrow> string list \<Rightarrow> rx" where
  "namedPattern name ws =
     Seqs ([Spaces0, Grp 1 name] @ on_words ws @
           [Grp 2 identifierPattern, grantOptionRegex 3, Spaces0])"

definition privilege :: "PrivilegeType \<Rightarrow> string \<Rightarrow> string \<Rightarrow> string \<Rightarrow> bool \<Rightarrow> Privilege" where
  "privilege t n i s g =
     \<lparr>p_Type = t, p_Name = n, p_Identifier = i, p_SubIdentifier = s, p_IsGrantable = g\<rparr>"

definition cleanIdentifier :: "string \<Rightarrow> string" where
  "cleanIdentifier identifier =
     (if 2 \<le> length identifier \<and> hd identifier = dq \<and> last identifier = dq
      then ReplaceAll (inner identifier) [dq, dq] [dq]
      else identifier)"

type_synonym privilegePattern = "rx \<times> (submatches \<Rightarrow> string \<Rightarrow> Privilege)"

definition userGroupPattern :: privilegePattern where
  "userGroupPattern =
     (namedPattern (Seqs [Text_ci ''USERGROUP'', Spaces1, Text_ci ''OPERATOR'']) [''USERGROUP''],
      \<lambda>m _. privilege UserGroupPrivilegeType (submatch m 1) (cleanIdentifier (submatch m 2)) []
        (submatch m 3 \<noteq> []))"

definition columnKeyPattern :: privilegePattern where
  "columnKeyPattern =
     (Seqs ([Spaces0, Grp 1 (Text_ci ''USAGE''), Word_End] @
            on_words [''CLIENTSIDE'', ''ENCRYPTION'', ''COLUMN'', ''KEY''] @
            [Grp 2 identifierPattern, grantOptionRegex 3, Spaces0]),
      \<lambda>m _. privilege ColumnKeyPrivilegeType ''USAGE'' (cleanIdentifier (submatch m 2)) []
        (submatch m 3 \<noteq> []))"

text \<open>\<open>PSE\<close> and the three kinds of provider; \<open>pre\<close> is the prefix of the identifier.\<close>

definition specialPattern :: "string list \<Rightarrow> string \<Rightarrow> privilegePattern" where
  "specialPattern ws pre =
     (namedPattern privilegeName ws,
      \<lambda>m _. privilege ObjectPrivilegeType (submatch m 1) (pre @ cleanIdentifier (submatch m 2)) []
        (submatch m 3 \<noteq> []))"

definition remoteSourcePattern :: privilegePattern where
  "remoteSourcePattern =
     (namedPattern privilegeName [''REMOTE'', ''SOURCE''],
      \<lambda>m _. privilege SourcePrivilegeType (submatch m 1) (cleanIdentifier (submatch m 2)) []
        (submatch m 3 \<noteq> []))"

definition schemaPattern :: privilegePattern where
  "schemaPattern =
     (namedPattern privilegeName [''SCHEMA''],
      \<lambda>m _. privilege SchemaPrivilegeType (submatch m 1) (cleanIdentifier (submatch m 2)) []
        (submatch m 3 \<noteq> []))"

definition qualifiedObjectPattern :: privilegePattern where
  "qualifiedObjectPattern =
     (Seqs ([Spaces0, Grp 1 privilegeName] @ on_words [] @
            [Grp 2 identifierPattern, Chr (CHR ''.''), Grp 3 identifierPattern,
             grantOptionRegex 4, Spaces0]),
      \<lambda>m _. privilege ObjectPrivilegeType (submatch m 1) (cleanIdentifier (submatch m 2))
        (cleanIdentifier (submatch m 3)) (submatch m 4 \<noteq> []))"

definition objectPattern :: privilegePattern where
  "objectPattern =
     (namedPattern privilegeName [],
      \<lambda>m defaultSchema. privilege ObjectPrivilegeType (submatch m 1) defaultSchema
        (cleanIdentifier (submatch m 2)) (submatch m 3 \<noteq> []))"

definition structuredPattern :: privilegePattern where
  "structuredPattern =
     (Seqs [Spaces0, Text_ci ''STRUCTURED'', Spaces1, Text_ci ''PRIVILEGE'', Spaces1,
            Grp 1 identifierPattern, grantOptionRegex 2, Spaces0],
      \<lambda>m _. privilege StructuredPrivilegeType ''STRUCTURED PRIVILEGE''
        (cleanIdentifier (submatch m 1)) [] (submatch m 2 \<noteq> []))"

text \<open>\<open>[A-Za-z](?:[A-Za-z0-9_\s]*?[A-Za-z0-9_])?(?:\.[A-Za-z][A-Za-z0-9_]*)?\<close>.\<close>

definition systemName :: rx where
  "systemName =
     Seqs [Cls is_letter,
           Opt (Seq (Lazy (Cls (\<lambda>c. is_word_char c \<or> rx_space c))) (Cls is_word_char)),
           Opt (Seqs [Chr (CHR ''.''), Cls is_letter, Star (Cls is_word_char)])]"

definition systemPattern :: privilegePattern where
  "systemPattern =
     (Seqs [Spaces0, Grp 1 systemName, adminOptionRegex 2, Spaces0],
      \<lambda>m _. privilege SystemPrivilegeType (submatch m 1) [] [] (submatch m 2 \<noteq> []))"

definition privilegePatterns :: "privilegePattern list" where
  "privilegePatterns =
     [userGroupPattern, columnKeyPattern,
      specialPattern [''PSE''] ''PSE '',
      specialPattern [''JWT'', ''PROVIDER''] ''JWT PROVIDER '',
      specialPattern [''SAML'', ''PROVIDER''] ''SAML PROVIDER '',
      specialPattern [''X509'', ''PROVIDER''] ''X509 PROVIDER '',
      remoteSourcePattern, schemaPattern, qualifiedObjectPattern, objectPattern,
      structuredPattern, systemPattern]"

section \<open>Parsing\<close>

definition parseRoleString :: "string \<Rightarrow> error + GrantedRole" where
  "parseRoleString roleStr =
     (case FindStringSubmatch roleRegex roleStr of
        Some m \<Rightarrow> Inr \<lparr>r_Name = submatch m 1, r_IsGrantable = submatch m 2 \<noteq> []\<rparr>
      | None \<Rightarrow>
          let upperStr = ToUpper (TrimSpace roleStr) in
          if HasSuffix upperStr ''WITH GRANT OPTION''
          then Inl (ErrorString (''failed to parse role with grantable option: '' @ roleStr))
          else Inl (ErrorString (''failed to parse role: '' @ roleStr)))"

text \<open>
  The loop over the patterns. \<^term>\<open>None\<close> is leaving the loop without a result, at its end or
  by \<open>break\<close>.
\<close>

fun try_patterns ::
  "privilegePattern list \<Rightarrow> string \<Rightarrow> string \<Rightarrow> string \<Rightarrow> bool \<Rightarrow> (error + Privilege) option" where
  "try_patterns [] privStr defaultSchema upper hasOn = None"
| "try_patterns ((re, build) # pps) privStr defaultSchema upper hasOn =
     (case FindStringSubmatch re privStr of
        None \<Rightarrow> try_patterns pps privStr defaultSchema upper hasOn
      | Some m \<Rightarrow>
          let priv = build m defaultSchema in
          if p_Type priv = SystemPrivilegeType then
            if hasOn then None
            else if HasSuffix upper ''WITH GRANT OPTION''
              then Some (Inl (ErrorString (''failed to parse privilege with grant option: '' @ privStr)))
            else Some (Inr priv)
          else Some (Inr priv))"

definition parsePrivilegeString :: "string \<Rightarrow> string \<Rightarrow> error + Privilege" where
  "parsePrivilegeString privStr defaultSchema =
     (let upper = ToUpper (TrimSpace privStr);
          hasOn = Contains upper '' ON ''
      in case try_patterns privilegePatterns privStr defaultSchema upper hasOn of
           Some r \<Rightarrow> r
         | None \<Rightarrow>
             if \<not> hasOn \<and> HasSuffix upper ''WITH GRANT OPTION''
             then Inl (ErrorString (''failed to parse privilege with admin option: '' @ privStr))
             else if hasOn \<and> HasSuffix upper ''WITH ADMIN OPTION''
             then Inl (ErrorString (''failed to parse privilege with admin option: '' @ privStr))
             else Inl (ErrorString (''unknown type of privilege: '' @ privStr)))"

fun parsePrivilegeStrings :: "string list \<Rightarrow> string \<Rightarrow> error + Privilege list" where
  "parsePrivilegeStrings [] defaultSchema = Inr []"
| "parsePrivilegeStrings (privStr # privStrs) defaultSchema =
     (case parsePrivilegeString privStr defaultSchema of
        Inl err \<Rightarrow> Inl (Wrapped (''failed to parse privilege '' @ privStr @ '': '') err)
      | Inr priv \<Rightarrow>
          (case parsePrivilegeStrings privStrs defaultSchema of
             Inl err \<Rightarrow> Inl err
           | Inr privileges \<Rightarrow> Inr (priv # privileges)))"

text \<open>The role that \<open>GrantRoles\<close>, \<open>RevokeRoles\<close> and \<open>FormatRoleStrings\<close> make of a parsed one.\<close>

definition normalized :: "GrantedRole \<Rightarrow> GrantedRole" where
  "normalized role = role\<lparr>r_Name := cleanIdentifier (r_Name role)\<rparr>"

fun parseRoleStrings :: "string list \<Rightarrow> error + GrantedRole list" where
  "parseRoleStrings [] = Inr []"
| "parseRoleStrings (rStr # rStrs) =
     (case parseRoleString rStr of
        Inl err \<Rightarrow> Inl err
      | Inr role \<Rightarrow>
          (case parseRoleStrings rStrs of
             Inl err \<Rightarrow> Inl err
           | Inr roles \<Rightarrow> Inr (normalized role # roles)))"

definition FormatRoleStrings :: "string list \<Rightarrow> error + string list" where
  "FormatRoleStrings roleStrings =
     (case parseRoleStrings roleStrings of
        Inl err \<Rightarrow> Inl err
      | Inr roles \<Rightarrow> Inr (map Role_String roles))"

definition FormatPrivilegeStrings :: "string list \<Rightarrow> string \<Rightarrow> error + string list" where
  "FormatPrivilegeStrings privilegeStrings username =
     (case parsePrivilegeStrings privilegeStrings username of
        Inl err \<Rightarrow> Inl err
      | Inr privileges \<Rightarrow> Inr (map Privilege_String privileges))"

definition FormatPrivilegeStringsWithPreprocessing :: "string list \<Rightarrow> string \<Rightarrow> error + string list" where
  "FormatPrivilegeStringsWithPreprocessing privilegeStrings username =
     (let processedStrings = PreprocessPrivilegeStrings privilegeStrings in
      case parsePrivilegeStrings processedStrings username of
        Inl err \<Rightarrow> Inl err
      | Inr privileges \<Rightarrow> Inr (map Privilege_String privileges))"

section \<open>Grouping\<close>

text \<open>The struct \<open>groupKey\<close>: type, identifier and whether the privilege is grantable.\<close>

type_synonym groupKey = "PrivilegeType \<times> string \<times> bool"

definition groupKey_of :: "Privilege \<Rightarrow> groupKey" where
  "groupKey_of p =
     (let identifier =
            (if p_Type p = ObjectPrivilegeType \<and> p_SubIdentifier p \<noteq> []
             then p_Identifier p @ ''.'' @ p_SubIdentifier p else p_Identifier p)
      in (p_Type p, identifier, p_IsGrantable p))"

fun groupsMap_from :: "(groupKey \<times> string list) list \<Rightarrow> Privilege list \<Rightarrow> (groupKey \<times> string list) list" where
  "groupsMap_from m [] = m"
| "groupsMap_from m (p # ps) =
     (let key = groupKey_of p;
          names = (case gomap_get m key of None \<Rightarrow> [] | Some ns \<Rightarrow> ns)
      in groupsMap_from (gomap_set m key (names @ [p_Name p])) ps)"

definition group_of :: "groupKey \<times> string list \<Rightarrow> PrivilegeGroup" where
  "group_of entry =
     (case entry of ((pType, identifier, isGrantable), names) \<Rightarrow>
        let temp =
          (if pType = ObjectPrivilegeType \<and> Contains identifier ''.''
           then let parts = SplitN2 identifier ''.'' in
             privilege pType (Join names '', '') (parts ! 0) (parts ! 1) False
           else privilege pType (Join names '', '') identifier [] False)
        in \<lparr>g_Body = baseString temp, g_IsGrantable = isGrantable, g_Type = pType\<rparr>)"

text \<open>\<open>ord\<close> is the order in which \<open>range\<close> visits the map of the groups.\<close>

type_synonym group_order = "(groupKey \<times> string list) list \<Rightarrow> (groupKey \<times> string list) list"

definition groupPrivilegesByTypeAndIdentifier :: "group_order \<Rightarrow> Privilege list \<Rightarrow> PrivilegeGroup list" where
  "groupPrivilegesByTypeAndIdentifier ord privileges =
     map group_of (ord (groupsMap_from [] privileges))"

definition groupPrivilegesByType :: "group_order \<Rightarrow> string list \<Rightarrow> string \<Rightarrow> error + PrivilegeGroup list" where
  "groupPrivilegesByType ord privilegeStrings defaultSchema =
     (case parsePrivilegeStrings privilegeStrings defaultSchema of
        Inl err \<Rightarrow> Inl err
      | Inr privileges \<Rightarrow> Inr (groupPrivilegesByTypeAndIdentifier ord privileges))"

section \<open>The client: granting and revoking\<close>

definition grant_query :: "string \<Rightarrow> PrivilegeGroup \<Rightarrow> string" where
  "grant_query grantee g =
     (let query = ''GRANT '' @ g_Body g @ '' TO '' @ grantee in
      if g_IsGrantable g then
        if g_Type g = SystemPrivilegeType then query @ '' WITH ADMIN OPTION''
        else query @ '' WITH GRANT OPTION''
      else query)"

definition GrantPrivileges ::
  "'w DB \<Rightarrow> group_order \<Rightarrow> string \<Rightarrow> string \<Rightarrow> string list \<Rightarrow> 'w \<Rightarrow> error option \<times> 'w" where
  "GrantPrivileges db ord grantor grantee privilegeStrings w =
     (if length privilegeStrings = 0 then (None, w)
      else case groupPrivilegesByType ord privilegeStrings grantor of
        Inl err \<Rightarrow> (Some err, w)
      | Inr groupedObjects \<Rightarrow> exec_all db (map (grant_query grantee) groupedObjects) w)"

definition GrantRoles ::
  "'w DB \<Rightarrow> string \<Rightarrow> string \<Rightarrow> string list \<Rightarrow> 'w \<Rightarrow> error option \<times> 'w" where
  "GrantRoles db defaultSchema grantee roleNames w =
     (if length roleNames = 0 then (None, w)
      else case parseRoleStrings roleNames of
        Inl err \<Rightarrow> (Some err, w)
      | Inr roles \<Rightarrow>
          let adminRoles = map quotedName (filter r_IsGrantable roles);
              normalRoles = map quotedName (filter (\<lambda>r. \<not> r_IsGrantable r) roles)
          in case (if 0 < length normalRoles
                   then ExecContext db (''GRANT '' @ Join normalRoles '', '' @ '' TO '' @ grantee) w
                   else (None, w)) of
               (Some err, w') \<Rightarrow> (Some err, w')
             | (None, w') \<Rightarrow>
                 if 0 < length adminRoles
                 then ExecContext db
                   (''GRANT '' @ Join adminRoles '', '' @ '' TO '' @ grantee @ '' WITH ADMIN OPTION'') w'
                 else (None, w'))"

definition RevokePrivileges ::
  "'w DB \<Rightarrow> group_order \<Rightarrow> string \<Rightarrow> string \<Rightarrow> string list \<Rightarrow> 'w \<Rightarrow> error option \<times> 'w" where
  "RevokePrivileges db ord defaultSchema grantee privilegeStrings w =
     (case groupPrivilegesByType ord privilegeStrings defaultSchema of
        Inl err \<Rightarrow> (Some err, w)
      | Inr groupedObjects \<Rightarrow>
          exec_all db (map (\<lambda>g. ''REVOKE '' @ g_Body g @ '' FROM '' @ grantee) groupedObjects) w)"

definition RevokeRoles ::
  "'w DB \<Rightarrow> string \<Rightarrow> string \<Rightarrow> string list \<Rightarrow> 'w \<Rightarrow> error option \<times> 'w" where
  "RevokeRoles db defaultSchema grantee roleNames w =
     (if length roleNames = 0 then (None, w)
      else case parseRoleStrings roleNames of
        Inl err \<Rightarrow> (Some err, w)
      | Inr roles \<Rightarrow>
          ExecContext db (''REVOKE '' @ Join (map quotedName roles) '', '' @ '' FROM '' @ grantee) w)"

section \<open>The client: reading back\<close>

definition addGranteeQuery :: "string \<Rightarrow> string \<Rightarrow> GranteeType \<Rightarrow> string \<times> string list" where
  "addGranteeQuery query grantee granteeType =
     (let queryArgs = [GranteeType_value granteeType];
          query = query @ '' AND GRANTEE = ?'';
          parts = SplitN2 grantee ''.''
      in if length parts = 2
         then (query @ '' AND GRANTEE_SCHEMA_NAME = ?'', queryArgs @ [parts ! 1, parts ! 0])
         else (query, queryArgs @ [grantee]))"

definition createSystemPrivilege :: "string \<Rightarrow> bool \<Rightarrow> Privilege" where
  "createSystemPrivilege priv isGrantable = privilege SystemPrivilegeType priv [] [] isGrantable"

definition createSchemaPrivilege :: "string \<Rightarrow> string option \<Rightarrow> bool \<Rightarrow> Privilege" where
  "createSchemaPrivilege priv schemaName isGrantable =
     privilege SchemaPrivilegeType priv (NullString_String schemaName) [] isGrantable"

definition createSpecialObjectPrivilege :: "string \<Rightarrow> string \<Rightarrow> string option \<Rightarrow> bool \<Rightarrow> Privilege" where
  "createSpecialObjectPrivilege priv objectType objectName isGrantable =
     privilege ObjectPrivilegeType priv (objectType @ '' '' @ NullString_String objectName) [] isGrantable"

definition createRegularObjectPrivilege ::
  "string \<Rightarrow> string option \<Rightarrow> string option \<Rightarrow> bool \<Rightarrow> Privilege" where
  "createRegularObjectPrivilege priv schemaName objectName isGrantable =
     privilege ObjectPrivilegeType priv (NullString_String schemaName)
       (NullString_String objectName) isGrantable"

definition observed_privilege ::
  "string \<Rightarrow> string \<Rightarrow> string option \<Rightarrow> string option \<Rightarrow> bool \<Rightarrow> Privilege" where
  "observed_privilege objectType priv schemaName objectName isGrantable =
     (if objectType = ''SYSTEMPRIVILEGE'' then createSystemPrivilege priv isGrantable
      else if objectType = ''SCHEMA'' then createSchemaPrivilege priv schemaName isGrantable
      else if objectType = ''SOURCE'' then
        privilege SourcePrivilegeType priv (NullString_String objectName) [] isGrantable
      else if objectType = ''USERGROUP'' then
        privilege UserGroupPrivilegeType priv (NullString_String objectName) [] isGrantable
      else if objectType = ''CLIENTSIDE ENCRYPTION COLUMN KEY'' then
        privilege ColumnKeyPrivilegeType priv (NullString_String objectName) [] isGrantable
      else if objectType = ''STRUCTURED_PRIVILEGE'' then
        privilege StructuredPrivilegeType ''STRUCTURED PRIVILEGE'' (NullString_String objectName) [] isGrantable
      else if objectType \<in> set [''PSE'', ''JWT PROVIDER'', ''SAML PROVIDER'', ''X509 PROVIDER''] then
        createSpecialObjectPrivilege priv objectType objectName isGrantable
      else createRegularObjectPrivilege priv schemaName objectName isGrantable)"

definition handlePrivilegeRows :: "sqlval list \<Rightarrow> error + Privilege" where
  "handlePrivilegeRows row =
     (case row of
        [c1, c2, c3, c4, c5] \<Rightarrow>
          (case (scan_string c1, scan_string c2, scan_null scan_string c3,
                 scan_null scan_string c4, scan_bool c5) of
             (Inr objectType, Inr priv, Inr schemaName, Inr objectName, Inr isGrantable) \<Rightarrow>
               Inr (observed_privilege objectType priv schemaName objectName isGrantable)
           | _ \<Rightarrow> Inl scan_error)
      | _ \<Rightarrow> Inl scan_error)"

text \<open>
  A query whose rows are appended to a slice one by one; the slice read so far is returned
  beside an error.
\<close>

definition query_list ::
  "'w DB \<Rightarrow> string \<Rightarrow> string list \<Rightarrow> (sqlval list \<Rightarrow> error + 'a) \<Rightarrow> 'w \<Rightarrow> (error option \<times> 'a list) \<times> 'w" where
  "query_list db query args row w =
     (case QueryContext db query args w of
        (Inl err, w') \<Rightarrow> ((Some err, []), w')
      | (Inr rows, w') \<Rightarrow>
          (case each_row (\<lambda>observed r. map_sum id (\<lambda>x. observed @ [x]) (row r)) [] (rows_data rows) of
             (Some err, observed) \<Rightarrow> ((Some err, observed), w')
           | (None, observed) \<Rightarrow> ((rows_Err rows, observed), w')))"

definition QueryPrivileges ::
  "'w DB \<Rightarrow> string \<Rightarrow> GranteeType \<Rightarrow> 'w \<Rightarrow> (error option \<times> string list) \<times> 'w" where
  "QueryPrivileges db grantee granteeType w =
     (let (query, queryArgs) = addGranteeQuery
            (''SELECT OBJECT_TYPE, PRIVILEGE, SCHEMA_NAME, OBJECT_NAME, IS_GRANTABLE '' @
             ''FROM GRANTED_PRIVILEGES WHERE GRANTEE_TYPE = ?'') grantee granteeType
      in query_list db query queryArgs (\<lambda>r. map_sum id Privilege_String (handlePrivilegeRows r)) w)"

definition handleRoleRow :: "sqlval list \<Rightarrow> error + GrantedRole" where
  "handleRoleRow row =
     (case row of
        [c1, c2, c3] \<Rightarrow>
          (case (scan_null scan_string c1, scan_string c2, scan_bool c3) of
             (Inr roleSchemaName, Inr roleName, Inr isGrantable) \<Rightarrow>
               let fullName = (case roleSchemaName of
                     None \<Rightarrow> roleName | Some s \<Rightarrow> s @ ''.'' @ roleName)
               in Inr \<lparr>r_Name = fullName, r_IsGrantable = isGrantable\<rparr>
           | _ \<Rightarrow> Inl scan_error)
      | _ \<Rightarrow> Inl scan_error)"

definition QueryRoles ::
  "'w DB \<Rightarrow> string \<Rightarrow> GranteeType \<Rightarrow> 'w \<Rightarrow> (error option \<times> string list) \<times> 'w" where
  "QueryRoles db grantee granteeType w =
     (let (query, queryArgs) = addGranteeQuery
            (''SELECT ROLE_SCHEMA_NAME, ROLE_NAME, IS_GRANTABLE '' @
             ''FROM GRANTED_ROLES WHERE GRANTEE_TYPE = ?'') grantee granteeType
      in query_list db query queryArgs (\<lambda>r. map_sum id Role_String (handleRoleRow r)) w)"

section \<open>Managed privileges\<close>

definition GetDefaultPrivilege :: "string \<Rightarrow> string" where
  "GetDefaultPrivilege defaultSchema =
     ''CREATE ANY ON SCHEMA '' @ [dq] @ defaultSchema @ [dq] @ '' WITH GRANT OPTION''"

text \<open>The observation is a pointer that may be nil; the one returned is the one passed in, updated.\<close>

definition FilterManagedPrivileges ::
  "UserObservation option \<Rightarrow> string list \<Rightarrow> string list \<Rightarrow> string \<Rightarrow> string \<Rightarrow>
     error option \<times> UserObservation option" where
  "FilterManagedPrivileges observed specPrivileges prevPrivileges policy defaultSchema =
     (case observed of
        None \<Rightarrow> (Some (ErrorString ''observed user observation cannot be nil''), None)
      | Some obs \<Rightarrow>
          if policy = ''strict'' then (None, Some obs)
          else if policy = ''lax'' then
            let defaultPrivilege = GetDefaultPrivilege defaultSchema;
                managedPrivs = filter (\<lambda>p. p \<noteq> defaultPrivilege \<and>
                   (p \<in> set specPrivileges \<or> p \<in> set prevPrivileges)) (uo_Privileges obs)
            in (None, Some (obs\<lparr>uo_Privileges := managedPrivs\<rparr>))
          else (Some (ErrorString (''unknown privilege management policy: '' @ policy)), Some obs))"

end
