(* ===== verification/PrivilegeParse.thy ===== *)
theory PrivilegeParse
  imports Privilege "HOL-Library.Sublist"
begin

text \<open>
  Printing and parsing of roles and privileges (\<open>privilege.go\<close>) are inverse to each other. A
  printed role is matched by following the matcher through its text. A printed privilege has
  first to be rejected by the patterns in front of its own; this is an argument about the words
  of its text: a pattern asks for fixed words behind \<open>ON\<close>, and the printed text has other ones.
  The pattern of its kind then has only one way to match the text in front of the identifier,
  and the quoted identifier is read to its end.
\<close>

declare Text_ci.simps [simp del]

section \<open>The matcher on the pieces of a printed privilege\<close>

lemma rx_run_Seqs_Cons: "rx_run (Seqs (r # rs)) s k = rx_run r s (\<lambda>s1 c1. rx_run (Seqs rs) s1 (\<lambda>s2 c2. k s2 (c1 @ c2)))"
  by (cases rs) (simp_all add: rx_run)

lemma rx_run_Seqs_Nil: "rx_run (Seqs []) s k = k s []"
  by (simp add: rx_run)

lemma rx_run_Seqs_append:
  "rx_run (Seqs (rs @ rs')) s k =
   rx_run (Seqs rs) s (\<lambda>s1 c1. rx_run (Seqs rs') s1 (\<lambda>s2 c2. k s2 (c1 @ c2)))"
  by (induction rs arbitrary: s k) (simp_all add: rx_run_Seqs_Cons rx_run_Seqs_Nil del: Seqs.simps)

lemmas rx_pieces = rx_run_Seqs_Cons rx_run_Seqs_Nil rx_run Chr_def Spaces0_def Spaces1_def

lemma rx_run_quoted_body:
  assumes k: "k (dq # rest) [] = Some y" and r: "\<not> starts_with dq rest"
  shows "rx_run quoted_body (EscapeDoubleQuotes s @ dq # rest) k = Some y"
proof (induction s)
  case Nil
  show ?case using r k unfolding quoted_body_def
    by (subst rx_run_Star) (cases rest; simp add: rx_run Chr_def starts_with_def)
next
  case (Cons c s)
  then show ?case
    unfolding quoted_body_def by (subst rx_run_Star) (simp add: rx_run Chr_def)
qed

lemma rx_run_identifier:
  assumes "k rest [] = Some y" and "\<not> starts_with dq rest"
  shows "rx_run identifierPattern (dquoted s @ rest) k = Some y"
  using rx_run_quoted_body [OF _ assms(2), of "\<lambda>s1 c1. rx_run (Chr dq) s1 (\<lambda>s2 c2. k s2 (c1 @ c2))" y s] assms(1)
  by (simp add: identifierPattern_def dquoted_def rx_run Chr_def)

lemma rx_run_identifier_Grp:
  assumes "k rest [(n, dquoted s)] = Some y" and "\<not> starts_with dq rest"
  shows "rx_run (Grp n identifierPattern) (dquoted s @ rest) k = Some y"
  using assms by (simp add: rx_run_Grp rx_run_identifier)

lemma rx_run_optionRegex_absent:
  "k [] [] = Some y \<Longrightarrow> rx_run (optionRegex wd n) [] k = Some y"
  by (simp add: optionRegex_def rx_pieces)

lemma cleanIdentifier_dquoted [simp]: "cleanIdentifier (dquoted s) = s"
  by (simp add: cleanIdentifier_def dquoted_def inner_def unescape_EscapeDoubleQuotes)

text \<open>The continuation at the end of an anchored expression, with the submatches found so far.\<close>

definition finish :: "submatches \<Rightarrow> string \<Rightarrow> submatches \<Rightarrow> submatches option" where
  "finish pre s c = (if s = [] then Some (pre @ c) else None)"

lemma finish_append: "finish pre s (c @ d) = finish (pre @ c) s d"
  by (simp add: finish_def)

lemma finish_Cons: "finish pre s (x # d) = finish (pre @ [x]) s d"
  by (simp add: finish_def)

lemma finish_Nil: "finish pre [] c = Some (pre @ c)"
  by (simp add: finish_def)

lemma FindStringSubmatch_finish: "FindStringSubmatch r s = rx_run r s (finish [])"
  unfolding FindStringSubmatch_run finish_def append_Nil by (rule refl)

section \<open>Roles\<close>

lemma rx_run_admin_option:
  "k [] [(n, '' WITH ADMIN OPTION'')] = Some y \<Longrightarrow> rx_run (optionRegex ''ADMIN'' n) '' WITH ADMIN OPTION'' k = Some y"
  by (simp add: optionRegex_def rx_pieces rx_space_def del: Text_ci.simps)

lemma rx_run_grant_option:
  "k [] [(n, '' WITH GRANT OPTION'')] = Some y \<Longrightarrow> rx_run (optionRegex ''GRANT'' n) '' WITH GRANT OPTION'' k = Some y"
  by (simp add: optionRegex_def rx_pieces rx_space_def del: Text_ci.simps)

definition option_suffix :: "string \<Rightarrow> bool \<Rightarrow> string" where
  "option_suffix wd g = (if g then '' WITH '' @ wd @ '' OPTION'' else [])"

lemma rx_run_Spaces0_dquoted: "rx_run Spaces0 (dquoted s @ rest) k = k (dquoted s @ rest) []"
  by (simp add: dquoted_def Spaces0_def rx_run rx_space_def)

lemma rx_run_Spaces0_Nil: "rx_run Spaces0 [] k = k [] []"
  by (simp add: Spaces0_def rx_run)

lemma rx_run_no_qualifier:
  "\<not> starts_with c rest \<Longrightarrow> rx_run (Opt (Seq (Chr c) r)) rest k = k rest []"
  by (cases rest) (auto simp: rx_run Chr_def starts_with_def)

lemma optionRegex_suffix:
  assumes "wd = ''ADMIN'' \<or> wd = ''GRANT''" and "k [] (if g then [(n, option_suffix wd g)] else []) = Some y"
  shows "rx_run (optionRegex wd n) (option_suffix wd g) k = Some y"
  using assms by (auto simp: option_suffix_def rx_run_optionRegex_absent rx_run_admin_option rx_run_grant_option)

lemma option_suffix_start [simp]: "c \<noteq> CHR '' '' \<Longrightarrow> \<not> starts_with c (option_suffix wd g)"
  by (simp add: option_suffix_def starts_with_def)

lemma finish_option:
  assumes "wd = ''ADMIN'' \<or> wd = ''GRANT''"
  shows "rx_run (Seqs [optionRegex wd n, Spaces0]) (option_suffix wd g) (finish pre) =
      Some (pre @ (if g then [(n, option_suffix wd g)] else []))"
  unfolding rx_run_Seqs_Cons finish_append
  by (rule optionRegex_suffix [OF assms]) (simp add: rx_run_Spaces0_Nil rx_run_Eps finish_Nil)

lemma roleRegex_match:
  "FindStringSubmatch roleRegex (dquoted s @ option_suffix ''ADMIN'' g) =
   Some ((1, dquoted s) # (if g then [(2, option_suffix ''ADMIN'' g)] else []))"
  using finish_option [of "''ADMIN''" 2 g "[(1, dquoted s)]"]
  unfolding FindStringSubmatch_finish roleRegex_def rx_run_Seqs_Cons [of Spaces0]
    rx_run_Seqs_Cons [of "Grp n r" for n r] rx_run_Spaces0_dquoted
    rx_run_Grp rx_run_Seq finish_append adminOptionRegex_def
  by (intro rx_run_identifier) (simp_all add: rx_run_no_qualifier)

lemma Role_String_eq: "Role_String r = dquoted (r_Name r) @ option_suffix ''ADMIN'' (r_IsGrantable r)"
  by (simp add: Role_String_def quotedName_def dquoted_def option_suffix_def)

lemma quotedName_dquoted: "quotedName r = dquoted (r_Name r)"
  by (simp add: quotedName_def dquoted_def)

lemma parseRoleString_Role_String:
  "parseRoleString (Role_String r) = Inr (r\<lparr>r_Name := quotedName r\<rparr>)"
  unfolding parseRoleString_def Role_String_eq roleRegex_match
  by (cases r) (simp add: submatch_def quotedName_dquoted option_suffix_def)

lemma parseRoleStrings_String [simp]: "parseRoleStrings (map Role_String rs) = Inr rs"
  by (induction rs) (simp_all add: parseRoleString_Role_String normalized_def quotedName_dquoted)

section \<open>The words of a text\<close>

text \<open>The maximal pieces of a text without white space, and the same in upper case.\<close>

fun words :: "string \<Rightarrow> string list" where
  "words [] = []"
| "words [c] = (if rx_space c then [] else [[c]])"
| "words (c # d # s) =
     (if rx_space c then words (d # s)
      else if rx_space d then [c] # words (d # s)
      else (case words (d # s) of [] \<Rightarrow> [[c]] | w # ws \<Rightarrow> (c # w) # ws))"

definition uwords :: "string \<Rightarrow> string list" where
  "uwords s = words (ToUpper s)"

lemma words_Cons_space [simp]: "rx_space c \<Longrightarrow> words (c # s) = words s"
  by (cases s) auto

lemma words_not_Nil: "\<not> rx_space c \<Longrightarrow> words (c # s) \<noteq> []"
  by (cases s) (auto split: list.split)

lemma words_append_space: "rx_space x \<Longrightarrow> words (a @ x # b) = words a @ words b"
proof (induction a rule: words.induct)
  case (3 c d s)
  then show ?case using words_not_Nil [of d s] by (auto split: list.split)
qed auto

lemma words_append_spaces:
  "x \<noteq> [] \<Longrightarrow> list_all rx_space x \<Longrightarrow> words (a @ x @ b) = words a @ words b"
proof (induction x arbitrary: a)
  case (Cons c x)
  then show ?case
    by (cases "x = []") (simp_all add: words_append_space, metis append.simps words_append_space words.simps(1) append_Nil)
qed simp

lemma words_no_space: "list_all (\<lambda>c. \<not> rx_space c) w \<Longrightarrow> w \<noteq> [] \<Longrightarrow> words w = [w]"
  by (induction w rule: words.induct) auto

lemma words_spaces: "list_all rx_space x \<Longrightarrow> words x = []"
  by (induction x) auto

lemma words_Nil_iff: "words s = [] \<longleftrightarrow> list_all rx_space s"
  by (induction s rule: words.induct) (auto split: list.splits)

lemma rx_space_upper [simp]: "rx_space (upper_char c) = rx_space c"
  by (auto simp: rx_space_def upper_char_def Let_def)

lemma upper_char_fixed:
  assumes "upper_char c = d" "\<not> (65 \<le> (of_char d :: nat) \<and> (of_char d :: nat) \<le> 90)"
  shows "c = d"
  using assms by (auto simp: upper_char_def Let_def split: if_splits)

lemma upper_char_dq [simp]: "upper_char dq = dq"
  by (simp add: upper_char_def)

lemma ToUpper_append [simp]: "ToUpper (a @ b) = ToUpper a @ ToUpper b"
  by (simp add: ToUpper_def)

lemma ToUpper_spaces [simp]: "list_all rx_space (ToUpper x) = list_all rx_space x"
  by (simp add: ToUpper_def list_all_iff)

lemma ToUpper_Nil [simp]: "ToUpper x = [] \<longleftrightarrow> x = []"
  by (simp add: ToUpper_def)

lemma dq_ToUpper [simp]: "dq \<in> set (ToUpper s) \<longleftrightarrow> dq \<in> set s"
proof -
  have "upper_char c = dq \<longleftrightarrow> c = dq" for c using upper_char_fixed [of c dq] by auto
  then show ?thesis by (force simp: ToUpper_def image_iff)
qed

lemma uwords_append_spaces:
  "x \<noteq> [] \<Longrightarrow> list_all rx_space x \<Longrightarrow> uwords (a @ x @ b) = uwords a @ uwords b"
  by (simp add: uwords_def words_append_spaces)

lemma uwords_append_last:
  assumes "u \<noteq> []" "rx_space (last u)"
  shows "uwords (u @ t) = uwords u @ uwords t"
proof -
  obtain v x where u: "u = v @ [x]" using assms(1) by (metis rev_exhaust)
  then have x: "list_all rx_space [x]" using assms(2) by simp
  have "uwords (v @ [x] @ t) = uwords v @ uwords t" by (rule uwords_append_spaces [OF _ x]) simp
  moreover have "uwords (v @ [x] @ []) = uwords v @ uwords []" by (rule uwords_append_spaces [OF _ x]) simp
  moreover have "uwords [] = []" by (simp add: uwords_def ToUpper_def)
  ultimately show ?thesis by (simp add: u)
qed

section \<open>What the fixed words of a pattern leave open\<close>

lemma rx_rel_Star_Cls: "rx_rel (Star (Cls P)) u c \<Longrightarrow> list_all P u \<and> c = []"
  by (induction "Star (Cls P)" u c rule: rx_rel.induct) (auto simp: rx_rel_simps)

lemma rx_rel_Lazy_Cls: "rx_rel (Lazy (Cls P)) u c \<Longrightarrow> list_all P u \<and> c = []"
  by (induction "Lazy (Cls P)" u c rule: rx_rel.induct) (auto simp: rx_rel_simps)

lemma rx_rel_Lazy_ClsI: "list_all P u \<Longrightarrow> rx_rel (Lazy (Cls P)) u []"
proof (induction u)
  case (Cons c u)
  then show ?case using rx_rel.Lazy_Cons [OF rx_rel.Cls [of P c], of u "[]"] by simp
qed (rule rx_rel.Lazy_Nil)

lemma rx_rel_Spaces0: "rx_rel Spaces0 u c \<Longrightarrow> list_all rx_space u \<and> c = []"
  unfolding Spaces0_def by (rule rx_rel_Star_Cls)

lemma rx_rel_Spaces1: "rx_rel Spaces1 u c \<Longrightarrow> u \<noteq> [] \<and> list_all rx_space u \<and> c = []"
  unfolding Spaces1_def Plus_def by (auto simp: rx_rel_simps dest: rx_rel_Star_Cls)

lemma rx_rel_Text_ci: "rx_rel (Text_ci w) u c \<Longrightarrow> ToUpper u = ToUpper w \<and> c = []"
  by (induction w arbitrary: u c) (auto simp: rx_rel_simps ToUpper_def Text_ci.simps)

lemma rx_rel_Seqs_Cons:
  "rx_rel (Seqs (r # rs)) u c \<Longrightarrow> \<exists>v w d e. u = v @ w \<and> c = d @ e \<and> rx_rel r v d \<and> rx_rel (Seqs rs) w e"
  by (cases rs) (auto simp: rx_rel_simps)

definition pattern_word :: "string \<Rightarrow> bool" where
  "pattern_word w = (w \<noteq> [] \<and> ToUpper w = w \<and> list_all (\<lambda>c. \<not> rx_space c \<and> c \<noteq> dq) w)"

lemma rx_rel_words:
  assumes "rx_rel (Seqs (concat (map (\<lambda>w. [Text_ci w, Spaces1]) ws))) u c" "list_all pattern_word ws"
  shows "c = [] \<and> uwords u = ws \<and> dq \<notin> set u \<and> (ws \<noteq> [] \<longrightarrow> u \<noteq> [] \<and> rx_space (last u))"
  using assms
proof (induction ws arbitrary: u c)
  case Nil
  then show ?case by (simp add: rx_rel_simps uwords_def ToUpper_def)
next
  case (Cons w ws)
  obtain v v' d d' where 0: "u = v @ v'" "c = d @ d'" "rx_rel (Text_ci w) v d"
      and 4: "rx_rel (Seqs (Spaces1 # concat (map (\<lambda>w. [Text_ci w, Spaces1]) ws))) v' d'"
    using rx_rel_Seqs_Cons [of "Text_ci w" "Spaces1 # concat (map (\<lambda>w. [Text_ci w, Spaces1]) ws)" u c]
      Cons.prems(1) by auto
  then have 1: "u = v @ v'" "c = d'" "ToUpper v = ToUpper w" using rx_rel_Text_ci by fastforce+
  obtain x y where 2: "v' = x @ y" "x \<noteq> []" "list_all rx_space x"
      "rx_rel (Seqs (concat (map (\<lambda>w. [Text_ci w, Spaces1]) ws))) y d'"
    using rx_rel_Seqs_Cons [OF 4] rx_rel_Spaces1 by fastforce
  have ih: "d' = []" "uwords y = ws" "dq \<notin> set y" "ws \<noteq> [] \<longrightarrow> y \<noteq> [] \<and> rx_space (last y)"
    using Cons.IH [OF 2(4)] Cons.prems(2) by auto
  have pw: "pattern_word w" using Cons.prems(2) by simp
  have "uwords v = [w]" using pw 1(3) words_no_space [of w]
    by (simp add: uwords_def pattern_word_def list_all_iff)
  moreover have "dq \<notin> set v"
    using pw dq_ToUpper [of v] unfolding 1(3) by (auto simp: pattern_word_def list_all_iff)
  moreover have "dq \<notin> set x" using 2(3) by (auto simp: list_all_iff rx_space_def)
  moreover have "y = [] \<Longrightarrow> rx_space (last x)" using 2(2,3) by (simp add: list_all_iff)
  moreover have "uwords y = [] \<Longrightarrow> y = [] \<or> rx_space (last y)"
    using last_in_set [of y] by (fastforce simp: uwords_def words_Nil_iff list_all_iff ToUpper_def)
  ultimately show ?case
    using 1 2 ih uwords_append_spaces [OF 2(2,3), of v y] by (auto simp: last_append)
qed

definition name_rx :: "rx \<Rightarrow> bool" where
  "name_rx r \<longleftrightarrow> (\<forall>n c. rx_rel r n c \<longrightarrow> c = [] \<and> n \<noteq> [] \<and> dq \<notin> set n \<and> \<not> rx_space (hd n) \<and> \<not> rx_space (last n))"

lemma rx_rel_prefix:
  assumes rel: "rx_rel (Seqs (Spaces0 # Grp 1 name # mid @ on_words ws)) u c"
    and mid: "mid = [] \<or> mid = [Word_End]" and nm: "name_rx name" and ws: "list_all pattern_word ws"
  shows "\<exists>x n y. u = x @ n @ y \<and> c = [(1, n)] \<and> rx_rel name n [] \<and> list_all rx_space x \<and>
     y \<noteq> [] \<and> rx_space (hd y) \<and> uwords u = uwords n @ ''ON'' # ws \<and> dq \<notin> set u \<and> u \<noteq> [] \<and> rx_space (last u)"
proof -
  obtain x v c1 where 1: "u = x @ v" "list_all rx_space x" "c = c1"
      "rx_rel (Seqs (Grp 1 name # mid @ on_words ws)) v c1"
    using rx_rel_Seqs_Cons [OF rel] rx_rel_Spaces0 by fastforce
  obtain n y d where 2: "v = n @ y" "rx_rel name n []" "c1 = (1, n) # d"
      "n \<noteq> []" "dq \<notin> set n" "\<not> rx_space (hd n)" "\<not> rx_space (last n)"
      "rx_rel (Seqs (mid @ on_words ws)) y d"
    using rx_rel_Seqs_Cons [OF 1(4)] nm by (fastforce simp: rx_rel_simps name_rx_def)
  have 3: "rx_rel (Seqs (on_words ws)) y d"
  proof (cases "mid = []")
    case False
    then show ?thesis using rx_rel_Seqs_Cons [of Word_End "on_words ws" y d] 2(8) mid
      by (auto simp: rx_rel_simps)
  qed (use 2 in simp)
  have on: "pattern_word ''ON''" by (simp add: pattern_word_def ToUpper_def upper_char_def rx_space_def)
  obtain sp z where 4: "y = sp @ z" "sp \<noteq> []" "list_all rx_space sp"
      "rx_rel (Seqs (concat (map (\<lambda>w. [Text_ci w, Spaces1]) (''ON'' # ws)))) z d"
    using rx_rel_Seqs_Cons [OF 3 [unfolded on_words_def]] rx_rel_Spaces1 by fastforce
  have 5: "d = []" "uwords z = ''ON'' # ws" "dq \<notin> set z" "z \<noteq> []" "rx_space (last z)"
    using rx_rel_words [OF 4(4)] on ws by auto
  have "uwords (x @ n @ y) = uwords n @ ''ON'' # ws"
  proof -
    have "uwords (x @ n @ y) = uwords (n @ y)"
    proof (cases "x = []")
      case False
      have "uwords ([] @ x @ n @ y) = uwords [] @ uwords (n @ y)" by (rule uwords_append_spaces [OF False 1(2)])
      then show ?thesis by (simp add: uwords_def ToUpper_def)
    qed simp
    then show ?thesis using uwords_append_spaces [OF 4(2,3), of n z] 4(1) 5(2) by simp
  qed
  moreover have "dq \<notin> set x" "dq \<notin> set sp" using 1(2) 4(3) by (auto simp: list_all_iff rx_space_def)
  moreover have "rx_space (hd y)" using 4 by (cases sp) auto
  ultimately have "u = x @ n @ y \<and> c = [(1, n)] \<and> rx_rel name n [] \<and> list_all rx_space x \<and>
     y \<noteq> [] \<and> rx_space (hd y) \<and> uwords u = uwords n @ ''ON'' # ws \<and> dq \<notin> set u \<and> u \<noteq> [] \<and> rx_space (last u)"
    using 1 2 4 5 by simp
  then show ?thesis by blast
qed

text \<open>
  A privilege as it is printed starts with its name, \<open>ON\<close> and the words \<open>ks\<close> that tell its
  kind. A pattern whose words are not the first of \<open>ks\<close> does not match.
\<close>

lemma first_occurrence_unique:
  "x \<notin> set a \<Longrightarrow> x \<notin> set b \<Longrightarrow> a @ x # b = a' @ x # b' \<Longrightarrow> a = a' \<and> b = b'"
  by (metis append_Cons_eq_iff)

lemma prefix_excludes:
  assumes rel: "rx_rel (Seqs (Spaces0 # Grp 1 name # mid @ on_words ws)) u c"
    and mid: "mid = [] \<or> mid = [Word_End]" and nm: "name_rx name" and ws: "list_all pattern_word ws"
    and p: "p = u @ t" "uwords p = uwords n @ ''ON'' # ks" "''ON'' \<notin> set (uwords n)" "''ON'' \<notin> set ks"
  shows "\<exists>m. uwords m = uwords n \<and> c = [(1, m)] \<and> ks = ws @ uwords t"
proof -
  obtain x m y where d: "u = x @ m @ y" "c = [(1, m)]" "uwords u = uwords m @ ''ON'' # ws"
      "u \<noteq> []" "rx_space (last u)"
    using rx_rel_prefix [OF rel mid nm ws] by auto
  have "uwords m @ ''ON'' # ws @ uwords t = uwords n @ ''ON'' # ks"
    using uwords_append_last [OF d(4,5), of t] p d(3) by simp
  then have "uwords n = uwords m \<and> ks = ws @ uwords t"
    using first_occurrence_unique [OF p(3,4), of "uwords m" "ws @ uwords t"] by simp
  then show ?thesis using d(2) by auto
qed

text \<open>The part of a printed privilege in front of its quoted identifier.\<close>

definition lead :: "string \<Rightarrow> string list \<Rightarrow> string" where
  "lead n ks = n @ '' ON '' @ concat (map (\<lambda>k. k @ '' '') ks)"

definition is_name :: "string \<Rightarrow> bool" where
  "is_name n = (n \<noteq> [] \<and> list_all (\<lambda>c. is_letter c \<or> rx_space c) n \<and> is_letter (hd n) \<and> is_letter (last n)
     \<and> ''ON'' \<notin> set (uwords n))"

lemma uwords_word: "pattern_word w \<Longrightarrow> uwords w = [w]"
  by (simp add: uwords_def pattern_word_def words_no_space list_all_iff)

lemma rx_space_blank [simp]: "rx_space CHR '' ''"
  by (simp add: rx_space_def)

lemma uwords_blank: "uwords (a @ '' '' @ b) = uwords a @ uwords b"
  by (rule uwords_append_spaces) simp_all

lemma pattern_word_ON [simp]: "pattern_word ''ON''"
  by (simp add: pattern_word_def ToUpper_def upper_char_def rx_space_def)

lemma uwords_Nil [simp]: "uwords [] = []"
  by (simp add: uwords_def ToUpper_def)

lemma uwords_lead: "list_all pattern_word ks \<Longrightarrow> uwords (lead n ks) = uwords n @ ''ON'' # ks"
proof -
  assume ks: "list_all pattern_word ks"
  have "uwords (concat (map (\<lambda>k. k @ '' '') ks)) = ks"
    using ks by (induction ks) (use uwords_blank in \<open>auto simp: uwords_word\<close>)
  then show ?thesis
    using uwords_blank [of n "''ON '' @ concat (map (\<lambda>k. k @ '' '') ks)"]
      uwords_blank [of "''ON''" "concat (map (\<lambda>k. k @ '' '') ks)"] uwords_word [OF pattern_word_ON]
    by (simp add: lead_def)
qed

lemma lead_end: "list_all pattern_word ks \<Longrightarrow> \<exists>v c. lead n ks = v @ [c, CHR '' ''] \<and> \<not> rx_space c"
proof (cases ks rule: rev_cases)
  case Nil
  then have "lead n ks = (n @ '' O'') @ [CHR ''N'', CHR '' '']" by (simp add: lead_def)
  moreover have "\<not> rx_space CHR ''N''" by (simp add: rx_space_def)
  ultimately show ?thesis by blast
next
  case (snoc ks' k)
  assume "list_all pattern_word ks"
  then have k: "k \<noteq> []" "\<not> rx_space (last k)" using snoc by (auto simp: pattern_word_def list_all_iff)
  then have "lead n ks = (n @ '' ON '' @ concat (map (\<lambda>k. k @ '' '') ks') @ butlast k) @ [last k, CHR '' '']"
    by (simp add: lead_def snoc)
  then show ?thesis using k by blast
qed

lemma dq_lead: "is_name n \<Longrightarrow> list_all pattern_word ks \<Longrightarrow> dq \<notin> set (lead n ks)"
proof -
  assume n: "is_name n" and ks: "list_all pattern_word ks"
  have "\<not> is_letter dq \<and> \<not> rx_space dq" by (simp add: is_letter_def rx_space_def)
  then have "dq \<notin> set n" using n by (auto simp: is_name_def list_all_iff)
  moreover have "dq \<notin> set k" if "k \<in> set ks" for k
    using ks that by (auto simp: pattern_word_def list_all_iff)
  ultimately show ?thesis by (auto simp: lead_def)
qed

lemma rx_rel_Seqs_append:
  "rx_rel (Seqs (rs @ rs')) u c \<Longrightarrow>
   \<exists>v w d e. u = v @ w \<and> c = d @ e \<and> rx_rel (Seqs rs) v d \<and> rx_rel (Seqs rs') w e"
proof (induction rs arbitrary: u c)
  case Nil
  then show ?case using rx_rel.Eps by (metis Seqs.simps(1) append_Nil)
next
  case (Cons r rs)
  obtain v w d e where 1: "u = v @ w" "c = d @ e" "rx_rel r v d" "rx_rel (Seqs (rs @ rs')) w e"
    using rx_rel_Seqs_Cons Cons.prems by (metis append_Cons)
  obtain v2 w2 d2 e2 where 2: "w = v2 @ w2" "e = d2 @ e2" "rx_rel (Seqs rs) v2 d2" "rx_rel (Seqs rs') w2 e2"
    using Cons.IH [OF 1(4)] by blast
  have "rx_rel (Seqs (r # rs)) (v @ v2) (d @ d2)"
    using 1(3) 2(3) by (cases rs) (auto intro: rx_rel.Seq simp: rx_rel_simps)
  then show ?case using 1 2 by (metis append.assoc)
qed

text \<open>
  What follows the lead of a printed or written privilege: a quoted identifier with anything
  behind it, or an identifier without blanks and quotes. The fixed words of a pattern end with a
  blank and cannot reach into it.
\<close>

definition simple_identifier :: "string \<Rightarrow> bool" where
  "simple_identifier i = (i \<noteq> [] \<and> list_all (\<lambda>c. \<not> rx_space c \<and> c \<noteq> dq) i)"

definition opaque :: "string \<Rightarrow> bool" where
  "opaque q = (starts_with dq q \<or> simple_identifier q)"

lemma opaque_dquoted [simp]: "opaque (dquoted i @ r)"
  by (simp add: dquoted_def opaque_def starts_with_def)

lemma prefix_of_lead:
  assumes "lead n ks @ q = u @ v" "opaque q" "dq \<notin> set u" "rx_space (last u)"
  shows "\<exists>t. lead n ks = u @ t"
proof (rule ccontr)
  assume "\<nexists>t. lead n ks = u @ t"
  then obtain q1 where q1: "u = lead n ks @ q1" "q = q1 @ v" "q1 \<noteq> []"
    using assms(1) by (auto simp: append_eq_append_conv2)
  then have "\<not> starts_with dq q" using assms(3) by (cases q1) (auto simp: starts_with_def)
  then have "list_all (\<lambda>c. \<not> rx_space c) q1" using assms(2) q1(2) by (auto simp: opaque_def simple_identifier_def list_all_iff)
  then show False using assms(4) q1(1,3) by (simp add: list_all_iff)
qed

lemma pattern_excluded:
  assumes mid: "mid = [] \<or> mid = [Word_End]" and nm: "name_rx name" and ws: "list_all pattern_word ws"
    and n: "is_name n" and q: "opaque q" and ks: "list_all pattern_word ks" "''ON'' \<notin> set ks" and no: "\<not> prefix ws ks"
  shows "FindStringSubmatch (Seqs (Spaces0 # Grp 1 name # mid @ on_words ws @ tail)) (lead n ks @ q) = None"
proof (rule FindStringSubmatch_None, rule notI)
  fix c
  assume "rx_rel (Seqs (Spaces0 # Grp 1 name # mid @ on_words ws @ tail)) (lead n ks @ q) c"
  then obtain u v d where u: "lead n ks @ q = u @ v" "rx_rel (Seqs (Spaces0 # Grp 1 name # mid @ on_words ws)) u d"
    using rx_rel_Seqs_append [of "Spaces0 # Grp 1 name # mid @ on_words ws" tail "lead n ks @ q" c]
    by (auto simp del: Seqs.simps One_nat_def)
  then obtain t where t: "lead n ks = u @ t" using rx_rel_prefix [OF u(2) mid nm ws] prefix_of_lead [OF u(1) q] by blast
  show False using prefix_excludes [OF u(2) mid nm ws t uwords_lead [OF ks(1)]] n ks(2) no
    by (auto simp: is_name_def)
qed

lemma letter_not_space: "is_letter c \<Longrightarrow> \<not> rx_space c"
  by (auto simp: is_letter_def rx_space_def Let_def)

lemma letter_not_dq: "is_letter c \<or> rx_space c \<Longrightarrow> c \<noteq> dq"
  by (auto simp: is_letter_def rx_space_def)

lemma rx_rel_privilegeName:
  "rx_rel privilegeName n c \<Longrightarrow> c = [] \<and> n \<noteq> [] \<and> list_all (\<lambda>c. is_letter c \<or> rx_space c) n
     \<and> is_letter (hd n) \<and> is_letter (last n)"
  unfolding privilegeName_def Opt_def by (auto simp: rx_rel_simps dest!: rx_rel_Lazy_Cls)

lemma name_rx_privilegeName [simp]: "name_rx privilegeName"
  unfolding name_rx_def using rx_rel_privilegeName letter_not_space letter_not_dq
  by (metis (no_types, lifting) list_all_iff)

lemma rx_rel_privilegeNameI:
  assumes "is_name n" shows "rx_rel privilegeName n []"
proof -
  obtain c m where n: "n = c # m" "is_letter c" using assms by (cases n) (auto simp: is_name_def)
  show ?thesis
  proof (cases m rule: rev_cases)
    case Nil
    have "rx_rel privilegeName ([c] @ []) ([] @ [])" unfolding privilegeName_def Opt_def
      by (intro rx_rel.Seq rx_rel.Cls n(2) rx_rel.Alt2 rx_rel.Eps)
    then show ?thesis using n Nil by simp
  next
    case (snoc m' d)
    have m: "list_all (\<lambda>c. is_letter c \<or> rx_space c) m'" "is_letter d"
      using assms n snoc by (auto simp: is_name_def)
    have "rx_rel privilegeName ([c] @ m' @ [d]) ([] @ [] @ [])" unfolding privilegeName_def Opt_def
      by (intro rx_rel.Seq rx_rel.Cls rx_rel.Alt1 rx_rel_Lazy_ClsI m n(2))
    then show ?thesis using n snoc by simp
  qed
qed

lemma uwords_eq_prefix:
  assumes "uwords (m @ r) = uwords m" "r \<noteq> []" "rx_space (hd r)"
  shows "rx_space (last (m @ r))"
proof -
  obtain c r' where r: "r = c # r'" "rx_space c" using assms(2,3) by (cases r) auto
  have "uwords (m @ [c] @ r') = uwords m @ uwords r'" by (rule uwords_append_spaces) (simp_all add: r)
  then have "list_all rx_space r'" using assms(1) by (simp add: r uwords_def words_Nil_iff)
  then show ?thesis using r by (cases r' rule: rev_cases) auto
qed

lemma prefix_unique:
  assumes rel: "rx_rel (Seqs (Spaces0 # Grp 1 name # on_words ks)) u c" and nm: "name_rx name"
    and s: "lead n ks @ q = u @ rest" and n: "is_name n" and q: "opaque q"
    and ks: "list_all pattern_word ks" "''ON'' \<notin> set ks"
  shows "(rest, c) = (q, [(1, n)])"
proof -
  obtain x m y where d: "u = x @ m @ y" "c = [(1, m)]" "rx_rel name m []" "list_all rx_space x" "y \<noteq> []"
      "rx_space (hd y)" "dq \<notin> set u" "u \<noteq> []" "rx_space (last u)"
    using rx_rel_prefix [of name "[]" ks u c] rel nm ks(1) unfolding append_Nil by blast
  obtain t where t: "lead n ks = u @ t" using prefix_of_lead [OF s q d(7,9)] by blast
  have um: "uwords m = uwords n" "uwords t = []"
    using prefix_excludes [of name "[]" ks u c "lead n ks" t n ks] rel nm ks t uwords_lead [OF ks(1), of n] n d(2)
    by (auto simp: is_name_def)
  have t0: "t = []"
  proof (rule ccontr)
    assume "t \<noteq> []"
    obtain v e where v: "lead n ks = v @ [e, CHR '' '']" "\<not> rx_space e" using lead_end [OF ks(1)] by blast
    have "list_all rx_space t" using um(2) by (simp add: uwords_def words_Nil_iff)
    with \<open>t \<noteq> []\<close> v t d(9) \<open>u \<noteq> []\<close> show False
      by (cases t rule: rev_cases; cases "butlast t" rule: rev_cases) (auto simp: list_all_iff)
  qed
  have nl: "n \<noteq> []" "\<not> rx_space (hd n)" "\<not> rx_space (last n)" using n letter_not_space by (auto simp: is_name_def)
  have ml: "m \<noteq> []" "\<not> rx_space (hd m)" "\<not> rx_space (last m)" using nm d(3) by (auto simp: name_rx_def)
  have "hd (lead n ks) = hd n" using nl(1) by (simp add: lead_def)
  then have x0: "x = []" using t t0 d(1,4) nl(2) by (cases x) auto
  obtain z where z: "lead n ks = n @ z" "z \<noteq> []" "rx_space (hd z)" by (simp add: lead_def)
  have eq: "n @ z = m @ y" using z t t0 d(1) x0 by simp
  have "n = m"
  proof -
    from eq consider r where "n = m @ r" "y = r @ z" | r where "m = n @ r" "z = r @ y"
      by (auto simp: append_eq_append_conv2)
    then show ?thesis
    proof cases
      case 1
      have "uwords (m @ r) = uwords m" using um(1) unfolding 1(1) by (rule sym)
      from uwords_eq_prefix [OF this] show ?thesis using 1 nl(3) d(6) by (cases r) auto
    next
      case 2
      have "uwords (n @ r) = uwords n" using um(1) unfolding 2(1) .
      from uwords_eq_prefix [OF this] show ?thesis using 2 ml(3) z(3) by (cases r) auto
    qed
  qed
  then show ?thesis using s t t0 d(2) by simp
qed

lemma rx_rel_Text_ciI: "rx_rel (Text_ci w) w []"
proof (induction w)
  case (Cons c w)
  have "rx_rel (Text_ci (c # w)) ([c] @ w) ([] @ [])"
    unfolding Text_ci.simps by (intro rx_rel.Seq rx_rel.Cls Cons refl)
  then show ?case by simp
qed (simp add: rx_rel.Eps Text_ci.simps)

lemma rx_rel_blank: "rx_rel Spaces1 '' '' []"
  unfolding Spaces1_def Plus_def
  using rx_rel.Seq [OF rx_rel.Cls [of rx_space "CHR '' ''"] rx_rel.Star_Nil [of "Cls rx_space"]] by simp

lemma rx_rel_Seqs_ConsI:
  "rx_rel r u c \<Longrightarrow> rx_rel (Seqs rs) v d \<Longrightarrow> rx_rel (Seqs (r # rs)) (u @ v) (c @ d)"
  by (cases rs) (auto intro: rx_rel.Seq simp: rx_rel_simps)

lemma rx_rel_wordsI:
  "rx_rel (Seqs (concat (map (\<lambda>w. [Text_ci w, Spaces1]) ws))) (concat (map (\<lambda>k. k @ '' '') ws)) []"
proof (induction ws)
  case (Cons w ws)
  show ?case
    using rx_rel_Seqs_ConsI [OF rx_rel_Text_ciI [of w] rx_rel_Seqs_ConsI [OF rx_rel_blank Cons]] by simp
qed (simp add: rx_rel.Eps)

lemma rx_rel_leadI:
  assumes "rx_rel name n []"
  shows "rx_rel (Seqs (Spaces0 # Grp 1 name # on_words ks)) (lead n ks) [(1, n)]"
proof -
  have on: "rx_rel (Seqs (on_words ks)) ('' ON '' @ concat (map (\<lambda>k. k @ '' '') ks)) []"
    unfolding on_words_def
    using rx_rel_Seqs_ConsI [OF rx_rel_blank rx_rel_wordsI [of "''ON'' # ks"]] by simp
  have s: "rx_rel Spaces0 [] []" unfolding Spaces0_def by (rule rx_rel.Star_Nil)
  show ?thesis
    using rx_rel_Seqs_ConsI [OF s rx_rel_Seqs_ConsI [OF rx_rel.Grp [OF assms, of 1] on]]
    by (simp add: lead_def)
qed

lemma no_Word_End_Seqs: "no_Word_End (Seqs rs) = list_all no_Word_End rs"
  by (induction rs rule: Seqs.induct) auto

lemma no_Word_End_Text_ci [simp]: "no_Word_End (Text_ci w)"
  by (induction w) (auto simp: Text_ci.simps)

lemma no_Word_End_on_words: "list_all no_Word_End (on_words ws)"
  by (induction ws) (auto simp: on_words_def Spaces1_def Plus_def)

lemma rx_run_lead:
  assumes nm: "name_rx name" "rx_rel name n []" "no_Word_End name" and n: "is_name n" and q: "opaque q"
    and ks: "list_all pattern_word ks" "''ON'' \<notin> set ks"
  shows "rx_run (Seqs (Spaces0 # Grp 1 name # on_words ks @ tail)) (lead n ks @ q) k =
    rx_run (Seqs tail) q (\<lambda>s c. k s ((1, n) # c))"
proof -
  let ?r = "Seqs (Spaces0 # Grp 1 name # on_words ks)"
  have "no_Word_End ?r" unfolding no_Word_End_Seqs
    using no_Word_End_on_words nm(3) by (simp add: Spaces0_def)
  then obtain d where e: "(q, d) \<in> set (rx_matches ?r (lead n ks @ q))"
    using rx_matches_complete [OF rx_rel_leadI [OF nm(2)], of ks q] by blast
  have run: "rx_run ?r (lead n ks @ q) k' = k' q [(1, n)]" for k' :: "string \<Rightarrow> submatches \<Rightarrow> 'a option"
  proof -
    have "m = (q, [(1, n)])" if m: "m \<in> set (rx_matches ?r (lead n ks @ q))" for m
      using rx_matches_sound [OF m] prefix_unique [OF _ nm(1) _ n q ks, of _ "snd m" "fst m"]
      by (metis prod.collapse)
    from rx_run_unique [OF e this, of k'] show ?thesis by simp
  qed
  have "rx_run (Seqs ((Spaces0 # Grp 1 name # on_words ks) @ tail)) (lead n ks @ q) k =
      rx_run (Seqs tail) q (\<lambda>s c. k s ([(1, n)] @ c))"
    unfolding rx_run_Seqs_append run ..
  then show ?thesis unfolding append_Cons append_Nil .
qed

section \<open>Privileges with quoted identifiers\<close>

lemma name_rx_Text_ci [simp]: "pattern_word w \<Longrightarrow> name_rx (Text_ci w)"
proof -
  assume w: "pattern_word w"
  have "n \<noteq> [] \<and> dq \<notin> set n \<and> \<not> rx_space (hd n) \<and> \<not> rx_space (last n)" if u: "ToUpper n = w" for n
  proof -
    have l: "ToUpper n \<noteq> []" "list_all (\<lambda>c. \<not> rx_space c \<and> c \<noteq> dq) (ToUpper n)"
      using w unfolding u pattern_word_def by auto
    then have "dq \<notin> set (ToUpper n)" "list_all (\<lambda>c. \<not> rx_space c) n"
      by (auto simp: list_all_iff ToUpper_def)
    then show ?thesis using l(1) by (simp add: list_all_iff)
  qed
  then show ?thesis using w rx_rel_Text_ci unfolding name_rx_def pattern_word_def by metis
qed

lemma name_rx_operator [simp]:
  "pattern_word v \<Longrightarrow> pattern_word w \<Longrightarrow> name_rx (Seqs [Text_ci v, Spaces1, Text_ci w])"
proof -
  assume v: "pattern_word v" and w: "pattern_word w"
  have "c = [] \<and> n \<noteq> [] \<and> dq \<notin> set n \<and> \<not> rx_space (hd n) \<and> \<not> rx_space (last n)"
    if r: "rx_rel (Seqs [Text_ci v, Spaces1, Text_ci w]) n c" for n c
  proof -
    obtain a b s c1 c2 c3 where n: "n = a @ s @ b" "c = c1 @ c2 @ c3"
      "rx_rel (Text_ci v) a c1" "rx_rel Spaces1 s c2" "rx_rel (Text_ci w) b c3"
      using r by (auto simp: rx_rel_simps)
    have "dq \<notin> set s" "c2 = []" using rx_rel_Spaces1 [OF n(4)] by (auto simp: list_all_iff rx_space_def)
    then show ?thesis
      using n name_rx_Text_ci [OF v] name_rx_Text_ci [OF w] unfolding name_rx_def by fastforce
  qed
  then show ?thesis unfolding name_rx_def by blast
qed

lemma pattern_words [simp]:
  "pattern_word ''USERGROUP''" "pattern_word ''OPERATOR''" "pattern_word ''USAGE''"
  "pattern_word ''CLIENTSIDE''" "pattern_word ''ENCRYPTION''" "pattern_word ''COLUMN''" "pattern_word ''KEY''"
  "pattern_word ''PSE''" "pattern_word ''JWT''" "pattern_word ''SAML''" "pattern_word ''X509''"
  "pattern_word ''PROVIDER''" "pattern_word ''REMOTE''" "pattern_word ''SOURCE''" "pattern_word ''SCHEMA''"
  by (simp_all add: pattern_word_def ToUpper_def upper_char_def rx_space_def)

lemma namedPattern_excluded:
  assumes "name_rx name" "list_all pattern_word ws" "is_name n" "opaque q" "list_all pattern_word ks" "''ON'' \<notin> set ks"
    "\<not> prefix ws ks"
  shows "FindStringSubmatch (namedPattern name ws) (lead n ks @ q) = None"
  using pattern_excluded [of "[]" name ws n q ks "[Grp 2 identifierPattern, grantOptionRegex 3, Spaces0]"] assms
  by (simp add: namedPattern_def del: Seqs.simps)

lemma columnKey_excluded:
  assumes "is_name n" "opaque q" "list_all pattern_word ks" "''ON'' \<notin> set ks" "\<not> prefix [''CLIENTSIDE''] ks"
  shows "FindStringSubmatch (fst columnKeyPattern) (lead n ks @ q) = None"
proof -
  have "\<not> prefix [''CLIENTSIDE'', ''ENCRYPTION'', ''COLUMN'', ''KEY''] ks"
    using assms(5) by (cases ks) auto
  then show ?thesis
    using pattern_excluded [of "[Word_End]" "Text_ci ''USAGE''" "[''CLIENTSIDE'', ''ENCRYPTION'', ''COLUMN'', ''KEY'']"
        n q ks "[Grp 2 identifierPattern, grantOptionRegex 3, Spaces0]"] assms
    by (simp add: columnKeyPattern_def del: Seqs.simps)
qed

lemma namedPattern_tail:
  assumes "name_rx name" "rx_rel name n []" "no_Word_End name" "is_name n" "opaque q"
    "list_all pattern_word ks" "''ON'' \<notin> set ks"
    and t: "rx_run (Seqs [Grp 2 identifierPattern, grantOptionRegex 3, Spaces0]) q (finish [(1, n)]) = r"
  shows "FindStringSubmatch (namedPattern name ks) (lead n ks @ q) = r"
proof -
  have "rx_run (Seqs (Spaces0 # Grp 1 name # on_words ks @ [Grp 2 identifierPattern, grantOptionRegex 3, Spaces0]))
      (lead n ks @ q) (finish []) = r"
    unfolding rx_run_lead [OF assms(1-7)] finish_Cons append_Nil by (rule t)
  then show ?thesis unfolding FindStringSubmatch_finish namedPattern_def by simp
qed

lemma namedPattern_match:
  assumes "name_rx name" "rx_rel name n []" "no_Word_End name" "is_name n"
    "list_all pattern_word ks" "''ON'' \<notin> set ks"
  shows "FindStringSubmatch (namedPattern name ks) (lead n ks @ dquoted i @ option_suffix ''GRANT'' g) =
     Some ([(1, n), (2, dquoted i)] @ (if g then [(3, option_suffix ''GRANT'' g)] else []))"
proof (rule namedPattern_tail [OF assms(1-4) opaque_dquoted assms(5,6)])
  let ?o = "option_suffix ''GRANT'' g"
  show "rx_run (Seqs [Grp 2 identifierPattern, grantOptionRegex 3, Spaces0]) (dquoted i @ ?o) (finish [(1, n)]) =
     Some ([(1, n), (2, dquoted i)] @ (if g then [(3, ?o)] else []))"
    unfolding rx_run_Seqs_Cons [of "Grp 2 identifierPattern"]
    by (rule rx_run_identifier_Grp)
       (use finish_option [of "''GRANT''" 3 g "[(1, n), (2, dquoted i)]"] in
        \<open>simp_all add: finish_append finish_Cons grantOptionRegex_def del: Seqs.simps\<close>)
qed

text \<open>An identifier written without quotes is read to the end of the text.\<close>

lemma rx_run_Star_all:
  "list_all P q \<Longrightarrow> k [] [] = Some y \<Longrightarrow> rx_run (Star (Cls P)) q k = Some y"
  by (induction q) (simp_all add: rx_run)

lemma rx_run_simple_identifier:
  assumes "simple_identifier q" "k [] [(n, q)] = Some y"
  shows "rx_run (Grp n identifierPattern) q k = Some y"
proof -
  obtain c cs where q: "q = c # cs" "c \<noteq> dq" "\<not> rx_space c" "list_all (\<lambda>c. \<not> rx_space c) cs"
    using assms(1) by (cases q) (auto simp: simple_identifier_def list_all_iff)
  show ?thesis
    unfolding rx_run_Grp identifierPattern_def rx_run_Alt rx_run_Plus rx_run_Seqs_Cons
    using q assms(2) by (simp add: Chr_def rx_run_Cls_Cons rx_run_Star_all)
qed

lemma namedPattern_match_simple:
  assumes "name_rx name" "rx_rel name n []" "no_Word_End name" "is_name n"
    "list_all pattern_word ks" "''ON'' \<notin> set ks" and i: "simple_identifier i"
  shows "FindStringSubmatch (namedPattern name ks) (lead n ks @ i) = Some [(1, n), (2, i)]"
proof (rule namedPattern_tail [OF assms(1-4) _ assms(5,6)])
  show "opaque i" using i by (simp add: opaque_def)
  show "rx_run (Seqs [Grp 2 identifierPattern, grantOptionRegex 3, Spaces0]) i (finish [(1, n)]) =
     Some [(1, n), (2, i)]"
    unfolding rx_run_Seqs_Cons [of "Grp 2 identifierPattern"]
    by (rule rx_run_simple_identifier [OF i])
       (use finish_option [of "''GRANT''" 3 False "[(1, n), (2, i)]"] in
        \<open>simp_all add: finish_append finish_Cons grantOptionRegex_def option_suffix_def del: Seqs.simps\<close>)
qed

lemma cleanIdentifier_simple: "simple_identifier i \<Longrightarrow> cleanIdentifier i = i"
  by (cases i) (auto simp: simple_identifier_def cleanIdentifier_def)

lemma qualifiedObject_match:
  assumes "is_name n"
  shows "FindStringSubmatch (fst qualifiedObjectPattern)
      (lead n [] @ dquoted i @ ''.'' @ dquoted j @ option_suffix ''GRANT'' g) =
     Some ([(1, n), (2, dquoted i), (3, dquoted j)] @ (if g then [(4, option_suffix ''GRANT'' g)] else []))"
proof -
  let ?o = "option_suffix ''GRANT'' g"
  let ?tail = "[Grp 2 identifierPattern, Chr (CHR ''.''), Grp 3 identifierPattern, grantOptionRegex 4, Spaces0]"
  let ?res = "Some ([(1, n), (2, dquoted i), (3, dquoted j)] @ (if g then [(4, ?o)] else []))"
  have "rx_run (Seqs [Grp 3 identifierPattern, grantOptionRegex 4, Spaces0]) (dquoted j @ ?o)
      (finish [(1, n), (2, dquoted i)]) = ?res"
    unfolding rx_run_Seqs_Cons [of "Grp 3 identifierPattern"]
    by (rule rx_run_identifier_Grp)
       (use finish_option [of "''GRANT''" 4 g "[(1, n), (2, dquoted i), (3, dquoted j)]"] in
        \<open>simp_all add: finish_append finish_Cons grantOptionRegex_def del: Seqs.simps\<close>)
  then have "rx_run (Seqs ?tail) (dquoted i @ ''.'' @ dquoted j @ ?o) (finish [(1, n)]) = ?res"
    unfolding rx_run_Seqs_Cons [of "Grp 2 identifierPattern"]
    by (intro rx_run_identifier_Grp)
       (simp_all add: finish_append finish_Cons rx_run_Seqs_Cons [of "Cls P" for P] Chr_def rx_run_Cls_Cons
          starts_with_def del: Seqs.simps)
  then have "rx_run (Seqs (Spaces0 # Grp 1 privilegeName # on_words [] @ ?tail))
      (lead n [] @ dquoted i @ ''.'' @ dquoted j @ ?o) (finish []) = ?res"
    by (subst rx_run_lead [OF name_rx_privilegeName rx_rel_privilegeNameI [OF assms] _ assms])
       (simp_all add: finish_Cons privilegeName_def Opt_def del: Seqs.simps)
  then show ?thesis unfolding FindStringSubmatch_finish qualifiedObjectPattern_def by simp
qed

text \<open>
  The privileges whose identifiers are printed in quotes: on a schema, on a remote source, on a
  schema object, and the operator of a user group.
\<close>

definition quoted_privilege :: "Privilege \<Rightarrow> bool" where
  "quoted_privilege p = (case p_Type p of
     SchemaPrivilegeType \<Rightarrow> is_name (p_Name p) \<and> p_SubIdentifier p = []
   | SourcePrivilegeType \<Rightarrow> is_name (p_Name p) \<and> p_SubIdentifier p = []
   | ObjectPrivilegeType \<Rightarrow> is_name (p_Name p) \<and> p_SubIdentifier p \<noteq> []
   | UserGroupPrivilegeType \<Rightarrow> p_Name p = ''USERGROUP OPERATOR'' \<and> p_SubIdentifier p = []
   | _ \<Rightarrow> False)"

lemma no_Word_End_Spaces1 [simp]: "no_Word_End Spaces1"
  by (simp add: Spaces1_def Plus_def)

lemma no_Word_End_privilegeName [simp]: "no_Word_End privilegeName"
  by (simp add: privilegeName_def Opt_def)

lemma is_name_operator: "is_name ''USERGROUP OPERATOR''"
  by (simp add: is_name_def is_letter_def rx_space_def uwords_def ToUpper_def upper_char_def)

lemma rx_rel_operator: "rx_rel (Seqs [Text_ci ''USERGROUP'', Spaces1, Text_ci ''OPERATOR'']) ''USERGROUP OPERATOR'' []"
  using rx_rel_Seqs_ConsI [OF rx_rel_Text_ciI [of "''USERGROUP''"]
      rx_rel_Seqs_ConsI [OF rx_rel_blank rx_rel_Seqs_ConsI [OF rx_rel_Text_ciI [of "''OPERATOR''"] rx_rel.Eps [folded Seqs.simps(1)]]]]
  by simp

lemma Privilege_String_schema:
  "p_Type p = SchemaPrivilegeType \<Longrightarrow> Privilege_String p =
     lead (p_Name p) [''SCHEMA''] @ dquoted (p_Identifier p) @ option_suffix ''GRANT'' (p_IsGrantable p)"
  by (simp add: Privilege_String_def baseString_def lead_def dquoted_def option_suffix_def)

lemma Privilege_String_source:
  "p_Type p = SourcePrivilegeType \<Longrightarrow> Privilege_String p =
     lead (p_Name p) [''REMOTE'', ''SOURCE''] @ dquoted (p_Identifier p) @ option_suffix ''GRANT'' (p_IsGrantable p)"
  by (simp add: Privilege_String_def baseString_def lead_def dquoted_def option_suffix_def)

lemma Privilege_String_usergroup:
  "p_Type p = UserGroupPrivilegeType \<Longrightarrow> Privilege_String p =
     lead ''USERGROUP OPERATOR'' [''USERGROUP''] @ dquoted (p_Identifier p) @ option_suffix ''GRANT'' (p_IsGrantable p)"
  by (simp add: Privilege_String_def baseString_def lead_def dquoted_def option_suffix_def)

lemma Privilege_String_object:
  "p_Type p = ObjectPrivilegeType \<Longrightarrow> p_SubIdentifier p \<noteq> [] \<Longrightarrow> Privilege_String p =
     lead (p_Name p) [] @ dquoted (p_Identifier p) @ ''.'' @ dquoted (p_SubIdentifier p) @
       option_suffix ''GRANT'' (p_IsGrantable p)"
  by (simp add: Privilege_String_def baseString_def formatObjectPrivilege_def lead_def dquoted_def option_suffix_def)

lemma try_patterns_skip:
  "FindStringSubmatch (fst pp) s = None \<Longrightarrow> try_patterns (pp # pps) s ds u h = try_patterns pps s ds u h"
  by (cases pp) simp

lemma try_patterns_hit:
  "FindStringSubmatch (fst pp) s = Some m \<Longrightarrow> snd pp m ds = p \<Longrightarrow> p_Type p \<noteq> SystemPrivilegeType \<Longrightarrow>
   try_patterns (pp # pps) s ds u h = Some (Inr p)"
  by (cases pp) (simp add: Let_def)

text \<open>The patterns in front of the one that has to match, on a text that starts with \<open>lead n ks\<close>.\<close>

lemma front_patterns_skip:
  assumes n: "is_name n" and q: "opaque q" and ks: "list_all pattern_word ks" "''ON'' \<notin> set ks"
    and no: "\<not> prefix [''USERGROUP''] ks" "\<not> prefix [''CLIENTSIDE''] ks" "\<not> prefix [''PSE''] ks"
      "\<not> prefix [''JWT''] ks" "\<not> prefix [''SAML''] ks" "\<not> prefix [''X509''] ks"
  shows "try_patterns privilegePatterns (lead n ks @ q) ds u h =
     try_patterns [remoteSourcePattern, schemaPattern, qualifiedObjectPattern, objectPattern,
       structuredPattern, systemPattern] (lead n ks @ q) ds u h"
proof -
  have no2: "\<not> prefix [k, ''PROVIDER''] ks" if "\<not> prefix [k] ks" for k using that by (cases ks) auto
  show ?thesis
    unfolding privilegePatterns_def
    by (simp only: try_patterns_skip userGroupPattern_def specialPattern_def fst_conv
        namedPattern_excluded [OF name_rx_operator _ n q ks] namedPattern_excluded [OF name_rx_privilegeName _ n q ks]
        columnKey_excluded [OF n q ks] pattern_words list.pred_inject no no2 simp_thms)
qed

lemma parse_tried:
  "(\<And>u h. try_patterns privilegePatterns s ds u h = Some r) \<Longrightarrow> parsePrivilegeString s ds = r"
  by (simp add: parsePrivilegeString_def Let_def)

text \<open>A pattern of the common form on the privilege it is for.\<close>

lemma named_hit:
  assumes pp: "pp = (namedPattern name ks, \<lambda>m ds. privilege T (submatch m 1) (cleanIdentifier (submatch m 2)) [] (submatch m 3 \<noteq> []))"
    and p: "p = privilege T n i [] g" "T \<noteq> SystemPrivilegeType"
    and n: "name_rx name" "rx_rel name n []" "no_Word_End name" "is_name n"
    and ks: "list_all pattern_word ks" "''ON'' \<notin> set ks"
  shows "try_patterns (pp # pps) (lead n ks @ dquoted i @ option_suffix ''GRANT'' g) ds u h = Some (Inr p)"
  by (rule try_patterns_hit, unfold pp fst_conv, rule namedPattern_match [OF n ks])
     (simp_all add: p privilege_def submatch_def option_suffix_def)

lemma privilege_eta: "p = privilege (p_Type p) (p_Name p) (p_Identifier p) (p_SubIdentifier p) (p_IsGrantable p)"
  by (simp add: privilege_def)

lemma schema_front:
  assumes "is_name n" "opaque q"
  shows "try_patterns privilegePatterns (lead n [''SCHEMA''] @ q) ds u h =
     try_patterns [schemaPattern, qualifiedObjectPattern, objectPattern, structuredPattern, systemPattern]
       (lead n [''SCHEMA''] @ q) ds u h"
  by (subst front_patterns_skip [OF assms])
     (simp_all add: try_patterns_skip remoteSourcePattern_def namedPattern_excluded assms)

lemma parse_schema_simple:
  assumes n: "is_name n" and i: "simple_identifier i"
  shows "parsePrivilegeString (n @ '' ON SCHEMA '' @ i) ds = Inr (privilege SchemaPrivilegeType n i [] False)"
proof (rule parse_tried)
  fix u h
  have e: "n @ '' ON SCHEMA '' @ i = lead n [''SCHEMA''] @ i" by (simp add: lead_def)
  have "FindStringSubmatch (fst schemaPattern) (lead n [''SCHEMA''] @ i) = Some [(1, n), (2, i)]"
    unfolding schemaPattern_def fst_conv
    by (rule namedPattern_match_simple) (use n i in \<open>simp_all add: rx_rel_privilegeNameI\<close>)
  then show "try_patterns privilegePatterns (n @ '' ON SCHEMA '' @ i) ds u h =
      Some (Inr (privilege SchemaPrivilegeType n i [] False))"
    unfolding e using i n
    by (subst schema_front)
       (simp_all add: opaque_def try_patterns_hit schemaPattern_def submatch_def privilege_def cleanIdentifier_simple)
qed

lemma parse_schema:
  assumes t: "p_Type p = SchemaPrivilegeType" and n: "is_name (p_Name p)" and sub: "p_SubIdentifier p = []"
  shows "parsePrivilegeString (Privilege_String p) ds = Inr p"
proof (rule parse_tried)
  fix u h
  let ?s = "lead (p_Name p) [''SCHEMA''] @ dquoted (p_Identifier p) @ option_suffix ''GRANT'' (p_IsGrantable p)"
  have "try_patterns privilegePatterns ?s ds u h =
      try_patterns [schemaPattern, qualifiedObjectPattern, objectPattern, structuredPattern, systemPattern] ?s ds u h"
    by (rule schema_front) (simp_all add: n)
  also have "\<dots> = Some (Inr p)"
    by (rule named_hit [OF schemaPattern_def])
       (use privilege_eta [of p] t sub n in \<open>simp_all add: rx_rel_privilegeNameI\<close>)
  finally show "try_patterns privilegePatterns (Privilege_String p) ds u h = Some (Inr p)"
    unfolding Privilege_String_schema [OF t] .
qed

lemma parse_source:
  assumes t: "p_Type p = SourcePrivilegeType" and n: "is_name (p_Name p)" and sub: "p_SubIdentifier p = []"
  shows "parsePrivilegeString (Privilege_String p) ds = Inr p"
proof (rule parse_tried)
  fix u h
  let ?ks = "[''REMOTE'', ''SOURCE'']"
  let ?s = "lead (p_Name p) ?ks @ dquoted (p_Identifier p) @ option_suffix ''GRANT'' (p_IsGrantable p)"
  have "try_patterns privilegePatterns ?s ds u h = try_patterns [remoteSourcePattern, schemaPattern,
      qualifiedObjectPattern, objectPattern, structuredPattern, systemPattern] ?s ds u h"
    by (rule front_patterns_skip [OF n opaque_dquoted]) simp_all
  also have "\<dots> = Some (Inr p)"
    by (rule named_hit [OF remoteSourcePattern_def])
       (use privilege_eta [of p] t sub n in \<open>simp_all add: rx_rel_privilegeNameI\<close>)
  finally show "try_patterns privilegePatterns (Privilege_String p) ds u h = Some (Inr p)"
    unfolding Privilege_String_source [OF t] .
qed

lemma parse_usergroup:
  assumes t: "p_Type p = UserGroupPrivilegeType" and n: "p_Name p = ''USERGROUP OPERATOR''" and sub: "p_SubIdentifier p = []"
  shows "parsePrivilegeString (Privilege_String p) ds = Inr p"
proof (rule parse_tried)
  fix u h
  show "try_patterns privilegePatterns (Privilege_String p) ds u h = Some (Inr p)"
    unfolding Privilege_String_usergroup [OF t] privilegePatterns_def
    by (rule named_hit [OF userGroupPattern_def])
       (use privilege_eta [of p] t sub n is_name_operator in
         \<open>simp_all add: rx_rel_operator no_Word_End_Seqs del: Seqs.simps\<close>)
qed

lemma parse_object:
  assumes t: "p_Type p = ObjectPrivilegeType" and n: "is_name (p_Name p)" and sub: "p_SubIdentifier p \<noteq> []"
  shows "parsePrivilegeString (Privilege_String p) ds = Inr p"
proof (rule parse_tried)
  fix u h
  let ?s = "lead (p_Name p) [] @ dquoted (p_Identifier p) @ ''.'' @ dquoted (p_SubIdentifier p) @
      option_suffix ''GRANT'' (p_IsGrantable p)"
  have "try_patterns privilegePatterns ?s ds u h =
      try_patterns [qualifiedObjectPattern, objectPattern, structuredPattern, systemPattern] ?s ds u h"
    by (subst front_patterns_skip [OF n opaque_dquoted])
       (simp_all add: try_patterns_skip remoteSourcePattern_def schemaPattern_def namedPattern_excluded n)
  also have "\<dots> = Some (Inr p)"
    by (rule try_patterns_hit [OF qualifiedObject_match [OF n]])
       (use privilege_eta [of p] t in
         \<open>simp_all add: qualifiedObjectPattern_def submatch_def option_suffix_def privilege_def\<close>)
  finally show "try_patterns privilegePatterns (Privilege_String p) ds u h = Some (Inr p)"
    unfolding Privilege_String_object [OF t sub] .
qed

lemma parsePrivilegeString_String:
  "quoted_privilege p \<Longrightarrow> parsePrivilegeString (Privilege_String p) ds = Inr p"
  by (auto simp: quoted_privilege_def parse_schema parse_source parse_usergroup parse_object
      split: PrivilegeType.splits)

lemma parsePrivilegeStrings_String:
  "list_all quoted_privilege ps \<Longrightarrow> parsePrivilegeStrings (map Privilege_String ps) ds = Inr ps"
  by (induction ps) (simp_all add: parsePrivilegeString_String)

section \<open>Formatting\<close>

lemma FormatRoleStrings_String: "FormatRoleStrings (map Role_String rs) = Inr (map Role_String rs)"
  by (simp add: FormatRoleStrings_def)

lemma Role_String_inj: "Role_String r = Role_String r' \<Longrightarrow> r = r'"
proof -
  assume "Role_String r = Role_String r'"
  then have "parseRoleStrings (map Role_String [r]) = parseRoleStrings (map Role_String [r'])" by simp
  then show ?thesis by (simp only: parseRoleStrings_String) simp
qed

text \<open>
  C5. Printing and parsing of roles. Whatever characters a role name has, the printed role is
  parsed back to that name and that grant option; different roles print differently; a slice of
  printed roles is formatted to itself, and what \<open>FormatRoleStrings\<close> returns is a fixed point of
  it. So the roles read back from the database and the formatted roles of the specification are
  equal as strings exactly when they are the same roles.
\<close>

theorem role_strings_roundtrip:
  "parseRoleStrings [Role_String r] = Inr [r]
   \<and> (Role_String r = Role_String r' \<longrightarrow> r = r')
   \<and> FormatRoleStrings (map Role_String rs) = Inr (map Role_String rs)
   \<and> (FormatRoleStrings xs = Inr ys \<longrightarrow> FormatRoleStrings ys = Inr ys)"
proof -
  have "FormatRoleStrings ys = Inr ys" if "FormatRoleStrings xs = Inr ys"
    using that FormatRoleStrings_String by (auto simp: FormatRoleStrings_def split: sum.splits)
  then show ?thesis using parseRoleStrings_String [of "[r]"] Role_String_inj FormatRoleStrings_String by auto
qed

theorem role_strings_roundtrip_witness:
  "parseRoleStrings [Role_String \<lparr>r_Name = [dq] @ '' a.b'', r_IsGrantable = True\<rparr>] =
     Inr [\<lparr>r_Name = [dq] @ '' a.b'', r_IsGrantable = True\<rparr>]
   \<and> FormatRoleStrings [''R''] = Inr [[dq] @ ''R'' @ [dq]]
   \<and> FormatRoleStrings [[dq] @ ''R'' @ [dq]] = Inr [[dq] @ ''R'' @ [dq]]"
proof -
  have e: "FormatRoleStrings [''R''] = Inr [[dq] @ ''R'' @ [dq]]" by code_simp
  show ?thesis
    using role_strings_roundtrip [of "\<lparr>r_Name = [dq] @ '' a.b'', r_IsGrantable = True\<rparr>" undefined
        undefined "[''R'']" "[[dq] @ ''R'' @ [dq]]"] e by auto
qed



end
