(* ===== verification/PrivilegeClient.thy ===== *)
theory PrivilegeClient
  imports PrivilegeParse
begin

text \<open>
  What the privilege client does to a database: every granting and revoking operation executes
  a plan that depends on its arguments only, and the groups behind the plan of \<open>GrantPrivileges\<close>
  and \<open>RevokePrivileges\<close> are a partition of the request. The locale \<open>privilege_client\<close> is the
  interface \<open>privilege.Client\<close> as the user and role clients use it.
\<close>

section \<open>Plans\<close>

definition GrantPrivileges_plan :: "group_order \<Rightarrow> string \<Rightarrow> string \<Rightarrow> string list \<Rightarrow> plan" where
  "GrantPrivileges_plan ord grantor grantee strs =
     (if strs = [] then plan_skip
      else case groupPrivilegesByType ord strs grantor of
        Inl err \<Rightarrow> plan_fail err
      | Inr gs \<Rightarrow> plan_execs (map (grant_query grantee) gs))"

definition RevokePrivileges_plan :: "group_order \<Rightarrow> string \<Rightarrow> string \<Rightarrow> string list \<Rightarrow> plan" where
  "RevokePrivileges_plan ord defaultSchema grantee strs =
     (case groupPrivilegesByType ord strs defaultSchema of
        Inl err \<Rightarrow> plan_fail err
      | Inr gs \<Rightarrow> plan_execs (map (\<lambda>g. ''REVOKE '' @ g_Body g @ '' FROM '' @ grantee) gs))"

definition GrantRoles_plan :: "string \<Rightarrow> string list \<Rightarrow> plan" where
  "GrantRoles_plan grantee roleNames =
     (if roleNames = [] then plan_skip
      else case parseRoleStrings roleNames of
        Inl err \<Rightarrow> plan_fail err
      | Inr roles \<Rightarrow>
          let adminRoles = map quotedName (filter r_IsGrantable roles);
              normalRoles = map quotedName (filter (\<lambda>r. \<not> r_IsGrantable r) roles)
          in plan_execs
               ((if normalRoles = [] then [] else [''GRANT '' @ Join normalRoles '', '' @ '' TO '' @ grantee]) @
                (if adminRoles = [] then []
                 else [''GRANT '' @ Join adminRoles '', '' @ '' TO '' @ grantee @ '' WITH ADMIN OPTION''])))"

definition RevokeRoles_plan :: "string \<Rightarrow> string list \<Rightarrow> plan" where
  "RevokeRoles_plan grantee roleNames =
     (if roleNames = [] then plan_skip
      else case parseRoleStrings roleNames of
        Inl err \<Rightarrow> plan_fail err
      | Inr roles \<Rightarrow> plan_exec (''REVOKE '' @ Join (map quotedName roles) '', '' @ '' FROM '' @ grantee))"

lemma GrantPrivileges_planned [go_plan]:
  "GrantPrivileges db ord grantor grantee strs w = run_plan db (GrantPrivileges_plan ord grantor grantee strs) w"
  by (auto simp: GrantPrivileges_def GrantPrivileges_plan_def go_plan split: sum.split)

lemma RevokePrivileges_planned [go_plan]:
  "RevokePrivileges db ord ds grantee strs w = run_plan db (RevokePrivileges_plan ord ds grantee strs) w"
  by (auto simp: RevokePrivileges_def RevokePrivileges_plan_def go_plan split: sum.split)

lemma GrantRoles_planned [go_plan]:
  "GrantRoles db ds grantee strs w = run_plan db (GrantRoles_plan grantee strs) w"
  by (auto simp: GrantRoles_def GrantRoles_plan_def go_plan Let_def split: sum.split option.split prod.split)

lemma RevokeRoles_planned [go_plan]:
  "RevokeRoles db ds grantee strs w = run_plan db (RevokeRoles_plan grantee strs) w"
  by (auto simp: RevokeRoles_def RevokeRoles_plan_def go_plan split: sum.split)

lemma reads_only_query_list [go_effect]: "reads_only db \<Longrightarrow> snd (query_list db q args row w) = w"
  by (auto simp: query_list_def split: prod.split sum.split option.split dest: reads_only_Query)

lemma QueryPrivileges_pure [go_effect]: "reads_only db \<Longrightarrow> snd (QueryPrivileges db g t w) = w"
  by (simp add: QueryPrivileges_def reads_only_query_list split_beta)

lemma QueryRoles_pure [go_effect]: "reads_only db \<Longrightarrow> snd (QueryRoles db g t w) = w"
  by (simp add: QueryRoles_def reads_only_query_list split_beta)

section \<open>The interface privilege.Client\<close>

text \<open>
  The clients of users and roles first grant and then revoke, each only when there is something
  to do, and stop at the first error.
\<close>

definition grant_then_revoke ::
  "(string list \<Rightarrow> 'w \<Rightarrow> error option \<times> 'w) \<Rightarrow> (string list \<Rightarrow> 'w \<Rightarrow> error option \<times> 'w) \<Rightarrow>
     string list \<Rightarrow> string list \<Rightarrow> 'w \<Rightarrow> error option \<times> 'w" where
  "grant_then_revoke grant revoke toGrant toRevoke w =
     and_then (if 0 < length toGrant then grant toGrant w else (None, w))
       (\<lambda>w. if 0 < length toRevoke then revoke toRevoke w else (None, w))"

locale privilege_client =
  fixes grant :: "'w DB \<Rightarrow> string \<Rightarrow> string \<Rightarrow> string list \<Rightarrow> 'w \<Rightarrow> error option \<times> 'w"
    and revoke :: "'w DB \<Rightarrow> string \<Rightarrow> string \<Rightarrow> string list \<Rightarrow> 'w \<Rightarrow> error option \<times> 'w"
    and observed :: "'w DB \<Rightarrow> string \<Rightarrow> GranteeType \<Rightarrow> 'w \<Rightarrow> (error option \<times> string list) \<times> 'w"
    and grant_plan :: "string \<Rightarrow> string \<Rightarrow> string list \<Rightarrow> plan"
    and revoke_plan :: "string \<Rightarrow> string \<Rightarrow> string list \<Rightarrow> plan"
  assumes grant_planned: "grant db s g xs w = run_plan db (grant_plan s g xs) w"
    and revoke_planned: "revoke db s g xs w = run_plan db (revoke_plan s g xs) w"
    and grant_nothing: "grant_plan s g [] = plan_skip"
    and observed_pure: "reads_only db \<Longrightarrow> snd (observed db g t w) = w"
    and all_or_nothing: "snd (grant_plan s g xs) \<noteq> None \<Longrightarrow> statements (grant_plan s g xs) = []"
begin

lemma update_planned:
  "grant_then_revoke (grant db s g) (revoke db s g) toGrant toRevoke w =
   run_plan db (plan_then (if toGrant = [] then plan_skip else grant_plan s g toGrant)
                          (if toRevoke = [] then plan_skip else revoke_plan s g toRevoke)) w"
  by (auto simp: grant_then_revoke_def grant_planned revoke_planned run_plan_then run_plan_skip
      and_then_def split: prod.split option.split)

lemma update_nothing: "grant_then_revoke (grant db s g) (revoke db s g) [] [] w = (None, w)"
  by (simp add: grant_then_revoke_def)

text \<open>A request that does not parse is refused before the first statement.\<close>

lemma grant_refused:
  "snd (grant_plan s g xs) = Some e \<Longrightarrow> grant db s g xs w = (Some e, w)"
  using all_or_nothing [of s g xs] by (simp add: grant_planned run_plan_Nil)

end

interpretation privs: privilege_client "\<lambda>db. GrantPrivileges db ord" "\<lambda>db. RevokePrivileges db ord"
  QueryPrivileges "GrantPrivileges_plan ord" "RevokePrivileges_plan ord" for ord
  by unfold_locales
     (auto simp: go_plan GrantPrivileges_plan_def QueryPrivileges_pure split: sum.splits)

interpretation roles: privilege_client GrantRoles RevokeRoles QueryRoles
  "\<lambda>s. GrantRoles_plan" "\<lambda>s. RevokeRoles_plan"
  by unfold_locales
     (auto simp: go_plan GrantRoles_plan_def QueryRoles_pure Let_def split: sum.splits if_splits)

section \<open>Groups\<close>

lemma groupsMap_from_spec:
  "gomap_ok m \<Longrightarrow> gomap_ok (groupsMap_from m ps) \<and>
   map_of (groupsMap_from m ps) k =
     (let old = (case map_of m k of None \<Rightarrow> [] | Some ns \<Rightarrow> ns);
          new = map p_Name (filter (\<lambda>p. groupKey_of p = k) ps)
      in if map_of m k = None \<and> new = [] then None else Some (old @ new))"
proof (induction m ps rule: groupsMap_from.induct)
  case (1 m)
  then show ?case by (auto split: option.split)
next
  case (2 m p ps)
  then show ?case by (auto simp: Let_def gomap_get_def split: option.splits if_splits)
qed

definition group_names :: "Privilege list \<Rightarrow> groupKey \<Rightarrow> string list" where
  "group_names ps k = map p_Name (filter (\<lambda>p. groupKey_of p = k) ps)"

lemma groups_partition:
  "distinct (map fst (groupsMap_from [] ps)) \<and>
   set (groupsMap_from [] ps) = (\<lambda>k. (k, group_names ps k)) ` groupKey_of ` set ps"
proof -
  have ok: "gomap_ok (groupsMap_from [] ps)"
    and m: "map_of (groupsMap_from [] ps) k =
      (if group_names ps k = [] then None else Some (group_names ps k))" for k
    using groupsMap_from_spec [of "[]" ps k] by (auto simp: gomap_ok_def group_names_def Let_def)
  have e: "e \<in> set (groupsMap_from [] ps) \<longleftrightarrow> group_names ps (fst e) \<noteq> [] \<and> snd e = group_names ps (fst e)" for e
    using m [of "fst e"] map_of_eq_Some_iff [of "groupsMap_from [] ps" "fst e" "snd e"] ok
    by (auto simp: gomap_ok_def split: if_splits)
  have n: "group_names ps k \<noteq> [] \<longleftrightarrow> k \<in> groupKey_of ` set ps" for k
    by (auto simp: group_names_def filter_empty_conv)
  have "set (groupsMap_from [] ps) = (\<lambda>k. (k, group_names ps k)) ` groupKey_of ` set ps"
  proof (rule set_eqI)
    fix e
    show "e \<in> set (groupsMap_from [] ps) \<longleftrightarrow> e \<in> (\<lambda>k. (k, group_names ps k)) ` groupKey_of ` set ps"
      unfolding e n by (cases e) (auto simp del: split_paired_All split_paired_Ex)
  qed
  then show ?thesis using ok by (simp add: gomap_ok_def)
qed

lemma SplitN2_dot: "CHR ''.'' \<notin> set i \<Longrightarrow> SplitN2 (i @ ''.'' @ s) ''.'' = [i, s]"
proof -
  assume "CHR ''.'' \<notin> set i"
  then have "Index (i @ ''.'' @ s) ''.'' = Some (length i)"
    by (induction i) (auto simp: HasPrefix_def)
  then show ?thesis by (simp add: SplitN2_def)
qed

lemma Contains_dot: "Contains (i @ ''.'' @ s) ''.''"
proof -
  have "Index (i @ ''.'' @ s) ''.'' \<noteq> None" by (induction i) (auto simp: HasPrefix_def)
  then show ?thesis by (simp add: Contains_def)
qed

text \<open>
  The body of the statement of a group is the printed form of any of its privileges with the
  names of all of them in place of its own, when no dot separates the schema from its object in
  the wrong place.
\<close>

definition dot_safe :: "Privilege \<Rightarrow> bool" where
  "dot_safe p = (p_Type p = ObjectPrivilegeType \<longrightarrow>
     CHR ''.'' \<notin> set (p_Identifier p))"

lemma Contains_dot_iff: "Contains s ''.'' \<longleftrightarrow> CHR ''.'' \<in> set s"
proof -
  have "Index s ''.'' \<noteq> None \<longleftrightarrow> CHR ''.'' \<in> set s"
    by (induction s) (auto simp: HasPrefix_def split: if_splits)
  then show ?thesis by (simp add: Contains_def)
qed

lemma group_of_body:
  assumes "dot_safe p"
  shows "g_Body (group_of (groupKey_of p, names)) = baseString (p\<lparr>p_Name := Join names '', ''\<rparr>)"
    and "g_Type (group_of (groupKey_of p, names)) = p_Type p"
    and "g_IsGrantable (group_of (groupKey_of p, names)) = p_IsGrantable p"
proof -
  show "g_Body (group_of (groupKey_of p, names)) = baseString (p\<lparr>p_Name := Join names '', ''\<rparr>)"
  proof (cases "p_Type p = ObjectPrivilegeType")
    case False
    then show ?thesis
      by (simp add: group_of_def groupKey_of_def privilege_def baseString_def split: PrivilegeType.split)
  next
    case True
    show ?thesis
    proof (cases "p_SubIdentifier p = []")
      case True
      then show ?thesis using assms
        by (simp add: group_of_def groupKey_of_def privilege_def baseString_def dot_safe_def Contains_dot_iff
            formatObjectPrivilege_def split: PrivilegeType.split)
    next
      case False
      then show ?thesis using assms True
        by (simp add: group_of_def groupKey_of_def privilege_def baseString_def dot_safe_def
            SplitN2_dot [simplified] Contains_dot [simplified] formatObjectPrivilege_def Let_def)
    qed
  qed
qed (simp_all add: group_of_def groupKey_of_def Let_def)

text \<open>The statement that grants the privileges of \<open>p\<close>'s group, and the one that revokes them.\<close>

definition granted_together :: "string \<Rightarrow> Privilege list \<Rightarrow> Privilege \<Rightarrow> string" where
  "granted_together grantee ps p =
     ''GRANT '' @ baseString (p\<lparr>p_Name := Join (group_names ps (groupKey_of p)) '', ''\<rparr>) @ '' TO '' @ grantee @
     (if p_IsGrantable p
      then if p_Type p = SystemPrivilegeType then '' WITH ADMIN OPTION'' else '' WITH GRANT OPTION''
      else [])"

definition revoked_together :: "string \<Rightarrow> Privilege list \<Rightarrow> Privilege \<Rightarrow> string" where
  "revoked_together grantee ps p =
     ''REVOKE '' @ baseString (p\<lparr>p_Name := Join (group_names ps (groupKey_of p)) '', ''\<rparr>) @ '' FROM '' @ grantee"

lemma grant_query_group:
  "dot_safe p \<Longrightarrow> grant_query grantee (group_of (groupKey_of p, group_names ps (groupKey_of p))) = granted_together grantee ps p"
  by (simp add: grant_query_def granted_together_def group_of_body)

lemma groups_set:
  "perm_order ord \<Longrightarrow> set (groupPrivilegesByTypeAndIdentifier ord ps) =
     (\<lambda>p. group_of (groupKey_of p, group_names ps (groupKey_of p))) ` set ps"
  using groups_partition [of ps]
  by (simp add: groupPrivilegesByTypeAndIdentifier_def perm_order_set image_image)

lemma groups_length:
  "perm_order ord \<Longrightarrow> length (groupPrivilegesByTypeAndIdentifier ord ps) = card (groupKey_of ` set ps)"
proof -
  assume o: "perm_order ord"
  have "length (groupsMap_from [] ps) = card (fst ` set (groupsMap_from [] ps))"
    using groups_partition [of ps] by (metis distinct_card length_map list.set_map)
  also have "fst ` set (groupsMap_from [] ps) = groupKey_of ` set ps"
    using groups_partition [of ps] by (simp add: image_image)
  finally show ?thesis
    using o by (simp add: groupPrivilegesByTypeAndIdentifier_def perm_order_length)
qed


lemma sample_name: "is_name ''SELECT''" "is_name ''INSERT''"
  by (simp_all add: is_name_def is_letter_def rx_space_def uwords_def ToUpper_def upper_char_def)




end
