(* ===== verification/ExternalClients.thy ===== *)
theory ExternalClients
  imports PrivilegeClient
begin

text \<open>
  What every controller has in common: the Kubernetes API as the controllers read it, the
  function \<open>Connect\<close> of the connectors, and the interface \<open>managed.ExternalClient\<close> with its
  four handlers.

  A handler gets the managed resource and the world and returns its result, the resource with
  the changes it made to it, and the new world. On an error a handler returns the zero value
  beside it, so a result is an error or a value. The runtime decides when a handler is called;
  \<open>reachable\<close> allows every sequence of calls, with anything happening to the rest of the world
  in between.
\<close>

section \<open>The Kubernetes API\<close>

text \<open>
  The API server is not part of the program; it is a record of functions. A read takes the
  namespace and the name of an object (cluster-scoped objects have the namespace \<open>''''\<close>). The
  data of a secret is a map.
\<close>

record 'w Kube =
  GetProviderConfig :: "string \<Rightarrow> 'w \<Rightarrow> error + ProviderConfig"
  GetSecret :: "string \<Rightarrow> string \<Rightarrow> 'w \<Rightarrow> error + gomap"
  GetX509Provider :: "string \<Rightarrow> string \<Rightarrow> 'w \<Rightarrow> error + X509Provider"
  ListUsers :: "'w \<Rightarrow> error + User list"
  Track :: "Managed \<Rightarrow> 'w \<Rightarrow> error option \<times> 'w"

section \<open>Connect\<close>

text \<open>
  The texts with which the connectors of the SQL resources differ: the error for a resource of
  another kind, and the prefixes of the wrapped errors.
\<close>

record connect_texts =
  errNotKind :: string
  errTrackPCUsage :: string
  errGetPC :: string
  errNoSecretRef :: string
  errGetSecret :: string
  errConnect :: string

text \<open>
  The body of \<open>Connect\<close> after the type assertion; \<open>ref\<close> is the provider configuration the
  resource refers to, and dereferencing a missing one panics. \<open>dbConnect\<close> is the connector of
  \<open>hana.go\<close>. The result is the connection with the user name of the credentials.
\<close>

definition connect_sql ::
  "connect_texts \<Rightarrow> 'w Kube \<Rightarrow> (gomap \<Rightarrow> 'w \<Rightarrow> (error + 'db) \<times> 'w) \<Rightarrow> Managed \<Rightarrow> string option \<Rightarrow> 'w \<Rightarrow>
     (error + 'db \<times> string) \<times> 'w" where
  "connect_sql t kube dbConnect mg ref w =
     (case Track kube mg w of
        (Some err, w1) \<Rightarrow> (Inl (Wrapped (errTrackPCUsage t) err), w1)
      | (None, w1) \<Rightarrow>
      (case ref of
         None \<Rightarrow> (Inl (Panic ''nil pointer dereference''), w1)
       | Some name \<Rightarrow>
      (case GetProviderConfig kube name w1 of
         Inl err \<Rightarrow> (Inl (Wrapped (errGetPC t) err), w1)
       | Inr pc \<Rightarrow>
      (case pc_ConnectionSecretRef pc of
         None \<Rightarrow> (Inl (ErrorString (errNoSecretRef t)), w1)
       | Some sref \<Rightarrow>
      (case GetSecret kube (sr_Namespace sref) (sr_Name sref) w1 of
         Inl err \<Rightarrow> (Inl (Wrapped (errGetSecret t) err), w1)
       | Inr data \<Rightarrow>
           let username = (case gomap_get data ''username'' of None \<Rightarrow> [] | Some u \<Rightarrow> u)
           in case dbConnect data w1 of
                (Inl err, w2) \<Rightarrow> (Inl (Wrapped (errConnect t) err), w2)
              | (Inr conn, w2) \<Rightarrow> (Inr (conn, username), w2))))))"

section \<open>Handlers\<close>

record ExternalObservation =
  ResourceExists :: bool
  ResourceUpToDate :: bool

text \<open>The connection details of a creation; an update and a deletion return none.\<close>

type_synonym ConnectionDetails = gomap

type_synonym ('r, 'w) handler = "Managed \<Rightarrow> 'w \<Rightarrow> (error + 'r) \<times> Managed \<times> 'w"

definition absent :: ExternalObservation where
  "absent = \<lparr>ResourceExists = False, ResourceUpToDate = False\<rparr>"

definition present :: "bool \<Rightarrow> ExternalObservation" where
  "present upToDate = \<lparr>ResourceExists = True, ResourceUpToDate = upToDate\<rparr>"

text \<open>An error of the client, wrapped, or the value of the handler.\<close>

definition result :: "string \<Rightarrow> 'r \<Rightarrow> error option \<Rightarrow> error + 'r" where
  "result m r err = (case err of None \<Rightarrow> Inr r | Some e \<Rightarrow> Inl (Wrapped m e))"

lemma result_simps [simp]: "result m r None = Inr r" "result m r (Some e) = Inl (Wrapped m e)"
  by (simp_all add: result_def)

text \<open>The result of a handler that returns nothing but an error.\<close>

definition outcome :: "error option \<Rightarrow> error + unit" where
  "outcome err = (case err of None \<Rightarrow> Inr () | Some e \<Rightarrow> Inl e)"

lemma outcome_simps [simp]: "outcome None = Inr ()" "outcome (Some e) = Inl e"
  by (simp_all add: outcome_def)

text \<open>\<open>errors.Wrap\<close> around an operation that can panic: a panic passes through.\<close>

fun errors_Wrap :: "string \<Rightarrow> error \<Rightarrow> error" where
  "errors_Wrap m (Panic t) = Panic t"
| "errors_Wrap m e = Wrapped m e"

section \<open>Updates in steps\<close>

text \<open>
  An \<open>Update\<close> handler is a sequence of steps, each of which returns an error or the resource with
  its part of the status updated; the first error ends the handler.
\<close>

type_synonym ('cr, 'w) update_step = "'cr \<Rightarrow> 'w \<Rightarrow> error option \<times> 'cr \<times> 'w"

fun run_steps :: "('cr, 'w) update_step list \<Rightarrow> ('cr, 'w) update_step" where
  "run_steps [] cr w = (None, cr, w)"
| "run_steps (f # fs) cr w =
     (case f cr w of
        (Some err, cr', w') \<Rightarrow> (Some err, cr', w')
      | (None, cr', w') \<Rightarrow> run_steps fs cr' w')"

lemma run_steps_invariant:
  assumes "\<And>f cr w. f \<in> set fs \<Longrightarrow> P cr \<Longrightarrow> P (fst (snd (f cr w)))" and "P cr"
  shows "P (fst (snd (run_steps fs cr w)))"
  using assms
proof (induction fs cr w rule: run_steps.induct)
  case (2 f fs cr w)
  obtain err cr' w' where f: "f cr w = (err, cr', w')" by (metis prod_cases3)
  have "P cr'" using "2.prems"(1) [of f cr w] "2.prems"(2) f by simp
  then show ?case using 2 f by (cases err) auto
qed simp

text \<open>Steps that agree, and stay, on the worlds of a set run alike.\<close>

lemma run_steps_agree:
  assumes "list_all2 (\<lambda>f g. \<forall>cr w. V w \<longrightarrow> f cr w = g cr w \<and> V (snd (snd (g cr w)))) fs gs" and "V w"
  shows "run_steps fs cr w = run_steps gs cr w"
  using assms
proof (induction fs gs arbitrary: cr w rule: list_all2_induct)
  case (Cons f fs g gs)
  obtain e cr' w' where g: "g cr w = (e, cr', w')" by (metis prod_cases3)
  have "f cr w = g cr w \<and> V (snd (snd (g cr w)))" using Cons.hyps(1) Cons.prems by blast
  then have "f cr w = g cr w" "V w'" using g by simp_all
  then show ?case using g Cons.IH [of w' cr'] by (cases e) auto
qed simp

text \<open>
  The common form of a step: it executes a plan, which may depend on the resource, and when no
  statement fails it writes its part of the status. A sequence of such steps executes the plans one
  after the other, provided that no plan looks at a part of the status that an earlier step wrote.
\<close>

definition status_step :: "'w DB \<Rightarrow> ('cr \<Rightarrow> plan) \<Rightarrow> ('cr \<Rightarrow> 'cr) \<Rightarrow> ('cr, 'w) update_step" where
  "status_step db P f cr w =
     (let r = run_plan db (P cr) w in (fst r, if fst r = None then f cr else cr, snd r))"

fun undisturbed :: "(('cr \<Rightarrow> plan) \<times> ('cr \<Rightarrow> 'cr)) list \<Rightarrow> bool" where
  "undisturbed [] = True"
| "undisturbed ((P, f) # xs) = ((\<forall>x \<in> set xs. \<forall>cr. fst x (f cr) = fst x cr) \<and> undisturbed xs)"

definition plans_of :: "(('cr \<Rightarrow> plan) \<times> ('cr \<Rightarrow> 'cr)) list \<Rightarrow> 'cr \<Rightarrow> plan" where
  "plans_of xs cr = foldr plan_then (map (\<lambda>x. fst x cr) xs) plan_skip"

lemma run_status_steps:
  assumes "undisturbed xs"
  shows "fst (run_steps (map (\<lambda>x. status_step db (fst x) (snd x)) xs) cr w) = fst (run_plan db (plans_of xs cr) w)
    \<and> snd (snd (run_steps (map (\<lambda>x. status_step db (fst x) (snd x)) xs) cr w)) = snd (run_plan db (plans_of xs cr) w)
    \<and> (fst (run_plan db (plans_of xs cr) w) = None \<longrightarrow>
        fst (snd (run_steps (map (\<lambda>x. status_step db (fst x) (snd x)) xs) cr w)) = fold snd xs cr)"
  using assms
proof (induction xs arbitrary: cr w rule: undisturbed.induct)
  case 1
  then show ?case by (simp add: plans_of_def go_plan)
next
  case (2 P f xs)
  obtain e w' where r: "run_plan db (P cr) w = (e, w')" by (cases "run_plan db (P cr) w")
  have pl: "plans_of ((P, f) # xs) cr = plan_then (P cr) (plans_of xs cr)" by (simp add: plans_of_def)
  have "map (\<lambda>x. fst x (f cr)) xs = map (\<lambda>x. fst x cr) xs" using "2.prems" by simp
  then have pf: "plans_of xs (f cr) = plans_of xs cr" unfolding plans_of_def by (rule arg_cong)
  show ?case
  proof (cases e)
    case None
    then show ?thesis
      using "2.IH" [of "f cr" w'] "2.prems" r
      by (simp add: pl pf run_plan_then status_step_def Let_def)
  next
    case (Some err)
    then show ?thesis using r by (simp add: pl run_plan_then status_step_def Let_def)
  qed
qed

text \<open>The four handlers of one connected client.\<close>

record 'w ExternalClient =
  Observe :: "(ExternalObservation, 'w) handler"
  Create :: "(ConnectionDetails, 'w) handler"
  Update :: "(unit, 'w) handler"
  Delete :: "(unit, 'w) handler"

datatype call = CallObserve | CallCreate | CallUpdate | CallDelete

definition after_call :: "'w ExternalClient \<Rightarrow> call \<Rightarrow> Managed \<Rightarrow> 'w \<Rightarrow> Managed \<times> 'w" where
  "after_call c k mg w = (case k of
     CallObserve \<Rightarrow> snd (Observe c mg w)
   | CallCreate \<Rightarrow> snd (Create c mg w)
   | CallUpdate \<Rightarrow> snd (Update c mg w)
   | CallDelete \<Rightarrow> snd (Delete c mg w))"

text \<open>
  The states of a resource and the world that a sequence of calls can reach. Between two calls
  the world changes in any way (\<open>Elsewhere\<close>): other controllers, other sessions of the database,
  other clients of the API server.
\<close>

inductive reachable :: "'w ExternalClient \<Rightarrow> Managed \<times> 'w \<Rightarrow> Managed \<times> 'w \<Rightarrow> bool"
  for c :: "'w ExternalClient" where
  Start: "reachable c s s"
| Called: "reachable c s (mg, w) \<Longrightarrow> reachable c s (after_call c k mg w)"
| Elsewhere: "reachable c s (mg, w) \<Longrightarrow> reachable c s (mg, w')"

inductive_cases reachableE: "reachable c s t"

section \<open>The interface managed.ExternalClient\<close>

text \<open>
  What the runtime relies on. \<open>M\<close> makes a managed resource of the controller's own kind, \<open>sp\<close> is
  the desired state in it, \<open>conds\<close> the conditions set so far. A handler refuses every other
  resource without any effect; it never changes the kind or the desired state; and conditions are
  only added.
\<close>

locale managed_client =
  fixes c :: "'w ExternalClient" and M :: "'cr \<Rightarrow> Managed" and sp :: "'cr \<Rightarrow> 's"
    and conds :: "'cr \<Rightarrow> Condition list" and e :: error
  assumes refuses:
      "(\<And>cr. mg \<noteq> M cr) \<Longrightarrow> Observe c mg w = (Inl e, mg, w)"
      "(\<And>cr. mg \<noteq> M cr) \<Longrightarrow> Create c mg w = (Inl e, mg, w)"
      "(\<And>cr. mg \<noteq> M cr) \<Longrightarrow> Delete c mg w = (Inl e, mg, w)"
      "(\<And>cr. mg \<noteq> M cr) \<Longrightarrow> snd (Update c mg w) = (mg, w)"
    and own_kind: "\<exists>cr' cs. fst (after_call c k (M cr) w) = M cr' \<and> sp cr' = sp cr \<and> conds cr' = conds cr @ cs"
begin

lemma call_other_kind: "(\<And>cr. mg \<noteq> M cr) \<Longrightarrow> after_call c k mg w = (mg, w)"
  using refuses [of mg w] by (cases k) (simp_all add: after_call_def)

lemma reachable_own:
  assumes "reachable c s t" and "fst s = M cr"
  shows "\<exists>cr' cs. fst t = M cr' \<and> sp cr' = sp cr \<and> conds cr' = conds cr @ cs"
  using assms
proof (induction rule: reachable.induct)
  case (Called s mg w k)
  then obtain cr1 cs1 where 1: "mg = M cr1" "sp cr1 = sp cr" "conds cr1 = conds cr @ cs1" by auto
  obtain cr2 cs2 where 2: "fst (after_call c k (M cr1) w) = M cr2" "sp cr2 = sp cr1" "conds cr2 = conds cr1 @ cs2"
    using own_kind [of k cr1 w] by blast
  then show ?case using 1 by auto
qed auto

lemma reachable_other_kind:
  assumes "reachable c s t" and "\<And>cr. fst s \<noteq> M cr"
  shows "fst t = fst s"
  using assms
proof (induction rule: reachable.induct)
  case (Called s mg w k)
  have "mg = fst s" using Called.IH [OF Called.prems] by simp
  with Called.prems have "\<And>cr. mg \<noteq> M cr" by simp
  from call_other_kind [OF this, of k w] show ?case using \<open>mg = fst s\<close> by simp
qed auto

end

text \<open>
  The stronger contract of the controllers whose \<open>Delete\<close> announces itself before it tries to delete.
\<close>

locale external_client =
  fixes c :: "'w ExternalClient" and M :: "'cr \<Rightarrow> Managed" and sp :: "'cr \<Rightarrow> 's"
    and conds :: "'cr \<Rightarrow> Condition list" and e :: error
  assumes refuses_kind:
      "(\<And>cr. mg \<noteq> M cr) \<Longrightarrow> Observe c mg w = (Inl e, mg, w)"
      "(\<And>cr. mg \<noteq> M cr) \<Longrightarrow> Create c mg w = (Inl e, mg, w)"
      "(\<And>cr. mg \<noteq> M cr) \<Longrightarrow> Delete c mg w = (Inl e, mg, w)"
      "(\<And>cr. mg \<noteq> M cr) \<Longrightarrow> snd (Update c mg w) = (mg, w)"
    and keeps: "\<exists>cr' cs. fst (after_call c k (M cr) w) = M cr' \<and> sp cr' = sp cr \<and>
        conds cr' = conds cr @ cs \<and> (k = CallDelete \<longrightarrow> cs = [Deleting])"

sublocale external_client < managed_client c M sp conds e
proof (unfold_locales, goal_cases)
  case (5 k cr w)
  show ?case using keeps [of k cr w] by blast
qed (rule refuses_kind; assumption)+

context external_client
begin

text \<open>Once deleting was announced the announcement stays.\<close>

lemma deleting_announced:
  assumes "reachable c (after_call c CallDelete (M cr) w) t"
  shows "\<exists>cr'. fst t = M cr' \<and> sp cr' = sp cr \<and> Deleting \<in> set (conds cr')"
proof -
  obtain cr1 where 1: "fst (after_call c CallDelete (M cr) w) = M cr1" "sp cr1 = sp cr"
      "conds cr1 = conds cr @ [Deleting]"
    using keeps [of CallDelete cr w] by auto
  show ?thesis using reachable_own [OF assms 1(1)] 1 by auto
qed

end

text \<open>A handler as a record, for the controllers' interpretations.\<close>

lemma after_call_simps [simp]:
  "after_call \<lparr>Observe = ob, Create = cr, Update = up, Delete = de\<rparr> CallObserve mg w = snd (ob mg w)"
  "after_call \<lparr>Observe = ob, Create = cr, Update = up, Delete = de\<rparr> CallCreate mg w = snd (cr mg w)"
  "after_call \<lparr>Observe = ob, Create = cr, Update = up, Delete = de\<rparr> CallUpdate mg w = snd (up mg w)"
  "after_call \<lparr>Observe = ob, Create = cr, Update = up, Delete = de\<rparr> CallDelete mg w = snd (de mg w)"
  by (simp_all add: after_call_def)

end
