(* ===== verification/Rolegroup.thy ===== *)
theory Rolegroup
  imports ExternalClients
begin

text \<open>
  Role groups: the client \<open>internal/clients/hana/rolegroup\<close> and the controller
  \<open>internal/controller/rolegroup\<close>. The value a client's \<open>Read\<close> returns beside an error is dropped by
  its caller, so the result is an error or an observation.
\<close>

section \<open>Client\<close>

definition rolegroup_Read ::
  "'w DB \<Rightarrow> RolegroupParameters \<Rightarrow> 'w \<Rightarrow> (error + RolegroupObservation) \<times> 'w" where
  "rolegroup_Read db parameters w =
     (let query = ''SELECT ROLEGROUP_NAME, IS_ROLE_ADMIN_ENABLED FROM SYS.ROLEGROUPS WHERE ROLEGROUP_NAME = ?''
      in case query_row db query [gp_RolegroupName parameters] (scan2 scan_string scan_string) w of
           (Inl err, w') \<Rightarrow>
             if IsNoRows (Some err) then (Inr \<lparr>go_RolegroupName = [], go_DisableRoleAdmin = False\<rparr>, w')
             else (Inl err, w')
         | (Inr (name, isRoleAdminEnabled), w') \<Rightarrow>
             (Inr \<lparr>go_RolegroupName = name, go_DisableRoleAdmin = (isRoleAdminEnabled = ''FALSE'')\<rparr>, w'))"

definition rolegroup_create_query :: "RolegroupParameters \<Rightarrow> string" where
  "rolegroup_create_query parameters =
     (let query = ''CREATE ROLEGROUP '' @ [dq] @ EscapeDoubleQuotes (gp_RolegroupName parameters) @ [dq];
          query = (if gp_ForGrantsOnTenantObjects parameters then query @ '' FOR GRANTS ON TENANT OBJECTS'' else query)
      in if gp_NoGrantToCreator parameters then query @ '' NO GRANT TO CREATOR''
         else if \<not> gp_DisableRoleAdmin parameters then query @ '' ENABLE ROLE ADMIN''
         else query)"

definition rolegroup_Create :: "'w DB \<Rightarrow> RolegroupParameters \<Rightarrow> 'w \<Rightarrow> error option \<times> 'w" where
  "rolegroup_Create db parameters w = ExecContext db (rolegroup_create_query parameters) w"

definition UpdateDisableRoleAdmin :: "'w DB \<Rightarrow> RolegroupParameters \<Rightarrow> 'w \<Rightarrow> error option \<times> 'w" where
  "UpdateDisableRoleAdmin db parameters w =
     (let query = ''ALTER ROLEGROUP '' @ [dq] @ EscapeDoubleQuotes (gp_RolegroupName parameters) @ [dq];
          query = (if gp_DisableRoleAdmin parameters then query @ '' DISABLE ROLE ADMIN''
                   else query @ '' ENABLE ROLE ADMIN'')
      in wrap_err ''failed to update disable role admin: '' (ExecContext db query w))"

definition rolegroup_Delete :: "'w DB \<Rightarrow> RolegroupParameters \<Rightarrow> 'w \<Rightarrow> error option \<times> 'w" where
  "rolegroup_Delete db parameters w =
     ExecContext db (''DROP ROLEGROUP '' @ [dq] @ EscapeDoubleQuotes (gp_RolegroupName parameters) @ [dq]) w"

section \<open>Controller\<close>

definition errNotRolegroup :: string where
  "errNotRolegroup = ''managed resource is not a rolegroup custom resource''"

definition rolegroup_texts :: connect_texts where
  "rolegroup_texts = \<lparr>errNotKind = errNotRolegroup,
     errTrackPCUsage = ''cannot track ProviderConfig usage: '', errGetPC = ''cannot get ProviderConfig: '',
     errNoSecretRef = ''ProviderConfig does not reference a credentials Secret'',
     errGetSecret = ''cannot get credentials Secret: '', errConnect = ''cannot connect to HANA DB: ''\<rparr>"

definition rolegroup_Connect ::
  "'w Kube \<Rightarrow> (gomap \<Rightarrow> 'w \<Rightarrow> (error + 'w DB) \<times> 'w) \<Rightarrow> Managed \<Rightarrow> 'w \<Rightarrow> (error + 'w DB) \<times> 'w" where
  "rolegroup_Connect kube dbConnect mg w = (case mg of
     MRolegroup cr \<Rightarrow>
       map_prod (map_sum id fst) id
         (connect_sql rolegroup_texts kube dbConnect mg (providerConfigReference cr) w)
   | _ \<Rightarrow> (Inl (ErrorString errNotRolegroup), w))"

definition rolegroup_buildDesiredParameters :: "Rolegroup \<Rightarrow> RolegroupParameters" where
  "rolegroup_buildDesiredParameters cr = (let fp = rolegroup_ForProvider cr in
     \<lparr>gp_RolegroupName = gp_RolegroupName fp, gp_DisableRoleAdmin = gp_DisableRoleAdmin fp,
      gp_NoGrantToCreator = gp_NoGrantToCreator fp, gp_ForGrantsOnTenantObjects = gp_ForGrantsOnTenantObjects fp\<rparr>)"

definition rolegroup_upToDate :: "RolegroupObservation \<Rightarrow> RolegroupParameters \<Rightarrow> bool" where
  "rolegroup_upToDate observed desired = (go_DisableRoleAdmin observed = gp_DisableRoleAdmin desired)"

definition rolegroup_Observe :: "'w DB \<Rightarrow> (ExternalObservation, 'w) handler" where
  "rolegroup_Observe db mg w = (case mg of
     MRolegroup cr \<Rightarrow>
       let parameters = rolegroup_buildDesiredParameters cr in
       (case rolegroup_Read db parameters w of
          (Inl err, w') \<Rightarrow> (Inl (Wrapped ''cannot select rolegroup: '' err), mg, w')
        | (Inr observed, w') \<Rightarrow>
            if go_RolegroupName observed \<noteq> gp_RolegroupName parameters then (Inr absent, mg, w')
            else
              let cr = cr\<lparr>rolegroup_AtProvider := (rolegroup_AtProvider cr)
                    \<lparr>go_RolegroupName := go_RolegroupName observed, go_DisableRoleAdmin := go_DisableRoleAdmin observed\<rparr>\<rparr>;
                  cr = SetConditions Available cr
              in (Inr (present (rolegroup_upToDate observed parameters)), MRolegroup cr, w'))
   | _ \<Rightarrow> (Inl (ErrorString errNotRolegroup), mg, w))"

definition rolegroup_controller_Create :: "'w DB \<Rightarrow> (ConnectionDetails, 'w) handler" where
  "rolegroup_controller_Create db mg w = (case mg of
     MRolegroup cr \<Rightarrow>
       let cr = SetConditions Creating cr;
           parameters = rolegroup_buildDesiredParameters cr in
       (case rolegroup_Create db parameters w of
          (Some err, w') \<Rightarrow> (Inl (Wrapped ''cannot create rolegroup: '' err), MRolegroup cr, w')
        | (None, w') \<Rightarrow>
            let cr = cr\<lparr>rolegroup_AtProvider := (rolegroup_AtProvider cr)
                  \<lparr>go_RolegroupName := gp_RolegroupName parameters, go_DisableRoleAdmin := gp_DisableRoleAdmin parameters\<rparr>\<rparr>
            in (Inr [], MRolegroup cr, w'))
   | _ \<Rightarrow> (Inl (ErrorString errNotRolegroup), mg, w))"

definition rolegroup_controller_Update :: "'w DB \<Rightarrow> (unit, 'w) handler" where
  "rolegroup_controller_Update db mg w = (case mg of
     MRolegroup cr \<Rightarrow>
       let parameters = rolegroup_buildDesiredParameters cr in
       if go_DisableRoleAdmin (rolegroup_AtProvider cr) \<noteq> gp_DisableRoleAdmin parameters then
         (case UpdateDisableRoleAdmin db parameters w of
            (Some err, w') \<Rightarrow> (Inl (Wrapped ''cannot update rolegroup: '' err), mg, w')
          | (None, w') \<Rightarrow>
              (Inr (), MRolegroup (cr\<lparr>rolegroup_AtProvider := (rolegroup_AtProvider cr)
                 \<lparr>go_DisableRoleAdmin := gp_DisableRoleAdmin parameters\<rparr>\<rparr>), w'))
       else (Inr (), mg, w)
   | _ \<Rightarrow> (Inl (ErrorString errNotRolegroup), mg, w))"

definition rolegroup_controller_Delete :: "'w DB \<Rightarrow> (unit, 'w) handler" where
  "rolegroup_controller_Delete db mg w = (case mg of
     MRolegroup cr \<Rightarrow>
       let parameters = \<lparr>gp_RolegroupName = gp_RolegroupName (rolegroup_ForProvider cr), gp_DisableRoleAdmin = False,
             gp_NoGrantToCreator = False, gp_ForGrantsOnTenantObjects = False\<rparr>;
           cr = SetConditions Deleting cr;
           (err, w') = rolegroup_Delete db parameters w
       in (result ''cannot drop rolegroup: '' () err, MRolegroup cr, w')
   | _ \<Rightarrow> (Inl (ErrorString errNotRolegroup), mg, w))"

definition rolegroup_external :: "'w DB \<Rightarrow> 'w ExternalClient" where
  "rolegroup_external db = \<lparr>Observe = rolegroup_Observe db, Create = rolegroup_controller_Create db,
     Update = rolegroup_controller_Update db, Delete = rolegroup_controller_Delete db\<rparr>"

section \<open>Interfaces\<close>

lemma rolegroup_Read_pure [go_effect]: "reads_only db \<Longrightarrow> snd (rolegroup_Read db p w) = w"
  by (auto simp: rolegroup_Read_def Let_def split: prod.split sum.split dest: query_row_pureD)

interpretation rolegroup: query_client rolegroup_Read rolegroup_Create rolegroup_Delete
  "\<lambda>p. plan_exec (rolegroup_create_query p)"
  "\<lambda>p. plan_exec (''DROP ROLEGROUP '' @ [dq] @ EscapeDoubleQuotes (gp_RolegroupName p) @ [dq])"
  by unfold_locales (auto simp: go_effect go_plan rolegroup_Create_def rolegroup_Delete_def)

lemmas rolegroup_handlers = rolegroup_external_def rolegroup_Observe_def rolegroup_controller_Create_def
  rolegroup_controller_Update_def rolegroup_controller_Delete_def

lemma rolegroup_keeps:
  "\<exists>cr' cs. fst (after_call (rolegroup_external db) k (MRolegroup cr) w) = MRolegroup cr' \<and>
     rolegroup_ForProvider cr' = rolegroup_ForProvider cr \<and> set_conditions cr' = set_conditions cr @ cs \<and>
     (k = CallDelete \<longrightarrow> cs = [Deleting])"
  by (cases k)
     (auto simp: rolegroup_handlers SetConditions_def Let_def split: prod.split sum.split option.split)

interpretation rolegroup_client: external_client "rolegroup_external db" MRolegroup rolegroup_ForProvider
  set_conditions "ErrorString errNotRolegroup" for db :: "'w DB"
proof (unfold_locales, goal_cases)
  case 5
  show ?case by (rule rolegroup_keeps)
qed (auto simp: rolegroup_handlers split: Managed.splits)

section \<open>Properties\<close>

lemma rolegroup_desired [simp]: "rolegroup_buildDesiredParameters cr = rolegroup_ForProvider cr"
  by (simp add: rolegroup_buildDesiredParameters_def Let_def)

lemma rolegroup_update_quiet:
  "rolegroup_upToDate (rolegroup_AtProvider cr) (rolegroup_ForProvider cr) \<Longrightarrow>
   rolegroup_controller_Update db (MRolegroup cr) w = (Inr (), MRolegroup cr, w)"
  by (simp add: rolegroup_controller_Update_def rolegroup_upToDate_def)

text \<open>The statement that brings a role group to the desired setting.\<close>

definition rolegroup_alter :: "RolegroupParameters \<Rightarrow> string" where
  "rolegroup_alter p = ''ALTER ROLEGROUP '' @ dquoted (gp_RolegroupName p) @
     (if gp_DisableRoleAdmin p then '' DISABLE ROLE ADMIN'' else '' ENABLE ROLE ADMIN'')"

text \<open>
  C9. Updating a role group. When the status agrees with the specification, \<open>Update\<close> executes
  nothing and changes nothing. Otherwise it executes exactly one statement, which alters this
  role group to the desired setting; when that succeeds the status agrees with the specification
  (and the next \<open>Update\<close> is quiet), and when it fails the error is reported with its cause and
  the status is unchanged.
\<close>

theorem rolegroup_update_converges:
  "if rolegroup_upToDate (rolegroup_AtProvider cr) (rolegroup_ForProvider cr)
    then rolegroup_controller_Update db (MRolegroup cr) w = (Inr (), MRolegroup cr, w)
    else (case ExecContext db (rolegroup_alter (rolegroup_ForProvider cr)) w of
       (Some err, w') \<Rightarrow> rolegroup_controller_Update db (MRolegroup cr) w =
          (Inl (Wrapped ''cannot update rolegroup: '' (Wrapped ''failed to update disable role admin: '' err)), MRolegroup cr, w')
     | (None, w') \<Rightarrow> (\<exists>cr'. rolegroup_controller_Update db (MRolegroup cr) w = (Inr (), MRolegroup cr', w')
          \<and> rolegroup_ForProvider cr' = rolegroup_ForProvider cr
          \<and> rolegroup_upToDate (rolegroup_AtProvider cr') (rolegroup_ForProvider cr')
          \<and> (\<forall>w2. rolegroup_controller_Update db (MRolegroup cr') w2 = (Inr (), MRolegroup cr', w2))))"
proof (cases "rolegroup_upToDate (rolegroup_AtProvider cr) (rolegroup_ForProvider cr)")
  case True
  then show ?thesis by (simp add: rolegroup_update_quiet)
next
  case False
  let ?cr' = "cr\<lparr>rolegroup_AtProvider := (rolegroup_AtProvider cr)
     \<lparr>go_DisableRoleAdmin := gp_DisableRoleAdmin (rolegroup_ForProvider cr)\<rparr>\<rparr>"
  have u: "rolegroup_controller_Update db (MRolegroup cr) w =
     (case ExecContext db (rolegroup_alter (rolegroup_ForProvider cr)) w of
        (Some err, w') \<Rightarrow> (Inl (Wrapped ''cannot update rolegroup: '' (Wrapped ''failed to update disable role admin: '' err)), MRolegroup cr, w')
      | (None, w') \<Rightarrow> (Inr (), MRolegroup ?cr', w'))"
    using False
    by (auto simp: rolegroup_controller_Update_def UpdateDisableRoleAdmin_def rolegroup_upToDate_def
        wrap_err_def rolegroup_alter_def dquoted_def split: prod.split option.split)
  have up: "rolegroup_upToDate (rolegroup_AtProvider ?cr') (rolegroup_ForProvider ?cr')"
    by (simp add: rolegroup_upToDate_def)
  show ?thesis
    using False up u rolegroup_update_quiet [OF up] by (auto split: prod.split option.split)
qed

end
