(* ===== verification/Usergroup.thy ===== *)
theory Usergroup
  imports ExternalClients
begin

text \<open>
  User groups: the client \<open>internal/clients/hana/usergroup\<close> and the controller
  \<open>internal/controller/usergroup\<close>.
\<close>

section \<open>Client\<close>

text \<open>A row whose values cannot be scanned is passed over.\<close>

fun collect_parameters :: "gomap \<Rightarrow> sqlval list list \<Rightarrow> gomap" where
  "collect_parameters m [] = m"
| "collect_parameters m (row # rows) =
     (case scan3 scan_string scan_string scan_string row of
        Inl _ \<Rightarrow> collect_parameters m rows
      | Inr (name, parameter, value) \<Rightarrow> collect_parameters (gomap_set m parameter value) rows)"

definition usergroup_Read ::
  "'w DB \<Rightarrow> UsergroupParameters \<Rightarrow> 'w \<Rightarrow> (error + UsergroupObservation) \<times> 'w" where
  "usergroup_Read db parameters w =
     (let query = ''SELECT USERGROUP_NAME, IS_USER_ADMIN_ENABLED FROM SYS.USERGROUPS WHERE USERGROUP_NAME = ?''
      in case query_row db query [ugp_UsergroupName parameters] (scan2 scan_string scan_string) w of
           (Inl err, w') \<Rightarrow>
             if IsNoRows (Some err)
             then (Inr \<lparr>ugo_UsergroupName = [], ugo_DisableUserAdmin = False, ugo_Parameters = []\<rparr>, w')
             else (Inl err, w')
         | (Inr (name, disableUserAdminString), w') \<Rightarrow>
             let queryParams = ''SELECT USERGROUP_NAME, PARAMETER_NAME, PARAMETER_VALUE '' @
                   ''FROM SYS.USERGROUP_PARAMETERS WHERE USERGROUP_NAME = ?''
             in case QueryContext db queryParams [ugp_UsergroupName parameters] w' of
                  (Inl err, w'') \<Rightarrow> (Inl err, w'')
                | (Inr rows, w'') \<Rightarrow>
                    (case rows_Err rows of
                       Some err \<Rightarrow> (Inl err, w'')
                     | None \<Rightarrow>
                         (Inr \<lparr>ugo_UsergroupName = name,
                               ugo_DisableUserAdmin = (disableUserAdminString = ''FALSE''),
                               ugo_Parameters = collect_parameters [] (rows_data rows)\<rparr>, w'')))"

text \<open>A clause \<open>SET PARAMETER\<close>; \<open>q\<close> is what happens to a key and a value before they are quoted.\<close>

definition set_parameter_clause :: "string \<Rightarrow> (string \<Rightarrow> string) \<Rightarrow> gomap \<Rightarrow> string" where
  "set_parameter_clause query q params =
     TrimSuffix (query @ '' SET PARAMETER'' @
       concat (map (\<lambda>(key, val). '' '' @ [sq] @ q key @ [sq] @ '' = '' @ [sq] @ q val @ [sq] @ '','') params)) '',''"

definition usergroup_create_query :: "UsergroupParameters \<Rightarrow> string" where
  "usergroup_create_query parameters =
     (let query = ''CREATE USERGROUP '' @ [dq] @ EscapeDoubleQuotes (ugp_UsergroupName parameters) @ [dq];
          query = (if ugp_DisableUserAdmin parameters then query @ '' DISABLE USER ADMIN'' else query);
          query = (if ugp_NoGrantToCreator parameters then query @ '' NO GRANT TO CREATOR'' else query);
          query = (if 0 < length (ugp_Parameters parameters)
                   then set_parameter_clause query EscapeSingleQuotes (ugp_Parameters parameters) else query)
      in if ugp_EnableParameterSet parameters \<noteq> []
         then query @ '' ENABLE PARAMETER SET '' @ [sq] @ ugp_EnableParameterSet parameters @ [sq]
         else query)"

definition usergroup_Create :: "'w DB \<Rightarrow> UsergroupParameters \<Rightarrow> 'w \<Rightarrow> error option \<times> 'w" where
  "usergroup_Create db parameters w = ExecContext db (usergroup_create_query parameters) w"

definition UpdateDisableUserAdmin :: "'w DB \<Rightarrow> UsergroupParameters \<Rightarrow> 'w \<Rightarrow> error option \<times> 'w" where
  "UpdateDisableUserAdmin db parameters w =
     (let query = ''ALTER USERGROUP '' @ [dq] @ EscapeDoubleQuotes (ugp_UsergroupName parameters) @ [dq];
          query = (if ugp_DisableUserAdmin parameters then query @ '' DISABLE USER ADMIN''
                   else query @ '' ENABLE USER ADMIN'')
      in wrap_err ''failed to update disable user admin: '' (ExecContext db query w))"

definition usergroup_UpdateParameters ::
  "'w DB \<Rightarrow> UsergroupParameters \<Rightarrow> gomap \<Rightarrow> 'w \<Rightarrow> error option \<times> 'w" where
  "usergroup_UpdateParameters db parameters changedParameters w =
     (let query = ''ALTER USERGROUP '' @ [dq] @ EscapeDoubleQuotes (ugp_UsergroupName parameters) @ [dq];
          query = set_parameter_clause query (\<lambda>s. s) changedParameters
      in wrap_err ''failed to update parameters: '' (ExecContext db query w))"

definition usergroup_Delete :: "'w DB \<Rightarrow> UsergroupParameters \<Rightarrow> 'w \<Rightarrow> error option \<times> 'w" where
  "usergroup_Delete db parameters w =
     ExecContext db (''DROP USERGROUP '' @ [dq] @ EscapeDoubleQuotes (ugp_UsergroupName parameters) @ [dq]) w"

section \<open>Controller\<close>

definition errNotUsergroup :: string where
  "errNotUsergroup = ''managed resource is not a usergroup custom resource''"

definition usergroup_texts :: connect_texts where
  "usergroup_texts = \<lparr>errNotKind = errNotUsergroup,
     errTrackPCUsage = ''cannot track ProviderConfig usage: '', errGetPC = ''cannot get ProviderConfig: '',
     errNoSecretRef = ''ProviderConfig does not reference a credentials Secret'',
     errGetSecret = ''cannot get credentials Secret: '', errConnect = ''cannot connect to HANA DB: ''\<rparr>"

definition usergroup_Connect ::
  "'w Kube \<Rightarrow> (gomap \<Rightarrow> 'w \<Rightarrow> (error + 'w DB) \<times> 'w) \<Rightarrow> Managed \<Rightarrow> 'w \<Rightarrow> (error + 'w DB) \<times> 'w" where
  "usergroup_Connect kube dbConnect mg w = (case mg of
     MUsergroup cr \<Rightarrow>
       map_prod (map_sum id fst) id
         (connect_sql usergroup_texts kube dbConnect mg (providerConfigReference cr) w)
   | _ \<Rightarrow> (Inl (ErrorString errNotUsergroup), w))"

definition usergroup_buildDesiredParameters :: "Usergroup \<Rightarrow> UsergroupParameters" where
  "usergroup_buildDesiredParameters cr = (let fp = usergroup_ForProvider cr in
     \<lparr>ugp_UsergroupName = ugp_UsergroupName fp, ugp_DisableUserAdmin = ugp_DisableUserAdmin fp,
      ugp_NoGrantToCreator = ugp_NoGrantToCreator fp, ugp_Parameters = ugp_Parameters fp,
      ugp_EnableParameterSet = ugp_EnableParameterSet fp\<rparr>)"

definition usergroup_upToDate :: "UsergroupObservation \<Rightarrow> UsergroupParameters \<Rightarrow> bool" where
  "usergroup_upToDate observed desired =
     (if ugo_DisableUserAdmin observed \<noteq> ugp_DisableUserAdmin desired then False
      else if 0 < length (MapDiffOnlyDesired (ugo_Parameters observed) (ugp_Parameters desired)) then False
      else True)"

definition usergroup_Observe :: "'w DB \<Rightarrow> (ExternalObservation, 'w) handler" where
  "usergroup_Observe db mg w = (case mg of
     MUsergroup cr \<Rightarrow>
       let parameters = usergroup_buildDesiredParameters cr in
       (case usergroup_Read db parameters w of
          (Inl err, w') \<Rightarrow> (Inl (Wrapped ''cannot select usergroup: '' err), mg, w')
        | (Inr observed, w') \<Rightarrow>
            if ugo_UsergroupName observed \<noteq> ugp_UsergroupName parameters then (Inr absent, mg, w')
            else
              let cr = cr\<lparr>usergroup_AtProvider := (usergroup_AtProvider cr)
                    \<lparr>ugo_UsergroupName := ugo_UsergroupName observed,
                     ugo_DisableUserAdmin := ugo_DisableUserAdmin observed,
                     ugo_Parameters := ugo_Parameters observed\<rparr>\<rparr>;
                  cr = SetConditions Available cr
              in (Inr (present (usergroup_upToDate observed parameters)), MUsergroup cr, w'))
   | _ \<Rightarrow> (Inl (ErrorString errNotUsergroup), mg, w))"

text \<open>After a creation the status says that the user administration is disabled, whatever was asked for.\<close>

definition usergroup_controller_Create :: "'w DB \<Rightarrow> (ConnectionDetails, 'w) handler" where
  "usergroup_controller_Create db mg w = (case mg of
     MUsergroup cr \<Rightarrow>
       let cr = SetConditions Creating cr;
           parameters = usergroup_buildDesiredParameters cr in
       (case usergroup_Create db parameters w of
          (Some err, w') \<Rightarrow> (Inl (Wrapped ''cannot create usergroup: '' err), MUsergroup cr, w')
        | (None, w') \<Rightarrow>
            let cr = cr\<lparr>usergroup_AtProvider := (usergroup_AtProvider cr)
                  \<lparr>ugo_UsergroupName := ugp_UsergroupName parameters, ugo_DisableUserAdmin := True,
                   ugo_Parameters := ugp_Parameters parameters\<rparr>\<rparr>
            in (Inr [], MUsergroup cr, w'))
   | _ \<Rightarrow> (Inl (ErrorString errNotUsergroup), mg, w))"

definition usergroup_set_admin :: "bool \<Rightarrow> Usergroup \<Rightarrow> Usergroup" where
  "usergroup_set_admin b cr =
     cr\<lparr>usergroup_AtProvider := (usergroup_AtProvider cr)\<lparr>ugo_DisableUserAdmin := b\<rparr>\<rparr>"

definition usergroup_set_parameters :: "gomap \<Rightarrow> Usergroup \<Rightarrow> Usergroup" where
  "usergroup_set_parameters m cr =
     cr\<lparr>usergroup_AtProvider := (usergroup_AtProvider cr)\<lparr>ugo_Parameters := m\<rparr>\<rparr>"

definition usergroup_controller_Update :: "'w DB \<Rightarrow> (unit, 'w) handler" where
  "usergroup_controller_Update db mg w = (case mg of
     MUsergroup cr \<Rightarrow>
       let parameters = usergroup_buildDesiredParameters cr in
       (case (if ugo_DisableUserAdmin (usergroup_AtProvider cr) \<noteq> ugp_DisableUserAdmin parameters
              then (case UpdateDisableUserAdmin db parameters w of
                      (Some err, w1) \<Rightarrow> (Some err, cr, w1)
                    | (None, w1) \<Rightarrow> (None, usergroup_set_admin (ugp_DisableUserAdmin parameters) cr, w1))
              else (None, cr, w)) of
          (Some err, cr, w1) \<Rightarrow> (Inl (Wrapped ''cannot update usergroup: '' err), MUsergroup cr, w1)
        | (None, cr, w1) \<Rightarrow>
            let observedParameters = ugo_Parameters (usergroup_AtProvider cr);
                desiredParameters = ugp_Parameters parameters;
                parametersToUpdate = MapDiffOnlyDesired observedParameters desiredParameters
            in if 0 < length parametersToUpdate
               then (case usergroup_UpdateParameters db parameters parametersToUpdate w1 of
                       (Some err, w2) \<Rightarrow> (Inl (Wrapped ''cannot update usergroup: '' err), MUsergroup cr, w2)
                     | (None, w2) \<Rightarrow>
                         (Inr (), MUsergroup (usergroup_set_parameters (ugp_Parameters parameters) cr), w2))
               else (Inr (), MUsergroup cr, w1))
   | _ \<Rightarrow> (Inl (ErrorString errNotUsergroup), mg, w))"

definition usergroup_controller_Delete :: "'w DB \<Rightarrow> (unit, 'w) handler" where
  "usergroup_controller_Delete db mg w = (case mg of
     MUsergroup cr \<Rightarrow>
       let parameters = \<lparr>ugp_UsergroupName = ugp_UsergroupName (usergroup_ForProvider cr),
             ugp_DisableUserAdmin = False, ugp_NoGrantToCreator = False, ugp_Parameters = [],
             ugp_EnableParameterSet = []\<rparr>;
           cr = SetConditions Deleting cr;
           (err, w') = usergroup_Delete db parameters w
       in (result ''cannot drop usergroup: '' () err, MUsergroup cr, w')
   | _ \<Rightarrow> (Inl (ErrorString errNotUsergroup), mg, w))"

definition usergroup_external :: "'w DB \<Rightarrow> 'w ExternalClient" where
  "usergroup_external db = \<lparr>Observe = usergroup_Observe db, Create = usergroup_controller_Create db,
     Update = usergroup_controller_Update db, Delete = usergroup_controller_Delete db\<rparr>"

section \<open>Interfaces\<close>

lemma usergroup_Read_pure [go_effect]: "reads_only db \<Longrightarrow> snd (usergroup_Read db p w) = w"
  by (auto simp: usergroup_Read_def Let_def split: prod.split sum.split option.split
      dest: query_row_pureD reads_only_Query)

interpretation usergroup: query_client usergroup_Read usergroup_Create usergroup_Delete
  "\<lambda>p. plan_exec (usergroup_create_query p)"
  "\<lambda>p. plan_exec (''DROP USERGROUP '' @ [dq] @ EscapeDoubleQuotes (ugp_UsergroupName p) @ [dq])"
  by unfold_locales (auto simp: go_effect go_plan usergroup_Create_def usergroup_Delete_def)

lemmas usergroup_handlers = usergroup_external_def usergroup_Observe_def usergroup_controller_Create_def
  usergroup_controller_Update_def usergroup_controller_Delete_def

lemma usergroup_keeps:
  "\<exists>cr' cs. fst (after_call (usergroup_external db) k (MUsergroup cr) w) = MUsergroup cr' \<and>
     usergroup_ForProvider cr' = usergroup_ForProvider cr \<and> set_conditions cr' = set_conditions cr @ cs \<and>
     (k = CallDelete \<longrightarrow> cs = [Deleting])"
  by (cases k)
     (auto simp: usergroup_handlers SetConditions_def usergroup_set_admin_def usergroup_set_parameters_def
       Let_def split: prod.split sum.split option.split)

interpretation usergroup_client: external_client "usergroup_external db" MUsergroup usergroup_ForProvider
  set_conditions "ErrorString errNotUsergroup" for db :: "'w DB"
proof (unfold_locales, goal_cases)
  case 5
  show ?case by (rule usergroup_keeps)
qed (auto simp: usergroup_handlers split: Managed.splits)

section \<open>Properties\<close>

lemma usergroup_desired [simp]: "usergroup_buildDesiredParameters cr = usergroup_ForProvider cr"
  by (simp add: usergroup_buildDesiredParameters_def Let_def)

text \<open>The statements that bring a user group from the status to the specification.\<close>

definition usergroup_alter :: "UsergroupParameters \<Rightarrow> string" where
  "usergroup_alter p = ''ALTER USERGROUP '' @ dquoted (ugp_UsergroupName p)"

definition usergroup_update_plan :: "UsergroupObservation \<Rightarrow> UsergroupParameters \<Rightarrow> plan" where
  "usergroup_update_plan observed desired =
     (let changed = MapDiffOnlyDesired (ugo_Parameters observed) (ugp_Parameters desired) in
      plan_wrap (Wrapped ''cannot update usergroup: '')
        (plan_then
          (if ugo_DisableUserAdmin observed = ugp_DisableUserAdmin desired then plan_skip
           else plan_wrap (Wrapped ''failed to update disable user admin: '')
             (plan_exec (usergroup_alter desired @
                (if ugp_DisableUserAdmin desired then '' DISABLE USER ADMIN'' else '' ENABLE USER ADMIN''))))
          (if changed = [] then plan_skip
           else plan_wrap (Wrapped ''failed to update parameters: '')
             (plan_exec (set_parameter_clause (usergroup_alter desired) (\<lambda>s. s) changed)))))"

lemma usergroup_Update_planned:
  "\<exists>cr'. usergroup_controller_Update db (MUsergroup cr) w =
     (outcome (fst (run_plan db (usergroup_update_plan (usergroup_AtProvider cr) (usergroup_ForProvider cr)) w)),
      MUsergroup cr',
      snd (run_plan db (usergroup_update_plan (usergroup_AtProvider cr) (usergroup_ForProvider cr)) w))
    \<and> (fst (run_plan db (usergroup_update_plan (usergroup_AtProvider cr) (usergroup_ForProvider cr)) w) = None \<longrightarrow>
        ugo_DisableUserAdmin (usergroup_AtProvider cr') = ugp_DisableUserAdmin (usergroup_ForProvider cr) \<and>
        ugo_Parameters (usergroup_AtProvider cr') =
          (if MapDiffOnlyDesired (ugo_Parameters (usergroup_AtProvider cr)) (ugp_Parameters (usergroup_ForProvider cr)) = []
           then ugo_Parameters (usergroup_AtProvider cr) else ugp_Parameters (usergroup_ForProvider cr)))"
  by (auto simp: usergroup_controller_Update_def usergroup_update_plan_def go_plan UpdateDisableUserAdmin_def
      usergroup_UpdateParameters_def usergroup_alter_def dquoted_def wrap_err_def outcome_def Let_def
      usergroup_set_admin_def usergroup_set_parameters_def and_then_def map_prod_def
      split: prod.splits option.splits if_splits)

lemma MapDiffOnlyDesired_self: "gomap_ok m \<Longrightarrow> MapDiffOnlyDesired m m = []"
  by (simp add: MapDiffOnlyDesired_Nil_iff)

text \<open>
  C10. Updating a user group executes the statements of its plan, in order, up to the first that
  fails: one that switches the user administration when the status differs there, and one that
  sets exactly the parameters the specification asks for and the status lacks or has with another
  value. If no statement fails, the status is up to date with the specification afterwards, and
  there is nothing to execute exactly when it was up to date before.
\<close>

theorem usergroup_update_converges:
  assumes "gomap_ok (ugp_Parameters (usergroup_ForProvider cr))"
    and "usergroup_controller_Update db (MUsergroup cr) w = (r, mg', w')"
  shows "(r, w') = map_prod outcome id (run_plan db (usergroup_update_plan (usergroup_AtProvider cr) (usergroup_ForProvider cr)) w)
    \<and> (r = Inr () \<longrightarrow> (\<exists>cr'. mg' = MUsergroup cr' \<and> usergroup_ForProvider cr' = usergroup_ForProvider cr
         \<and> usergroup_upToDate (usergroup_AtProvider cr') (usergroup_ForProvider cr)))
    \<and> (statements (usergroup_update_plan (usergroup_AtProvider cr) (usergroup_ForProvider cr)) = []
        \<longleftrightarrow> usergroup_upToDate (usergroup_AtProvider cr) (usergroup_ForProvider cr))"
proof -
  let ?p = "usergroup_update_plan (usergroup_AtProvider cr) (usergroup_ForProvider cr)"
  obtain cr' where u: "r = outcome (fst (run_plan db ?p w))" "mg' = MUsergroup cr'" "w' = snd (run_plan db ?p w)"
    and s: "fst (run_plan db ?p w) = None \<longrightarrow>
        ugo_DisableUserAdmin (usergroup_AtProvider cr') = ugp_DisableUserAdmin (usergroup_ForProvider cr) \<and>
        ugo_Parameters (usergroup_AtProvider cr') =
          (if MapDiffOnlyDesired (ugo_Parameters (usergroup_AtProvider cr)) (ugp_Parameters (usergroup_ForProvider cr)) = []
           then ugo_Parameters (usergroup_AtProvider cr) else ugp_Parameters (usergroup_ForProvider cr))"
    using usergroup_Update_planned [of db cr w] assms(2) by auto
  have fp: "usergroup_ForProvider cr' = usergroup_ForProvider cr"
    using usergroup_keeps [of db CallUpdate cr w] assms(2) u(2) by (simp add: usergroup_external_def)
  have "r = Inr () \<Longrightarrow> usergroup_upToDate (usergroup_AtProvider cr') (usergroup_ForProvider cr)"
    using s u(1) MapDiffOnlyDesired_self [OF assms(1)]
    by (auto simp: outcome_def usergroup_upToDate_def split: option.splits if_splits)
  moreover have "statements ?p = [] \<longleftrightarrow> usergroup_upToDate (usergroup_AtProvider cr) (usergroup_ForProvider cr)"
    by (auto simp: usergroup_update_plan_def usergroup_upToDate_def Let_def statements_then)
  ultimately show ?thesis using u fp by (simp add: map_prod_def split_beta)
qed

definition sample_usergroup :: Usergroup where
  "sample_usergroup =
     \<lparr>metadata = \<lparr>om_Name = ''g'', om_Namespace = [], om_UID = [], om_ExternalName = None\<rparr>,
      providerConfigReference = Some ''default'', set_conditions = [], status_conditions = [],
      usergroup_ForProvider = \<lparr>ugp_UsergroupName = ''G'', ugp_DisableUserAdmin = True, ugp_NoGrantToCreator = False,
        ugp_Parameters = [(''a'', ''1''), (''b'', ''2'')], ugp_EnableParameterSet = []\<rparr>,
      usergroup_AtProvider = \<lparr>ugo_UsergroupName = ''G'', ugo_DisableUserAdmin = True,
        ugo_Parameters = [(''b'', ''2''), (''c'', ''3'')]\<rparr>\<rparr>"

theorem usergroup_update_converges_witness:
  "\<exists>cr'. usergroup_controller_Update (recording (\<lambda>q. None)) (MUsergroup sample_usergroup) [] =
     (Inr (), MUsergroup cr', [''ALTER USERGROUP '' @ [dq] @ ''G'' @ [dq] @ '' SET PARAMETER '' @ [sq] @ ''a'' @ [sq] @ '' = '' @ [sq] @ ''1'' @ [sq]])
     \<and> usergroup_upToDate (usergroup_AtProvider cr') (usergroup_ForProvider sample_usergroup)"
proof -
  have ok: "gomap_ok (ugp_Parameters (usergroup_ForProvider sample_usergroup))"
    by (simp add: sample_usergroup_def gomap_ok_def)
  obtain r mg' w' where u: "usergroup_controller_Update (recording (\<lambda>q. None)) (MUsergroup sample_usergroup) [] = (r, mg', w')"
    by (metis prod_cases3)
  have st: "run_plan (recording (\<lambda>q. None)) (usergroup_update_plan (usergroup_AtProvider sample_usergroup) (usergroup_ForProvider sample_usergroup)) [] =
     (None, [''ALTER USERGROUP '' @ [dq] @ ''G'' @ [dq] @ '' SET PARAMETER '' @ [sq] @ ''a'' @ [sq] @ '' = '' @ [sq] @ ''1'' @ [sq]])"
    by (simp add: sample_usergroup_def usergroup_update_plan_def go_plan and_then_def wrap_err_def MapDiffOnlyDesired_def
        usergroup_alter_def set_parameter_clause_def dquoted_def TrimSuffix_def HasSuffix_def)
  show ?thesis using usergroup_update_converges [OF ok u] u unfolding st by (auto simp: outcome_def)
qed

end
