(* ===== verification/DbSchemas.thy ===== *)
theory DbSchemas
  imports ExternalClients
begin

text \<open>
  Schemas: the client \<open>internal/clients/hana/dbschema\<close> and the controller
  \<open>internal/controller/dbschema\<close>. A schema is created and dropped, never altered.
\<close>

section \<open>Client\<close>

definition dbschema_Read :: "'w DB \<Rightarrow> DbSchemaParameters \<Rightarrow> 'w \<Rightarrow> (error + DbSchemaObservation) \<times> 'w" where
  "dbschema_Read db parameters w =
     (let query = ''SELECT SCHEMA_NAME, SCHEMA_OWNER FROM SYS.SCHEMAS WHERE SCHEMA_NAME = ?''
      in case query_row db query [dp_SchemaName parameters] (scan2 scan_string scan_string) w of
           (Inl err, w') \<Rightarrow>
             if IsNoRows (Some err) then (Inr \<lparr>do_SchemaName = [], do_Owner = []\<rparr>, w') else (Inl err, w')
         | (Inr (name, owner), w') \<Rightarrow> (Inr \<lparr>do_SchemaName = name, do_Owner = owner\<rparr>, w'))"

definition dbschema_create_query :: "DbSchemaParameters \<Rightarrow> string" where
  "dbschema_create_query parameters =
     (let query = ''CREATE SCHEMA '' @ [dq] @ EscapeDoubleQuotes (dp_SchemaName parameters) @ [dq]
      in if dp_Owner parameters \<noteq> []
         then query @ '' OWNED BY '' @ [dq] @ EscapeDoubleQuotes (dp_Owner parameters) @ [dq] else query)"

definition dbschema_Create :: "'w DB \<Rightarrow> DbSchemaParameters \<Rightarrow> 'w \<Rightarrow> error option \<times> 'w" where
  "dbschema_Create db parameters w = ExecContext db (dbschema_create_query parameters) w"

definition dbschema_Delete :: "'w DB \<Rightarrow> DbSchemaParameters \<Rightarrow> 'w \<Rightarrow> error option \<times> 'w" where
  "dbschema_Delete db parameters w =
     ExecContext db (''DROP SCHEMA '' @ [dq] @ EscapeDoubleQuotes (dp_SchemaName parameters) @ [dq]) w"

section \<open>Controller\<close>

definition errNotDbSchema :: string where
  "errNotDbSchema = ''managed resource is not a Dbschema custom resource''"

definition dbschema_texts :: connect_texts where
  "dbschema_texts = \<lparr>errNotKind = errNotDbSchema,
     errTrackPCUsage = ''cannot track ProviderConfig usage: '', errGetPC = ''cannot get ProviderConfig: '',
     errNoSecretRef = ''ProviderConfig does not reference a credentials Secret'',
     errGetSecret = ''cannot get credentials Secret: '', errConnect = ''cannot connect to HANA DB: ''\<rparr>"

definition dbschema_Connect ::
  "'w Kube \<Rightarrow> (gomap \<Rightarrow> 'w \<Rightarrow> (error + 'w DB) \<times> 'w) \<Rightarrow> Managed \<Rightarrow> 'w \<Rightarrow> (error + 'w DB) \<times> 'w" where
  "dbschema_Connect kube dbConnect mg w = (case mg of
     MDbSchema cr \<Rightarrow>
       map_prod (map_sum id fst) id
         (connect_sql dbschema_texts kube dbConnect mg (providerConfigReference cr) w)
   | _ \<Rightarrow> (Inl (ErrorString errNotDbSchema), w))"

definition dbschema_Observe :: "'w DB \<Rightarrow> (ExternalObservation, 'w) handler" where
  "dbschema_Observe db mg w = (case mg of
     MDbSchema cr \<Rightarrow>
       let parameters = \<lparr>dp_SchemaName = dp_SchemaName (dbschema_ForProvider cr), dp_Owner = []\<rparr> in
       (case dbschema_Read db parameters w of
          (Inl err, w') \<Rightarrow> (Inl (Wrapped ''cannot select schema: '' err), mg, w')
        | (Inr observed, w') \<Rightarrow>
            if do_SchemaName observed \<noteq> dp_SchemaName parameters then (Inr absent, mg, w')
            else (Inr (present True), MDbSchema (SetConditions Available cr), w'))
   | _ \<Rightarrow> (Inl (ErrorString errNotDbSchema), mg, w))"

definition dbschema_controller_Create :: "'w DB \<Rightarrow> (ConnectionDetails, 'w) handler" where
  "dbschema_controller_Create db mg w = (case mg of
     MDbSchema cr \<Rightarrow>
       let parameters = \<lparr>dp_SchemaName = dp_SchemaName (dbschema_ForProvider cr),
             dp_Owner = dp_Owner (dbschema_ForProvider cr)\<rparr>;
           cr = SetConditions Creating cr;
           (err, w') = dbschema_Create db parameters w
       in (result ''cannot create schema: '' [] err, MDbSchema cr, w')
   | _ \<Rightarrow> (Inl (ErrorString errNotDbSchema), mg, w))"

definition dbschema_controller_Update :: "'w DB \<Rightarrow> (unit, 'w) handler" where
  "dbschema_controller_Update db mg w = (case mg of
     MDbSchema cr \<Rightarrow> (Inr (), mg, w)
   | _ \<Rightarrow> (Inl (ErrorString errNotDbSchema), mg, w))"

definition dbschema_controller_Delete :: "'w DB \<Rightarrow> (unit, 'w) handler" where
  "dbschema_controller_Delete db mg w = (case mg of
     MDbSchema cr \<Rightarrow>
       let parameters = \<lparr>dp_SchemaName = dp_SchemaName (dbschema_ForProvider cr), dp_Owner = []\<rparr>;
           cr = SetConditions Deleting cr;
           (err, w') = dbschema_Delete db parameters w
       in (result ''cannot drop schema: '' () err, MDbSchema cr, w')
   | _ \<Rightarrow> (Inl (ErrorString errNotDbSchema), mg, w))"

definition dbschema_external :: "'w DB \<Rightarrow> 'w ExternalClient" where
  "dbschema_external db = \<lparr>Observe = dbschema_Observe db, Create = dbschema_controller_Create db,
     Update = dbschema_controller_Update db, Delete = dbschema_controller_Delete db\<rparr>"

section \<open>Interfaces\<close>

lemma dbschema_Read_pure [go_effect]: "reads_only db \<Longrightarrow> snd (dbschema_Read db p w) = w"
  by (auto simp: dbschema_Read_def Let_def split: prod.split sum.split dest: query_row_pureD)

interpretation dbschema: query_client dbschema_Read dbschema_Create dbschema_Delete
  "\<lambda>p. plan_exec (dbschema_create_query p)"
  "\<lambda>p. plan_exec (''DROP SCHEMA '' @ [dq] @ EscapeDoubleQuotes (dp_SchemaName p) @ [dq])"
  by unfold_locales (auto simp: go_effect go_plan dbschema_Create_def dbschema_Delete_def)

lemmas dbschema_handlers = dbschema_external_def dbschema_Observe_def dbschema_controller_Create_def
  dbschema_controller_Update_def dbschema_controller_Delete_def

lemma dbschema_keeps:
  "\<exists>cr' cs. fst (after_call (dbschema_external db) k (MDbSchema cr) w) = MDbSchema cr' \<and>
     dbschema_ForProvider cr' = dbschema_ForProvider cr \<and> set_conditions cr' = set_conditions cr @ cs \<and>
     (k = CallDelete \<longrightarrow> cs = [Deleting])"
  by (cases k)
     (auto simp: dbschema_handlers SetConditions_def Let_def split: prod.split sum.split option.split)

interpretation dbschema_client: external_client "dbschema_external db" MDbSchema dbschema_ForProvider
  set_conditions "ErrorString errNotDbSchema" for db :: "'w DB"
proof (unfold_locales, goal_cases)
  case 5
  show ?case by (rule dbschema_keeps)
qed (auto simp: dbschema_handlers split: Managed.splits)

section \<open>Properties\<close>

text \<open>
  The statement that creates a schema is read by SQL as the keywords \<open>CREATE SCHEMA\<close> and one
  delimited identifier with the value of the schema name, followed, when an owner is given, by
  \<open>OWNED BY\<close> and one identifier with the value of the owner, and nothing else; the statement that
  drops it names the same identifier. No schema name and no owner can smuggle in other SQL.
\<close>

theorem dbschema_statements_read_back:
  "TrimPrefix (dbschema_create_query p) (''CREATE SCHEMA '' @ [dq]) =
     EscapeDoubleQuotes (dp_SchemaName p) @ [dq] @
       (if dp_Owner p = [] then [] else '' OWNED BY '' @ [dq] @ EscapeDoubleQuotes (dp_Owner p) @ [dq])
   \<and> sql_delimited dq (TrimPrefix (dbschema_create_query p) (''CREATE SCHEMA '' @ [dq])) =
       Some (dp_SchemaName p, if dp_Owner p = [] then [] else '' OWNED BY '' @ dquoted (dp_Owner p))
   \<and> sql_delimited dq (tl (dquoted (dp_Owner p))) = Some (dp_Owner p, [])
   \<and> dbschema_Delete db p w = ExecContext db (''DROP SCHEMA '' @ dquoted (dp_SchemaName p)) w"
proof -
  have q: "dbschema_create_query p = (''CREATE SCHEMA '' @ [dq]) @ EscapeDoubleQuotes (dp_SchemaName p) @ [dq] @
       (if dp_Owner p = [] then [] else '' OWNED BY '' @ dquoted (dp_Owner p))"
    by (simp add: dbschema_create_query_def dquoted_def)
  have t: "TrimPrefix (dbschema_create_query p) (''CREATE SCHEMA '' @ [dq]) = EscapeDoubleQuotes (dp_SchemaName p) @ [dq] @
       (if dp_Owner p = [] then [] else '' OWNED BY '' @ dquoted (dp_Owner p))"
    unfolding q by (rule TrimPrefix_append)
  have d: "sql_delimited dq (EscapeDoubleQuotes s @ [dq] @ rest) = Some (s, rest)" if "\<not> starts_with dq rest" for s rest
    using sql_delimited_escaped [OF that, of s] by (simp add: EscapeDoubleQuotes_concat)
  show ?thesis
    unfolding t using d [of "[]" "dp_Owner p"] d [of "if dp_Owner p = [] then [] else '' OWNED BY '' @ dquoted (dp_Owner p)" "dp_SchemaName p"]
    by (simp add: dbschema_Delete_def dquoted_def starts_with_def)
qed

end
