(* ===== verification/Roles.thy ===== *)
theory Roles
  imports ExternalClients
begin

text \<open>
  Roles: the client \<open>internal/clients/hana/role\<close> and the controller \<open>internal/controller/role\<close>.
  The client holds the connection, the order in which the map of privilege groups is visited, and
  the name of the user that is connected.
\<close>

section \<open>Client\<close>

record 'w roleClient =
  rc_DB :: "'w DB"
  rc_groups :: group_order
  rc_username :: string

definition getRoleName :: "string \<Rightarrow> string \<Rightarrow> string" where
  "getRoleName schemaName roleName =
     (let roleNameEscaped = [dq] @ EscapeDoubleQuotes roleName @ [dq] in
      if schemaName \<noteq> []
      then let schemaNameEscaped = [dq] @ EscapeDoubleQuotes schemaName @ [dq]
           in schemaNameEscaped @ ''.'' @ roleNameEscaped
      else roleNameEscaped)"

text \<open>A row whose values cannot be scanned is passed over.\<close>

fun collect_ldapGroups :: "sqlval list list \<Rightarrow> string list" where
  "collect_ldapGroups [] = []"
| "collect_ldapGroups (row # rows) =
     (case scan2 scan_string scan_string row of
        Inl _ \<Rightarrow> collect_ldapGroups rows
      | Inr (role, ldapGroup) \<Rightarrow> ldapGroup # collect_ldapGroups rows)"

definition observeLdapGroups :: "'w DB \<Rightarrow> string \<Rightarrow> 'w \<Rightarrow> (error + string list) \<times> 'w" where
  "observeLdapGroups db roleName w =
     (let queryLdapGroups = ''SELECT ROLE_NAME, LDAP_GROUP_NAME FROM SYS.ROLE_LDAP_GROUPS WHERE ROLE_NAME = ?''
      in case QueryContext db queryLdapGroups [roleName] w of
           (Inl err, w') \<Rightarrow> (Inl err, w')
         | (Inr rows, w') \<Rightarrow>
             (case rows_Err rows of
                Some err \<Rightarrow> (Inl err, w')
              | None \<Rightarrow> (Inr (collect_ldapGroups (rows_data rows)), w')))"

definition role_Read :: "'w DB \<Rightarrow> RoleParameters \<Rightarrow> 'w \<Rightarrow> (error + RoleObservation) \<times> 'w" where
  "role_Read db parameters w =
     (let query = ''SELECT ROLE_SCHEMA_NAME, ROLE_NAME, ROLEGROUP_NAME FROM SYS.ROLES WHERE ROLE_NAME = ?''
      in case query_row db query [rp_RoleName parameters]
             (scan3 (scan_null scan_string) scan_string (scan_null scan_string)) w of
           (Inl err, w1) \<Rightarrow>
             if IsNoRows (Some err)
             then (Inr \<lparr>ro_RoleName = [], ro_Schema = [], ro_LdapGroups = [], ro_Privileges = [], ro_Rolegroup = []\<rparr>, w1)
             else (Inl err, w1)
         | (Inr (schema, roleName, rolegroupName), w1) \<Rightarrow>
             (case observeLdapGroups db (rp_RoleName parameters) w1 of
                (Inl err, w2) \<Rightarrow> (Inl err, w2)
              | (Inr ldapGroups, w2) \<Rightarrow>
                  let grantee = getRoleName (rp_Schema parameters) (rp_RoleName parameters)
                  in case QueryPrivileges db grantee GranteeTypeRole w2 of
                       ((Some err, _), w3) \<Rightarrow> (Inl err, w3)
                     | ((None, privileges), w3) \<Rightarrow>
                         (Inr \<lparr>ro_RoleName = roleName, ro_Schema = NullString_String schema,
                               ro_LdapGroups = ldapGroups, ro_Privileges = privileges,
                               ro_Rolegroup = NullString_String rolegroupName\<rparr>, w3)))"

text \<open>The loop that appends the quoted groups, and the cut of the last comma.\<close>

definition ldap_group_clause :: "string \<Rightarrow> string list \<Rightarrow> string" where
  "ldap_group_clause query groups =
     TrimSuffix (query @ concat (map (\<lambda>g. '' '' @ [sq] @ EscapeSingleQuotes g @ [sq] @ '','') groups)) '',''"

definition role_create_query :: "RoleParameters \<Rightarrow> string" where
  "role_create_query parameters =
     (let query = ''CREATE ROLE '' @ getRoleName (rp_Schema parameters) (rp_RoleName parameters);
          query = (if 0 < length (rp_LdapGroups parameters)
                   then ldap_group_clause (query @ '' LDAP GROUP'') (rp_LdapGroups parameters) else query);
          query = (if rp_NoGrantToCreator parameters then query @ '' NO GRANT TO CREATOR'' else query)
      in if rp_Rolegroup parameters \<noteq> []
         then query @ '' SET ROLEGROUP '' @ [dq] @ EscapeDoubleQuotes (rp_Rolegroup parameters) @ [dq]
         else query)"

definition role_Create :: "'w roleClient \<Rightarrow> RoleParameters \<Rightarrow> 'w \<Rightarrow> error option \<times> 'w" where
  "role_Create c parameters w =
     and_then (ExecContext (rc_DB c) (role_create_query parameters) w) (\<lambda>w.
       let grantee = getRoleName (rp_Schema parameters) (rp_RoleName parameters) in
       if 0 < length (rp_Privileges parameters)
       then wrap_err ''failed to grant privileges: ''
              (GrantPrivileges (rc_DB c) (rc_groups c) (rc_username c) grantee (rp_Privileges parameters) w)
       else (None, w))"

definition UpdateLdapGroups ::
  "'w roleClient \<Rightarrow> RoleParameters \<Rightarrow> string list \<Rightarrow> string list \<Rightarrow> 'w \<Rightarrow> error option \<times> 'w" where
  "UpdateLdapGroups c parameters groupsToAdd groupsToRemove w =
     (let role = getRoleName (rp_Schema parameters) (rp_RoleName parameters) in
      and_then
        (if 0 < length groupsToAdd
         then ExecContext (rc_DB c) (ldap_group_clause (''ALTER ROLE '' @ role @ '' ADD LDAP GROUP'') groupsToAdd) w
         else (None, w))
        (\<lambda>w. if 0 < length groupsToRemove
         then ExecContext (rc_DB c) (ldap_group_clause (''ALTER ROLE '' @ role @ '' DROP LDAP GROUP'') groupsToRemove) w
         else (None, w)))"

definition role_GetDefaultSchema :: "'w roleClient \<Rightarrow> string" where
  "role_GetDefaultSchema c = rc_username c"

definition UpdateRolegroup :: "'w roleClient \<Rightarrow> RoleParameters \<Rightarrow> 'w \<Rightarrow> error option \<times> 'w" where
  "UpdateRolegroup c parameters w =
     (let roleName = getRoleName (rp_Schema parameters) (rp_RoleName parameters);
          query = (if rp_Rolegroup parameters \<noteq> []
                   then ''ALTER ROLE '' @ roleName @ '' SET ROLEGROUP '' @ [dq] @ EscapeDoubleQuotes (rp_Rolegroup parameters) @ [dq]
                   else ''ALTER ROLE '' @ roleName @ '' UNSET ROLEGROUP'')
      in wrap_err ''failed to update rolegroup: '' (ExecContext (rc_DB c) query w))"

definition role_UpdatePrivileges ::
  "'w roleClient \<Rightarrow> RoleParameters \<Rightarrow> string list \<Rightarrow> string list \<Rightarrow> 'w \<Rightarrow> error option \<times> 'w" where
  "role_UpdatePrivileges c parameters toGrant toRevoke w =
     (let grantee = getRoleName (rp_Schema parameters) (rp_RoleName parameters) in
      grant_then_revoke
        (\<lambda>ps w. wrap_err ''failed to grant privileges: ''
           (GrantPrivileges (rc_DB c) (rc_groups c) (rc_username c) grantee ps w))
        (\<lambda>ps w. wrap_err ''failed to revoke privileges: ''
           (RevokePrivileges (rc_DB c) (rc_groups c) (rc_username c) grantee ps w))
        toGrant toRevoke w)"

definition role_Delete :: "'w DB \<Rightarrow> RoleParameters \<Rightarrow> 'w \<Rightarrow> error option \<times> 'w" where
  "role_Delete db parameters w =
     ExecContext db (''DROP ROLE '' @ getRoleName (rp_Schema parameters) (rp_RoleName parameters)) w"

section \<open>Controller\<close>

definition errNotRole :: string where
  "errNotRole = ''managed resource is not a Role custom resource''"

definition role_texts :: connect_texts where
  "role_texts = \<lparr>errNotKind = errNotRole,
     errTrackPCUsage = ''cannot track ProviderConfig usage: '', errGetPC = ''cannot get ProviderConfig: '',
     errNoSecretRef = ''ProviderConfig does not reference a credentials Secret'',
     errGetSecret = ''cannot get credentials Secret: '', errConnect = ''cannot connect to HANA DB: ''\<rparr>"

definition role_Connect ::
  "'w Kube \<Rightarrow> (gomap \<Rightarrow> 'w \<Rightarrow> (error + 'w DB) \<times> 'w) \<Rightarrow> group_order \<Rightarrow> Managed \<Rightarrow> 'w \<Rightarrow> (error + 'w roleClient) \<times> 'w" where
  "role_Connect kube dbConnect groups mg w = (case mg of
     MRole cr \<Rightarrow>
       map_prod (map_sum id (\<lambda>(conn, username). \<lparr>rc_DB = conn, rc_groups = groups, rc_username = username\<rparr>)) id
         (connect_sql role_texts kube dbConnect mg (providerConfigReference cr) w)
   | _ \<Rightarrow> (Inl (ErrorString errNotRole), w))"

definition role_buildDesiredParameters :: "Role \<Rightarrow> RoleParameters" where
  "role_buildDesiredParameters cr = (let fp = role_ForProvider cr in
     \<lparr>rp_RoleName = rp_RoleName fp, rp_Schema = rp_Schema fp, rp_LdapGroups = rp_LdapGroups fp,
      rp_Privileges = rp_Privileges fp, rp_Rolegroup = rp_Rolegroup fp, rp_NoGrantToCreator = rp_NoGrantToCreator fp\<rparr>)"

definition role_upToDate :: "RoleObservation \<Rightarrow> RoleParameters \<Rightarrow> bool" where
  "role_upToDate observed desired =
     (if \<not> ArraysEqual (ro_Privileges observed) (rp_Privileges desired) then False
      else if \<not> ArraysEqual (ro_LdapGroups observed) (rp_LdapGroups desired) then False
      else if ro_Rolegroup observed \<noteq> rp_Rolegroup desired then False
      else True)"

definition role_Observe :: "'w roleClient \<Rightarrow> (ExternalObservation, 'w) handler" where
  "role_Observe c mg w = (case mg of
     MRole cr \<Rightarrow>
       let parameters = role_buildDesiredParameters cr in
       (case role_Read (rc_DB c) parameters w of
          (Inl err, w') \<Rightarrow> (Inl (Wrapped ''cannot select role: '' err), mg, w')
        | (Inr observed, w') \<Rightarrow>
            if ro_RoleName observed \<noteq> rp_RoleName parameters then (Inr absent, mg, w')
            else
              let cr = cr\<lparr>role_AtProvider := (role_AtProvider cr)
                    \<lparr>ro_RoleName := ro_RoleName observed, ro_Schema := ro_Schema observed,
                     ro_Privileges := ro_Privileges observed, ro_LdapGroups := ro_LdapGroups observed,
                     ro_Rolegroup := ro_Rolegroup observed\<rparr>\<rparr>;
                  cr = SetConditions Available cr
              in (Inr (present (role_upToDate observed parameters)), MRole cr, w'))
   | _ \<Rightarrow> (Inl (ErrorString errNotRole), mg, w))"

definition role_controller_Create :: "'w roleClient \<Rightarrow> (ConnectionDetails, 'w) handler" where
  "role_controller_Create c mg w = (case mg of
     MRole cr \<Rightarrow>
       let cr = SetConditions Creating cr;
           parameters = role_buildDesiredParameters cr in
       (case role_Create c parameters w of
          (Some err, w') \<Rightarrow> (Inl (Wrapped ''cannot create role: '' err), MRole cr, w')
        | (None, w') \<Rightarrow>
            let cr = cr\<lparr>role_AtProvider := (role_AtProvider cr)
                  \<lparr>ro_RoleName := rp_RoleName parameters, ro_Schema := rp_Schema parameters,
                   ro_Privileges := rp_Privileges parameters, ro_LdapGroups := rp_LdapGroups parameters,
                   ro_Rolegroup := rp_Rolegroup parameters\<rparr>\<rparr>
            in (Inr [], MRole cr, w'))
   | _ \<Rightarrow> (Inl (ErrorString errNotRole), mg, w))"

text \<open>
  The three steps of \<open>Update\<close>. \<open>ord\<close> is the order in which the differences are listed.
\<close>

definition role_step_ldap ::
  "'w roleClient \<Rightarrow> (string list \<Rightarrow> string list) \<Rightarrow> RoleParameters \<Rightarrow> string list \<Rightarrow> (Role, 'w) update_step" where
  "role_step_ldap c ord parameters observedLdapGroups cr w =
     (case ArraysBothDiff ord (rp_LdapGroups parameters) observedLdapGroups of
        (isEqual, groupsToAdd, groupsToRemove) \<Rightarrow>
          if isEqual then (None, cr, w)
          else (case UpdateLdapGroups c parameters groupsToAdd groupsToRemove w of
                  (Some err, w') \<Rightarrow> (Some (Wrapped ''cannot update role: '' err), cr, w')
                | (None, w') \<Rightarrow> (None, cr\<lparr>role_AtProvider := (role_AtProvider cr)
                    \<lparr>ro_LdapGroups := rp_LdapGroups parameters\<rparr>\<rparr>, w')))"

definition role_step_privileges ::
  "'w roleClient \<Rightarrow> (string list \<Rightarrow> string list) \<Rightarrow> RoleParameters \<Rightarrow> string list \<Rightarrow> (Role, 'w) update_step" where
  "role_step_privileges c ord parameters observedPrivileges cr w =
     (case ArraysBothDiff ord (rp_Privileges parameters) observedPrivileges of
        (isEqual, privilegesToAdd, privilegesToRemove) \<Rightarrow>
          if isEqual then (None, cr, w)
          else (case role_UpdatePrivileges c parameters privilegesToAdd privilegesToRemove w of
                  (Some err, w') \<Rightarrow> (Some (Wrapped ''cannot update role: '' err), cr, w')
                | (None, w') \<Rightarrow> (None, cr\<lparr>role_AtProvider := (role_AtProvider cr)
                    \<lparr>ro_Privileges := rp_Privileges parameters\<rparr>\<rparr>, w')))"

definition role_step_rolegroup :: "'w roleClient \<Rightarrow> RoleParameters \<Rightarrow> (Role, 'w) update_step" where
  "role_step_rolegroup c parameters cr w =
     (if ro_Rolegroup (role_AtProvider cr) \<noteq> rp_Rolegroup parameters
      then (case UpdateRolegroup c parameters w of
              (Some err, w') \<Rightarrow> (Some (Wrapped ''cannot update role: '' err), cr, w')
            | (None, w') \<Rightarrow> (None, cr\<lparr>role_AtProvider := (role_AtProvider cr)
                \<lparr>ro_Rolegroup := rp_Rolegroup parameters\<rparr>\<rparr>, w'))
      else (None, cr, w))"

definition role_controller_Update :: "'w roleClient \<Rightarrow> (string list \<Rightarrow> string list) \<Rightarrow> (unit, 'w) handler" where
  "role_controller_Update c ord mg w = (case mg of
     MRole cr \<Rightarrow>
       let parameters = role_buildDesiredParameters cr;
           observedLdapGroups = ro_LdapGroups (role_AtProvider cr);
           observedPrivileges = ro_Privileges (role_AtProvider cr);
           (err, cr, w) = run_steps
             [role_step_ldap c ord parameters observedLdapGroups,
              role_step_privileges c ord parameters observedPrivileges,
              role_step_rolegroup c parameters] cr w
       in (outcome err, MRole cr, w)
   | _ \<Rightarrow> (Inl (ErrorString errNotRole), mg, w))"

definition role_controller_Delete :: "'w roleClient \<Rightarrow> (unit, 'w) handler" where
  "role_controller_Delete c mg w = (case mg of
     MRole cr \<Rightarrow>
       let parameters = role_buildDesiredParameters cr;
           cr = SetConditions Deleting cr;
           (err, w') = role_Delete (rc_DB c) parameters w
       in (result ''cannot drop role: '' () err, MRole cr, w')
   | _ \<Rightarrow> (Inl (ErrorString errNotRole), mg, w))"

definition role_external :: "'w roleClient \<Rightarrow> (string list \<Rightarrow> string list) \<Rightarrow> 'w ExternalClient" where
  "role_external c ord = \<lparr>Observe = role_Observe c, Create = role_controller_Create c,
     Update = role_controller_Update c ord, Delete = role_controller_Delete c\<rparr>"

section \<open>Interfaces\<close>

lemma observeLdapGroups_pure [go_effect]: "reads_only db \<Longrightarrow> snd (observeLdapGroups db n w) = w"
  by (auto simp: observeLdapGroups_def Let_def split: prod.split sum.split option.split dest: reads_only_Query)

lemma QueryPrivileges_pureD: "reads_only db \<Longrightarrow> QueryPrivileges db g t w = (r, w') \<Longrightarrow> w' = w"
  by (metis QueryPrivileges_pure snd_conv)

lemma observeLdapGroups_pureD: "reads_only db \<Longrightarrow> observeLdapGroups db n w = (r, w') \<Longrightarrow> w' = w"
  by (metis observeLdapGroups_pure snd_conv)

lemma role_Read_pure [go_effect]: "reads_only db \<Longrightarrow> snd (role_Read db p w) = w"
proof -
  assume ro: "reads_only db"
  show ?thesis
    by (auto simp: role_Read_def Let_def split: prod.split sum.split option.split
        dest!: query_row_pureD [OF ro] QueryPrivileges_pureD [OF ro] observeLdapGroups_pureD [OF ro])
qed

definition role_create_plan :: "group_order \<Rightarrow> string \<Rightarrow> RoleParameters \<Rightarrow> plan" where
  "role_create_plan groups username p =
     plan_then (plan_exec (role_create_query p))
       (if rp_Privileges p = [] then plan_skip
        else plan_wrap (Wrapped ''failed to grant privileges: '')
          (GrantPrivileges_plan groups username (getRoleName (rp_Schema p) (rp_RoleName p)) (rp_Privileges p)))"

lemma and_then_cong: "(\<And>w. k w = k' w) \<Longrightarrow> and_then r k = and_then r k'"
  by (auto simp: and_then_def split: prod.split option.split)

lemma role_Create_planned [go_plan]:
  "role_Create c p w = run_plan (rc_DB c) (role_create_plan (rc_groups c) (rc_username c) p) w"
  unfolding role_Create_def role_create_plan_def run_plan_then run_plan_exec
  by (rule and_then_cong) (auto simp: go_plan Let_def)

interpretation role: query_client role_Read
  "\<lambda>db. role_Create \<lparr>rc_DB = db, rc_groups = groups, rc_username = username\<rparr>" role_Delete
  "role_create_plan groups username"
  "\<lambda>p. plan_exec (''DROP ROLE '' @ getRoleName (rp_Schema p) (rp_RoleName p))" for groups username
  by unfold_locales (auto simp: go_effect go_plan role_Delete_def)

lemmas role_handlers = role_external_def role_Observe_def role_controller_Create_def
  role_controller_Update_def role_controller_Delete_def

lemmas role_steps = role_step_ldap_def role_step_privileges_def role_step_rolegroup_def

lemma role_step_keeps:
  assumes "f \<in> set [role_step_ldap c ord p ls, role_step_privileges c ord p ps, role_step_rolegroup c p]"
  shows "role_ForProvider (fst (snd (f cr w))) = role_ForProvider cr
    \<and> set_conditions (fst (snd (f cr w))) = set_conditions cr"
  using assms by (auto simp: role_steps split: prod.splits option.splits if_splits)

lemma role_Update_keeps:
  "\<exists>cr'. fst (snd (role_controller_Update c ord (MRole cr) w)) = MRole cr' \<and>
     role_ForProvider cr' = role_ForProvider cr \<and> set_conditions cr' = set_conditions cr"
proof -
  let ?p = "role_buildDesiredParameters cr"
  let ?fs = "[role_step_ldap c ord ?p (ro_LdapGroups (role_AtProvider cr)),
      role_step_privileges c ord ?p (ro_Privileges (role_AtProvider cr)), role_step_rolegroup c ?p]"
  let ?P = "\<lambda>cr' :: Role. role_ForProvider cr' = role_ForProvider cr \<and> set_conditions cr' = set_conditions cr"
  have "?P (fst (snd (run_steps ?fs cr w)))"
  proof (rule run_steps_invariant [where P = ?P])
    fix f cr1 w1
    assume f: "f \<in> set ?fs" and "?P cr1"
    then show "?P (fst (snd (f cr1 w1)))" using role_step_keeps [OF f, of cr1 w1] by simp
  qed simp
  then show ?thesis by (auto simp: role_controller_Update_def Let_def split_beta)
qed

lemma role_keeps:
  "\<exists>cr' cs. fst (after_call (role_external c ord) k (MRole cr) w) = MRole cr' \<and>
     role_ForProvider cr' = role_ForProvider cr \<and> set_conditions cr' = set_conditions cr @ cs \<and>
     (k = CallDelete \<longrightarrow> cs = [Deleting])"
proof (cases k)
  case CallUpdate
  then show ?thesis using role_Update_keeps [of c ord cr w] by (auto simp: role_external_def)
qed (auto simp: role_handlers SetConditions_def Let_def split: prod.split sum.split option.split)

interpretation role_client: external_client "role_external c ord" MRole role_ForProvider
  set_conditions "ErrorString errNotRole" for c :: "'w roleClient" and ord
proof (unfold_locales, goal_cases)
  case 5
  show ?case by (rule role_keeps)
qed (auto simp: role_handlers split: Managed.splits)

section \<open>Properties\<close>

lemma role_desired [simp]: "role_buildDesiredParameters cr = role_ForProvider cr"
  by (simp add: role_buildDesiredParameters_def Let_def)

text \<open>The plan of an update, part by part.\<close>

definition role_ldap_plan :: "(string list \<Rightarrow> string list) \<Rightarrow> RoleParameters \<Rightarrow> string list \<Rightarrow> plan" where
  "role_ldap_plan ord p observed =
     (case ArraysBothDiff ord (rp_LdapGroups p) observed of (isEqual, toAdd, toRemove) \<Rightarrow>
        let role = getRoleName (rp_Schema p) (rp_RoleName p) in
        if isEqual then plan_skip
        else plan_wrap (Wrapped ''cannot update role: '')
          (plan_execs ((if toAdd = [] then [] else [ldap_group_clause (''ALTER ROLE '' @ role @ '' ADD LDAP GROUP'') toAdd]) @
             (if toRemove = [] then [] else [ldap_group_clause (''ALTER ROLE '' @ role @ '' DROP LDAP GROUP'') toRemove]))))"

definition role_privileges_plan ::
  "group_order \<Rightarrow> string \<Rightarrow> (string list \<Rightarrow> string list) \<Rightarrow> RoleParameters \<Rightarrow> string list \<Rightarrow> plan" where
  "role_privileges_plan groups username ord p observed =
     (case ArraysBothDiff ord (rp_Privileges p) observed of (isEqual, toGrant, toRevoke) \<Rightarrow>
        let role = getRoleName (rp_Schema p) (rp_RoleName p) in
        if isEqual then plan_skip
        else plan_wrap (Wrapped ''cannot update role: '')
          (plan_then
            (if toGrant = [] then plan_skip
             else plan_wrap (Wrapped ''failed to grant privileges: '') (GrantPrivileges_plan groups username role toGrant))
            (if toRevoke = [] then plan_skip
             else plan_wrap (Wrapped ''failed to revoke privileges: '') (RevokePrivileges_plan groups username role toRevoke))))"

definition role_rolegroup_plan :: "RoleParameters \<Rightarrow> string \<Rightarrow> plan" where
  "role_rolegroup_plan p observed =
     (let role = getRoleName (rp_Schema p) (rp_RoleName p) in
      if observed = rp_Rolegroup p then plan_skip
      else plan_wrap (Wrapped ''cannot update role: '') (plan_wrap (Wrapped ''failed to update rolegroup: '')
        (plan_exec (if rp_Rolegroup p \<noteq> [] then ''ALTER ROLE '' @ role @ '' SET ROLEGROUP '' @ dquoted (rp_Rolegroup p)
                    else ''ALTER ROLE '' @ role @ '' UNSET ROLEGROUP''))))"

definition role_update_plan ::
  "group_order \<Rightarrow> string \<Rightarrow> (string list \<Rightarrow> string list) \<Rightarrow> RoleObservation \<Rightarrow> RoleParameters \<Rightarrow> plan" where
  "role_update_plan groups username ord observed p =
     foldr plan_then
       [role_ldap_plan ord p (ro_LdapGroups observed),
        role_privileges_plan groups username ord p (ro_Privileges observed),
        role_rolegroup_plan p (ro_Rolegroup observed)] plan_skip"

lemma UpdateLdapGroups_planned:
  "UpdateLdapGroups c p toAdd toRemove w = run_plan (rc_DB c) (let role = getRoleName (rp_Schema p) (rp_RoleName p) in
     plan_execs ((if toAdd = [] then [] else [ldap_group_clause (''ALTER ROLE '' @ role @ '' ADD LDAP GROUP'') toAdd]) @
       (if toRemove = [] then [] else [ldap_group_clause (''ALTER ROLE '' @ role @ '' DROP LDAP GROUP'') toRemove]))) w"
  by (auto simp: UpdateLdapGroups_def go_plan and_then_def Let_def split: prod.split option.split)

lemma role_UpdatePrivileges_planned:
  "role_UpdatePrivileges c p toGrant toRevoke w = run_plan (rc_DB c)
     (let role = getRoleName (rp_Schema p) (rp_RoleName p) in
      plan_then
        (if toGrant = [] then plan_skip
         else plan_wrap (Wrapped ''failed to grant privileges: '') (GrantPrivileges_plan (rc_groups c) (rc_username c) role toGrant))
        (if toRevoke = [] then plan_skip
         else plan_wrap (Wrapped ''failed to revoke privileges: '') (RevokePrivileges_plan (rc_groups c) (rc_username c) role toRevoke))) w"
  unfolding role_UpdatePrivileges_def grant_then_revoke_def Let_def run_plan_then
  by (auto simp: go_plan and_then_def split: prod.split option.split)

lemma UpdateRolegroup_planned:
  "UpdateRolegroup c p w = run_plan (rc_DB c) (let role = getRoleName (rp_Schema p) (rp_RoleName p) in
     plan_wrap (Wrapped ''failed to update rolegroup: '')
        (plan_exec (if rp_Rolegroup p \<noteq> [] then ''ALTER ROLE '' @ role @ '' SET ROLEGROUP '' @ dquoted (rp_Rolegroup p)
                    else ''ALTER ROLE '' @ role @ '' UNSET ROLEGROUP''))) w"
  by (simp add: UpdateRolegroup_def go_plan Let_def dquoted_def)

lemma wrap_err_cases:
  "(case r of (Some err, w') \<Rightarrow> (Some (Wrapped m err), cr, w') | (None, w') \<Rightarrow> (None, cr', w')) =
   (fst (wrap_err m r), if fst r = None then cr' else cr, snd r)"
  by (auto simp: wrap_err_def split: prod.split option.split)

text \<open>The steps in their common form: the plan and what is written into the status.\<close>

definition role_status_steps ::
  "group_order \<Rightarrow> string \<Rightarrow> (string list \<Rightarrow> string list) \<Rightarrow> RoleObservation \<Rightarrow> RoleParameters \<Rightarrow> ((Role \<Rightarrow> plan) \<times> (Role \<Rightarrow> Role)) list" where
  "role_status_steps groups username ord obs p =
     [(\<lambda>_. role_ldap_plan ord p (ro_LdapGroups obs),
       \<lambda>cr. if set (rp_LdapGroups p) = set (ro_LdapGroups obs) then cr
            else cr\<lparr>role_AtProvider := (role_AtProvider cr)\<lparr>ro_LdapGroups := rp_LdapGroups p\<rparr>\<rparr>),
      (\<lambda>_. role_privileges_plan groups username ord p (ro_Privileges obs),
       \<lambda>cr. if set (rp_Privileges p) = set (ro_Privileges obs) then cr
            else cr\<lparr>role_AtProvider := (role_AtProvider cr)\<lparr>ro_Privileges := rp_Privileges p\<rparr>\<rparr>),
      (\<lambda>cr. role_rolegroup_plan p (ro_Rolegroup (role_AtProvider cr)),
       \<lambda>cr. if ro_Rolegroup (role_AtProvider cr) = rp_Rolegroup p then cr
            else cr\<lparr>role_AtProvider := (role_AtProvider cr)\<lparr>ro_Rolegroup := rp_Rolegroup p\<rparr>\<rparr>)]"

lemma role_steps_eq:
  "[role_step_ldap c ord p (ro_LdapGroups obs), role_step_privileges c ord p (ro_Privileges obs), role_step_rolegroup c p] =
   map (\<lambda>x. status_step (rc_DB c) (fst x) (snd x)) (role_status_steps (rc_groups c) (rc_username c) ord obs p)"
proof -
  have "role_step_ldap c ord p (ro_LdapGroups obs) cr w =
      status_step (rc_DB c) (fst (role_status_steps (rc_groups c) (rc_username c) ord obs p ! 0))
        (snd (role_status_steps (rc_groups c) (rc_username c) ord obs p ! 0)) cr w" for cr w
    by (auto simp: role_step_ldap_def role_ldap_plan_def UpdateLdapGroups_planned ArraysBothDiff_form wrap_err_cases
        run_plan_wrap_err Let_def run_plan_skip wrap_err_def role_status_steps_def status_step_def)
  moreover have "role_step_privileges c ord p (ro_Privileges obs) cr w =
      status_step (rc_DB c) (fst (role_status_steps (rc_groups c) (rc_username c) ord obs p ! 1))
        (snd (role_status_steps (rc_groups c) (rc_username c) ord obs p ! 1)) cr w" for cr w
    by (auto simp: role_step_privileges_def role_privileges_plan_def role_UpdatePrivileges_planned ArraysBothDiff_form
        wrap_err_cases run_plan_wrap_err Let_def run_plan_skip wrap_err_def role_status_steps_def status_step_def)
  moreover have "role_step_rolegroup c p cr w =
      status_step (rc_DB c) (fst (role_status_steps (rc_groups c) (rc_username c) ord obs p ! 2))
        (snd (role_status_steps (rc_groups c) (rc_username c) ord obs p ! 2)) cr w" for cr w
    by (auto simp: role_step_rolegroup_def role_rolegroup_plan_def UpdateRolegroup_planned
        wrap_err_cases run_plan_wrap_err Let_def run_plan_skip wrap_err_def role_status_steps_def status_step_def)
  ultimately show ?thesis by (auto simp: role_status_steps_def fun_eq_iff)
qed

lemma role_update_plan_steps:
  "role_update_plan groups username ord (role_AtProvider cr) p =
   plans_of (role_status_steps groups username ord (role_AtProvider cr) p) cr"
  by (simp add: plans_of_def role_status_steps_def role_update_plan_def)

lemma role_Update_planned:
  assumes "role_controller_Update c ord (MRole cr) w = (r, mg', w')"
  shows "\<exists>cr'. mg' = MRole cr' \<and>
     (r, w') = map_prod outcome id (run_plan (rc_DB c)
        (role_update_plan (rc_groups c) (rc_username c) ord (role_AtProvider cr) (role_ForProvider cr)) w) \<and>
     (r = Inr () \<longrightarrow> role_upToDate (role_AtProvider cr') (role_ForProvider cr))"
proof -
  let ?xs = "role_status_steps (rc_groups c) (rc_username c) ord (role_AtProvider cr) (role_ForProvider cr)"
  let ?run = "run_steps (map (\<lambda>x. status_step (rc_DB c) (fst x) (snd x)) ?xs) cr w"
  have "undisturbed ?xs" by (simp add: role_status_steps_def)
  note run = run_status_steps [OF this, of "rc_DB c" cr w]
  have u: "r = outcome (fst ?run)" "mg' = MRole (fst (snd ?run))" "w' = snd (snd ?run)"
    using assms by (simp_all add: role_controller_Update_def role_steps_eq Let_def split_beta del: run_steps.simps)
  have "role_upToDate (role_AtProvider (fold snd ?xs cr)) (role_ForProvider cr)"
    by (auto simp: role_status_steps_def role_upToDate_def)
  then have "r = Inr () \<longrightarrow> role_upToDate (role_AtProvider (fst (snd ?run))) (role_ForProvider cr)"
    using run u(1) by (auto simp: outcome_def split: option.splits)
  then show ?thesis using u run by (simp add: role_update_plan_steps map_prod_def split_beta)
qed

lemma role_update_plan_quiet:
  "role_upToDate observed p \<Longrightarrow> role_update_plan groups username ord observed p = plan_skip"
  by (auto simp: role_upToDate_def role_update_plan_def role_ldap_plan_def role_privileges_plan_def
      role_rolegroup_plan_def ArraysBothDiff_form split: if_splits)

text \<open>
  C12. Updating a role executes the statements of its plan in order (LDAP groups to add and to
  drop, privileges to grant and to revoke, the role group), up to the first that fails. If none
  fails the status agrees with the specification afterwards. If the status agreed before, nothing
  is executed.
\<close>

theorem role_update_converges:
  assumes "role_controller_Update c ord (MRole cr) w = (r, mg', w')"
  shows "(r, w') = map_prod outcome id (run_plan (rc_DB c)
        (role_update_plan (rc_groups c) (rc_username c) ord (role_AtProvider cr) (role_ForProvider cr)) w)
    \<and> (r = Inr () \<longrightarrow> (\<exists>cr'. mg' = MRole cr' \<and> role_ForProvider cr' = role_ForProvider cr
         \<and> role_upToDate (role_AtProvider cr') (role_ForProvider cr)))
    \<and> (role_upToDate (role_AtProvider cr) (role_ForProvider cr) \<longrightarrow> r = Inr () \<and> w' = w)"
proof -
  obtain cr' where cr': "mg' = MRole cr'" and p: "(r, w') = map_prod outcome id (run_plan (rc_DB c)
        (role_update_plan (rc_groups c) (rc_username c) ord (role_AtProvider cr) (role_ForProvider cr)) w)"
    and up: "r = Inr () \<longrightarrow> role_upToDate (role_AtProvider cr') (role_ForProvider cr)"
    using role_Update_planned [OF assms] by blast
  have "role_ForProvider cr' = role_ForProvider cr"
    using role_Update_keeps [of c ord cr w] assms cr' by auto
  then show ?thesis using cr' p up by (auto simp: role_update_plan_quiet run_plan_skip)
qed

definition sample_role :: "string list \<Rightarrow> string list \<Rightarrow> Role" where
  "sample_role desired observed =
     \<lparr>metadata = \<lparr>om_Name = ''r'', om_Namespace = [], om_UID = [], om_ExternalName = None\<rparr>,
      providerConfigReference = Some ''default'', set_conditions = [], status_conditions = [],
      role_ForProvider = \<lparr>rp_RoleName = ''R'', rp_Schema = [], rp_LdapGroups = [], rp_Privileges = desired,
        rp_Rolegroup = ''G'', rp_NoGrantToCreator = False\<rparr>,
      role_AtProvider = \<lparr>ro_RoleName = ''R'', ro_Schema = [], ro_LdapGroups = [], ro_Privileges = observed,
        ro_Rolegroup = []\<rparr>\<rparr>"

theorem role_update_converges_witness:
  "\<exists>cr'. role_controller_Update \<lparr>rc_DB = recording (\<lambda>q. None), rc_groups = rev, rc_username = ''P''\<rparr> rev (MRole (sample_role [] [])) [] =
     (Inr (), MRole cr', [''ALTER ROLE '' @ [dq] @ ''R'' @ [dq] @ '' SET ROLEGROUP '' @ [dq] @ ''G'' @ [dq]])
     \<and> role_upToDate (role_AtProvider cr') (role_ForProvider (sample_role [] []))"
proof -
  let ?c = "\<lparr>rc_DB = recording (\<lambda>q. None), rc_groups = rev, rc_username = ''P''\<rparr>"
  obtain r mg' w' where u: "role_controller_Update ?c rev (MRole (sample_role [] [])) [] = (r, mg', w')"
    by (metis prod_cases3)
  have st: "run_plan (rc_DB ?c) (role_update_plan (rc_groups ?c) (rc_username ?c) rev
      (role_AtProvider (sample_role [] [])) (role_ForProvider (sample_role [] []))) [] =
      (None, [''ALTER ROLE '' @ [dq] @ ''R'' @ [dq] @ '' SET ROLEGROUP '' @ [dq] @ ''G'' @ [dq]])"
    by (simp add: sample_role_def role_update_plan_def role_ldap_plan_def role_privileges_plan_def
        role_rolegroup_plan_def ArraysBothDiff_form go_plan wrap_err_def getRoleName_def dquoted_def)
  show ?thesis using role_update_converges [OF u] u unfolding st by auto
qed

lemma single_group:
  assumes "parsePrivilegeStrings [s] ds = Inr [p]" "dot_safe p" "perm_order groups"
  shows "GrantPrivileges_plan groups ds role [s] = plan_exec (granted_together role [p] p)"
    and "RevokePrivileges_plan groups ds role [s] = plan_exec (revoked_together role [p] p)"
proof -
  have gk: "groupsMap_from [] [p] = [(groupKey_of p, group_names [p] (groupKey_of p))]"
    by (simp add: group_names_def gomap_get_def)
  have "groupPrivilegesByType groups [s] ds = Inr [group_of (groupKey_of p, group_names [p] (groupKey_of p))]"
    by (simp add: groupPrivilegesByType_def assms(1) groupPrivilegesByTypeAndIdentifier_def gk
        perm_order_single [OF assms(3)] del: groupsMap_from.simps parsePrivilegeStrings.simps)
  then show "GrantPrivileges_plan groups ds role [s] = plan_exec (granted_together role [p] p)"
    "RevokePrivileges_plan groups ds role [s] = plan_exec (revoked_together role [p] p)"
    using assms(2) by (simp_all add: GrantPrivileges_plan_def RevokePrivileges_plan_def plan_execs_def plan_exec_def
        grant_query_group revoked_together_def group_of_body)
qed

lemma role_same_privilege_plan:
  assumes "perm_order groups" "perm_order ord" "s \<noteq> s'" "dot_safe q"
    and "parsePrivilegeStrings [s] username = Inr [q]" "parsePrivilegeStrings [s'] username = Inr [q]"
    and "rp_Privileges p = [s]" "ro_Privileges obs = [s']"
    and "set (ro_LdapGroups obs) = set (rp_LdapGroups p)" "ro_Rolegroup obs = rp_Rolegroup p"
  shows "role_update_plan groups username ord obs p =
     plan_wrap (Wrapped ''cannot update role: '')
       (plan_then (plan_wrap (Wrapped ''failed to grant privileges: '')
           (plan_exec (granted_together (getRoleName (rp_Schema p) (rp_RoleName p)) [q] q)))
         (plan_wrap (Wrapped ''failed to revoke privileges: '')
           (plan_exec (revoked_together (getRoleName (rp_Schema p) (rp_RoleName p)) [q] q))))"
proof -
  have "ArraysBothDiff ord [s] [s'] = (False, [s], [s'])"
    using assms(3) by (simp add: ArraysBothDiff_form setToArray_def MapDiff_def arrayToSet_def perm_order_single [OF assms(2)])
  moreover have "role_ldap_plan ord p (ro_LdapGroups obs) = plan_skip" "role_rolegroup_plan p (ro_Rolegroup obs) = plan_skip"
    using assms(9,10) by (simp_all add: role_ldap_plan_def role_rolegroup_plan_def ArraysBothDiff_form)
  ultimately show ?thesis
    by (simp add: role_update_plan_def role_privileges_plan_def assms(7,8) Let_def
        single_group [OF assms(5,4,1)] single_group [OF assms(6,4,1)])
qed



end
