(* ===== verification/Users.thy ===== *)
theory Users
  imports ExternalClients
begin

text \<open>
  The user client (\<open>internal/clients/hana/user/user_client.go\<close>). It reads the state of a user with
  several queries and, when a password is managed, by asking the database to validate it; it
  creates, alters and drops users.
\<close>

section \<open>The client\<close>

record 'w userClient =
  uc_DB :: "'w DB"
  uc_groups :: group_order
  uc_username :: string

record ResolvedUserMapping =
  rm_Name :: string
  rm_SubjectName :: string

definition validParams :: "string list" where
  "validParams = [''CLIENT'', ''LOCALE'', ''TIME ZONE'', ''EMAIL ADDRESS'', ''STATEMENT MEMORY LIMIT'', ''STATEMENT THREAD LIMIT'']"

definition emptyUserObservation :: UserObservation where
  "emptyUserObservation = \<lparr>uo_Username = None, uo_RestrictedUser = None, uo_X509Providers = [],
     uo_LastPasswordChangeTime = [], uo_PasswordUpToDate = None, uo_CreatedAt = [], uo_Privileges = [],
     uo_Roles = [], uo_Parameters = [], uo_Usergroup = None, uo_IsPasswordLifetimeCheckEnabled = None,
     uo_IsPasswordEnabled = None\<rparr>"

section \<open>Reading\<close>

text \<open>The seven columns of \<open>SYS.USERS\<close>.\<close>

definition scan_user :: "sqlval list \<Rightarrow> error + UserObservation" where
  "scan_user row = (case row of
     [c1, c2, c3, c4, c5, c6, c7] \<Rightarrow>
       (case (scan_string c1, scan_string c2, scan_time c3, scan_time c4, scan_bool c5, scan_bool c6, scan_bool c7) of
          (Inr username, Inr usergroup, Inr createdAt, Inr lastPasswordChangeTime, Inr restrictedUser,
           Inr isPasswordLifetimeCheckEnabled, Inr isPasswordEnabled) \<Rightarrow>
            Inr (emptyUserObservation\<lparr>uo_Username := Some username, uo_Usergroup := Some usergroup,
              uo_CreatedAt := createdAt, uo_LastPasswordChangeTime := lastPasswordChangeTime,
              uo_RestrictedUser := Some restrictedUser,
              uo_IsPasswordLifetimeCheckEnabled := Some isPasswordLifetimeCheckEnabled,
              uo_IsPasswordEnabled := Some isPasswordEnabled\<rparr>)
        | _ \<Rightarrow> Inl scan_error)
   | _ \<Rightarrow> Inl scan_error)"

text \<open>A row whose values cannot be scanned is passed over.\<close>

fun collect_user_parameters :: "gomap \<Rightarrow> sqlval list list \<Rightarrow> gomap" where
  "collect_user_parameters m [] = m"
| "collect_user_parameters m (row # rows) =
     (case scan3 scan_string scan_string scan_string row of
        Inl _ \<Rightarrow> collect_user_parameters m rows
      | Inr (username, key, val) \<Rightarrow> collect_user_parameters (gomap_set m key val) rows)"

definition queryParameters :: "'w DB \<Rightarrow> string \<Rightarrow> 'w \<Rightarrow> (error option \<times> gomap) \<times> 'w" where
  "queryParameters db username w =
     (let query = ''SELECT USER_NAME, PARAMETER, VALUE FROM SYS.USER_PARAMETERS WHERE USER_NAME = ?''
      in case QueryContext db query [username] w of
           (Inl err, w') \<Rightarrow> ((Some err, []), w')
         | (Inr rows, w') \<Rightarrow> ((rows_Err rows, collect_user_parameters [] (rows_data rows)), w'))"

definition scan_x509_mapping :: "sqlval list \<Rightarrow> error + X509UserMapping" where
  "scan_x509_mapping row =
     (case scan2 scan_string (scan_null scan_string) row of
        Inl err \<Rightarrow> Inl err
      | Inr (providerName, subjectNameNull) \<Rightarrow>
          let subjectName = (case subjectNameNull of Some s \<Rightarrow> s | None \<Rightarrow> ''ANY'')
          in Inr \<lparr>xr_Name = providerName, xr_ProviderRef = None, xm_SubjectName = subjectName\<rparr>)"

definition queryX509Providers :: "'w DB \<Rightarrow> string \<Rightarrow> 'w \<Rightarrow> (error + X509UserMapping list) \<times> 'w" where
  "queryX509Providers db username w =
     (let query = ''SELECT X509_PROVIDER_NAME, SUBJECT_NAME FROM X509_USER_MAPPINGS WHERE USER_NAME = ?''
      in case QueryContext db query [username] w of
           (Inl err, w') \<Rightarrow> (Inl (Wrapped ''failed to query x509 providers: '' err), w')
         | (Inr rows, w') \<Rightarrow>
             (case each_row (\<lambda>x509Providers r. map_sum id (\<lambda>x. x509Providers @ [x]) (scan_x509_mapping r)) [] (rows_data rows) of
                (Some err, _) \<Rightarrow> (Inl err, w')
              | (None, x509Providers) \<Rightarrow>
                  (case rows_Err rows of Some err \<Rightarrow> (Inl err, w') | None \<Rightarrow> (Inr x509Providers, w'))))"

definition extractCorrelationID :: "string \<Rightarrow> string" where
  "extractCorrelationID errText =
     (let startMarker = ''correlation ID '' @ [sq] in
      case Index errText startMarker of
        None \<Rightarrow> []
      | Some i \<Rightarrow>
          let startIndex = i + length startMarker in
          (case Index (drop startIndex errText) [sq] of
             None \<Rightarrow> []
           | Some endIndex \<Rightarrow> take endIndex (drop startIndex errText)))"

definition handleAuthenticationError :: "'w DB \<Rightarrow> error \<Rightarrow> 'w \<Rightarrow> (bool \<times> error option) \<times> 'w" where
  "handleAuthenticationError db err w =
     (let correlationID = extractCorrelationID (Error_text err) in
      if correlationID = [] then ((True, Some (Wrapped ''cannot extract correlation ID from error message: '' err)), w)
      else
        let query = ''SELECT INTERNAL_ERROR_CODE FROM SYS.AUTHENTICATION_ERROR_DETAILS WHERE CORRELATION_ID = ?''
        in case query_row db query [correlationID] (\<lambda>row. case row of [c] \<Rightarrow> scan_string c | _ \<Rightarrow> Inl scan_error) w of
             (Inl scanErr, w') \<Rightarrow>
               ((True, Some (Wrapped (''cannot get internal error code for correlation ID '' @ correlationID @ '': '') scanErr)), w')
           | (Inr internalErrorCode, w') \<Rightarrow>
               ((if internalErrorCode = ''A10'' then (False, None)
                 else if internalErrorCode = ''U03'' then (True, Some ErrValidityPeriod)
                 else if internalErrorCode = ''U02'' then (True, Some ErrUserDeactivated)
                 else if internalErrorCode = ''U06'' then (True, Some ErrUserLocked)
                 else (True, Some (ErrorString (''unknown internal error code '' @ internalErrorCode @
                    '' for correlation ID '' @ correlationID)))), w'))"

definition validateCredentials :: "'w DB \<Rightarrow> string \<Rightarrow> string \<Rightarrow> 'w \<Rightarrow> (bool \<times> error option) \<times> 'w" where
  "validateCredentials db username password w =
     (let query = ''VALIDATE USER '' @ username @ '' PASSWORD '' @ [dq] @ password @ [dq]
      in case ExecContext db query w of
           (err, w') \<Rightarrow>
             (case errors_As_driver err of
                None \<Rightarrow> ((True, err), w')
              | Some code \<Rightarrow>
                  if code = 20 then ((True, Some ErrValidityPeriod), w')
                  else if code = 415 then ((True, Some ErrUserDeactivated), w')
                  else if code = 416 then ((True, Some ErrUserLocked), w')
                  else if code = 10 then
                    (case err of Some e \<Rightarrow> handleAuthenticationError db e w' | None \<Rightarrow> ((True, err), w'))
                  else ((True, err), w')))"

text \<open>The reference to a password secret, when the specification has one.\<close>

definition passwordSecretRef :: "Authentication \<Rightarrow> SecretKeySelector option" where
  "passwordSecretRef a = (case au_Password a of None \<Rightarrow> None | Some pw \<Rightarrow> pw_PasswordSecretRef pw)"

definition queryPasswordAuthentication ::
  "'w DB \<Rightarrow> UserParameters \<Rightarrow> bool \<Rightarrow> string \<Rightarrow> 'w \<Rightarrow> (error + bool option) \<times> 'w" where
  "queryPasswordAuthentication db parameters isPasswordEnabled password w =
     (if passwordSecretRef (up_Authentication parameters) \<noteq> None then
        if isPasswordEnabled then
          (case validateCredentials db (up_Username parameters) password w of
             ((_, Some err), w') \<Rightarrow> (Inl err, w')
           | ((passwordUpToDate, None), w') \<Rightarrow> (Inr (Some passwordUpToDate), w'))
        else (Inr (Some False), w)
      else if isPasswordEnabled then (Inr (Some False), w)
      else (Inr None, w))"

text \<open>What was observed before an error is returned with it; the controller uses it.\<close>

definition user_Read ::
  "'w DB \<Rightarrow> UserParameters \<Rightarrow> string \<Rightarrow> 'w \<Rightarrow> (error option \<times> UserObservation) \<times> 'w" where
  "user_Read db parameters password w =
     (let query = ''SELECT USER_NAME, USERGROUP_NAME, CREATE_TIME, LAST_PASSWORD_CHANGE_TIME, IS_RESTRICTED, '' @
            ''IS_PASSWORD_LIFETIME_CHECK_ENABLED, IS_PASSWORD_ENABLED FROM SYS.USERS WHERE USER_NAME = ?'';
          username = up_Username parameters
      in case query_row db query [username] scan_user w of
           (Inl err, w1) \<Rightarrow>
             if IsNoRows (Some err) then ((None, emptyUserObservation), w1)
             else ((Some err, emptyUserObservation), w1)
         | (Inr observed, w1) \<Rightarrow>
        (case queryParameters db username w1 of
           ((err, params), w2) \<Rightarrow>
             let observed = observed\<lparr>uo_Parameters := params\<rparr> in
        (case err of Some e \<Rightarrow> ((Some e, observed), w2) | None \<Rightarrow>
        (case QueryPrivileges db username GranteeTypeUser w2 of
           ((err, privs), w3) \<Rightarrow>
             let observed = observed\<lparr>uo_Privileges := privs\<rparr> in
        (case err of Some e \<Rightarrow> ((Some (Wrapped ''failed to query privileges: '' e), observed), w3) | None \<Rightarrow>
        (case QueryRoles db username GranteeTypeUser w3 of
           ((err, rs), w4) \<Rightarrow>
             let observed = observed\<lparr>uo_Roles := rs\<rparr> in
        (case err of Some e \<Rightarrow> ((Some (Wrapped ''failed to query roles: '' e), observed), w4) | None \<Rightarrow>
        (case queryPasswordAuthentication db parameters (uo_IsPasswordEnabled observed = Some True) password w4 of
           (Inl e, w5) \<Rightarrow> ((Some e, observed), w5)
         | (Inr passwordUpToDate, w5) \<Rightarrow>
             let observed = observed\<lparr>uo_PasswordUpToDate := passwordUpToDate\<rparr> in
        (case queryX509Providers db username w5 of
           (Inl e, w6) \<Rightarrow> ((Some e, observed), w6)
         | (Inr x509Providers, w6) \<Rightarrow> ((None, observed\<lparr>uo_X509Providers := x509Providers\<rparr>), w6))))))))))"

section \<open>Creating\<close>

definition setParameters :: "string \<Rightarrow> gomap \<Rightarrow> string" where
  "setParameters query parameters =
     (let newParams = concat (map (\<lambda>(key, val).
            let upperKey = ToUpper key in
            if upperKey \<in> set validParams
            then [upperKey @ '' = '' @ [sq] @ EscapeSingleQuotes val @ [sq]] else []) parameters)
      in if length newParams = 0 then query
         else query @ '' SET PARAMETER '' @ Join newParams '', '')"

definition generateCreateQuery :: "UserParameters \<Rightarrow> string \<Rightarrow> error + string" where
  "generateCreateQuery parameters password =
     (let query = (if up_RestrictedUser parameters then ''CREATE RESTRICTED USER '' else ''CREATE USER '') @ up_Username parameters;
          rest = (\<lambda>query.
            let query = (if 0 < length (up_Parameters parameters) then setParameters query (up_Parameters parameters) else query)
            in if up_Usergroup parameters \<noteq> [] then query @ '' SET USERGROUP '' @ up_Usergroup parameters else query)
      in case au_Password (up_Authentication parameters) of
           Some pw \<Rightarrow>
             if pw_PasswordSecretRef pw \<noteq> None then
               if password = [] then Inl (ErrorString ''cannot get user password'')
               else
                 let query = query @ '' PASSWORD '' @ [dq] @ password @ [dq];
                     query = (if \<not> pw_ForceFirstPasswordChange pw then query @ '' NO FORCE_FIRST_PASSWORD_CHANGE'' else query)
                 in Inr (rest query)
             else Inr (rest query)
         | None \<Rightarrow> Inr (rest query))"

section \<open>Updating\<close>

definition add_identity_query :: "string \<Rightarrow> ResolvedUserMapping \<Rightarrow> string" where
  "add_identity_query username provider =
     ''ALTER USER '' @ username @ '' ADD IDENTITY '' @ [sq] @ rm_SubjectName provider @ [sq] @ '' FOR X509 PROVIDER '' @ rm_Name provider"

definition drop_identity_query :: "string \<Rightarrow> ResolvedUserMapping \<Rightarrow> string" where
  "drop_identity_query username provider =
     ''ALTER USER '' @ username @ '' DROP IDENTITY '' @ [sq] @ rm_SubjectName provider @ [sq] @ '' FOR X509 PROVIDER '' @ rm_Name provider"

definition user_UpdateX509Providers ::
  "'w DB \<Rightarrow> string \<Rightarrow> ResolvedUserMapping list \<Rightarrow> ResolvedUserMapping list \<Rightarrow> 'w \<Rightarrow> error option \<times> 'w" where
  "user_UpdateX509Providers db username toAdd toRemove w =
     and_then (if 0 < length toAdd then exec_all db (map (add_identity_query username) toAdd) w else (None, w))
       (\<lambda>w. if 0 < length toRemove then exec_all db (map (drop_identity_query username) toRemove) w else (None, w))"

definition user_UpdatePassword :: "'w DB \<Rightarrow> string \<Rightarrow> string \<Rightarrow> bool \<Rightarrow> 'w \<Rightarrow> error option \<times> 'w" where
  "user_UpdatePassword db username password forceFirstPasswordChange w =
     (let query = ''ALTER USER '' @ username @ '' PASSWORD '' @ [dq] @ password @ [dq];
          query = (if \<not> forceFirstPasswordChange then query @ '' NO FORCE_FIRST_PASSWORD_CHANGE'' else query)
      in wrap_err ''cannot update user password: '' (ExecContext db query w))"

definition user_UpdatePrivileges ::
  "'w userClient \<Rightarrow> string \<Rightarrow> string list \<Rightarrow> string list \<Rightarrow> 'w \<Rightarrow> error option \<times> 'w" where
  "user_UpdatePrivileges c grantee toGrant toRevoke w =
     grant_then_revoke (GrantPrivileges (uc_DB c) (uc_groups c) (uc_username c) grantee)
       (RevokePrivileges (uc_DB c) (uc_groups c) (uc_username c) grantee) toGrant toRevoke w"

definition user_UpdateRoles ::
  "'w userClient \<Rightarrow> string \<Rightarrow> string list \<Rightarrow> string list \<Rightarrow> 'w \<Rightarrow> error option \<times> 'w" where
  "user_UpdateRoles c grantee toGrant toRevoke w =
     grant_then_revoke (GrantRoles (uc_DB c) (uc_username c) grantee)
       (RevokeRoles (uc_DB c) (uc_username c) grantee) toGrant toRevoke w"

text \<open>The clauses of \<open>UpdateParameters\<close>: only the valid keys, in upper case.\<close>

definition user_parameters_query :: "string \<Rightarrow> gomap \<Rightarrow> gomap \<Rightarrow> string" where
  "user_parameters_query username parametersToSet parametersToClear =
     (let query = ''ALTER USER '' @ username;
          query = (if 0 < length parametersToSet
            then TrimSuffix (query @ '' SET PARAMETER'' @ concat (map (\<lambda>(key, val).
                   let key = ToUpper key in
                   if key \<in> set validParams then '' '' @ key @ '' = '' @ [sq] @ val @ [sq] @ '','' else []) parametersToSet)) '',''
            else query)
      in if 0 < length parametersToClear
         then TrimSuffix (query @ '' CLEAR PARAMETER'' @ concat (map (\<lambda>(key, val).
                let key = ToUpper key in
                if key \<in> set validParams then '' '' @ key @ '','' else []) parametersToClear)) '',''
         else query)"

definition user_UpdateParameters :: "'w DB \<Rightarrow> string \<Rightarrow> gomap \<Rightarrow> gomap \<Rightarrow> 'w \<Rightarrow> error option \<times> 'w" where
  "user_UpdateParameters db username parametersToSet parametersToClear w =
     wrap_err ''cannot update user parameters: ''
       (ExecContext db (user_parameters_query username parametersToSet parametersToClear) w)"

definition user_UpdateUsergroup :: "'w DB \<Rightarrow> string \<Rightarrow> string \<Rightarrow> 'w \<Rightarrow> error option \<times> 'w" where
  "user_UpdateUsergroup db username usergroup w =
     (let query = ''ALTER USER '' @ username;
          query = (if usergroup \<noteq> [] then query @ '' SET USERGROUP '' @ usergroup else query @ '' UNSET USERGROUP'')
      in wrap_err ''cannot update user usergroup: '' (ExecContext db query w))"

definition user_UpdatePasswordLifetimeCheck :: "'w DB \<Rightarrow> string \<Rightarrow> bool \<Rightarrow> 'w \<Rightarrow> error option \<times> 'w" where
  "user_UpdatePasswordLifetimeCheck db username isPasswordLifetimeCheckEnabled w =
     (let query = (if isPasswordLifetimeCheckEnabled then ''ALTER USER '' @ username @ '' ENABLE PASSWORD LIFETIME''
                   else ''ALTER USER '' @ username @ '' DISABLE PASSWORD LIFETIME'')
      in wrap_err ''cannot update user password lifetime check: '' (ExecContext db query w))"

definition user_Delete :: "'w DB \<Rightarrow> UserParameters \<Rightarrow> 'w \<Rightarrow> error option \<times> 'w" where
  "user_Delete db parameters w = ExecContext db (''DROP USER '' @ up_Username parameters) w"

definition user_TogglePasswordAuthentication :: "'w DB \<Rightarrow> string \<Rightarrow> bool \<Rightarrow> 'w \<Rightarrow> error option \<times> 'w" where
  "user_TogglePasswordAuthentication db username isPasswordEnabled w =
     (let query = (if isPasswordEnabled then ''ALTER USER '' @ username @ '' DISABLE PASSWORD''
                   else ''ALTER USER '' @ username @ '' ENABLE PASSWORD'')
      in wrap_err ''failed to enable/disable password: '' (ExecContext db query w))"

definition user_GetDefaultSchema :: "'w userClient \<Rightarrow> string" where
  "user_GetDefaultSchema c = uc_username c"

definition user_Create ::
  "'w userClient \<Rightarrow> UserParameters \<Rightarrow> string \<Rightarrow> ResolvedUserMapping list \<Rightarrow> 'w \<Rightarrow> error option \<times> 'w" where
  "user_Create c parameters password providers w =
     (let db = uc_DB c; username = up_Username parameters in
      case generateCreateQuery parameters password of
        Inl err \<Rightarrow> (Some err, w)
      | Inr query \<Rightarrow>
          and_then (ExecContext db query w) (\<lambda>w.
          and_then (user_UpdateX509Providers db username providers [] w) (\<lambda>w.
          and_then (wrap_err ''failed to grant privileges: ''
            (GrantPrivileges db (uc_groups c) (uc_username c) username (up_Privileges parameters) w)) (\<lambda>w.
          and_then (wrap_err ''failed to grant roles: ''
            (GrantRoles db (uc_username c) username (up_Roles parameters) w)) (\<lambda>w.
          if \<not> up_IsPasswordLifetimeCheckEnabled parameters
          then user_UpdatePasswordLifetimeCheck db username (up_IsPasswordLifetimeCheckEnabled parameters) w
          else (None, w))))))"

end
