(* ===== verification/UserController.thy ===== *)
theory UserController
  imports Users
begin

text \<open>
  The user controller (\<open>internal/controller/user/reconciler.go\<close>): the handlers, the seven steps of
  an update, and the watch on secrets. \<open>userExternal\<close> is the struct \<open>external\<close> together with what
  Go leaves open: the orders \<open>ux_ord\<close> and \<open>ux_ordm\<close> in which the differences of two sets are
  listed, and the address \<open>ux_copy n a\<close> at which the \<open>n\<close>-th \<open>DeepCopy\<close> of a handler puts the
  copy of the object at \<open>a\<close>.
\<close>

section \<open>Helpers\<close>

record 'w userExternal =
  ux_client :: "'w userClient"
  ux_kube :: "'w Kube"
  ux_ord :: "string list \<Rightarrow> string list"
  ux_ordm :: "X509UserMapping list \<Rightarrow> X509UserMapping list"
  ux_copy :: "nat \<Rightarrow> nat \<Rightarrow> nat"

definition errNotUser :: string where
  "errNotUser = ''managed resource is not a User custom resource''"

definition user_texts :: connect_texts where
  "user_texts = \<lparr>errNotKind = errNotUser,
     errTrackPCUsage = ''cannot track ProviderConfig usage: '', errGetPC = ''cannot get ProviderConfig: '',
     errNoSecretRef = ''ProviderConfig does not reference a credentials Secret'',
     errGetSecret = ''cannot get credentials Secret: '', errConnect = ''cannot connect to HANA DB: ''\<rparr>"

text \<open>
  The requests for a changed object; \<^term>\<open>None\<close> is an object that is no secret, otherwise the
  namespace and the name of the secret. A request is the name of a user.
\<close>

definition generateReconcileRequestsFromSecret :: "'w Kube \<Rightarrow> (string \<times> string) option \<Rightarrow> 'w \<Rightarrow> string list" where
  "generateReconcileRequestsFromSecret kube obj w = (case obj of
     None \<Rightarrow> []
   | Some (namespace, name) \<Rightarrow>
       (case ListUsers kube w of
          Inl err \<Rightarrow> []
        | Inr users \<Rightarrow> concat (map (\<lambda>user.
            case au_Password (up_Authentication (user_ForProvider user)) of
              None \<Rightarrow> []
            | Some passwordObj \<Rightarrow>
                (case pw_PasswordSecretRef passwordObj of
                   None \<Rightarrow> []
                 | Some secretRef \<Rightarrow>
                     if sr_Namespace secretRef = namespace \<and> sr_Name secretRef = name
                     then [om_Name (metadata user)] else [])) users)))"

definition user_Connect ::
  "'w Kube \<Rightarrow> (gomap \<Rightarrow> 'w \<Rightarrow> (error + 'w DB) \<times> 'w) \<Rightarrow> group_order \<Rightarrow> Managed \<Rightarrow> 'w \<Rightarrow> (error + 'w userClient) \<times> 'w" where
  "user_Connect kube dbConnect groups mg w = (case mg of
     MUser cr \<Rightarrow>
       map_prod (map_sum id (\<lambda>(conn, username). \<lparr>uc_DB = conn, uc_groups = groups, uc_username = username\<rparr>)) id
         (connect_sql user_texts kube dbConnect mg (providerConfigReference cr) w)
   | _ \<Rightarrow> (Inl (ErrorString errNotUser), w))"

definition getPassword :: "'w Kube \<Rightarrow> User \<Rightarrow> 'w \<Rightarrow> error + string" where
  "getPassword kube user w =
     (case au_Password (up_Authentication (user_ForProvider user)) of
        None \<Rightarrow> Inr []
      | Some passwordObj \<Rightarrow>
      (case pw_PasswordSecretRef passwordObj of
         None \<Rightarrow> Inr []
       | Some ref \<Rightarrow>
      (case GetSecret kube (sr_Namespace ref) (sr_Name ref) w of
         Inl err \<Rightarrow> Inl (Wrapped ''cannot get password secret: '' err)
       | Inr data \<Rightarrow>
           (case gomap_get data (sk_Key ref) of
              None \<Rightarrow> Inl (ErrorString (''key '' @ sk_Key ref @ '' not found in secret '' @
                 sr_Namespace ref @ ''/'' @ sr_Name ref))
            | Some newPwd \<Rightarrow> Inr newPwd))))"

definition handleAuthError :: "error option \<Rightarrow> bool \<times> error option" where
  "handleAuthError err = (case err of
     None \<Rightarrow> (False, None)
   | Some e \<Rightarrow>
       if errors_Is err ErrValidityPeriod then (False, err)
       else if errors_Is err ErrUserDeactivated then (False, err)
       else if errors_Is err ErrUserLocked then (False, err)
       else (True, Some (Wrapped ''cannot select user: '' e)))"

text \<open>\<open>DeepCopy\<close>: the references of the mappings are the only pointers whose identity matters.\<close>

definition copy_mapping :: "(nat \<Rightarrow> nat) \<Rightarrow> X509UserMapping \<Rightarrow> X509UserMapping" where
  "copy_mapping alloc m = m\<lparr>xr_ProviderRef := map_option (map_prod alloc id) (xr_ProviderRef m)\<rparr>"

definition copy_UserParameters :: "(nat \<Rightarrow> nat) \<Rightarrow> UserParameters \<Rightarrow> UserParameters" where
  "copy_UserParameters alloc p = p\<lparr>up_Authentication := (up_Authentication p)
     \<lparr>au_X509Providers := map_option (map (copy_mapping alloc)) (au_X509Providers (up_Authentication p))\<rparr>\<rparr>"

definition copy_UserObservation :: "(nat \<Rightarrow> nat) \<Rightarrow> UserObservation \<Rightarrow> UserObservation" where
  "copy_UserObservation alloc ob = ob\<lparr>uo_X509Providers := map (copy_mapping alloc) (uo_X509Providers ob)\<rparr>"

definition handleDefaults :: "(nat \<Rightarrow> nat) \<Rightarrow> User \<Rightarrow> UserParameters" where
  "handleDefaults alloc cr =
     (let parameters = copy_UserParameters alloc (user_ForProvider cr);
          defaultPrivilege = GetDefaultPrivilege (up_Username parameters);
          parameters = (if user_PrivilegeManagementPolicy cr = ''strict'' \<and>
                           \<not> up_RestrictedUser parameters \<and> defaultPrivilege \<notin> set (up_Privileges parameters)
                        then parameters\<lparr>up_Privileges := up_Privileges parameters @ [defaultPrivilege]\<rparr> else parameters)
      in if \<not> up_RestrictedUser parameters \<and> ''PUBLIC'' \<notin> set (up_Roles parameters)
         then parameters\<lparr>up_Roles := up_Roles parameters @ [''PUBLIC'']\<rparr> else parameters)"

text \<open>
  \<open>fmt.Sscanf(value, "%d", new(int))\<close> returns no error: blanks other than a newline, an optional
  sign, digits in the range of \<open>int64\<close>; what follows is not looked at.
\<close>

definition newline :: char where "newline = char_of (10 :: nat)"

definition Sscanf_int :: "string \<Rightarrow> bool" where
  "Sscanf_int s =
     (let s = dropWhile (\<lambda>c. is_space c \<and> c \<noteq> newline) s;
          (sign, ds) = (case s of [] \<Rightarrow> ([], [])
             | c # cs \<Rightarrow> if c = CHR ''+'' \<or> c = CHR ''-'' then ([c], cs) else ([], s));
          tok = takeWhile is_digit ds
      in tok \<noteq> [] \<and> ParseInt (sign @ tok) \<noteq> None)"

definition integerKeys :: "string list" where
  "integerKeys = [''STATEMENT MEMORY LIMIT'', ''STATEMENT THREAD LIMIT'']"

definition transformParameters :: "gomap \<Rightarrow> gomap" where
  "transformParameters parameters =
     fold (\<lambda>(key, val) filteredParameters.
       let upperKey = ToUpper key in
       if upperKey \<in> set integerKeys \<and> \<not> Sscanf_int val then filteredParameters
       else gomap_set filteredParameters upperKey val) parameters []"

fun ResolveUserMappings ::
  "'w Kube \<Rightarrow> X509UserMapping list \<Rightarrow> string \<Rightarrow> 'w \<Rightarrow> error + ResolvedUserMapping list" where
  "ResolveUserMappings kube [] namespace w = Inr []"
| "ResolveUserMappings kube (mapping # mappings) namespace w =
     (case (if xr_Name mapping \<noteq> [] then Inr (xr_Name mapping)
            else case xr_ProviderRef mapping of
              Some (addr, refName) \<Rightarrow>
                (case GetX509Provider kube namespace refName w of
                   Inl err \<Rightarrow> Inl (Wrapped ''cannot resolve X.509 provider reference: '' err)
                 | Inr x509providerObj \<Rightarrow> Inr (xp_Name (x509provider_ForProvider x509providerObj)))
            | None \<Rightarrow> Inl (ErrorString ''cannot resolve X.509 provider reference: no name or providerRef specified'')) of
        Inl err \<Rightarrow> Inl err
      | Inr name \<Rightarrow>
          let subjectName = (if xm_SubjectName mapping \<noteq> [] then xm_SubjectName mapping else ''ANY'') in
          (case ResolveUserMappings kube mappings namespace w of
             Inl err \<Rightarrow> Inl err
           | Inr resolved \<Rightarrow> Inr (\<lparr>rm_Name = name, rm_SubjectName = subjectName\<rparr> # resolved)))"

section \<open>Observe\<close>

definition isPasswordUpToDate :: "UserObservation \<Rightarrow> UserParameters \<Rightarrow> bool" where
  "isPasswordUpToDate observed desired =
     (if au_Password (up_Authentication desired) \<noteq> None then uo_PasswordUpToDate observed = Some True
      else uo_PasswordUpToDate observed = None)"

definition isX509MappingsUpToDate :: "UserObservation \<Rightarrow> UserParameters \<Rightarrow> bool" where
  "isX509MappingsUpToDate observed desired =
     (case au_X509Providers (up_Authentication desired) of
        Some providers \<Rightarrow> ArraysEqual (uo_X509Providers observed) providers
      | None \<Rightarrow> length (uo_X509Providers observed) = 0)"

definition user_upToDate :: "UserObservation \<Rightarrow> UserParameters \<Rightarrow> bool" where
  "user_upToDate observed desired \<longleftrightarrow>
     isPasswordUpToDate observed desired \<and>
     isX509MappingsUpToDate observed desired \<and>
     uo_Usergroup observed = Some (up_Usergroup desired) \<and>
     uo_IsPasswordLifetimeCheckEnabled observed = Some (up_IsPasswordLifetimeCheckEnabled desired) \<and>
     maps_Equal (uo_Parameters observed) (up_Parameters desired) \<and>
     ArraysEqual (uo_Privileges observed) (up_Privileges desired) \<and>
     ArraysEqual (uo_Roles observed) (up_Roles desired)"

definition user_Observe :: "'w userExternal \<Rightarrow> (ExternalObservation, 'w) handler" where
  "user_Observe x mg w = (case mg of
     MUser cr \<Rightarrow>
       let c = ux_client x; parameters = handleDefaults (ux_copy x 0) cr in
       (case FormatPrivilegeStrings (up_Privileges parameters) (user_GetDefaultSchema c) of
          Inl err \<Rightarrow> (Inl (Wrapped ''cannot convert privileges: '' err), mg, w)
        | Inr privileges \<Rightarrow>
       (case FormatRoleStrings (up_Roles parameters) of
          Inl err \<Rightarrow> (Inl (Wrapped ''cannot convert roles: '' err), mg, w)
        | Inr roles \<Rightarrow>
       let parameters = parameters\<lparr>up_Privileges := privileges, up_Roles := roles\<rparr> in
       (case getPassword (ux_kube x) cr w of
          Inl err \<Rightarrow> (Inl (Wrapped ''cannot get password secret: '' err), mg, w)
        | Inr password \<Rightarrow>
       (case user_Read (uc_DB c) parameters password w of ((err, observed), w') \<Rightarrow>
       (case handleAuthError err of (errIsUnknown, authError) \<Rightarrow>
          if errIsUnknown then (Inl (the authError), mg, w')
          else if uo_Username observed \<noteq> Some (up_Username parameters) then (Inr absent, mg, w')
          else
            (case FilterManagedPrivileges (Some observed) (up_Privileges parameters)
                    (uo_Privileges (user_AtProvider cr)) (user_PrivilegeManagementPolicy cr) (user_GetDefaultSchema c) of
               (Some err, _) \<Rightarrow> (Inl (Wrapped ''cannot filter privileges: '' err), mg, w')
             | (None, None) \<Rightarrow> (Inl (Panic ''nil pointer dereference''), mg, w')
             | (None, Some observed) \<Rightarrow>
                 let cr = cr\<lparr>user_AtProvider := observed\<rparr>;
                     cr = (case authError of
                             Some e \<Rightarrow> SetConditions (Unavailable (Error_text e)) cr
                           | None \<Rightarrow> SetConditions Available cr)
                 in (Inr (present (user_upToDate observed parameters)), MUser cr, w')))))))
   | _ \<Rightarrow> (Inl (ErrorString errNotUser), mg, w))"

section \<open>Create and Delete\<close>

definition user_controller_Create :: "'w userExternal \<Rightarrow> (ConnectionDetails, 'w) handler" where
  "user_controller_Create x mg w = (case mg of
     MUser cr \<Rightarrow>
       let cr = SetConditions Creating cr; parameters = user_ForProvider cr in
       (case getPassword (ux_kube x) cr w of
          Inl pasErr \<Rightarrow> (Inl (Wrapped ''cannot create user: '' pasErr), MUser cr, w)
        | Inr password \<Rightarrow>
       (case ResolveUserMappings (ux_kube x) (elems (au_X509Providers (up_Authentication parameters)))
               (om_Namespace (metadata cr)) w of
          Inl err \<Rightarrow> (Inl (Wrapped ''cannot create user: '' err), MUser cr, w)
        | Inr providersToAdd \<Rightarrow>
       (case user_Create (ux_client x) parameters password providersToAdd w of
          (Some err, w') \<Rightarrow> (Inl (Wrapped ''cannot create user: '' err), MUser cr, w')
        | (None, w') \<Rightarrow> (Inr [(''user'', up_Username parameters), (''password'', password)], MUser cr, w'))))
   | _ \<Rightarrow> (Inl (ErrorString errNotUser), mg, w))"

text \<open>\<open>Delete\<close> passes parameters in which only the name is set; the client uses no other.\<close>

definition user_controller_Delete :: "'w userExternal \<Rightarrow> (unit, 'w) handler" where
  "user_controller_Delete x mg w = (case mg of
     MUser cr \<Rightarrow>
       let parameters = \<lparr>up_Username = up_Username (user_ForProvider cr), up_RestrictedUser = False,
             up_Authentication = \<lparr>au_Password = None, au_X509Providers = None\<rparr>, up_Privileges = [], up_Roles = [],
             up_Parameters = [], up_Usergroup = [], up_IsPasswordLifetimeCheckEnabled = False\<rparr>;
           cr = SetConditions Deleting cr;
           (err, w') = user_Delete (uc_DB (ux_client x)) parameters w
       in (result ''cannot drop user: '' () err, MUser cr, w')
   | _ \<Rightarrow> (Inl (ErrorString errNotUser), mg, w))"

section \<open>Update\<close>

definition user_buildDesiredParameters :: "'w userExternal \<Rightarrow> User \<Rightarrow> error + UserParameters" where
  "user_buildDesiredParameters x cr =
     (let parameters = handleDefaults (ux_copy x 0) cr in
      case FormatPrivilegeStrings (up_Privileges parameters) (user_GetDefaultSchema (ux_client x)) of
        Inl err \<Rightarrow> Inl (Wrapped ''cannot convert privileges: '' err)
      | Inr privileges \<Rightarrow>
      (case FormatRoleStrings (up_Roles parameters) of
         Inl err \<Rightarrow> Inl (Wrapped ''cannot convert roles: '' err)
       | Inr roles \<Rightarrow> Inr (parameters\<lparr>up_Privileges := privileges, up_Roles := roles,
           up_Parameters := transformParameters (up_Parameters parameters)\<rparr>)))"

definition user_buildObservedParameters :: "'w userExternal \<Rightarrow> User \<Rightarrow> UserObservation" where
  "user_buildObservedParameters x cr =
     (let observed = copy_UserObservation (ux_copy x 1) (user_AtProvider cr)
      in observed\<lparr>uo_Parameters := transformParameters (uo_Parameters observed)\<rparr>)"

definition buildUpdateInputs :: "'w userExternal \<Rightarrow> User \<Rightarrow> error + UserParameters \<times> UserObservation" where
  "buildUpdateInputs x cr =
     (case user_buildDesiredParameters x cr of
        Inl err \<Rightarrow> Inl err
      | Inr desired \<Rightarrow>
          let observed = user_buildObservedParameters x cr in
          (case FilterManagedPrivileges (Some observed) (up_Privileges (user_ForProvider cr))
                  (uo_Privileges (user_AtProvider cr)) (user_PrivilegeManagementPolicy cr)
                  (user_GetDefaultSchema (ux_client x)) of
             (Some err, _) \<Rightarrow> Inl (Wrapped ''cannot filter privileges: '' err)
           | (None, None) \<Rightarrow> Inl (Panic ''nil pointer dereference'')
           | (None, Some observed) \<Rightarrow> Inr (desired, observed)))"

text \<open>An assignment to a field of \<open>cr.Status.AtProvider\<close>.\<close>

definition user_status :: "(UserObservation \<Rightarrow> UserObservation) \<Rightarrow> User \<Rightarrow> User" where
  "user_status f cr = cr\<lparr>user_AtProvider := f (user_AtProvider cr)\<rparr>"

definition updatePrivileges :: "'w userExternal \<Rightarrow> UserParameters \<Rightarrow> UserObservation \<Rightarrow> (User, 'w) update_step" where
  "updatePrivileges x desired observed cr w =
     (case ArraysBothDiff (ux_ord x) (up_Privileges desired) (uo_Privileges observed) of (isEqual, toGrant, toRevoke) \<Rightarrow>
        if isEqual then (None, cr, w)
        else (case user_UpdatePrivileges (ux_client x) (up_Username desired) toGrant toRevoke w of
                (Some err, w') \<Rightarrow> (Some (Wrapped ''cannot update user: '' err), cr, w')
              | (None, w') \<Rightarrow> (None, user_status (\<lambda>ob. ob\<lparr>uo_Privileges := up_Privileges desired\<rparr>) cr, w')))"

definition updateRoles :: "'w userExternal \<Rightarrow> UserParameters \<Rightarrow> UserObservation \<Rightarrow> (User, 'w) update_step" where
  "updateRoles x desired observed cr w =
     (case ArraysBothDiff (ux_ord x) (up_Roles desired) (uo_Roles observed) of (isEqual, toGrant, toRevoke) \<Rightarrow>
        if isEqual then (None, cr, w)
        else (case user_UpdateRoles (ux_client x) (up_Username desired) toGrant toRevoke w of
                (Some err, w') \<Rightarrow> (Some (Wrapped ''cannot update user: '' err), cr, w')
              | (None, w') \<Rightarrow> (None, user_status (\<lambda>ob. ob\<lparr>uo_Roles := up_Roles desired\<rparr>) cr, w')))"

definition updateParameters :: "'w userExternal \<Rightarrow> UserParameters \<Rightarrow> UserObservation \<Rightarrow> (User, 'w) update_step" where
  "updateParameters x desired observed cr w =
     (case MapsBothDiff (up_Parameters desired) (uo_Parameters observed) of (isEqual, parametersToSet, parametersToClear) \<Rightarrow>
        if isEqual then (None, cr, w)
        else (case user_UpdateParameters (uc_DB (ux_client x)) (up_Username desired) parametersToSet parametersToClear w of
                (Some err, w') \<Rightarrow> (Some (Wrapped ''cannot update user: '' err), cr, w')
              | (None, w') \<Rightarrow> (None, user_status (\<lambda>ob. ob\<lparr>uo_Parameters := up_Parameters desired\<rparr>) cr, w')))"

definition updateUsergroup :: "'w userExternal \<Rightarrow> UserParameters \<Rightarrow> UserObservation \<Rightarrow> (User, 'w) update_step" where
  "updateUsergroup x desired observed cr w =
     (if uo_Usergroup observed \<noteq> Some (up_Usergroup desired)
      then (case user_UpdateUsergroup (uc_DB (ux_client x)) (up_Username desired) (up_Usergroup desired) w of
              (Some err, w') \<Rightarrow> (Some (Wrapped ''cannot update user: '' err), cr, w')
            | (None, w') \<Rightarrow> (None, user_status (\<lambda>ob. ob\<lparr>uo_Usergroup := Some (up_Usergroup desired)\<rparr>) cr, w'))
      else (None, cr, w))"

definition updateX509Providers :: "'w userExternal \<Rightarrow> UserParameters \<Rightarrow> UserObservation \<Rightarrow> (User, 'w) update_step" where
  "updateX509Providers x desired observed cr w =
     (let desiredProviders = elems (au_X509Providers (up_Authentication desired));
          observedProviders = uo_X509Providers observed;
          namespace = om_Namespace (metadata cr) in
      case ArraysBothDiff (ux_ordm x) desiredProviders observedProviders of (isEqual, mappingsToAdd, mappingsToRemove) \<Rightarrow>
      (case ResolveUserMappings (ux_kube x) mappingsToAdd namespace w of
         Inl err \<Rightarrow> (Some (Wrapped ''cannot update user: '' err), cr, w)
       | Inr providersToAdd \<Rightarrow>
      (case ResolveUserMappings (ux_kube x) mappingsToRemove namespace w of
         Inl err \<Rightarrow> (Some (Wrapped ''cannot update user: '' err), cr, w)
       | Inr providersToRemove \<Rightarrow>
           if isEqual then (None, cr, w)
           else (case user_UpdateX509Providers (uc_DB (ux_client x)) (up_Username desired) providersToAdd providersToRemove w of
                   (Some err, w') \<Rightarrow> (Some (Wrapped ''cannot update user: '' err), cr, w')
                 | (None, w') \<Rightarrow> (None, user_status (\<lambda>ob. ob\<lparr>uo_X509Providers := desiredProviders\<rparr>) cr, w')))))"

definition updatePasswordLifetimeCheck ::
  "'w userExternal \<Rightarrow> UserParameters \<Rightarrow> UserObservation \<Rightarrow> (User, 'w) update_step" where
  "updatePasswordLifetimeCheck x desired observed cr w =
     (let enabled = up_IsPasswordLifetimeCheckEnabled desired in
      if uo_IsPasswordLifetimeCheckEnabled observed \<noteq> Some enabled
      then (case user_UpdatePasswordLifetimeCheck (uc_DB (ux_client x)) (up_Username desired) enabled w of
              (Some err, w') \<Rightarrow> (Some (Wrapped ''cannot update user: '' err), cr, w')
            | (None, w') \<Rightarrow> (None, user_status (\<lambda>ob. ob\<lparr>uo_IsPasswordLifetimeCheckEnabled := Some enabled\<rparr>) cr, w'))
      else (None, cr, w))"

definition updatePassword :: "'w userExternal \<Rightarrow> UserParameters \<Rightarrow> (User, 'w) update_step" where
  "updatePassword x desired cr w =
     (let db = uc_DB (ux_client x); enabled = uo_IsPasswordEnabled (user_AtProvider cr) in
      if uo_PasswordUpToDate (user_AtProvider cr) = Some False then
        if au_Password (up_Authentication (user_ForProvider cr)) = None \<or> enabled = Some False then
          (case enabled of
             None \<Rightarrow> (Some (Panic ''nil pointer dereference''), cr, w)
           | Some isPasswordEnabled \<Rightarrow>
               (case user_TogglePasswordAuthentication db (up_Username desired) isPasswordEnabled w of
                  (Some err, w') \<Rightarrow> (Some (Wrapped ''cannot update user: '' err), cr, w')
                | (None, w') \<Rightarrow> (None, cr, w')))
        else
          (case getPassword (ux_kube x) cr w of
             Inl err \<Rightarrow> (Some (Wrapped ''cannot update user: '' err), cr, w)
           | Inr password \<Rightarrow>
               (case au_Password (up_Authentication desired) of
                  None \<Rightarrow> (Some (Panic ''nil pointer dereference''), cr, w)
                | Some pw \<Rightarrow>
                    (case user_UpdatePassword db (up_Username desired) password (pw_ForceFirstPasswordChange pw) w of
                       (Some err, w') \<Rightarrow> (Some (Wrapped ''cannot update user: '' err), cr, w')
                     | (None, w') \<Rightarrow> (None, user_status (\<lambda>ob. ob\<lparr>uo_PasswordUpToDate := Some True\<rparr>) cr, w'))))
      else (None, cr, w))"

definition user_steps :: "'w userExternal \<Rightarrow> UserParameters \<Rightarrow> UserObservation \<Rightarrow> (User, 'w) update_step list" where
  "user_steps x desired observed =
     [updatePrivileges x desired observed, updateRoles x desired observed, updateParameters x desired observed,
      updateUsergroup x desired observed, updateX509Providers x desired observed,
      updatePasswordLifetimeCheck x desired observed, updatePassword x desired]"

definition user_controller_Update :: "'w userExternal \<Rightarrow> (unit, 'w) handler" where
  "user_controller_Update x mg w = (case mg of
     MUser cr \<Rightarrow>
       (case buildUpdateInputs x cr of
          Inl err \<Rightarrow> (Inl err, mg, w)
        | Inr (desired, observed) \<Rightarrow>
            let (err, cr, w) = run_steps (user_steps x desired observed) cr w
            in (outcome err, MUser cr, w))
   | _ \<Rightarrow> (Inl (ErrorString errNotUser), mg, w))"

definition user_external :: "'w userExternal \<Rightarrow> 'w ExternalClient" where
  "user_external x = \<lparr>Observe = user_Observe x, Create = user_controller_Create x,
     Update = user_controller_Update x, Delete = user_controller_Delete x\<rparr>"

section \<open>Interfaces\<close>

lemmas user_handlers = user_external_def user_Observe_def user_controller_Create_def
  user_controller_Update_def user_controller_Delete_def

lemmas user_step_defs = updatePrivileges_def updateRoles_def updateParameters_def updateUsergroup_def
  updateX509Providers_def updatePasswordLifetimeCheck_def updatePassword_def

lemma user_status_frame [simp]:
  "user_ForProvider (user_status f cr) = user_ForProvider cr"
  "user_PrivilegeManagementPolicy (user_status f cr) = user_PrivilegeManagementPolicy cr"
  "set_conditions (user_status f cr) = set_conditions cr" "metadata (user_status f cr) = metadata cr"
  "user_AtProvider (user_status f cr) = f (user_AtProvider cr)"
  by (simp_all add: user_status_def)

lemma user_step_keeps:
  assumes "f \<in> set (user_steps x d ob)"
  shows "user_ForProvider (fst (snd (f cr w))) = user_ForProvider cr
    \<and> set_conditions (fst (snd (f cr w))) = set_conditions cr"
  using assms unfolding user_steps_def
  by (auto simp: user_step_defs Let_def split: prod.split option.split sum.split)

lemma user_steps_keep:
  "user_ForProvider (fst (snd (run_steps (user_steps x d ob) cr w))) = user_ForProvider cr
   \<and> set_conditions (fst (snd (run_steps (user_steps x d ob) cr w))) = set_conditions cr"
proof (rule run_steps_invariant [where P = "\<lambda>cr' :: User. user_ForProvider cr' = user_ForProvider cr \<and> set_conditions cr' = set_conditions cr"])
  fix f and cr1 :: User and w1
  assume "f \<in> set (user_steps x d ob)" and "user_ForProvider cr1 = user_ForProvider cr \<and> set_conditions cr1 = set_conditions cr"
  then show "user_ForProvider (fst (snd (f cr1 w1))) = user_ForProvider cr \<and> set_conditions (fst (snd (f cr1 w1))) = set_conditions cr"
    using user_step_keeps [of f x d ob cr1 w1] by simp
qed simp

lemma user_Update_keeps:
  "\<exists>cr'. fst (snd (user_controller_Update x (MUser cr) w)) = MUser cr' \<and>
     user_ForProvider cr' = user_ForProvider cr \<and> set_conditions cr' = set_conditions cr"
  using user_steps_keep [of x _ _ cr w]
  by (auto simp: user_controller_Update_def Let_def split_beta split: sum.split)

lemma user_keeps:
  "\<exists>cr' cs. fst (after_call (user_external x) k (MUser cr) w) = MUser cr' \<and>
     user_ForProvider cr' = user_ForProvider cr \<and> set_conditions cr' = set_conditions cr @ cs \<and>
     (k = CallDelete \<longrightarrow> cs = [Deleting])"
proof (cases k)
  case CallUpdate
  then show ?thesis using user_Update_keeps [of x cr w] by (auto simp: user_external_def)
qed (auto simp: user_handlers SetConditions_def Let_def split: prod.split sum.split option.split)

interpretation user_client: external_client "user_external x" MUser user_ForProvider
  set_conditions "ErrorString errNotUser" for x :: "'w userExternal"
proof (unfold_locales, goal_cases)
  case 5
  show ?case by (rule user_keeps)
qed (auto simp: user_handlers split: Managed.splits)

section \<open>The plan of an update\<close>

text \<open>
  The Kubernetes API and the database are different servers: a statement changes neither a secret
  nor an X.509 provider object. \<open>same_view\<close> says that two worlds agree on what the controller reads
  from the API.
\<close>

definition same_view :: "'w Kube \<Rightarrow> 'w \<Rightarrow> 'w \<Rightarrow> bool" where
  "same_view kube w w' \<longleftrightarrow>
     (\<forall>ns n. GetSecret kube ns n w' = GetSecret kube ns n w \<and> GetX509Provider kube ns n w' = GetX509Provider kube ns n w)"

definition separate :: "'w Kube \<Rightarrow> 'w DB \<Rightarrow> bool" where
  "separate kube db \<longleftrightarrow> (\<forall>q w. same_view kube w (snd (ExecContext db q w)))"

lemma same_view_run_plan:
  assumes "separate kube db" and "same_view kube w0 w"
  shows "same_view kube w0 (snd (run_plan db p w))"
  by (rule run_plan_invariant [where P = "same_view kube w0"])
     (use assms in \<open>auto simp: separate_def same_view_def\<close>)

lemma getPassword_view: "same_view kube w w' \<Longrightarrow> getPassword kube cr w' = getPassword kube cr w"
  by (simp add: getPassword_def same_view_def split: option.split)

lemma ResolveUserMappings_view:
  "same_view kube w w' \<Longrightarrow> ResolveUserMappings kube ms ns w' = ResolveUserMappings kube ms ns w"
proof (induction ms)
  case (Cons m ms)
  have g: "GetX509Provider kube ns n w' = GetX509Provider kube ns n w" for n
    using Cons.prems by (simp add: same_view_def)
  show ?case unfolding ResolveUserMappings.simps g Cons.IH [OF Cons.prems] ..
qed simp

definition failed :: "plan \<Rightarrow> plan" where
  "failed p = plan_wrap (Wrapped ''cannot update user: '') p"

definition user_privileges_plan :: "'w userExternal \<Rightarrow> UserParameters \<Rightarrow> UserObservation \<Rightarrow> plan" where
  "user_privileges_plan x d ob =
     (case ArraysBothDiff (ux_ord x) (up_Privileges d) (uo_Privileges ob) of (isEqual, toGrant, toRevoke) \<Rightarrow>
        let c = ux_client x in
        if isEqual then plan_skip
        else failed (plan_then
          (if toGrant = [] then plan_skip else GrantPrivileges_plan (uc_groups c) (uc_username c) (up_Username d) toGrant)
          (if toRevoke = [] then plan_skip else RevokePrivileges_plan (uc_groups c) (uc_username c) (up_Username d) toRevoke)))"

definition user_roles_plan :: "'w userExternal \<Rightarrow> UserParameters \<Rightarrow> UserObservation \<Rightarrow> plan" where
  "user_roles_plan x d ob =
     (case ArraysBothDiff (ux_ord x) (up_Roles d) (uo_Roles ob) of (isEqual, toGrant, toRevoke) \<Rightarrow>
        if isEqual then plan_skip
        else failed (plan_then
          (if toGrant = [] then plan_skip else GrantRoles_plan (up_Username d) toGrant)
          (if toRevoke = [] then plan_skip else RevokeRoles_plan (up_Username d) toRevoke)))"

definition user_parameters_plan :: "UserParameters \<Rightarrow> UserObservation \<Rightarrow> plan" where
  "user_parameters_plan d ob =
     (if map_of (up_Parameters d) = map_of (uo_Parameters ob) then plan_skip
      else failed (plan_wrap (Wrapped ''cannot update user parameters: '') (plan_exec (''ALTER USER '' @ up_Username d))))"

definition user_usergroup_plan :: "UserParameters \<Rightarrow> UserObservation \<Rightarrow> plan" where
  "user_usergroup_plan d ob =
     (if uo_Usergroup ob = Some (up_Usergroup d) then plan_skip
      else failed (plan_wrap (Wrapped ''cannot update user usergroup: '')
        (plan_exec (''ALTER USER '' @ up_Username d @
           (if up_Usergroup d \<noteq> [] then '' SET USERGROUP '' @ up_Usergroup d else '' UNSET USERGROUP'')))))"

definition user_x509_plan :: "'w userExternal \<Rightarrow> 'w \<Rightarrow> UserParameters \<Rightarrow> UserObservation \<Rightarrow> User \<Rightarrow> plan" where
  "user_x509_plan x w d ob cr =
     (case ArraysBothDiff (ux_ordm x) (elems (au_X509Providers (up_Authentication d))) (uo_X509Providers ob) of
        (isEqual, toAdd, toRemove) \<Rightarrow>
        let resolve = (\<lambda>ms. ResolveUserMappings (ux_kube x) ms (om_Namespace (metadata cr)) w) in
        if isEqual then plan_skip
        else failed (case (resolve toAdd, resolve toRemove) of
          (Inl err, _) \<Rightarrow> plan_fail err
        | (_, Inl err) \<Rightarrow> plan_fail err
        | (Inr add, Inr remove) \<Rightarrow> plan_execs (map (add_identity_query (up_Username d)) add @
             map (drop_identity_query (up_Username d)) remove)))"

definition user_lifetime_plan :: "UserParameters \<Rightarrow> UserObservation \<Rightarrow> plan" where
  "user_lifetime_plan d ob =
     (let enabled = up_IsPasswordLifetimeCheckEnabled d in
      if uo_IsPasswordLifetimeCheckEnabled ob = Some enabled then plan_skip
      else failed (plan_wrap (Wrapped ''cannot update user password lifetime check: '')
        (plan_exec (''ALTER USER '' @ up_Username d @
           (if enabled then '' ENABLE PASSWORD LIFETIME'' else '' DISABLE PASSWORD LIFETIME'')))))"

text \<open>The password is set when one is managed and enabled; otherwise password login is switched.\<close>

definition sets_password :: "User \<Rightarrow> bool" where
  "sets_password cr \<longleftrightarrow> uo_PasswordUpToDate (user_AtProvider cr) = Some False
     \<and> au_Password (up_Authentication (user_ForProvider cr)) \<noteq> None
     \<and> uo_IsPasswordEnabled (user_AtProvider cr) \<noteq> Some False"

definition user_password_plan :: "'w userExternal \<Rightarrow> 'w \<Rightarrow> UserParameters \<Rightarrow> User \<Rightarrow> plan" where
  "user_password_plan x w d cr =
     (if uo_PasswordUpToDate (user_AtProvider cr) \<noteq> Some False then plan_skip
      else if sets_password cr then
        (case getPassword (ux_kube x) cr w of
           Inl err \<Rightarrow> failed (plan_fail err)
         | Inr password \<Rightarrow>
             (case au_Password (up_Authentication d) of
                None \<Rightarrow> plan_fail (Panic ''nil pointer dereference'')
              | Some pw \<Rightarrow> failed (plan_wrap (Wrapped ''cannot update user password: '')
                  (plan_exec (''ALTER USER '' @ up_Username d @ '' PASSWORD '' @ [dq] @ password @ [dq] @
                     (if \<not> pw_ForceFirstPasswordChange pw then '' NO FORCE_FIRST_PASSWORD_CHANGE'' else []))))))
      else (case uo_IsPasswordEnabled (user_AtProvider cr) of
              None \<Rightarrow> plan_fail (Panic ''nil pointer dereference'')
            | Some enabled \<Rightarrow> failed (plan_wrap (Wrapped ''failed to enable/disable password: '')
                (plan_exec (''ALTER USER '' @ up_Username d @ (if enabled then '' DISABLE PASSWORD'' else '' ENABLE PASSWORD''))))))"

definition user_status_steps ::
  "'w userExternal \<Rightarrow> 'w \<Rightarrow> UserParameters \<Rightarrow> UserObservation \<Rightarrow> ((User \<Rightarrow> plan) \<times> (User \<Rightarrow> User)) list" where
  "user_status_steps x w d ob =
     [(\<lambda>_. user_privileges_plan x d ob,
       if set (up_Privileges d) = set (uo_Privileges ob) then id else user_status (\<lambda>st. st\<lparr>uo_Privileges := up_Privileges d\<rparr>)),
      (\<lambda>_. user_roles_plan x d ob,
       if set (up_Roles d) = set (uo_Roles ob) then id else user_status (\<lambda>st. st\<lparr>uo_Roles := up_Roles d\<rparr>)),
      (\<lambda>_. user_parameters_plan d ob,
       if map_of (up_Parameters d) = map_of (uo_Parameters ob) then id else user_status (\<lambda>st. st\<lparr>uo_Parameters := up_Parameters d\<rparr>)),
      (\<lambda>_. user_usergroup_plan d ob,
       if uo_Usergroup ob = Some (up_Usergroup d) then id else user_status (\<lambda>st. st\<lparr>uo_Usergroup := Some (up_Usergroup d)\<rparr>)),
      (user_x509_plan x w d ob,
       if set (elems (au_X509Providers (up_Authentication d))) = set (uo_X509Providers ob) then id
       else user_status (\<lambda>st. st\<lparr>uo_X509Providers := elems (au_X509Providers (up_Authentication d))\<rparr>)),
      (\<lambda>_. user_lifetime_plan d ob,
       if uo_IsPasswordLifetimeCheckEnabled ob = Some (up_IsPasswordLifetimeCheckEnabled d) then id
       else user_status (\<lambda>st. st\<lparr>uo_IsPasswordLifetimeCheckEnabled := Some (up_IsPasswordLifetimeCheckEnabled d)\<rparr>)),
      (user_password_plan x w d,
       \<lambda>cr. if sets_password cr then user_status (\<lambda>st. st\<lparr>uo_PasswordUpToDate := Some True\<rparr>) cr else cr)]"

definition user_update_plan :: "'w userExternal \<Rightarrow> 'w \<Rightarrow> User \<Rightarrow> UserParameters \<Rightarrow> UserObservation \<Rightarrow> plan" where
  "user_update_plan x w cr d ob = plans_of (user_status_steps x w d ob) cr"

lemma user_plans_status [simp]:
  "user_x509_plan x w d ob (user_status f cr) = user_x509_plan x w d ob cr"
  "getPassword kube (user_status f cr) w = getPassword kube cr w"
  by (simp_all add: user_x509_plan_def getPassword_def)

lemma user_password_status:
  assumes "\<And>st. uo_PasswordUpToDate (f st) = uo_PasswordUpToDate st \<and> uo_IsPasswordEnabled (f st) = uo_IsPasswordEnabled st"
  shows "user_password_plan x w d (user_status f cr) = user_password_plan x w d cr"
  using assms by (simp add: user_password_plan_def sets_password_def)

lemma undisturbed_user: "undisturbed (user_status_steps x w d ob)"
  by (simp add: user_status_steps_def user_password_status)

lemma run_failed: "run_plan db (failed p) w = wrap_err ''cannot update user: '' (run_plan db p w)"
  by (simp add: failed_def run_plan_wrap_err)

lemma failed_cases:
  "(case r of (Some err, w') \<Rightarrow> (Some (Wrapped m err), cr, w') | (None, w') \<Rightarrow> (None, cr', w')) =
   (fst (wrap_err m r), if fst (wrap_err m r) = None then cr' else cr, snd (wrap_err m r))"
  by (auto simp: wrap_err_def split: prod.split option.split)

lemma user_step_privileges:
  "updatePrivileges x d ob = status_step (uc_DB (ux_client x)) (\<lambda>_. user_privileges_plan x d ob)
     (if set (up_Privileges d) = set (uo_Privileges ob) then id else user_status (\<lambda>st. st\<lparr>uo_Privileges := up_Privileges d\<rparr>))"
  by (simp add: fun_eq_iff updatePrivileges_def user_privileges_plan_def status_step_def ArraysBothDiff_form Let_def
      run_failed run_plan_skip failed_cases user_UpdatePrivileges_def privs.update_planned)

lemma user_step_roles:
  "updateRoles x d ob = status_step (uc_DB (ux_client x)) (\<lambda>_. user_roles_plan x d ob)
     (if set (up_Roles d) = set (uo_Roles ob) then id else user_status (\<lambda>st. st\<lparr>uo_Roles := up_Roles d\<rparr>))"
  by (simp add: fun_eq_iff updateRoles_def user_roles_plan_def status_step_def ArraysBothDiff_form Let_def
      run_failed run_plan_skip failed_cases user_UpdateRoles_def roles.update_planned)

lemma user_UpdateParameters_nothing:
  "user_UpdateParameters db u [] [] w =
   run_plan db (plan_wrap (Wrapped ''cannot update user parameters: '') (plan_exec (''ALTER USER '' @ u))) w"
  by (simp add: user_UpdateParameters_def user_parameters_query_def run_plan_wrap_err run_plan_exec)

lemma user_step_parameters:
  assumes "gomap_ok (up_Parameters d)" "gomap_ok (uo_Parameters ob)"
  shows "updateParameters x d ob = status_step (uc_DB (ux_client x)) (\<lambda>_. user_parameters_plan d ob)
     (if map_of (up_Parameters d) = map_of (uo_Parameters ob) then id else user_status (\<lambda>st. st\<lparr>uo_Parameters := up_Parameters d\<rparr>))"
  by (intro ext) (simp add: updateParameters_def user_parameters_plan_def status_step_def user_UpdateParameters_nothing
      MapsBothDiff_iff [OF assms] Let_def run_failed run_plan_skip failed_cases)

lemma user_UpdateUsergroup_planned:
  "user_UpdateUsergroup db u g w = run_plan db (plan_wrap (Wrapped ''cannot update user usergroup: '')
     (plan_exec (''ALTER USER '' @ u @ (if g \<noteq> [] then '' SET USERGROUP '' @ g else '' UNSET USERGROUP'')))) w"
  by (simp add: user_UpdateUsergroup_def run_plan_wrap_err run_plan_exec)

lemma user_step_usergroup:
  "updateUsergroup x d ob = status_step (uc_DB (ux_client x)) (\<lambda>_. user_usergroup_plan d ob)
     (if uo_Usergroup ob = Some (up_Usergroup d) then id else user_status (\<lambda>st. st\<lparr>uo_Usergroup := Some (up_Usergroup d)\<rparr>))"
  by (intro ext) (simp add: updateUsergroup_def user_usergroup_plan_def status_step_def Let_def
      user_UpdateUsergroup_planned run_failed run_plan_skip failed_cases del: append.simps)

lemma user_UpdateLifetime_planned:
  "user_UpdatePasswordLifetimeCheck db u b w = run_plan db (plan_wrap (Wrapped ''cannot update user password lifetime check: '')
     (plan_exec (''ALTER USER '' @ u @ (if b then '' ENABLE PASSWORD LIFETIME'' else '' DISABLE PASSWORD LIFETIME'')))) w"
  by (simp add: user_UpdatePasswordLifetimeCheck_def run_plan_wrap_err run_plan_exec)

lemma user_step_lifetime:
  "updatePasswordLifetimeCheck x d ob = status_step (uc_DB (ux_client x)) (\<lambda>_. user_lifetime_plan d ob)
     (if uo_IsPasswordLifetimeCheckEnabled ob = Some (up_IsPasswordLifetimeCheckEnabled d) then id
      else user_status (\<lambda>st. st\<lparr>uo_IsPasswordLifetimeCheckEnabled := Some (up_IsPasswordLifetimeCheckEnabled d)\<rparr>))"
  by (intro ext) (simp add: updatePasswordLifetimeCheck_def user_lifetime_plan_def status_step_def Let_def
      user_UpdateLifetime_planned run_failed run_plan_skip failed_cases del: append.simps)

lemma user_UpdateX509Providers_planned:
  "user_UpdateX509Providers db u add remove w =
   run_plan db (plan_execs (map (add_identity_query u) add @ map (drop_identity_query u) remove)) w"
proof -
  have "exec_all db (xs @ ys) w = and_then (exec_all db xs w) (exec_all db ys)" for xs ys
    by (induction db xs w rule: exec_all.induct) (auto simp: and_then_def split: prod.split option.split)
  then show ?thesis
    by (auto simp: user_UpdateX509Providers_def run_plan_execs and_then_def split: prod.split option.split)
qed

lemma user_step_x509:
  assumes "same_view (ux_kube x) w0 w"
  shows "updateX509Providers x d ob cr w = status_step (uc_DB (ux_client x)) (user_x509_plan x w0 d ob)
     (if set (elems (au_X509Providers (up_Authentication d))) = set (uo_X509Providers ob) then id
      else user_status (\<lambda>st. st\<lparr>uo_X509Providers := elems (au_X509Providers (up_Authentication d))\<rparr>)) cr w"
  by (auto simp: updateX509Providers_def user_x509_plan_def status_step_def ArraysBothDiff_form Let_def
      run_failed run_plan_skip run_plan_fail failed_cases user_UpdateX509Providers_planned wrap_err_def [of _ "(_, _)"]
      ResolveUserMappings_view [OF assms] split: sum.split)

lemma user_UpdatePassword_planned:
  "user_UpdatePassword db u pw force w = run_plan db (plan_wrap (Wrapped ''cannot update user password: '')
     (plan_exec (''ALTER USER '' @ u @ '' PASSWORD '' @ [dq] @ pw @ [dq] @
        (if \<not> force then '' NO FORCE_FIRST_PASSWORD_CHANGE'' else [])))) w"
  by (simp add: user_UpdatePassword_def run_plan_wrap_err run_plan_exec)

lemma user_Toggle_planned:
  "user_TogglePasswordAuthentication db u enabled w = run_plan db (plan_wrap (Wrapped ''failed to enable/disable password: '')
     (plan_exec (''ALTER USER '' @ u @ (if enabled then '' DISABLE PASSWORD'' else '' ENABLE PASSWORD'')))) w"
  by (simp add: user_TogglePasswordAuthentication_def run_plan_wrap_err run_plan_exec)

lemma user_step_password:
  assumes "same_view (ux_kube x) w0 w"
  shows "updatePassword x d cr w = status_step (uc_DB (ux_client x)) (user_password_plan x w0 d)
     (\<lambda>cr. if sets_password cr then user_status (\<lambda>st. st\<lparr>uo_PasswordUpToDate := Some True\<rparr>) cr else cr) cr w"
proof (cases "uo_PasswordUpToDate (user_AtProvider cr) = Some False")
  case False
  then show ?thesis
    by (simp add: updatePassword_def user_password_plan_def status_step_def run_plan_skip sets_password_def Let_def)
next
  case up: True
  show ?thesis
  proof (cases "sets_password cr")
    case True
    then obtain pw where "au_Password (up_Authentication (user_ForProvider cr)) = Some pw"
        "uo_IsPasswordEnabled (user_AtProvider cr) \<noteq> Some False"
      by (auto simp: sets_password_def)
    then show ?thesis using up True
      by (simp add: updatePassword_def user_password_plan_def status_step_def getPassword_view [OF assms] Let_def
          failed_cases user_UpdatePassword_planned run_failed run_plan_fail wrap_err_def [of _ "(_, _)"]
          del: append.simps append_assoc split: sum.split option.split)
  next
    case False
    then have "au_Password (up_Authentication (user_ForProvider cr)) = None \<or> uo_IsPasswordEnabled (user_AtProvider cr) = Some False"
      using up by (simp add: sets_password_def)
    then show ?thesis using up False
      by (simp add: updatePassword_def user_password_plan_def status_step_def Let_def
          failed_cases user_Toggle_planned run_failed run_plan_fail del: append.simps append_assoc split: option.split)
  qed
qed

lemma user_steps_planned:
  assumes "separate (ux_kube x) (uc_DB (ux_client x))"
    and "gomap_ok (up_Parameters d)" "gomap_ok (uo_Parameters ob)"
  shows "run_steps (user_steps x d ob) cr w =
     run_steps (map (\<lambda>s. status_step (uc_DB (ux_client x)) (fst s) (snd s)) (user_status_steps x w d ob)) cr w"
proof (rule run_steps_agree [where V = "same_view (ux_kube x) w"])
  let ?db = "uc_DB (ux_client x)"
  have keep: "same_view (ux_kube x) w (snd (snd (status_step ?db P f cr' w')))" if "same_view (ux_kube x) w w'" for P f cr' w'
    using same_view_run_plan [OF assms(1) that] by (simp add: status_step_def Let_def)
  show "list_all2 (\<lambda>f g. \<forall>cr' w'. same_view (ux_kube x) w w' \<longrightarrow> f cr' w' = g cr' w' \<and> same_view (ux_kube x) w (snd (snd (g cr' w'))))
      (user_steps x d ob) (map (\<lambda>s. status_step ?db (fst s) (snd s)) (user_status_steps x w d ob))"
    unfolding user_steps_def user_status_steps_def list.map fst_conv snd_conv
    by (intro list.rel_intros allI impI conjI)
       (simp_all only: keep user_step_privileges user_step_roles user_step_parameters [OF assms(2,3)]
          user_step_usergroup user_step_lifetime user_step_x509 user_step_password)
  show "same_view (ux_kube x) w w" by (simp add: same_view_def)
qed

lemma transformParameters_ok [simp]: "gomap_ok (transformParameters m)"
proof -
  have "gomap_ok acc \<Longrightarrow> gomap_ok (fold (\<lambda>(key, val) filteredParameters.
       let upperKey = ToUpper key in
       if upperKey \<in> set integerKeys \<and> \<not> Sscanf_int val then filteredParameters
       else gomap_set filteredParameters upperKey val) m acc)" for acc
    by (induction m arbitrary: acc) (auto simp: Let_def)
  from this [of "[]"] show ?thesis by (simp add: transformParameters_def gomap_ok_def)
qed

lemma buildUpdateInputs_D:
  assumes "buildUpdateInputs x cr = Inr (d, ob)"
  shows "gomap_ok (up_Parameters d)" "gomap_ok (uo_Parameters ob)"
    "uo_Parameters ob = transformParameters (uo_Parameters (user_AtProvider cr))"
    "uo_PasswordUpToDate ob = uo_PasswordUpToDate (user_AtProvider cr)"
    "uo_Usergroup ob = uo_Usergroup (user_AtProvider cr)"
    "uo_IsPasswordLifetimeCheckEnabled ob = uo_IsPasswordLifetimeCheckEnabled (user_AtProvider cr)"
    "uo_Roles ob = uo_Roles (user_AtProvider cr)"
    "uo_X509Providers ob = map (copy_mapping (ux_copy x 1)) (uo_X509Providers (user_AtProvider cr))"
    "user_PrivilegeManagementPolicy cr = ''strict'' \<Longrightarrow> uo_Privileges ob = uo_Privileges (user_AtProvider cr)"
    "(au_Password (up_Authentication d) = None) = (au_Password (up_Authentication (user_ForProvider cr)) = None)"
  using assms
  by (auto simp: buildUpdateInputs_def user_buildDesiredParameters_def user_buildObservedParameters_def Let_def
      FilterManagedPrivileges_def handleDefaults_def copy_UserParameters_def copy_UserObservation_def
      split: sum.splits if_splits option.splits)

lemma user_Update_planned:
  assumes "user_controller_Update x (MUser cr) w = (r, mg', w')"
    and "buildUpdateInputs x cr = Inr (d, ob)" and "separate (ux_kube x) (uc_DB (ux_client x))"
  shows "(r, w') = map_prod outcome id (run_plan (uc_DB (ux_client x)) (user_update_plan x w cr d ob) w)
    \<and> (r = Inr () \<longrightarrow> mg' = MUser (fold snd (user_status_steps x w d ob) cr))"
proof -
  let ?run = "run_steps (map (\<lambda>s. status_step (uc_DB (ux_client x)) (fst s) (snd s)) (user_status_steps x w d ob)) cr w"
  note ok = buildUpdateInputs_D(1,2) [OF assms(2)]
  note run = run_status_steps [OF undisturbed_user [of x w d ob], of "uc_DB (ux_client x)" cr w]
  have u: "r = outcome (fst ?run)" "mg' = MUser (fst (snd ?run))" "w' = snd (snd ?run)"
    using assms(1) by (simp_all add: user_controller_Update_def assms(2) user_steps_planned [OF assms(3) ok] Let_def split_beta)
  then show ?thesis
    using run by (auto simp: user_update_plan_def map_prod_def split_beta outcome_def split: option.splits)
qed

section \<open>Properties\<close>

lemma recorded_status:
  "user_AtProvider (fold snd (user_status_steps x w d ob) cr) =
     (user_AtProvider cr)\<lparr>
       uo_Privileges := if set (up_Privileges d) = set (uo_Privileges ob) then uo_Privileges (user_AtProvider cr) else up_Privileges d,
       uo_Roles := if set (up_Roles d) = set (uo_Roles ob) then uo_Roles (user_AtProvider cr) else up_Roles d,
       uo_Parameters := if map_of (up_Parameters d) = map_of (uo_Parameters ob) then uo_Parameters (user_AtProvider cr) else up_Parameters d,
       uo_Usergroup := if uo_Usergroup ob = Some (up_Usergroup d) then uo_Usergroup (user_AtProvider cr) else Some (up_Usergroup d),
       uo_X509Providers := if set (elems (au_X509Providers (up_Authentication d))) = set (uo_X509Providers ob)
         then uo_X509Providers (user_AtProvider cr) else elems (au_X509Providers (up_Authentication d)),
       uo_IsPasswordLifetimeCheckEnabled := if uo_IsPasswordLifetimeCheckEnabled ob = Some (up_IsPasswordLifetimeCheckEnabled d)
         then uo_IsPasswordLifetimeCheckEnabled (user_AtProvider cr) else Some (up_IsPasswordLifetimeCheckEnabled d),
       uo_PasswordUpToDate := if sets_password cr then Some True else uo_PasswordUpToDate (user_AtProvider cr)\<rparr>"
proof -
  have sp: "sets_password (user_status f cr') = sets_password cr'"
    if "\<And>st. uo_PasswordUpToDate (f st) = uo_PasswordUpToDate st \<and> uo_IsPasswordEnabled (f st) = uo_IsPasswordEnabled st" for f cr'
    using that by (simp add: sets_password_def)
  show ?thesis
    by (cases "set (up_Privileges d) = set (uo_Privileges ob)"; cases "set (up_Roles d) = set (uo_Roles ob)";
        cases "map_of (up_Parameters d) = map_of (uo_Parameters ob)"; cases "uo_Usergroup ob = Some (up_Usergroup d)";
        cases "set (elems (au_X509Providers (up_Authentication d))) = set (uo_X509Providers ob)";
        cases "uo_IsPasswordLifetimeCheckEnabled ob = Some (up_IsPasswordLifetimeCheckEnabled d)";
        simp add: user_status_steps_def sp)
qed

text \<open>
  When an update can settle a user: everything is managed (\<open>strict\<close>), no mapping refers to a
  provider object, the observed parameters are in their normal form, and a password that is wrong
  is one that is managed and enabled.
\<close>

definition can_settle :: "User \<Rightarrow> bool" where
  "can_settle cr \<longleftrightarrow>
     user_PrivilegeManagementPolicy cr = ''strict''
     \<and> (\<forall>m \<in> set (elems (au_X509Providers (up_Authentication (user_ForProvider cr)))). xr_ProviderRef m = None)
     \<and> (\<forall>m \<in> set (uo_X509Providers (user_AtProvider cr)). xr_ProviderRef m = None)
     \<and> gomap_ok (uo_Parameters (user_AtProvider cr))
     \<and> map_of (transformParameters (uo_Parameters (user_AtProvider cr))) = map_of (uo_Parameters (user_AtProvider cr))
     \<and> (if au_Password (up_Authentication (user_ForProvider cr)) = None then uo_PasswordUpToDate (user_AtProvider cr) = None
        else uo_PasswordUpToDate (user_AtProvider cr) = Some True \<or> sets_password cr)"

lemma copy_mapping_no_ref: "xr_ProviderRef m = None \<Longrightarrow> copy_mapping alloc m = m"
  by (simp add: copy_mapping_def)

lemma copy_mappings_no_ref: "\<forall>m \<in> set ms. xr_ProviderRef m = None \<Longrightarrow> map (copy_mapping alloc) ms = ms"
  by (induction ms) (simp_all add: copy_mapping_no_ref)

lemma user_settles:
  assumes inputs: "buildUpdateInputs x cr = Inr (d, ob)" and settle: "can_settle cr"
  shows "user_upToDate (user_AtProvider (fold snd (user_status_steps x w d ob) cr)) d"
proof -
  note D = buildUpdateInputs_D [OF inputs]
  let ?st = "user_AtProvider (fold snd (user_status_steps x w d ob) cr)"
  have strict: "uo_Privileges ob = uo_Privileges (user_AtProvider cr)"
    using D(9) settle by (simp add: can_settle_def)
  have x509: "uo_X509Providers ob = uo_X509Providers (user_AtProvider cr)"
    using settle by (simp add: D(8) can_settle_def copy_mappings_no_ref)
  have pw: "isPasswordUpToDate ?st d"
    using settle D(10) unfolding recorded_status by (auto simp: isPasswordUpToDate_def can_settle_def sets_password_def)
  have xs: "isX509MappingsUpToDate ?st d"
    unfolding recorded_status by (auto simp: isX509MappingsUpToDate_def x509 elems_def split: option.split)
  have ps: "maps_Equal (uo_Parameters ?st) (up_Parameters d)"
    using settle D(1) unfolding recorded_status by (auto simp: maps_Equal_iff can_settle_def D(3))
  show ?thesis
    unfolding user_upToDate_def using pw xs ps unfolding recorded_status
    by (auto simp: strict D(5,6,7))
qed

lemma user_update_plan_quiet:
  assumes "buildUpdateInputs x cr = Inr (d, ob)" "user_upToDate ob d"
  shows "user_update_plan x w cr d ob = plan_skip"
proof -
  note D = buildUpdateInputs_D [OF assms(1)]
  have "uo_PasswordUpToDate (user_AtProvider cr) \<noteq> Some False"
    using assms(2) D(4) by (auto simp: user_upToDate_def isPasswordUpToDate_def split: if_splits)
  moreover have "set (elems (au_X509Providers (up_Authentication d))) = set (uo_X509Providers ob)"
    using assms(2) by (auto simp: user_upToDate_def isX509MappingsUpToDate_def elems_def split: option.splits)
  moreover have "map_of (up_Parameters d) = map_of (uo_Parameters ob)"
    using assms(2) D(1,2) by (simp add: user_upToDate_def maps_Equal_iff)
  ultimately show ?thesis
    using assms(2) by (simp add: user_update_plan_def plans_of_def user_status_steps_def user_privileges_plan_def
        user_roles_plan_def user_parameters_plan_def user_usergroup_plan_def user_x509_plan_def user_lifetime_plan_def
        user_password_plan_def ArraysBothDiff_form user_upToDate_def)
qed

text \<open>
  C14. Updating a user executes the statements of its plan in order (privileges, roles, parameters,
  user group, X.509 identities, password lifetime, password), up to the first that fails. If none
  fails and the user can be settled, the status agrees with the specification afterwards; if the
  status agreed before, nothing is executed.
\<close>

theorem user_update_converges:
  assumes "separate (ux_kube x) (uc_DB (ux_client x))"
    and "buildUpdateInputs x cr = Inr (d, ob)"
    and "user_controller_Update x (MUser cr) w = (r, mg', w')"
  shows "(r, w') = map_prod outcome id (run_plan (uc_DB (ux_client x)) (user_update_plan x w cr d ob) w)
    \<and> (r = Inr () \<and> can_settle cr \<longrightarrow> (\<exists>cr'. mg' = MUser cr' \<and> user_ForProvider cr' = user_ForProvider cr
         \<and> user_upToDate (user_AtProvider cr') d))
    \<and> (user_upToDate ob d \<longrightarrow> r = Inr () \<and> w' = w)"
proof -
  have p: "(r, w') = map_prod outcome id (run_plan (uc_DB (ux_client x)) (user_update_plan x w cr d ob) w)"
    and mg: "r = Inr () \<longrightarrow> mg' = MUser (fold snd (user_status_steps x w d ob) cr)"
    using user_Update_planned [OF assms(3,2,1)] by blast+
  obtain cr' where cr': "mg' = MUser cr'" "user_ForProvider cr' = user_ForProvider cr"
    using user_Update_keeps [of x cr w] assms(3) by auto
  have "r = Inr () \<and> can_settle cr \<longrightarrow> user_upToDate (user_AtProvider cr') d"
    using user_settles [OF assms(2)] mg cr' by auto
  then show ?thesis using p cr' user_update_plan_quiet [OF assms(2)] by (auto simp: run_plan_skip)
qed

text \<open>A client on a recording server, and an API server on which no read depends on the world.\<close>

definition sample_kube :: "(string \<Rightarrow> string \<Rightarrow> error + gomap) \<Rightarrow> User list \<Rightarrow> 'w Kube" where
  "sample_kube secrets users =
     \<lparr>GetProviderConfig = (\<lambda>n w. Inl (ApiStatus ''NotFound'' n)), GetSecret = (\<lambda>ns n w. secrets ns n),
      GetX509Provider = (\<lambda>ns n w. Inl (ApiStatus ''NotFound'' n)), ListUsers = (\<lambda>w. Inr users), Track = (\<lambda>mg w. (None, w))\<rparr>"

definition sample_external :: "'w DB \<Rightarrow> (string \<Rightarrow> string \<Rightarrow> error + gomap) \<Rightarrow> 'w userExternal" where
  "sample_external db secrets =
     \<lparr>ux_client = \<lparr>uc_DB = db, uc_groups = rev, uc_username = ''P''\<rparr>,
      ux_kube = sample_kube secrets [], ux_ord = rev, ux_ordm = rev, ux_copy = (\<lambda>n a. 2 * a + n)\<rparr>"

definition sample_user :: "gomap \<Rightarrow> User" where
  "sample_user params =
     \<lparr>metadata = \<lparr>om_Name = ''u'', om_Namespace = [], om_UID = [], om_ExternalName = None\<rparr>,
      providerConfigReference = Some ''default'', set_conditions = [], status_conditions = [],
      user_ForProvider = \<lparr>up_Username = ''U'', up_RestrictedUser = True,
        up_Authentication = \<lparr>au_Password = Some \<lparr>pw_PasswordSecretRef =
            Some \<lparr>sr_Name = ''s'', sr_Namespace = ''n'', sk_Key = ''k''\<rparr>, pw_ForceFirstPasswordChange = True\<rparr>,
          au_X509Providers = None\<rparr>,
        up_Privileges = [], up_Roles = [], up_Parameters = params, up_Usergroup = ''G'',
        up_IsPasswordLifetimeCheckEnabled = False\<rparr>,
      user_PrivilegeManagementPolicy = ''strict'',
      user_AtProvider = emptyUserObservation\<lparr>uo_Username := Some ''U'', uo_Usergroup := Some ''DEFAULT'',
        uo_IsPasswordLifetimeCheckEnabled := Some False, uo_IsPasswordEnabled := Some True,
        uo_PasswordUpToDate := Some False\<rparr>\<rparr>"

lemmas sample_defs = sample_external_def sample_kube_def sample_user_def emptyUserObservation_def

lemma separate_sample: "separate (sample_kube secrets users) db"
  by (simp add: separate_def same_view_def sample_kube_def)

lemma sample_inputs:
  "buildUpdateInputs (sample_external db secrets) (sample_user []) =
     Inr (user_ForProvider (sample_user []), user_AtProvider (sample_user []))"
  by (simp add: buildUpdateInputs_def user_buildDesiredParameters_def user_buildObservedParameters_def handleDefaults_def
      copy_UserParameters_def copy_UserObservation_def FormatPrivilegeStrings_def FormatRoleStrings_def
      FilterManagedPrivileges_def transformParameters_def sample_defs Let_def)

theorem user_update_converges_witness:
  "\<exists>cr'. user_controller_Update (sample_external (recording (\<lambda>q. None)) (\<lambda>ns n. Inr [(''k'', ''pw'')])) (MUser (sample_user [])) [] =
     (Inr (), MUser cr', [''ALTER USER U SET USERGROUP G'', ''ALTER USER U PASSWORD '' @ [dq] @ ''pw'' @ [dq]])
     \<and> user_upToDate (user_AtProvider cr') (user_ForProvider (sample_user []))"
proof -
  let ?x = "sample_external (recording (\<lambda>q. None)) (\<lambda>ns n. Inr [(''k'', ''pw'')])"
  obtain r mg' w' where u: "user_controller_Update ?x (MUser (sample_user [])) [] = (r, mg', w')"
    by (metis prod_cases3)
  have sep: "separate (ux_kube ?x) (uc_DB (ux_client ?x))"
    by (simp add: sample_external_def separate_sample)
  have st: "run_plan (uc_DB (ux_client ?x)) (user_update_plan ?x [] (sample_user [])
        (user_ForProvider (sample_user [])) (user_AtProvider (sample_user []))) [] =
      (None, [''ALTER USER U SET USERGROUP G'', ''ALTER USER U PASSWORD '' @ [dq] @ ''pw'' @ [dq]])"
    by (simp add: user_update_plan_def plans_of_def user_status_steps_def user_privileges_plan_def
        user_roles_plan_def user_parameters_plan_def user_usergroup_plan_def user_x509_plan_def user_lifetime_plan_def
        user_password_plan_def ArraysBothDiff_form sets_password_def getPassword_def gomap_get_def failed_def
        go_plan wrap_err_def sample_defs)
  have "can_settle (sample_user [])"
    by (simp add: can_settle_def sets_password_def sample_user_def emptyUserObservation_def gomap_ok_def transformParameters_def)
  then show ?thesis using user_update_converges [OF sep sample_inputs u] u unfolding st by auto
qed

text \<open>
  C15. Parameters of a user are never written. When the desired and the observed parameters differ,
  the statement that is executed names the user and nothing else, whatever the difference is; when
  the server accepts it, the status claims that the parameters are set.
\<close>

theorem user_parameters_not_written:
  assumes "gomap_ok (up_Parameters d)" "gomap_ok (uo_Parameters ob)" "map_of (up_Parameters d) \<noteq> map_of (uo_Parameters ob)"
  shows "updateParameters x d ob cr w =
     (case ExecContext (uc_DB (ux_client x)) (''ALTER USER '' @ up_Username d) w of
        (Some e, w') \<Rightarrow> (Some (Wrapped ''cannot update user: '' (Wrapped ''cannot update user parameters: '' e)), cr, w')
      | (None, w') \<Rightarrow> (None, cr\<lparr>user_AtProvider := (user_AtProvider cr)\<lparr>uo_Parameters := up_Parameters d\<rparr>\<rparr>, w'))"
  using assms(3) by (cases "ExecContext (uc_DB (ux_client x)) (''ALTER USER '' @ up_Username d) w")
     (auto simp: updateParameters_def MapsBothDiff_iff [OF assms(1,2)] user_UpdateParameters_nothing
        run_plan_wrap_err run_plan_exec wrap_err_def user_status_def split: option.split)

theorem user_parameters_not_written_witness:
  "snd (snd (updateParameters (sample_external (recording (\<lambda>q. None)) (\<lambda>ns n. Inr [])) (user_ForProvider (sample_user [(''LOCALE'', ''en'')]))
     emptyUserObservation (sample_user []) [])) = [''ALTER USER U'']"
  by (subst user_parameters_not_written) (simp_all add: sample_defs gomap_ok_def)

lemma query_row_scan_user:
  "query_row db q args scan_user w = (Inr ob, w') \<Longrightarrow> uo_PasswordUpToDate ob = None \<and> uo_X509Providers ob = []"
  by (auto simp: query_row_def scan_user_def emptyUserObservation_def
      split: prod.splits sum.splits list.splits)

lemma user_Read_password:
  assumes "user_Read db p pw w = ((err, ob), w')" and "uo_PasswordUpToDate ob = Some b"
  shows "\<exists>w4 w5. queryPasswordAuthentication db p (uo_IsPasswordEnabled ob = Some True) pw w4 = (Inr (Some b), w5)"
proof -
  obtain r w1 where q: "query_row db (''SELECT USER_NAME, USERGROUP_NAME, CREATE_TIME, LAST_PASSWORD_CHANGE_TIME, IS_RESTRICTED, '' @
            ''IS_PASSWORD_LIFETIME_CHECK_ENABLED, IS_PASSWORD_ENABLED FROM SYS.USERS WHERE USER_NAME = ?'')
            [up_Username p] scan_user w = (r, w1)" by (cases "query_row db (''SELECT USER_NAME, USERGROUP_NAME, CREATE_TIME, LAST_PASSWORD_CHANGE_TIME, IS_RESTRICTED, '' @
            ''IS_PASSWORD_LIFETIME_CHECK_ENABLED, IS_PASSWORD_ENABLED FROM SYS.USERS WHERE USER_NAME = ?'')
            [up_Username p] scan_user w")
  show ?thesis
  proof (cases r)
    case (Inl e)
    then show ?thesis using assms unfolding user_Read_def Let_def q
      by (auto simp: emptyUserObservation_def split: if_splits)
  next
    case (Inr ob0)
    note none = query_row_scan_user [OF q [unfolded Inr]]
    show ?thesis using assms none unfolding user_Read_def Let_def q Inr
      by (auto split: prod.splits option.splits sum.splits) (blast+)
  qed
qed

lemma validateCredentials_wrong:
  assumes "validateCredentials db u pw w = ((False, None), w')"
  shows "\<exists>e w1. ExecContext db (''VALIDATE USER '' @ u @ '' PASSWORD '' @ [dq] @ pw @ [dq]) w = (Some e, w1)
     \<and> errors_As_driver (Some e) = Some 10 \<and> extractCorrelationID (Error_text e) \<noteq> []
     \<and> query_row db ''SELECT INTERNAL_ERROR_CODE FROM SYS.AUTHENTICATION_ERROR_DETAILS WHERE CORRELATION_ID = ?''
         [extractCorrelationID (Error_text e)] (\<lambda>row. case row of [c] \<Rightarrow> scan_string c | _ \<Rightarrow> Inl scan_error) w1 = (Inr ''A10'', w')"
  using assms unfolding validateCredentials_def handleAuthenticationError_def Let_def
  by (auto simp del: append.simps split: prod.splits option.splits if_splits sum.splits)


text \<open>A server that rejects the password \<open>old\<close> and knows why.\<close>

definition strict_server :: "unit DB" where
  "strict_server =
     \<lparr>ExecContext = (\<lambda>q w. (Some (DriverError 10 (''correlation ID '' @ [sq] @ ''7'' @ [sq])), w)),
      QueryRowContext = (\<lambda>q a w. if a = [''7''] then (Inr [SText ''A10''], w)
        else (Inr [SText ''U'', SText ''G'', STime [], STime [], SBool False, SBool True, SBool True], w)),
      QueryContext = (\<lambda>q a w. (Inr \<lparr>rows_data = [], rows_Err = None, rows_Close = None\<rparr>, w)),
      BeginTx = (\<lambda>w. (None, w)), Tx_ExecContext = (\<lambda>q w. (None, w)), Tx_Commit = (\<lambda>w. (None, w)), Tx_Rollback = (\<lambda>w. (None, w))\<rparr>"

lemma strict_server_read:
  "\<exists>ob. user_Read strict_server (user_ForProvider (sample_user [])) ''old'' () = ((None, ob), ()) \<and>
     uo_IsPasswordEnabled ob = Some True \<and> uo_PasswordUpToDate ob = Some False"
  by (simp add: user_Read_def strict_server_def query_row_def sample_user_def scan_user_def scan_string_def scan_time_def
      scan_bool_def queryParameters_def QueryPrivileges_def QueryRoles_def query_list_def queryPasswordAuthentication_def
      passwordSecretRef_def validateCredentials_def handleAuthenticationError_def extractCorrelationID_def
      queryX509Providers_def emptyUserObservation_def HasPrefix_def split_beta)


text \<open>
  The correlation identifier is found in the text of the driver's error, wherever it stands,
  as long as nothing in front of it is quoted.
\<close>

theorem extractCorrelationID_roundtrip:
  assumes "sq \<notin> set pre" "sq \<notin> set corr"
  shows "extractCorrelationID (pre @ ''correlation ID '' @ [sq] @ corr @ [sq] @ post) = corr"
proof -
  let ?m = "''correlation ID '' @ [sq]"
  have "Index (pre @ ?m @ corr @ [sq] @ post) ?m = Some (length pre)"
    by (rule Index_first [of sq _ "''correlation ID ''"]) (use assms in simp_all)
  moreover have "Index (corr @ [sq] @ post) [sq] = Some (length corr)"
    by (rule Index_first [of sq _ "[]"]) (use assms in simp_all)
  moreover have "drop (length pre + length ?m) (pre @ ?m @ corr @ [sq] @ post) = corr @ [sq] @ post" by simp
  ultimately show ?thesis by (simp add: extractCorrelationID_def Let_def)
qed

theorem extractCorrelationID_roundtrip_witness:
  "extractCorrelationID (''authentication failed: correlation ID '' @ [sq] @ ''4F'' @ [sq] @ ''.'') = ''4F''"
  using extractCorrelationID_roundtrip [of "''authentication failed: ''" "''4F''" "''.''"] by simp

lemma requests_iff:
  assumes "ListUsers kube w = Inr users"
  shows "x \<in> set (generateReconcileRequestsFromSecret kube (Some (ns, n)) w) \<longleftrightarrow>
      (\<exists>v \<in> set users. om_Name (metadata v) = x \<and>
        (\<exists>ref. passwordSecretRef (up_Authentication (user_ForProvider v)) = Some ref \<and> sr_Namespace ref = ns \<and> sr_Name ref = n))"
proof -
  have "x \<in> set (case au_Password (up_Authentication (user_ForProvider v)) of None \<Rightarrow> []
            | Some passwordObj \<Rightarrow> (case pw_PasswordSecretRef passwordObj of None \<Rightarrow> []
               | Some secretRef \<Rightarrow> if sr_Namespace secretRef = ns \<and> sr_Name secretRef = n then [om_Name (metadata v)] else []))
      \<longleftrightarrow> om_Name (metadata v) = x \<and>
        (\<exists>ref. passwordSecretRef (up_Authentication (user_ForProvider v)) = Some ref \<and> sr_Namespace ref = ns \<and> sr_Name ref = n)" for v :: User
  proof (cases "passwordSecretRef (up_Authentication (user_ForProvider v))")
    case None
    then show ?thesis by (auto simp: passwordSecretRef_def split: option.splits)
  next
    case (Some ref)
    then obtain pw where "au_Password (up_Authentication (user_ForProvider v)) = Some pw" "pw_PasswordSecretRef pw = Some ref"
      by (auto simp: passwordSecretRef_def split: option.splits)
    then show ?thesis using Some by auto
  qed
  then show ?thesis using assms by (simp add: generateReconcileRequestsFromSecret_def)
qed

text \<open>
  C18. The watch on secrets is complete and exact: the requests for a secret are the names of the
  listed users whose password is in it, and whenever the password of a listed user changes between
  two worlds there is a secret that changed and that requests this user.
\<close>

theorem secret_watch_complete:
  assumes "ListUsers kube w = Inr users" "u \<in> set users"
  shows "(om_Name (metadata u) \<in> set (generateReconcileRequestsFromSecret kube (Some (ns, n)) w) \<longleftrightarrow>
           (\<exists>v \<in> set users. om_Name (metadata v) = om_Name (metadata u) \<and>
              (\<exists>ref. passwordSecretRef (up_Authentication (user_ForProvider v)) = Some ref \<and> sr_Namespace ref = ns \<and> sr_Name ref = n)))
    \<and> (getPassword kube u w0 \<noteq> getPassword kube u w \<longrightarrow>
        (\<exists>ns n. GetSecret kube ns n w0 \<noteq> GetSecret kube ns n w \<and>
           om_Name (metadata u) \<in> set (generateReconcileRequestsFromSecret kube (Some (ns, n)) w)))"
proof (intro conjI impI)
  show "om_Name (metadata u) \<in> set (generateReconcileRequestsFromSecret kube (Some (ns, n)) w) \<longleftrightarrow>
      (\<exists>v \<in> set users. om_Name (metadata v) = om_Name (metadata u) \<and>
        (\<exists>ref. passwordSecretRef (up_Authentication (user_ForProvider v)) = Some ref \<and> sr_Namespace ref = ns \<and> sr_Name ref = n))"
    by (rule requests_iff [OF assms(1)])
  assume "getPassword kube u w0 \<noteq> getPassword kube u w"
  then have "\<exists>ref. passwordSecretRef (up_Authentication (user_ForProvider u)) = Some ref \<and>
      GetSecret kube (sr_Namespace ref) (sr_Name ref) w0 \<noteq> GetSecret kube (sr_Namespace ref) (sr_Name ref) w"
    by (rule contrapos_np) (auto simp: getPassword_def passwordSecretRef_def split: option.split)
  then obtain ref where ref: "passwordSecretRef (up_Authentication (user_ForProvider u)) = Some ref"
    and ne: "GetSecret kube (sr_Namespace ref) (sr_Name ref) w0 \<noteq> GetSecret kube (sr_Namespace ref) (sr_Name ref) w"
    by blast
  have "om_Name (metadata u) \<in> set (generateReconcileRequestsFromSecret kube (Some (sr_Namespace ref, sr_Name ref)) w)"
    unfolding requests_iff [OF assms(1)] using assms(2) ref by blast
  then show "\<exists>ns n. GetSecret kube ns n w0 \<noteq> GetSecret kube ns n w \<and>
           om_Name (metadata u) \<in> set (generateReconcileRequestsFromSecret kube (Some (ns, n)) w)"
    using ne by blast
qed

theorem secret_watch_complete_witness:
  "''u'' \<in> set (generateReconcileRequestsFromSecret (sample_kube (\<lambda>ns n. Inr []) [sample_user []]) (Some (''n'', ''s'')) ())"
proof -
  let ?k = "sample_kube (\<lambda>ns n. Inr []) [sample_user []] :: unit Kube"
  have l: "ListUsers ?k () = Inr [sample_user []]" by (simp add: sample_kube_def)
  have "om_Name (metadata (sample_user [])) \<in> set (generateReconcileRequestsFromSecret ?k (Some (''n'', ''s'')) ())"
    using conjunct1 [OF secret_watch_complete [OF l, of "sample_user []" "''n''" "''s''"]]
    by (simp add: sample_user_def passwordSecretRef_def)
  then show ?thesis by (simp add: sample_user_def)
qed

lemma queryX509Providers_no_ref:
  assumes "queryX509Providers db u w = (Inr ms, w')" and "m \<in> set ms"
  shows "xr_ProviderRef m = None"
proof -
  have fold: "snd (each_row (\<lambda>ms r. map_sum id (\<lambda>x. ms @ [x]) (scan_x509_mapping r)) acc rs) = ms \<Longrightarrow>
      \<forall>m \<in> set acc. xr_ProviderRef m = None \<Longrightarrow> \<forall>m \<in> set ms. xr_ProviderRef m = None" for acc rs
  proof (induction rs arbitrary: acc)
    case (Cons r rs)
    show ?case
    proof (cases "scan_x509_mapping r")
      case (Inl e)
      then show ?thesis using Cons.prems by auto
    next
      case (Inr x)
      then have "xr_ProviderRef x = None" by (auto simp: scan_x509_mapping_def Let_def split: sum.splits prod.splits option.splits)
      then show ?thesis using Cons.IH [of "acc @ [x]"] Cons.prems Inr by auto
    qed
  qed simp
  obtain rows :: rows where "each_row (\<lambda>ms r. map_sum id (\<lambda>x. ms @ [x]) (scan_x509_mapping r)) [] (rows_data rows) = (None, ms)"
    using assms(1) by (auto simp: queryX509Providers_def Let_def split: prod.splits sum.splits option.splits)
  then show ?thesis using fold [of "[]" "rows_data rows"] assms(2) by simp
qed

lemma user_Read_no_ref:
  assumes "user_Read db p pw w = ((err, ob), w')" and "m \<in> set (uo_X509Providers ob)"
  shows "xr_ProviderRef m = None"
proof -
  have "uo_X509Providers ob = [] \<or> (\<exists>w5 w6. queryX509Providers db (up_Username p) w5 = (Inr (uo_X509Providers ob), w6))"
    using assms(1) unfolding user_Read_def Let_def
    by (auto simp: emptyUserObservation_def split: prod.splits sum.splits option.splits if_splits dest: query_row_scan_user)
  then show ?thesis using assms(2) queryX509Providers_no_ref by fastforce
qed

text \<open>
  C19. A user with a mapping that refers to a provider object is never found up to date: references
  are compared by the identity of the pointer, and no mapping read from the database has one.
\<close>

theorem provider_reference_never_settles:
  assumes "user_Observe x (MUser cr) w = (Inr seen, mg', w')"
    and "m \<in> set (elems (au_X509Providers (up_Authentication (user_ForProvider cr))))" "xr_ProviderRef m \<noteq> None"
  shows "\<not> ResourceUpToDate seen"
proof -
  let ?hd = "handleDefaults (ux_copy x 0) cr"
  have auth: "au_X509Providers (up_Authentication ?hd) =
      map_option (map (copy_mapping (ux_copy x 0))) (au_X509Providers (up_Authentication (user_ForProvider cr)))"
    by (simp add: handleDefaults_def copy_UserParameters_def Let_def)
  have "\<not> isX509MappingsUpToDate ob p"
    if "\<forall>m \<in> set (uo_X509Providers ob). xr_ProviderRef m = None" "up_Authentication p = up_Authentication ?hd" for ob p
  proof -
    obtain ms where ms: "au_X509Providers (up_Authentication (user_ForProvider cr)) = Some ms" "m \<in> set ms"
      using assms(2) by (cases "au_X509Providers (up_Authentication (user_ForProvider cr))") auto
    have "copy_mapping (ux_copy x 0) m \<in> set (map (copy_mapping (ux_copy x 0)) ms)" using ms by simp
    moreover have "xr_ProviderRef (copy_mapping (ux_copy x 0) m) \<noteq> None" using assms(3) by (simp add: copy_mapping_def)
    ultimately have "set (uo_X509Providers ob) \<noteq> set (map (copy_mapping (ux_copy x 0)) ms)" using that(1) by metis
    then show ?thesis using that(2) auth ms by (simp add: isX509MappingsUpToDate_def)
  qed
  then have no: "\<not> user_upToDate ob p"
    if "\<forall>m \<in> set (uo_X509Providers ob). xr_ProviderRef m = None" "up_Authentication p = up_Authentication ?hd" for ob p
    using that by (simp add: user_upToDate_def)
  have read: "user_Read db p pw w = ((err, ob), w') \<Longrightarrow> \<forall>m \<in> set (uo_X509Providers ob). xr_ProviderRef m = None"
    for db :: "'a DB" and p pw w err w' and ob :: UserObservation
    by (intro ballI) (rule user_Read_no_ref)
  show ?thesis using assms(1)
    by (auto dest!: read simp: user_Observe_def Let_def absent_def present_def FilterManagedPrivileges_def no
        split: sum.splits prod.splits if_splits option.splits)
qed

definition referring_user :: User where
  "referring_user = (sample_user [])\<lparr>user_ForProvider := (user_ForProvider (sample_user []))\<lparr>up_Authentication :=
     \<lparr>au_Password = None, au_X509Providers = Some [\<lparr>xr_Name = [], xr_ProviderRef = Some (7, ''p''), xm_SubjectName = ''CN=x''\<rparr>]\<rparr>\<rparr>\<rparr>"

theorem provider_reference_never_settles_witness:
  "\<exists>seen mg' w'. user_Observe (sample_external strict_server (\<lambda>ns n. Inr [])) (MUser referring_user) () = (Inr seen, mg', w')
     \<and> ResourceExists seen \<and> \<not> ResourceUpToDate seen"
proof -
  let ?x = "sample_external strict_server (\<lambda>ns n. Inr [])"
  obtain seen mg' w' where ob: "user_Observe ?x (MUser referring_user) () = (Inr seen, mg', w')" and ex: "ResourceExists seen"
    by (simp add: user_Observe_def handleDefaults_def copy_UserParameters_def FormatPrivilegeStrings_def FormatRoleStrings_def
      getPassword_def user_Read_def strict_server_def query_row_def sample_defs referring_user_def scan_user_def scan_string_def
      scan_time_def scan_bool_def queryParameters_def QueryPrivileges_def QueryRoles_def query_list_def
      queryPasswordAuthentication_def passwordSecretRef_def queryX509Providers_def split_beta handleAuthError_def
      FilterManagedPrivileges_def present_def Let_def)
  show ?thesis
    using ob ex provider_reference_never_settles [OF ob, of "\<lparr>xr_Name = [], xr_ProviderRef = Some (7, ''p''), xm_SubjectName = ''CN=x''\<rparr>"]
    by (simp add: referring_user_def)
qed

end
