(* ===== verification/AuditPolicies.thy ===== *)
theory AuditPolicies
  imports ExternalClients
begin

text \<open>
  Audit policies: the client \<open>internal/clients/hana/auditpolicy\<close> and the controller
  \<open>internal/controller/auditpolicy\<close>. Retention and enabling are pointers in the specification; the
  code dereferences them without a test, which is a panic when they are missing.
\<close>

section \<open>Client\<close>

definition nil_dereference :: error where
  "nil_dereference = Panic ''nil pointer dereference''"

definition emptyAuditPolicyObservation :: AuditPolicyObservation where
  "emptyAuditPolicyObservation = \<lparr>ao_PolicyName = [], ao_AuditActions = [], ao_AuditStatus = [], ao_AuditLevel = [],
     ao_AuditTrailRetention = None, ao_Enabled = None\<rparr>"

definition getSelectSql :: string where
  "getSelectSql = ''SELECT AUDIT_POLICY_NAME, EVENT_STATUS, EVENT_ACTION, EVENT_LEVEL, RETENTION_PERIOD, '' @
     ''IS_AUDIT_POLICY_ACTIVE FROM AUDIT_POLICIES WHERE AUDIT_POLICY_NAME = ?''"

text \<open>One row of the policy: a policy has a row for every action that it audits.\<close>

definition audit_row :: "AuditPolicyObservation \<Rightarrow> sqlval list \<Rightarrow> error + AuditPolicyObservation" where
  "audit_row observed row = (case row of
     [c1, c2, c3, c4, c5, c6] \<Rightarrow>
       (case (scan_string c1, scan_string c2, scan_null scan_string c3, scan_string c4, scan_null scan_int c5, scan_string c6) of
          (Inr policyName, Inr eventStatus, Inr eventAction, Inr eventLevel, Inr retentionPeriod, Inr isActive) \<Rightarrow>
            Inr (observed\<lparr>ao_PolicyName := policyName,
              ao_AuditStatus := TrimSuffix eventStatus '' EVENTS'',
              ao_AuditActions := (case eventAction of Some a \<Rightarrow> ao_AuditActions observed @ [a] | None \<Rightarrow> ao_AuditActions observed),
              ao_AuditLevel := eventLevel,
              ao_AuditTrailRetention := (case retentionPeriod of Some rp \<Rightarrow> Some rp | None \<Rightarrow> ao_AuditTrailRetention observed),
              ao_Enabled := Some (isActive = ''TRUE'')\<rparr>)
        | _ \<Rightarrow> Inl scan_error)
   | _ \<Rightarrow> Inl scan_error)"

definition auditpolicy_Read :: "'w DB \<Rightarrow> AuditPolicyParameters \<Rightarrow> 'w \<Rightarrow> (error + AuditPolicyObservation) \<times> 'w" where
  "auditpolicy_Read db parameters w =
     (case QueryContext db getSelectSql [ap_PolicyName parameters] w of
        (Inl err, w') \<Rightarrow> (Inl err, w')
      | (Inr rows, w') \<Rightarrow>
          (case each_row audit_row emptyAuditPolicyObservation (rows_data rows) of
             (Some err, _) \<Rightarrow> (Inl err, w')
           | (None, observed) \<Rightarrow>
               (case rows_Err rows of Some err \<Rightarrow> (Inl err, w') | None \<Rightarrow> (Inr observed, w'))))"

definition prepareCreateSql :: "AuditPolicyParameters \<Rightarrow> error + string" where
  "prepareCreateSql parameters =
     (let query = ''CREATE AUDIT POLICY '' @ ap_PolicyName parameters @ '' AUDITING '' @ ap_AuditStatus parameters;
          query = (if 0 < length (ap_AuditActions parameters)
                   then query @ concat (map (\<lambda>action. '' '' @ action @ '','') (ap_AuditActions parameters)) else query);
          query = TrimSuffix query '',''
      in case ap_AuditTrailRetention parameters of
           None \<Rightarrow> Inl nil_dereference
         | Some retention \<Rightarrow> Inr (query @ '' LEVEL '' @ ap_AuditLevel parameters @
             '' TRAIL TYPE TABLE RETENTION '' @ Itoa retention))"

definition prepareEnableDisablePolicySql :: "AuditPolicyParameters \<Rightarrow> error + string" where
  "prepareEnableDisablePolicySql parameters = (case ap_Enabled parameters of
     None \<Rightarrow> Inl nil_dereference
   | Some enabled \<Rightarrow> Inr (''ALTER AUDIT POLICY '' @ [dq] @ EscapeDoubleQuotes (ap_PolicyName parameters) @ [dq] @
       '' '' @ (if enabled then ''ENABLE'' else ''DISABLE'')))"

definition prepareUpdateRetentionDaysSql :: "AuditPolicyParameters \<Rightarrow> error + string" where
  "prepareUpdateRetentionDaysSql parameters = (case ap_AuditTrailRetention parameters of
     None \<Rightarrow> Inl nil_dereference
   | Some retention \<Rightarrow> Inr (''ALTER AUDIT POLICY '' @ [dq] @ EscapeDoubleQuotes (ap_PolicyName parameters) @ [dq] @
       '' SET RETENTION '' @ Itoa retention))"

definition prepareDeleteSql :: "AuditPolicyParameters \<Rightarrow> string" where
  "prepareDeleteSql parameters = ''DROP AUDIT POLICY '' @ [dq] @ EscapeDoubleQuotes (ap_PolicyName parameters) @ [dq]"

text \<open>Executing a statement that had to be built first.\<close>

definition exec_built :: "'w DB \<Rightarrow> error + string \<Rightarrow> 'w \<Rightarrow> error option \<times> 'w" where
  "exec_built db query w = (case query of Inl err \<Rightarrow> (Some err, w) | Inr q \<Rightarrow> ExecContext db q w)"

definition auditpolicy_Create :: "'w DB \<Rightarrow> AuditPolicyParameters \<Rightarrow> 'w \<Rightarrow> error option \<times> 'w" where
  "auditpolicy_Create db parameters w =
     and_then (exec_built db (prepareCreateSql parameters) w)
       (\<lambda>w. if ap_Enabled parameters = Some True
            then exec_built db (prepareEnableDisablePolicySql parameters) w else (None, w))"

definition auditpolicy_Delete :: "'w DB \<Rightarrow> AuditPolicyParameters \<Rightarrow> 'w \<Rightarrow> error option \<times> 'w" where
  "auditpolicy_Delete db parameters w = ExecContext db (prepareDeleteSql parameters) w"

definition RecreatePolicy :: "'w DB \<Rightarrow> AuditPolicyParameters \<Rightarrow> 'w \<Rightarrow> error option \<times> 'w" where
  "RecreatePolicy db parameters w =
     and_then (auditpolicy_Delete db parameters w) (auditpolicy_Create db parameters)"

definition UpdateRetentionDays :: "'w DB \<Rightarrow> AuditPolicyParameters \<Rightarrow> 'w \<Rightarrow> error option \<times> 'w" where
  "UpdateRetentionDays db parameters w = exec_built db (prepareUpdateRetentionDaysSql parameters) w"

definition UpdateEnablePolicy :: "'w DB \<Rightarrow> AuditPolicyParameters \<Rightarrow> 'w \<Rightarrow> error option \<times> 'w" where
  "UpdateEnablePolicy db parameters w = exec_built db (prepareEnableDisablePolicySql parameters) w"

section \<open>Controller\<close>

definition errNotAuditPolicy :: string where
  "errNotAuditPolicy = ''managed resource is not a AuditPolicy custom resource''"

definition auditpolicy_texts :: connect_texts where
  "auditpolicy_texts = \<lparr>errNotKind = errNotAuditPolicy,
     errTrackPCUsage = ''cannot track ProviderConfig usage: '', errGetPC = ''cannot get ProviderConfig: '',
     errNoSecretRef = ''ProviderConfig does not reference a credentials Secret'',
     errGetSecret = ''cannot get credentials Secret: '', errConnect = ''cannot connect to HANA db: ''\<rparr>"

definition auditpolicy_Connect ::
  "'w Kube \<Rightarrow> (gomap \<Rightarrow> 'w \<Rightarrow> (error + 'w DB) \<times> 'w) \<Rightarrow> Managed \<Rightarrow> 'w \<Rightarrow> (error + 'w DB) \<times> 'w" where
  "auditpolicy_Connect kube dbConnect mg w = (case mg of
     MAuditPolicy cr \<Rightarrow>
       map_prod (map_sum id fst) id
         (connect_sql auditpolicy_texts kube dbConnect mg (providerConfigReference cr) w)
   | _ \<Rightarrow> (Inl (ErrorString errNotAuditPolicy), w))"

definition auditpolicy_buildDesiredParameters :: "AuditPolicy \<Rightarrow> AuditPolicyParameters" where
  "auditpolicy_buildDesiredParameters cr = (let fp = auditpolicy_ForProvider cr in
     \<lparr>ap_PolicyName = ToUpper (ap_PolicyName fp), ap_AuditActions = ArrayToUpper (ap_AuditActions fp),
      ap_AuditStatus = ToUpper (ap_AuditStatus fp), ap_AuditLevel = ToUpper (ap_AuditLevel fp),
      ap_AuditTrailRetention = ap_AuditTrailRetention fp, ap_Enabled = ap_Enabled fp\<rparr>)"

definition needsRecreation :: "AuditPolicyObservation \<Rightarrow> AuditPolicyParameters \<Rightarrow> bool" where
  "needsRecreation observed desired \<longleftrightarrow>
     \<not> ArraysEqual (ap_AuditActions desired) (ao_AuditActions observed) \<or>
     ao_AuditStatus observed \<noteq> ap_AuditStatus desired \<or> ao_AuditLevel observed \<noteq> ap_AuditLevel desired"

text \<open>\<open>*observed.F != *desired.F\<close>.\<close>

definition deref_differs :: "'a option \<Rightarrow> 'a option \<Rightarrow> error + bool" where
  "deref_differs a b = (case (a, b) of (Some x, Some y) \<Rightarrow> Inr (x \<noteq> y) | _ \<Rightarrow> Inl nil_dereference)"

definition auditpolicy_upToDate :: "AuditPolicyObservation \<Rightarrow> AuditPolicyParameters \<Rightarrow> error + bool" where
  "auditpolicy_upToDate observed desired =
     (if ao_PolicyName observed \<noteq> ap_PolicyName desired \<or> ao_AuditStatus observed \<noteq> ap_AuditStatus desired \<or>
         ao_AuditLevel observed \<noteq> ap_AuditLevel desired then Inr False
      else case deref_differs (ao_AuditTrailRetention observed) (ap_AuditTrailRetention desired) of
        Inl err \<Rightarrow> Inl err
      | Inr True \<Rightarrow> Inr False
      | Inr False \<Rightarrow>
      (case deref_differs (ao_Enabled observed) (ap_Enabled desired) of
         Inl err \<Rightarrow> Inl err
       | Inr True \<Rightarrow> Inr False
       | Inr False \<Rightarrow> if \<not> ArraysEqual (ao_AuditActions observed) (ap_AuditActions desired) then Inr False else Inr True))"

definition auditpolicy_Observe :: "'w DB \<Rightarrow> (ExternalObservation, 'w) handler" where
  "auditpolicy_Observe db mg w = (case mg of
     MAuditPolicy cr \<Rightarrow>
       let parameters = auditpolicy_buildDesiredParameters cr in
       (case auditpolicy_Read db parameters w of
          (Inl err, w') \<Rightarrow> (Inl (Wrapped ''cannot select audit policy: '' err), mg, w')
        | (Inr observed, w') \<Rightarrow>
            if ao_PolicyName observed = [] \<or> ao_PolicyName observed \<noteq> ap_PolicyName parameters then (Inr absent, mg, w')
            else
              let cr = cr\<lparr>auditpolicy_AtProvider := (auditpolicy_AtProvider cr)
                    \<lparr>ao_PolicyName := ao_PolicyName observed, ao_AuditStatus := ao_AuditStatus observed,
                     ao_AuditLevel := ao_AuditLevel observed, ao_AuditTrailRetention := ao_AuditTrailRetention observed,
                     ao_Enabled := ao_Enabled observed, ao_AuditActions := ao_AuditActions observed\<rparr>\<rparr>;
                  cr = SetConditions Available cr
              in (map_sum id present (auditpolicy_upToDate observed parameters), MAuditPolicy cr, w'))
   | _ \<Rightarrow> (Inl (ErrorString errNotAuditPolicy), mg, w))"

definition auditpolicy_controller_Create :: "'w DB \<Rightarrow> (ConnectionDetails, 'w) handler" where
  "auditpolicy_controller_Create db mg w = (case mg of
     MAuditPolicy cr \<Rightarrow>
       let parameters = auditpolicy_buildDesiredParameters cr;
           cr = SetConditions Creating cr;
           (err, w') = auditpolicy_Create db parameters w
       in (case err of None \<Rightarrow> Inr [] | Some e \<Rightarrow> Inl (errors_Wrap ''cannot create audit policy: '' e), MAuditPolicy cr, w')
   | _ \<Rightarrow> (Inl (ErrorString errNotAuditPolicy), mg, w))"

text \<open>
  The two comparisons of \<open>Update\<close> for a policy that is not recreated; \<open>f\<close> is the client's
  operation. Both write retention and enabling into the status.
\<close>

definition auditpolicy_step ::
  "(AuditPolicyParameters \<Rightarrow> 'w \<Rightarrow> error option \<times> 'w) \<Rightarrow> error + bool \<Rightarrow> AuditPolicyParameters \<Rightarrow> (AuditPolicy, 'w) update_step" where
  "auditpolicy_step f differs desired cr w =
     (case differs of
        Inl err \<Rightarrow> (Some err, cr, w)
      | Inr False \<Rightarrow> (None, cr, w)
      | Inr True \<Rightarrow>
          (case f desired w of
             (Some err, w') \<Rightarrow> (Some (errors_Wrap ''cannot update audit policy: '' err), cr, w')
           | (None, w') \<Rightarrow> (None, cr\<lparr>auditpolicy_AtProvider := (auditpolicy_AtProvider cr)
               \<lparr>ao_AuditTrailRetention := ap_AuditTrailRetention desired, ao_Enabled := ap_Enabled desired\<rparr>\<rparr>, w')))"

definition auditpolicy_recreate :: "'w DB \<Rightarrow> AuditPolicyParameters \<Rightarrow> (AuditPolicy, 'w) update_step" where
  "auditpolicy_recreate db desired cr w =
     (case RecreatePolicy db desired w of
        (Some err, w') \<Rightarrow> (Some (errors_Wrap ''cannot update audit policy: '' err), cr, w')
      | (None, w') \<Rightarrow> (None, cr\<lparr>auditpolicy_AtProvider := (auditpolicy_AtProvider cr)
          \<lparr>ao_AuditActions := ap_AuditActions desired, ao_AuditStatus := ap_AuditStatus desired,
           ao_AuditLevel := ap_AuditLevel desired\<rparr>\<rparr>, w'))"

definition auditpolicy_steps :: "'w DB \<Rightarrow> AuditPolicyObservation \<Rightarrow> AuditPolicyParameters \<Rightarrow> (AuditPolicy, 'w) update_step list" where
  "auditpolicy_steps db observed desired =
     (if needsRecreation observed desired then [auditpolicy_recreate db desired]
      else [auditpolicy_step (UpdateRetentionDays db)
              (deref_differs (ao_AuditTrailRetention observed) (ap_AuditTrailRetention desired)) desired,
            auditpolicy_step (UpdateEnablePolicy db)
              (deref_differs (ao_Enabled observed) (ap_Enabled desired)) desired])"

definition auditpolicy_controller_Update :: "'w DB \<Rightarrow> (unit, 'w) handler" where
  "auditpolicy_controller_Update db mg w = (case mg of
     MAuditPolicy cr \<Rightarrow>
       let observed = auditpolicy_AtProvider cr;
           desired = auditpolicy_buildDesiredParameters cr;
           (err, cr, w) = run_steps (auditpolicy_steps db observed desired) cr w
       in (outcome err, MAuditPolicy cr, w)
   | _ \<Rightarrow> (Inl (ErrorString errNotAuditPolicy), mg, w))"

definition auditpolicy_controller_Delete :: "'w DB \<Rightarrow> (unit, 'w) handler" where
  "auditpolicy_controller_Delete db mg w = (case mg of
     MAuditPolicy cr \<Rightarrow>
       let parameters = auditpolicy_buildDesiredParameters cr;
           cr = SetConditions Deleting cr;
           (err, w') = auditpolicy_Delete db parameters w
       in (result ''cannot drop audit policy: '' () err, MAuditPolicy cr, w')
   | _ \<Rightarrow> (Inl (ErrorString errNotAuditPolicy), mg, w))"

definition auditpolicy_external :: "'w DB \<Rightarrow> 'w ExternalClient" where
  "auditpolicy_external db = \<lparr>Observe = auditpolicy_Observe db, Create = auditpolicy_controller_Create db,
     Update = auditpolicy_controller_Update db, Delete = auditpolicy_controller_Delete db\<rparr>"

section \<open>Interfaces\<close>

definition plan_built :: "error + string \<Rightarrow> plan" where
  "plan_built q = (case q of Inl err \<Rightarrow> plan_fail err | Inr s \<Rightarrow> plan_exec s)"

lemma exec_built_planned [go_plan]: "exec_built db q w = run_plan db (plan_built q) w"
  by (simp add: exec_built_def plan_built_def run_plan_fail run_plan_exec split: sum.split)

definition auditpolicy_create_plan :: "AuditPolicyParameters \<Rightarrow> plan" where
  "auditpolicy_create_plan p = plan_then (plan_built (prepareCreateSql p))
     (if ap_Enabled p = Some True then plan_built (prepareEnableDisablePolicySql p) else plan_skip)"

lemma auditpolicy_Create_planned [go_plan]:
  "auditpolicy_Create db p w = run_plan db (auditpolicy_create_plan p) w"
  by (auto simp: auditpolicy_Create_def auditpolicy_create_plan_def exec_built_planned run_plan_then run_plan_skip
      and_then_def split: prod.split option.split)

lemma auditpolicy_Read_pure [go_effect]: "reads_only db \<Longrightarrow> snd (auditpolicy_Read db p w) = w"
  by (auto simp: auditpolicy_Read_def split: prod.split sum.split option.split dest: reads_only_Query)

interpretation auditpolicy: query_client auditpolicy_Read auditpolicy_Create auditpolicy_Delete
  auditpolicy_create_plan "\<lambda>p. plan_exec (prepareDeleteSql p)"
  by unfold_locales (auto simp: go_effect go_plan auditpolicy_Delete_def)

lemmas auditpolicy_handlers = auditpolicy_external_def auditpolicy_Observe_def auditpolicy_controller_Create_def
  auditpolicy_controller_Update_def auditpolicy_controller_Delete_def

lemma auditpolicy_Update_keeps:
  "\<exists>cr'. fst (snd (auditpolicy_controller_Update db (MAuditPolicy cr) w)) = MAuditPolicy cr' \<and>
     auditpolicy_ForProvider cr' = auditpolicy_ForProvider cr \<and> set_conditions cr' = set_conditions cr"
proof -
  let ?P = "\<lambda>cr' :: AuditPolicy. auditpolicy_ForProvider cr' = auditpolicy_ForProvider cr \<and> set_conditions cr' = set_conditions cr"
  have step: "?P cr1 \<Longrightarrow> ?P (fst (snd (auditpolicy_step f b d cr1 w1)))" "?P cr1 \<Longrightarrow> ?P (fst (snd (auditpolicy_recreate db d cr1 w1)))"
    for f b d cr1 w1
    by (auto simp: auditpolicy_step_def auditpolicy_recreate_def split: sum.split bool.split prod.split option.split)
  have "?P (fst (snd (run_steps (auditpolicy_steps db ob d) cr w)))" for ob d
    by (rule run_steps_invariant [where P = ?P])
       (auto simp: auditpolicy_steps_def step split: if_splits simp del: run_steps.simps)
  then show ?thesis by (auto simp: auditpolicy_controller_Update_def Let_def split_beta)
qed

lemma auditpolicy_keeps:
  "\<exists>cr' cs. fst (after_call (auditpolicy_external db) k (MAuditPolicy cr) w) = MAuditPolicy cr' \<and>
     auditpolicy_ForProvider cr' = auditpolicy_ForProvider cr \<and> set_conditions cr' = set_conditions cr @ cs \<and>
     (k = CallDelete \<longrightarrow> cs = [Deleting])"
proof (cases k)
  case CallUpdate
  then show ?thesis using auditpolicy_Update_keeps [of db cr w] by (auto simp: auditpolicy_external_def)
qed (auto simp: auditpolicy_handlers SetConditions_def Let_def split: prod.split sum.split option.split)

interpretation auditpolicy_client: external_client "auditpolicy_external db" MAuditPolicy auditpolicy_ForProvider
  set_conditions "ErrorString errNotAuditPolicy" for db :: "'w DB"
proof (unfold_locales, goal_cases)
  case 5
  show ?case by (rule auditpolicy_keeps)
qed (auto simp: auditpolicy_handlers split: Managed.splits)

section \<open>Properties\<close>

text \<open>
  What the statements mean: a policy of the database has its audited actions, status, level,
  retention and is enabled or not; a new policy is disabled. \<open>audit_sql\<close> is how the client writes
  a statement.
\<close>

record policy =
  pol_actions :: "string set"
  pol_status :: string
  pol_level :: string
  pol_retention :: int
  pol_enabled :: bool

datatype audit_statement =
    DropPolicy string
  | CreatePolicy string "string list" string string int
  | EnablePolicy string bool
  | SetRetention string int

fun audit_sql :: "audit_statement \<Rightarrow> string" where
  "audit_sql (DropPolicy n) = ''DROP AUDIT POLICY '' @ dquoted n"
| "audit_sql (CreatePolicy n as st lv r) = TrimSuffix (''CREATE AUDIT POLICY '' @ n @ '' AUDITING '' @ st @
     concat (map (\<lambda>action. '' '' @ action @ '','') as)) '','' @ '' LEVEL '' @ lv @ '' TRAIL TYPE TABLE RETENTION '' @ Itoa r"
| "audit_sql (EnablePolicy n b) = ''ALTER AUDIT POLICY '' @ dquoted n @ '' '' @ (if b then ''ENABLE'' else ''DISABLE'')"
| "audit_sql (SetRetention n r) = ''ALTER AUDIT POLICY '' @ dquoted n @ '' SET RETENTION '' @ Itoa r"

fun audit_effect :: "audit_statement \<Rightarrow> policy option \<Rightarrow> policy option" where
  "audit_effect (DropPolicy n) p = None"
| "audit_effect (CreatePolicy n as st lv r) p =
     Some \<lparr>pol_actions = set as, pol_status = st, pol_level = lv, pol_retention = r, pol_enabled = False\<rparr>"
| "audit_effect (EnablePolicy n b) p = map_option (\<lambda>p. p\<lparr>pol_enabled := b\<rparr>) p"
| "audit_effect (SetRetention n r) p = map_option (\<lambda>p. p\<lparr>pol_retention := r\<rparr>) p"

text \<open>The policy that a status describes, and the one that a specification asks for.\<close>

definition observed_policy :: "AuditPolicyObservation \<Rightarrow> policy option" where
  "observed_policy ob = (case (ao_AuditTrailRetention ob, ao_Enabled ob) of
     (Some r, Some b) \<Rightarrow> Some \<lparr>pol_actions = set (ao_AuditActions ob), pol_status = ao_AuditStatus ob,
        pol_level = ao_AuditLevel ob, pol_retention = r, pol_enabled = b\<rparr>
   | _ \<Rightarrow> None)"

definition desired_policy :: "AuditPolicyParameters \<Rightarrow> policy option" where
  "desired_policy d = (case (ap_AuditTrailRetention d, ap_Enabled d) of
     (Some r, Some b) \<Rightarrow> Some \<lparr>pol_actions = set (ap_AuditActions d), pol_status = ap_AuditStatus d,
        pol_level = ap_AuditLevel d, pol_retention = r, pol_enabled = b\<rparr>
   | _ \<Rightarrow> None)"

definition audit_changes :: "AuditPolicyObservation \<Rightarrow> AuditPolicyParameters \<Rightarrow> int \<Rightarrow> bool \<Rightarrow> audit_statement list" where
  "audit_changes ob d r b =
     (let n = ap_PolicyName d in
      if needsRecreation ob d
      then [DropPolicy n, CreatePolicy n (ap_AuditActions d) (ap_AuditStatus d) (ap_AuditLevel d) r] @
           (if b then [EnablePolicy n True] else [])
      else (if ao_AuditTrailRetention ob \<noteq> Some r then [SetRetention n r] else []) @
           (if ao_Enabled ob \<noteq> Some b then [EnablePolicy n b] else []))"

lemma audit_changes_effect:
  assumes "observed_policy ob \<noteq> None" "ap_AuditTrailRetention d = Some r" "ap_Enabled d = Some b"
  shows "fold audit_effect (audit_changes ob d r b) (observed_policy ob) = desired_policy d"
    and "audit_changes ob d r b = [] \<longleftrightarrow> observed_policy ob = desired_policy d"
proof -
  obtain r0 b0 where ob: "ao_AuditTrailRetention ob = Some r0" "ao_Enabled ob = Some b0"
    using assms(1) by (auto simp: observed_policy_def split: option.splits)
  show "fold audit_effect (audit_changes ob d r b) (observed_policy ob) = desired_policy d"
    using assms(2,3) ob by (cases "needsRecreation ob d")
      (auto simp: audit_changes_def observed_policy_def desired_policy_def needsRecreation_def Let_def)
  show "audit_changes ob d r b = [] \<longleftrightarrow> observed_policy ob = desired_policy d"
    using assms(2,3) ob by (auto simp: audit_changes_def observed_policy_def desired_policy_def needsRecreation_def Let_def)
qed

lemma audit_built:
  assumes "ap_AuditTrailRetention d = Some r" "ap_Enabled d = Some b"
  shows "prepareCreateSql d = Inr (audit_sql (CreatePolicy (ap_PolicyName d) (ap_AuditActions d) (ap_AuditStatus d) (ap_AuditLevel d) r))"
    and "prepareEnableDisablePolicySql d = Inr (audit_sql (EnablePolicy (ap_PolicyName d) b))"
    and "prepareUpdateRetentionDaysSql d = Inr (audit_sql (SetRetention (ap_PolicyName d) r))"
    and "prepareDeleteSql d = audit_sql (DropPolicy (ap_PolicyName d))"
  using assms by (auto simp: prepareCreateSql_def prepareEnableDisablePolicySql_def prepareUpdateRetentionDaysSql_def
      prepareDeleteSql_def dquoted_def Let_def)

lemma plan_execs_simps:
  "plan_then (plan_exec q) (plan_execs qs) = plan_execs (q # qs)" "plan_skip = plan_execs []" "plan_exec q = plan_execs [q]"
  "plan_then (plan_execs ps) (plan_execs qs) = plan_execs (ps @ qs)"
  by (simp_all add: plan_then_def plan_exec_def plan_execs_def plan_skip_def)

lemma plan_wrap_append:
  "plan_then (plan_wrap f (plan_execs ps)) (plan_wrap f (plan_execs qs)) = plan_wrap f (plan_execs (ps @ qs))"
  by (simp add: plan_then_def plan_wrap_def plan_execs_def)

lemma plan_wrap_Nil: "plan_skip = plan_wrap f (plan_execs [])"
  by (simp add: plan_wrap_def plan_execs_def plan_skip_def)

definition audit_update_plan :: "audit_statement list \<Rightarrow> plan" where
  "audit_update_plan ss = plan_wrap (errors_Wrap ''cannot update audit policy: '') (plan_execs (map audit_sql ss))"

lemma RecreatePolicy_planned:
  assumes "ap_AuditTrailRetention d = Some r" "ap_Enabled d = Some b" "needsRecreation ob d"
  shows "RecreatePolicy db d w = run_plan db (plan_execs (map audit_sql (audit_changes ob d r b))) w"
proof -
  have "RecreatePolicy db d w = run_plan db (plan_then (plan_exec (prepareDeleteSql d)) (auditpolicy_create_plan d)) w"
    by (auto simp: RecreatePolicy_def auditpolicy_Delete_def auditpolicy_Create_planned run_plan_then run_plan_exec
        and_then_def split: prod.split option.split)
  also have "plan_then (plan_exec (prepareDeleteSql d)) (auditpolicy_create_plan d) = plan_execs (map audit_sql (audit_changes ob d r b))"
    using assms audit_built [OF assms(1,2)]
    by (simp add: auditpolicy_create_plan_def plan_built_def plan_execs_simps audit_changes_def Let_def del: audit_sql.simps)
  finally show ?thesis .
qed

lemma auditpolicy_step_status:
  assumes "f d = run_plan db (plan_execs [q])"
  shows "auditpolicy_step f (Inr c) d =
   status_step db (\<lambda>_. plan_wrap (errors_Wrap ''cannot update audit policy: '') (plan_execs (if c then [q] else [])))
     (if c then (\<lambda>cr. cr\<lparr>auditpolicy_AtProvider := (auditpolicy_AtProvider cr)
        \<lparr>ao_AuditTrailRetention := ap_AuditTrailRetention d, ao_Enabled := ap_Enabled d\<rparr>\<rparr>) else id)"
  by (intro ext) (auto simp: assms auditpolicy_step_def status_step_def Let_def run_plan_wrap run_plan_execs
      split: prod.split option.split)

lemma auditpolicy_Update_planned:
  assumes "observed_policy (auditpolicy_AtProvider cr) \<noteq> None" and d: "d = auditpolicy_buildDesiredParameters cr"
    and set: "ap_AuditTrailRetention d = Some r" "ap_Enabled d = Some b"
  shows "(fst (auditpolicy_controller_Update db (MAuditPolicy cr) w), snd (snd (auditpolicy_controller_Update db (MAuditPolicy cr) w))) =
     map_prod outcome id (run_plan db (audit_update_plan (audit_changes (auditpolicy_AtProvider cr) d r b)) w)"
proof -
  let ?ob = "auditpolicy_AtProvider cr"
  let ?run = "run_steps (auditpolicy_steps db ?ob d) cr w"
  obtain r0 b0 where ob: "ao_AuditTrailRetention ?ob = Some r0" "ao_Enabled ?ob = Some b0"
    using assms(1) by (auto simp: observed_policy_def split: option.splits)
  have "(fst ?run, snd (snd ?run)) = run_plan db (audit_update_plan (audit_changes ?ob d r b)) w"
  proof (cases "needsRecreation ?ob d")
    case True
    then show ?thesis
      by (auto simp: auditpolicy_steps_def auditpolicy_recreate_def RecreatePolicy_planned [OF set] audit_update_plan_def
          run_plan_wrap split: prod.split option.split)
  next
    case False
    let ?q1 = "audit_sql (SetRetention (ap_PolicyName d) r)" and ?q2 = "audit_sql (EnablePolicy (ap_PolicyName d) b)"
    have f: "UpdateRetentionDays db d = run_plan db (plan_execs [?q1])" "UpdateEnablePolicy db d = run_plan db (plan_execs [?q2])"
      by (simp_all add: fun_eq_iff UpdateRetentionDays_def UpdateEnablePolicy_def exec_built_planned plan_built_def
          audit_built [OF set] plan_execs_simps del: audit_sql.simps)
    let ?upd = "\<lambda>cr. cr\<lparr>auditpolicy_AtProvider := (auditpolicy_AtProvider cr)
        \<lparr>ao_AuditTrailRetention := ap_AuditTrailRetention d, ao_Enabled := ap_Enabled d\<rparr>\<rparr>"
    let ?W = "\<lambda>qs. plan_wrap (errors_Wrap ''cannot update audit policy: '') (plan_execs qs)"
    let ?xs = "[(\<lambda>_. ?W (if r0 \<noteq> r then [?q1] else []), if r0 \<noteq> r then ?upd else id),
                (\<lambda>_. ?W (if b0 \<noteq> b then [?q2] else []), if b0 \<noteq> b then ?upd else id)]"
    have steps: "auditpolicy_steps db ?ob d = map (\<lambda>x. status_step db (fst x) (snd x)) ?xs"
      using False ob set
      by (simp add: auditpolicy_steps_def deref_differs_def auditpolicy_step_status [where f = "UpdateRetentionDays db", OF f(1)]
          auditpolicy_step_status [where f = "UpdateEnablePolicy db", OF f(2)] del: audit_sql.simps)
    have "undisturbed ?xs" by simp
    from run_status_steps [OF this, of db cr w]
    have "(fst ?run, snd (snd ?run)) = run_plan db (plans_of ?xs cr) w" unfolding steps by (metis prod.collapse)
    also have "plans_of ?xs cr = audit_update_plan (audit_changes ?ob d r b)"
      using False ob by (simp add: plans_of_def audit_update_plan_def audit_changes_def Let_def plan_wrap_append
          plan_wrap_Nil [of "errors_Wrap ''cannot update audit policy: ''"] del: audit_sql.simps)
    finally show ?thesis .
  qed
  then have "fst ?run = fst (run_plan db (audit_update_plan (audit_changes ?ob d r b)) w)"
      "snd (snd ?run) = snd (run_plan db (audit_update_plan (audit_changes ?ob d r b)) w)"
    by (metis fst_conv, metis snd_conv)
  then show ?thesis by (simp add: auditpolicy_controller_Update_def d [symmetric] Let_def split_beta map_prod_def)
qed


definition sample_policy :: "int option \<Rightarrow> string \<Rightarrow> AuditPolicy" where
  "sample_policy retention level =
     \<lparr>metadata = \<lparr>om_Name = ''p'', om_Namespace = [], om_UID = [], om_ExternalName = None\<rparr>,
      providerConfigReference = Some ''default'', set_conditions = [], status_conditions = [],
      auditpolicy_ForProvider = \<lparr>ap_PolicyName = ''P'', ap_AuditActions = [''GRANT ROLE''], ap_AuditStatus = ''ALL'',
        ap_AuditLevel = level, ap_AuditTrailRetention = retention, ap_Enabled = Some True\<rparr>,
      auditpolicy_AtProvider = \<lparr>ao_PolicyName = ''P'', ao_AuditActions = [''GRANT ROLE''], ao_AuditStatus = ''ALL'',
        ao_AuditLevel = ''INFO'', ao_AuditTrailRetention = Some 7, ao_Enabled = Some True\<rparr>\<rparr>"

lemma upper_sample: "ToUpper ''P'' = ''P''" "ToUpper ''GRANT ROLE'' = ''GRANT ROLE''" "ToUpper ''ALL'' = ''ALL''"
  "ToUpper ''INFO'' = ''INFO''" "ToUpper ''alert'' = ''ALERT''"
  by code_simp+




end
