(* ===== verification/Concurrency.thy ===== *)
theory Concurrency
  imports Xsql "HOL-Library.Sublist"
begin

text \<open>
  Goroutines. The clients of X.509 providers and of personal security environments start several
  goroutines and then receive one error from the channel of each, in the order in which they were
  started.

  A goroutine has returned, or acts once on the world and goes on; one action is one call of the
  database. A schedule is the list of the goroutines that act next. After the schedule the
  remaining ones run to their end, so that every schedule is complete and every interleaving is
  one of them. The channels are buffered: a goroutine that nobody receives from does not block,
  and the world is the one in which all of them have returned.
\<close>

section \<open>Scheduling\<close>

datatype ('r, 'w) go = Return 'r | Act "'w \<Rightarrow> ('r, 'w) go \<times> 'w"

primrec finish :: "('r, 'w) go \<Rightarrow> 'w \<Rightarrow> 'r \<times> 'w" where
  "finish (Return r) = (\<lambda>w. (r, w))"
| "finish (Act f) = (\<lambda>w. case (map_prod finish id \<circ> f) w of (k, w') \<Rightarrow> k w')"

lemma finish_Act [simp]: "finish (Act f) w = finish (fst (f w)) (snd (f w))"
  by (simp add: split_beta)

declare finish.simps(2) [simp del]

definition act_at :: "nat \<Rightarrow> ('r, 'w) go list \<times> 'w \<Rightarrow> ('r, 'w) go list \<times> 'w" where
  "act_at i c = (case c of (gs, w) \<Rightarrow>
     if i < length gs
     then (case gs ! i of Return r \<Rightarrow> (gs, w) | Act f \<Rightarrow> (gs[i := fst (f w)], snd (f w)))
     else (gs, w))"

fun finish_all :: "('r, 'w) go list \<Rightarrow> 'w \<Rightarrow> 'r list \<times> 'w" where
  "finish_all [] w = ([], w)"
| "finish_all (g # gs) w =
     (case finish g w of (r, w1) \<Rightarrow> case finish_all gs w1 of (rs, w2) \<Rightarrow> (r # rs, w2))"

definition run_go :: "nat list \<Rightarrow> ('r, 'w) go list \<Rightarrow> 'w \<Rightarrow> 'r list \<times> 'w" where
  "run_go sched gs w = (case fold act_at sched (gs, w) of (gs', w') \<Rightarrow> finish_all gs' w')"

lemma length_finish_all [simp]: "length (fst (finish_all gs w)) = length gs"
  by (induction gs arbitrary: w) (simp_all add: split_beta)

lemma length_act_at [simp]: "length (fst (act_at i c)) = length (fst c)"
  by (auto simp: act_at_def split: prod.split go.split)

lemma length_run_go [simp]: "length (fst (run_go sched gs w)) = length gs"
proof -
  have "length (fst (fold act_at sched c)) = length (fst c)" for c :: "('r, 'w) go list \<times> 'w"
    by (induction sched arbitrary: c) simp_all
  from this [of "(gs, w)"] show ?thesis by (simp add: run_go_def split_beta)
qed

lemma run_go_returned: "run_go sched (map Return rs) w = (rs, w)"
proof -
  have "act_at i (map Return rs, w) = (map Return rs, w)" for i by (simp add: act_at_def)
  then have "fold act_at sched (map Return rs, w) = (map Return rs, w)" by (induction sched) simp_all
  moreover have "finish_all (map Return rs) w = (rs, w)" by (induction rs) simp_all
  ultimately show ?thesis by (simp add: run_go_def)
qed

text \<open>The first error in the order of the channels.\<close>

fun first_error :: "error option list \<Rightarrow> error option" where
  "first_error [] = None"
| "first_error (None # rs) = first_error rs"
| "first_error (Some e # rs) = Some e"

section \<open>Goroutines that execute statements\<close>

fun go_steps :: "'w DB \<Rightarrow> planned_step list \<Rightarrow> error option \<Rightarrow> (error option, 'w) go" where
  "go_steps db [] e = Return e"
| "go_steps db ((q, f) # qs) e = Act (\<lambda>w. case ExecContext db q w of
     (Some err, w') \<Rightarrow> (Return (Some (f err)), w')
   | (None, w') \<Rightarrow> (go_steps db qs e, w'))"

definition go_plan_of :: "'w DB \<Rightarrow> plan \<Rightarrow> (error option, 'w) go" where
  "go_plan_of db p = go_steps db (fst p) (snd p)"

text \<open>Alone, a goroutine does what the plan does.\<close>

lemma finish_go_plan: "finish (go_plan_of db p) w = run_plan db p w"
proof -
  have "finish (go_steps db qs e) w = run_plan db (qs, e) w" for qs e
    by (induction db qs w rule: exec_steps.induct) (auto simp: run_plan_def split: prod.split option.split)
  then show ?thesis by (simp add: go_plan_of_def)
qed

text \<open>
  On a server whose verdict depends on the statement only, the error of a goroutine and the
  statements it executes do not depend on the schedule. \<open>executed\<close> are the statements up to the
  first that is rejected.
\<close>

fun executed_steps :: "(string \<Rightarrow> error option) \<Rightarrow> planned_step list \<Rightarrow> string list" where
  "executed_steps rej [] = []"
| "executed_steps rej ((q, f) # qs) = q # (if rej q = None then executed_steps rej qs else [])"

definition executed :: "(string \<Rightarrow> error option) \<Rightarrow> plan \<Rightarrow> string list" where
  "executed rej p = executed_steps rej (fst p)"

definition verdict :: "(string \<Rightarrow> error option) \<Rightarrow> plan \<Rightarrow> error option" where
  "verdict rej p = fst (run_plan (recording rej) p [])"

lemma run_plan_recording_executed: "run_plan (recording rej) p w = (verdict rej p, w @ executed rej p)"
proof -
  have "exec_steps (recording rej) qs w = (fst (exec_steps (recording rej) qs []), w @ executed_steps rej qs)" for qs w
  proof (induction qs arbitrary: w)
    case (Cons s qs)
    obtain q f where s: "s = (q, f)" by (cases s)
    show ?case using Cons [of "w @ [q]"] Cons [of "[q]"] by (auto simp: s split: option.split)
  qed simp
  from this [of "fst p" w] this [of "fst p" "[]"] show ?thesis
    by (auto simp: run_plan_def verdict_def executed_def split: prod.splits option.splits)
qed

lemma verdict_simps [simp]:
  "verdict rej ([], e) = e"
  "verdict rej ((q, f) # qs, e) = (case rej q of None \<Rightarrow> verdict rej (qs, e) | Some err \<Rightarrow> Some (f err))"
proof -
  show "verdict rej ([], e) = e" by (simp add: verdict_def run_plan_def)
  have "run_plan (recording rej) ((q, f) # qs, e) [] =
      (case rej q of None \<Rightarrow> run_plan (recording rej) (qs, e) [q] | Some err \<Rightarrow> (Some (f err), [q]))"
    by (auto simp: run_plan_def split: option.split prod.split)
  then show "verdict rej ((q, f) # qs, e) = (case rej q of None \<Rightarrow> verdict rej (qs, e) | Some err \<Rightarrow> Some (f err))"
    by (simp add: run_plan_recording_executed split: option.splits)
qed

text \<open>
  The state of a goroutine during a run on such a server: \<open>don\<close> is what it has executed, and it is
  still going to execute the rest of what it would execute alone, with the same verdict.
\<close>

definition rest_of :: "(string \<Rightarrow> error option) \<Rightarrow> plan \<Rightarrow> string list \<Rightarrow> (error option, string list) go \<Rightarrow> bool" where
  "rest_of rej p don g \<longleftrightarrow> (\<exists>qs e. g = go_steps (recording rej) qs e \<and>
     executed rej p = don @ executed_steps rej qs \<and> verdict rej p = verdict rej (qs, e))"

lemma rest_of_start: "rest_of rej p [] (go_plan_of (recording rej) p)"
  unfolding rest_of_def by (rule exI [of _ "fst p"], rule exI [of _ "snd p"]) (simp add: go_plan_of_def executed_def)

lemma rest_of_act:
  assumes "rest_of rej p don (Act f)"
  shows "\<exists>q. snd (f w) = w @ [q] \<and> rest_of rej p (don @ [q]) (fst (f w))"
proof -
  obtain qs e where g: "Act f = go_steps (recording rej) qs e"
    and ex: "executed rej p = don @ executed_steps rej qs" and v: "verdict rej p = verdict rej (qs, e)"
    using assms by (auto simp: rest_of_def)
  then obtain q h qs' where qs: "qs = (q, h) # qs'" by (cases qs) auto
  have f: "f w = (case rej q of Some err \<Rightarrow> (Return (Some (h err)), w @ [q]) | None \<Rightarrow> (go_steps (recording rej) qs' e, w @ [q]))"
    using g by (simp add: qs split: option.split)
  show ?thesis
  proof (cases "rej q")
    case None
    then show ?thesis using f ex v by (auto simp: rest_of_def qs)
  next
    case (Some err)
    have "rest_of rej p (don @ [q]) (go_steps (recording rej) [] (Some (h err)))"
      unfolding rest_of_def by (rule exI [of _ "[]"], rule exI [of _ "Some (h err)"]) (use Some ex v in \<open>simp add: qs\<close>)
    then show ?thesis using Some f by simp
  qed
qed

lemma rest_of_finish:
  assumes "rest_of rej p don g"
  shows "\<exists>qs. finish g w = (verdict rej p, w @ qs) \<and> executed rej p = don @ qs"
proof -
  obtain qs e where g: "g = go_steps (recording rej) qs e"
    and ex: "executed rej p = don @ executed_steps rej qs" and v: "verdict rej p = verdict rej (qs, e)"
    using assms by (auto simp: rest_of_def)
  have "finish g w = (verdict rej p, w @ executed_steps rej qs)"
    using finish_go_plan [of "recording rej" "(qs, e)" w] v
    by (simp add: g go_plan_of_def run_plan_recording_executed executed_def)
  then show ?thesis using ex by blast
qed

text \<open>
  A log that is made of the goroutines' parts: it has exactly their statements, and each part in
  its order.
\<close>

definition made_of :: "string list list \<Rightarrow> string list \<Rightarrow> bool" where
  "made_of parts log \<longleftrightarrow> mset log = sum_list (map mset parts) \<and> (\<forall>part \<in> set parts. subseq part log)"

lemma sum_list_update_add:
  "i < length xs \<Longrightarrow> sum_list (xs[i := xs ! i + (y :: 'a :: comm_monoid_add)]) = sum_list xs + y"
  by (induction xs arbitrary: i) (auto simp: nth_Cons' algebra_simps split: nat.split)

lemma made_of_act:
  assumes "made_of parts log" "i < length parts"
  shows "made_of (parts[i := parts ! i @ [q]]) (log @ [q])"
proof -
  have "map mset (parts[i := parts ! i @ [q]]) = (map mset parts)[i := map mset parts ! i + {#q#}]"
    using assms(2) by (simp add: map_update)
  then have "sum_list (map mset (parts[i := parts ! i @ [q]])) = sum_list (map mset parts) + {#q#}"
    using assms(2) sum_list_update_add [of i "map mset parts" "{#q#}"] by simp
  moreover have "subseq part (log @ [q])" if "part \<in> set (parts[i := parts ! i @ [q]])" for part
  proof -
    have "part = parts ! i @ [q] \<or> part \<in> set parts"
      using that set_update_subset_insert [of parts i "parts ! i @ [q]"] by blast
    then show ?thesis
      using assms by (auto simp: made_of_def intro: list_emb_append_mono subseq_append_iff list_emb_append2)
  qed
  ultimately show ?thesis using assms(1) by (simp add: made_of_def)
qed

lemma made_of_acts:
  assumes "made_of parts log" "i < length parts"
  shows "made_of (parts[i := parts ! i @ qs]) (log @ qs)"
proof (induction qs rule: rev_induct)
  case Nil
  then show ?case using assms by simp
next
  case (snoc q qs)
  from made_of_act [OF snoc, of i q] show ?case using assms(2) by simp
qed

definition running :: "(string \<Rightarrow> error option) \<Rightarrow> plan list \<Rightarrow> string list list \<Rightarrow> (error option, string list) go list \<Rightarrow> bool" where
  "running rej ps dons gs \<longleftrightarrow> length ps = length gs \<and> length dons = length gs \<and>
     (\<forall>i < length gs. rest_of rej (ps ! i) (dons ! i) (gs ! i))"

lemma running_act:
  assumes "running rej ps dons gs" "made_of dons l"
  shows "\<exists>dons' l'. snd (act_at i (gs, w @ l)) = w @ l' \<and> running rej ps dons' (fst (act_at i (gs, w @ l))) \<and> made_of dons' l'"
proof (cases "i < length gs \<and> (\<exists>f. gs ! i = Act f)")
  case True
  then obtain f where i: "i < length gs" and f: "gs ! i = Act f" by blast
  have "rest_of rej (ps ! i) (dons ! i) (Act f)" using assms(1) i f by (metis running_def)
  from rest_of_act [OF this, of "w @ l"] obtain q where
    q: "snd (f (w @ l)) = (w @ l) @ [q]" "rest_of rej (ps ! i) (dons ! i @ [q]) (fst (f (w @ l)))" by blast
  have n: "i < length dons" using i assms(1) by (simp add: running_def)
  have "running rej ps (dons[i := dons ! i @ [q]]) (gs[i := fst (f (w @ l))])"
    using assms(1) q(2) n by (auto simp: running_def nth_list_update split: if_splits)
  moreover have "made_of (dons[i := dons ! i @ [q]]) (l @ [q])" by (rule made_of_act [OF assms(2) n])
  ultimately show ?thesis using i f q(1) by (auto simp: act_at_def)
next
  case False
  then have "act_at i (gs, w @ l) = (gs, w @ l)" by (auto simp: act_at_def split: go.split)
  then show ?thesis using assms by auto
qed

lemma running_schedule:
  assumes "running rej ps dons gs" "made_of dons l"
  shows "\<exists>dons' gs' l'. fold act_at sched (gs, w @ l) = (gs', w @ l') \<and> running rej ps dons' gs' \<and> made_of dons' l'"
  using assms
proof (induction sched arbitrary: dons gs l)
  case (Cons i sched)
  obtain dons' l' where 1: "snd (act_at i (gs, w @ l)) = w @ l'" "running rej ps dons' (fst (act_at i (gs, w @ l)))" "made_of dons' l'"
    using running_act [OF Cons.prems] by blast
  have "act_at i (gs, w @ l) = (fst (act_at i (gs, w @ l)), w @ l')" using 1(1) by (metis prod.collapse)
  then show ?case using Cons.IH [OF 1(2,3)] by (metis fold_simps(2))
qed auto

lemma running_finish:
  assumes "running rej ps dons gs" "made_of (pre @ dons) l"
  shows "\<exists>l'. finish_all gs (w @ l) = (map (verdict rej) ps, w @ l') \<and> made_of (pre @ map (executed rej) ps) l'"
  using assms
proof (induction gs arbitrary: ps dons pre l)
  case Nil
  then show ?case by (auto simp: running_def)
next
  case (Cons g gs)
  obtain p ps' d ds where ps: "ps = p # ps'" "dons = d # ds" using Cons.prems(1) by (cases ps; cases dons) (auto simp: running_def)
  have g: "rest_of rej p d g" and gs: "running rej ps' ds gs"
    using Cons.prems(1) by (force simp: ps running_def)+
  obtain qs where qs: "finish g (w @ l) = (verdict rej p, (w @ l) @ qs)" "executed rej p = d @ qs"
    using rest_of_finish [OF g] by blast
  have "made_of ((pre @ [executed rej p]) @ ds) (l @ qs)"
    using made_of_acts [OF Cons.prems(2), of "length pre" qs] qs(2) by (simp add: ps)
  from Cons.IH [OF gs this] show ?case using qs(1) by (auto simp: ps)
qed

text \<open>
  The verdicts do not depend on the schedule, and the log has the statements of every goroutine,
  each in its order.
\<close>

lemma run_go_plans:
  "\<exists>l. run_go sched (map (go_plan_of (recording rej)) ps) w = (map (verdict rej) ps, w @ l)
     \<and> made_of (map (executed rej) ps) l"
proof -
  let ?gs = "map (go_plan_of (recording rej)) ps"
  have "running rej ps (map (\<lambda>_. []) ps) ?gs" by (simp add: running_def rest_of_start)
  moreover have "made_of (map (\<lambda>_. []) ps) []" by (induction ps) (auto simp: made_of_def)
  ultimately obtain dons' gs' l' where 1: "fold act_at sched (?gs, w @ []) = (gs', w @ l')" "running rej ps dons' gs'" "made_of dons' l'"
    using running_schedule by blast
  from running_finish [OF 1(2), of "[]" l' w] 1(1,3) show ?thesis by (auto simp: run_go_def)
qed

lemma executed_all: "(\<And>q. q \<in> set (statements p) \<Longrightarrow> rej q = None) \<Longrightarrow> executed rej p = statements p"
proof -
  have "(\<And>q. q \<in> set (map fst qs) \<Longrightarrow> rej q = None) \<Longrightarrow> executed_steps rej qs = map fst qs" for qs
    by (induction rej qs rule: executed_steps.induct) auto
  then show "(\<And>q. q \<in> set (statements p) \<Longrightarrow> rej q = None) \<Longrightarrow> executed rej p = statements p"
    by (simp add: executed_def statements_def)
qed

section \<open>Goroutines that make one query\<close>

definition go_once :: "('w \<Rightarrow> 'r \<times> 'w) \<Rightarrow> ('r, 'w) go" where
  "go_once task = Act (\<lambda>w. map_prod Return id (task w))"

text \<open>Queries that leave the world alone commute.\<close>

lemma run_go_pure:
  assumes "\<forall>t \<in> set ts. snd (t w) = w"
  shows "run_go sched (map go_once ts) w = (map (\<lambda>t. fst (t w)) ts, w)"
proof -
  let ?ok = "\<lambda>gs. list_all2 (\<lambda>t g. g = go_once t \<or> g = Return (fst (t w))) ts gs"
  have act: "snd (act_at i (gs, w)) = w \<and> ?ok (fst (act_at i (gs, w)))" if "?ok gs" for i gs
  proof (cases "i < length gs \<and> gs ! i = go_once (ts ! i)")
    case True
    then have "i < length ts" using that by (simp add: list_all2_lengthD)
    then have "snd ((ts ! i) w) = w" using assms nth_mem by blast
    then have "act_at i (gs, w) = (gs[i := Return (fst ((ts ! i) w))], w)"
      using True by (simp add: act_at_def go_once_def)
    moreover have "?ok (gs[i := Return (fst ((ts ! i) w))])"
      using that True by (auto simp: list_all2_conv_all_nth nth_list_update split: if_splits)
    ultimately show ?thesis by simp
  next
    case False
    then have "act_at i (gs, w) = (gs, w)" using that by (auto simp: act_at_def list_all2_conv_all_nth)
    then show ?thesis using that by simp
  qed
  have "?ok gs \<Longrightarrow> snd (fold act_at sched (gs, w)) = w \<and> ?ok (fst (fold act_at sched (gs, w)))" for gs
  proof (induction sched arbitrary: gs)
    case (Cons i sched)
    have "fold act_at (i # sched) (gs, w) = fold act_at sched (fst (act_at i (gs, w)), w)"
      using act [OF Cons.prems, of i] by (metis fold_simps(2) prod.collapse)
    then show ?case using Cons.IH [of "fst (act_at i (gs, w))"] act [OF Cons.prems, of i] by simp
  qed simp
  moreover have "?ok (map go_once ts)" by (simp add: list_all2_conv_all_nth)
  moreover have "finish_all gs w = (map (\<lambda>t. fst (t w)) ts, w)" if "?ok gs" for gs
    using that assms
  proof (induction ts gs rule: list_all2_induct)
    case (Cons t ts' g gs)
    have "finish g w = (fst (t w), w)" using Cons.hyps(1) Cons.prems by (auto simp: go_once_def map_prod_def split_beta)
    then show ?case using Cons by simp
  qed simp
  ultimately show ?thesis by (simp add: run_go_def split_beta)
qed

end
