(* ===== verification/X509Providers.thy ===== *)
theory X509Providers
  imports ExternalClients Concurrency
begin

text \<open>
  X.509 providers: the client \<open>internal/clients/hana/x509provider\<close> and the controller
  \<open>internal/controller/x509provider\<close>. Reading and updating start two goroutines; \<open>sched\<close> is the
  schedule of a call.
\<close>

section \<open>Client\<close>

definition emptyX509ProviderObservation :: X509ProviderObservation where
  "emptyX509ProviderObservation = \<lparr>xo_Name = None, xo_Issuer = None, xo_MatchingRules = [], xo_Priority = None\<rparr>"

text \<open>A reading goroutine sends an error and has written its fields of the observation.\<close>

type_synonym x509_read = "error option \<times> (X509ProviderObservation \<Rightarrow> X509ProviderObservation)"

definition readIssuer :: "'w DB \<Rightarrow> string \<Rightarrow> 'w \<Rightarrow> x509_read \<times> 'w" where
  "readIssuer db name w =
     (case query_row db ''SELECT ISSUER_NAME FROM X509_PROVIDERS WHERE X509_PROVIDER_NAME = ?'' [name]
             (\<lambda>row. case row of [c] \<Rightarrow> scan_string c | _ \<Rightarrow> Inl scan_error) w of
        (Inl err, w') \<Rightarrow> if IsNoRows (Some err) then ((None, id), w') else ((Some err, id), w')
      | (Inr issuer, w') \<Rightarrow> ((None, \<lambda>ob. ob\<lparr>xo_Name := Some name, xo_Issuer := Some issuer\<rparr>), w'))"

definition readMatchingRules :: "'w DB \<Rightarrow> string \<Rightarrow> 'w \<Rightarrow> x509_read \<times> 'w" where
  "readMatchingRules db name w =
     (case QueryContext db ''SELECT MATCHING_RULE FROM X509_PROVIDER_RULES WHERE X509_PROVIDER_NAME = ? ORDER BY POSITION ASC'' [name] w of
        (Inl err, w') \<Rightarrow> ((Some err, id), w')
      | (Inr rows, w') \<Rightarrow>
          (case each_row (\<lambda>rules row. map_sum id (\<lambda>rule. rules @ [rule])
                    (case row of [c] \<Rightarrow> scan_string c | _ \<Rightarrow> Inl scan_error)) [] (rows_data rows) of
             (Some err, _) \<Rightarrow> ((Some err, id), w')
           | (None, matchingRules) \<Rightarrow>
               (case rows_Err rows of
                  Some err \<Rightarrow> ((Some err, id), w')
                | None \<Rightarrow> ((None, \<lambda>ob. ob\<lparr>xo_MatchingRules := matchingRules\<rparr>), w'))))"

text \<open>\<open>Read\<close> returns nil for a provider that does not exist.\<close>

definition x509provider_Read ::
  "nat list \<Rightarrow> 'w DB \<Rightarrow> X509ProviderParameters \<Rightarrow> 'w \<Rightarrow> (error + X509ProviderObservation option) \<times> 'w" where
  "x509provider_Read sched db parameters w =
     (case run_go sched [go_once (readIssuer db (xp_Name parameters)), go_once (readMatchingRules db (xp_Name parameters))] w of
        ([(issuerErr, setIssuer), (rulesErr, setRules)], w') \<Rightarrow>
          let observation = setRules (setIssuer emptyX509ProviderObservation) in
          (case issuerErr of
             Some err \<Rightarrow> (Inl err, w')
           | None \<Rightarrow>
               if xo_Name observation = None \<or> xo_Name observation = Some [] then (Inr None, w')
               else
                 let observation = observation\<lparr>xo_Name := Some (xp_Name parameters)\<rparr> in
                 (case rulesErr of
                    Some err \<Rightarrow> (Inl err, w')
                  | None \<Rightarrow> (Inr (Some observation), w')))
      | (_, w') \<Rightarrow> (Inr None, w'))"

definition x509provider_create_query :: "X509ProviderParameters \<Rightarrow> string" where
  "x509provider_create_query parameters =
     ''CREATE X509 PROVIDER '' @ xp_Name parameters @ '' WITH ISSUER '' @ [sq] @ xp_Issuer parameters @ [sq]"

definition x509provider_Create :: "'w DB \<Rightarrow> X509ProviderParameters \<Rightarrow> 'w \<Rightarrow> error option \<times> 'w" where
  "x509provider_Create db parameters w = ExecContext db (x509provider_create_query parameters) w"

definition updateIssuer :: "string \<Rightarrow> string \<Rightarrow> plan" where
  "updateIssuer name issuer = plan_exec (''ALTER X509 PROVIDER '' @ name @ '' SET ISSUER '' @ [sq] @ issuer @ [sq])"

definition updateMatchingRules :: "string \<Rightarrow> string list \<Rightarrow> plan" where
  "updateMatchingRules name rules =
     plan_exec (if length rules = 0 then ''ALTER X509 PROVIDER '' @ name @ '' UNSET MATCHING RULES''
       else ''ALTER X509 PROVIDER '' @ name @ '' SET MATCHING RULES '' @ [sq] @ Join rules ([sq] @ '', '' @ [sq]) @ [sq])"

text \<open>
  The observation that is passed in is a copy which the caller throws away; what \<open>Update\<close> writes
  into it is not modelled. A channel into which nil was put at once is a goroutine that executes
  nothing.
\<close>

definition x509provider_update_plans :: "X509ProviderParameters \<Rightarrow> string \<Rightarrow> string list \<Rightarrow> plan list" where
  "x509provider_update_plans parameters issuer rules =
     [if xp_Issuer parameters \<noteq> issuer then updateIssuer (xp_Name parameters) (xp_Issuer parameters) else plan_skip,
      if xp_MatchingRules parameters \<noteq> rules then updateMatchingRules (xp_Name parameters) (xp_MatchingRules parameters) else plan_skip]"

definition x509provider_Update ::
  "nat list \<Rightarrow> 'w DB \<Rightarrow> X509ProviderParameters \<Rightarrow> X509ProviderObservation \<Rightarrow> 'w \<Rightarrow> error option \<times> 'w" where
  "x509provider_Update sched db parameters observation w =
     (case xo_Issuer observation of
        None \<Rightarrow> (Some (Panic ''nil pointer dereference''), w)
      | Some issuer \<Rightarrow>
          map_prod first_error id (run_go sched
            (map (go_plan_of db) (x509provider_update_plans parameters issuer (xo_MatchingRules observation))) w))"

definition x509provider_Delete :: "'w DB \<Rightarrow> X509ProviderParameters \<Rightarrow> 'w \<Rightarrow> error option \<times> 'w" where
  "x509provider_Delete db parameters w = ExecContext db (''DROP X509 PROVIDER '' @ xp_Name parameters) w"

section \<open>Controller\<close>

definition errNotX509Provider :: string where
  "errNotX509Provider = ''managed resource is not a X509Provider custom resource''"

text \<open>The text for a missing secret keeps its verb: it is not used as a format.\<close>

definition x509provider_texts :: connect_texts where
  "x509provider_texts = \<lparr>errNotKind = errNotX509Provider,
     errTrackPCUsage = ''cannot track ProviderConfig usage: '', errGetPC = ''cannot get ProviderConfig: '',
     errNoSecretRef = ''ProviderConfig does not reference a credentials Secret'',
     errGetSecret = ''cannot get credentials Secret: %w: '', errConnect = ''cannot connect to HANA db: ''\<rparr>"

definition x509provider_Connect ::
  "'w Kube \<Rightarrow> (gomap \<Rightarrow> 'w \<Rightarrow> (error + 'w DB) \<times> 'w) \<Rightarrow> Managed \<Rightarrow> 'w \<Rightarrow> (error + 'w DB) \<times> 'w" where
  "x509provider_Connect kube dbConnect mg w = (case mg of
     MX509Provider cr \<Rightarrow>
       map_prod (map_sum id fst) id
         (connect_sql x509provider_texts kube dbConnect mg (providerConfigReference cr) w)
   | _ \<Rightarrow> (Inl (ErrorString errNotX509Provider), w))"

definition x509provider_isUpToDate :: "X509ProviderParameters \<Rightarrow> X509ProviderObservation \<Rightarrow> bool" where
  "x509provider_isUpToDate p ob \<longleftrightarrow>
     xo_Issuer ob = Some (xp_Issuer p) \<and> xp_MatchingRules p = xo_MatchingRules ob"

definition x509provider_Observe :: "nat list \<Rightarrow> 'w DB \<Rightarrow> (ExternalObservation, 'w) handler" where
  "x509provider_Observe sched db mg w = (case mg of
     MX509Provider cr \<Rightarrow>
       let parameters = x509provider_ForProvider cr in
       (case x509provider_Read sched db parameters w of
          (Inl err, w') \<Rightarrow> (Inl err, mg, w')
        | (Inr None, w') \<Rightarrow> (Inr absent, mg, w')
        | (Inr (Some observed), w') \<Rightarrow>
            let cr = cr\<lparr>x509provider_AtProvider := observed\<rparr>;
                cr = SetConditions Available cr
            in (Inr (present (x509provider_isUpToDate parameters observed)), MX509Provider cr, w'))
   | _ \<Rightarrow> (Inl (ErrorString errNotX509Provider), mg, w))"

definition x509provider_controller_Create :: "'w DB \<Rightarrow> (ConnectionDetails, 'w) handler" where
  "x509provider_controller_Create db mg w = (case mg of
     MX509Provider cr \<Rightarrow>
       let parameters = x509provider_ForProvider cr in
       (case x509provider_Create db parameters w of
          (Some err, w') \<Rightarrow> (Inl err, mg, w')
        | (None, w') \<Rightarrow> (Inr [], MX509Provider (SetExternalName (xp_Name (x509provider_ForProvider cr)) cr), w'))
   | _ \<Rightarrow> (Inl (ErrorString errNotX509Provider), mg, w))"

definition x509provider_controller_Update :: "nat list \<Rightarrow> 'w DB \<Rightarrow> (unit, 'w) handler" where
  "x509provider_controller_Update sched db mg w = (case mg of
     MX509Provider cr \<Rightarrow>
       let (err, w') = x509provider_Update sched db (x509provider_ForProvider cr) (x509provider_AtProvider cr) w
       in (outcome err, mg, w')
   | _ \<Rightarrow> (Inl (ErrorString errNotX509Provider), mg, w))"

definition x509provider_controller_Delete :: "'w DB \<Rightarrow> (unit, 'w) handler" where
  "x509provider_controller_Delete db mg w = (case mg of
     MX509Provider cr \<Rightarrow>
       let cr = SetConditions Deleting cr;
           (err, w') = x509provider_Delete db (x509provider_ForProvider cr) w
       in (outcome err, MX509Provider cr, w')
   | _ \<Rightarrow> (Inl (ErrorString errNotX509Provider), mg, w))"

definition x509provider_external :: "nat list \<Rightarrow> 'w DB \<Rightarrow> 'w ExternalClient" where
  "x509provider_external sched db = \<lparr>Observe = x509provider_Observe sched db, Create = x509provider_controller_Create db,
     Update = x509provider_controller_Update sched db, Delete = x509provider_controller_Delete db\<rparr>"

section \<open>Interfaces\<close>

lemma readIssuer_pure: "reads_only db \<Longrightarrow> snd (readIssuer db n w) = w"
  by (auto simp: readIssuer_def split: prod.split sum.split dest: query_row_pureD)

lemma readMatchingRules_pure: "reads_only db \<Longrightarrow> snd (readMatchingRules db n w) = w"
  by (auto simp: readMatchingRules_def split: prod.split sum.split option.split dest: reads_only_Query)

lemma x509provider_Read_sequential:
  assumes "reads_only db"
  shows "run_go sched [go_once (readIssuer db n), go_once (readMatchingRules db n)] w =
     ([fst (readIssuer db n w), fst (readMatchingRules db n w)], w)"
proof -
  have "\<forall>t \<in> set [readIssuer db n, readMatchingRules db n]. snd (t w) = w"
    using assms by (simp add: readIssuer_pure readMatchingRules_pure)
  from run_go_pure [OF this] show ?thesis by simp
qed

lemma x509provider_Read_pure [go_effect]: "reads_only db \<Longrightarrow> snd (x509provider_Read sched db p w) = w"
  by (auto simp: x509provider_Read_def x509provider_Read_sequential Let_def split: prod.split option.split)

interpretation x509provider: query_client "x509provider_Read sched" x509provider_Create x509provider_Delete
  "\<lambda>p. plan_exec (x509provider_create_query p)" "\<lambda>p. plan_exec (''DROP X509 PROVIDER '' @ xp_Name p)" for sched
  by unfold_locales (auto simp: go_effect go_plan x509provider_Create_def x509provider_Delete_def)

lemmas x509provider_handlers = x509provider_external_def x509provider_Observe_def x509provider_controller_Create_def
  x509provider_controller_Update_def x509provider_controller_Delete_def

lemma x509provider_keeps:
  "\<exists>cr' cs. fst (after_call (x509provider_external sched db) k (MX509Provider cr) w) = MX509Provider cr' \<and>
     x509provider_ForProvider cr' = x509provider_ForProvider cr \<and> set_conditions cr' = set_conditions cr @ cs \<and>
     (k = CallDelete \<longrightarrow> cs = [Deleting])"
  by (cases k)
     (auto simp: x509provider_handlers SetConditions_def SetExternalName_def Let_def split: prod.split sum.split option.split)

interpretation x509provider_client: external_client "x509provider_external sched db" MX509Provider x509provider_ForProvider
  set_conditions "ErrorString errNotX509Provider" for sched and db :: "'w DB"
proof (unfold_locales, goal_cases)
  case 5
  show ?case by (rule x509provider_keeps)
qed (auto simp: x509provider_handlers split: Managed.splits)

section \<open>Properties\<close>


definition sample_provider :: X509Provider where
  "sample_provider =
     \<lparr>metadata = \<lparr>om_Name = ''x'', om_Namespace = [], om_UID = [], om_ExternalName = None\<rparr>,
      providerConfigReference = Some ''default'', set_conditions = [], status_conditions = [],
      x509provider_ForProvider = \<lparr>xp_Name = ''X'', xp_Issuer = ''CN=a'', xp_MatchingRules = [], xp_Priority = None\<rparr>,
      x509provider_AtProvider = \<lparr>xo_Name = Some ''X'', xo_Issuer = Some ''CN=b'', xo_MatchingRules = [''r''], xo_Priority = None\<rparr>\<rparr>"


end
