(* ===== verification/PersonalSecurityEnvironments.thy ===== *)
theory PersonalSecurityEnvironments
  imports ExternalClients Concurrency
begin

text \<open>
  Personal security environments: the client \<open>internal/clients/hana/personalsecurityenvironment\<close>
  and the controller \<open>internal/controller/personalsecurityenvironment\<close>. Reading, creating and
  updating start up to three goroutines; \<open>sched\<close> is the schedule of a call.
\<close>

section \<open>Client\<close>

definition emptyPSEObservation :: PersonalSecurityEnvironmentObservation where
  "emptyPSEObservation = \<lparr>pso_Name = [], pso_X509ProviderName = [], pso_CertificateRefs = []\<rparr>"

type_synonym pse_read =
  "error option \<times> (PersonalSecurityEnvironmentObservation \<Rightarrow> PersonalSecurityEnvironmentObservation)"

definition selectPSE :: "'w DB \<Rightarrow> string \<Rightarrow> 'w \<Rightarrow> pse_read \<times> 'w" where
  "selectPSE db identifier w =
     (case query_row db (''SELECT NAME FROM PSES WHERE NAME = ? AND PURPOSE = '' @ [sq] @ ''X509'' @ [sq]) [identifier]
             (\<lambda>row. case row of [c] \<Rightarrow> scan_string c | _ \<Rightarrow> Inl scan_error) w of
        (Inl err, w') \<Rightarrow> ((Some (Wrapped ''error querying row: '' err), id), w')
      | (Inr name, w') \<Rightarrow> ((None, \<lambda>ob. ob\<lparr>pso_Name := name\<rparr>), w'))"

definition selectPSECertificates :: "'w DB \<Rightarrow> string \<Rightarrow> 'w \<Rightarrow> pse_read \<times> 'w" where
  "selectPSECertificates db identifier w =
     (case QueryContext db ''SELECT CERTIFICATE_ID, CERTIFICATE_NAME FROM PSE_CERTIFICATES WHERE PSE_NAME = ?'' [identifier] w of
        (Inl err, w') \<Rightarrow> ((Some err, id), w')
      | (Inr rows, w') \<Rightarrow>
          (case each_row (\<lambda>refs row. map_sum id
                    (\<lambda>(certID, certName). refs @ [\<lparr>cr_ID = Some certID, cr_Name = Some certName\<rparr>])
                    (scan2 scan_int scan_string row)) [] (rows_data rows) of
             (err, refs) \<Rightarrow>
               ((case err of Some e \<Rightarrow> Some e | None \<Rightarrow> rows_Err rows,
                 \<lambda>ob. ob\<lparr>pso_CertificateRefs := pso_CertificateRefs ob @ refs\<rparr>), w')))"

definition selectPSEPurpose :: "'w DB \<Rightarrow> string \<Rightarrow> 'w \<Rightarrow> pse_read \<times> 'w" where
  "selectPSEPurpose db identifier w =
     (case query_row db (''SELECT PURPOSE_OBJECT FROM PSE_PURPOSE_OBJECTS WHERE PSE_NAME = ? AND PURPOSE = '' @ [sq] @ ''X509'' @ [sq])
             [identifier] (\<lambda>row. case row of [c] \<Rightarrow> scan_string c | _ \<Rightarrow> Inl scan_error) w of
        (Inl err, w') \<Rightarrow>
          if IsNoRows (Some err) then ((None, \<lambda>ob. ob\<lparr>pso_X509ProviderName := []\<rparr>), w')
          else ((Some (Wrapped ''error querying row: '' err), id), w')
      | (Inr providerName, w') \<Rightarrow> ((None, \<lambda>ob. ob\<lparr>pso_X509ProviderName := providerName\<rparr>), w'))"

definition pse_Read ::
  "nat list \<Rightarrow> 'w DB \<Rightarrow> PersonalSecurityEnvironmentParameters \<Rightarrow> 'w \<Rightarrow>
     (error + PersonalSecurityEnvironmentObservation option) \<times> 'w" where
  "pse_Read sched db parameters w =
     (let name = psp_Name parameters in
      case run_go sched [go_once (selectPSE db name), go_once (selectPSECertificates db name), go_once (selectPSEPurpose db name)] w of
        ([(pseErr, setName), (certErr, setCerts), (purposeErr, setPurpose)], w') \<Rightarrow>
          (case pseErr of
             Some err \<Rightarrow> if IsNoRows (Some err) then (Inr None, w') else (Inl err, w')
           | None \<Rightarrow>
          (case certErr of Some err \<Rightarrow> (Inl err, w') | None \<Rightarrow>
          (case purposeErr of Some err \<Rightarrow> (Inl err, w') | None \<Rightarrow>
             (Inr (Some (setPurpose (setCerts (setName emptyPSEObservation)))), w'))))
      | (_, w') \<Rightarrow> (Inr None, w'))"

definition setPSEPurpose :: "string \<Rightarrow> string \<Rightarrow> plan" where
  "setPSEPurpose identifier providerName =
     (if providerName = [] then plan_fail (ErrorString ''provider name is empty'')
      else plan_exec (''SET PSE '' @ identifier @ '' PURPOSE X509 FOR PROVIDER '' @ providerName))"

text \<open>The identifiers and the names of the references, in their order; a reference needs one of them.\<close>

fun split_refs :: "CertificateRef list \<Rightarrow> (string list \<times> string list) option" where
  "split_refs [] = Some ([], [])"
| "split_refs (r # rs) =
     (case (cr_ID r, cr_Name r) of
        (Some i, _) \<Rightarrow> map_option (\<lambda>(ids, names). (Itoa i # ids, names)) (split_refs rs)
      | (None, Some n) \<Rightarrow> map_option (\<lambda>(ids, names). (ids, n # names)) (split_refs rs)
      | (None, None) \<Rightarrow> None)"

definition updateCertificatesForPSE :: "bool \<Rightarrow> string \<Rightarrow> CertificateRef list \<Rightarrow> plan" where
  "updateCertificatesForPSE add pseName certRefs =
     (let query = (\<lambda>certs. ''ALTER PSE '' @ pseName @ (if add then '' ADD CERTIFICATE '' else '' DROP CERTIFICATE '') @ certs) in
      case split_refs certRefs of
        None \<Rightarrow> plan_fail (ErrorString ''failed to add certificate: certificate reference must have either id or name set'')
      | Some (certIDs, certNames) \<Rightarrow>
          plan_wrap (Wrapped ''failed to update certificates: '') (plan_execs
            ((if 0 < length certIDs then [query (Join certIDs '', '')] else []) @
             (if 0 < length certNames then [query ([dq] @ Join certNames ([dq] @ '', '' @ [dq]) @ [dq])] else []))))"

text \<open>Starting the goroutines and receiving one error from each, in order.\<close>

definition spawn :: "nat list \<Rightarrow> 'w DB \<Rightarrow> plan list \<Rightarrow> 'w \<Rightarrow> error option \<times> 'w" where
  "spawn sched db plans w = map_prod first_error id (run_go sched (map (go_plan_of db) plans) w)"

definition pse_Create ::
  "nat list \<Rightarrow> 'w DB \<Rightarrow> PersonalSecurityEnvironmentParameters \<Rightarrow> string \<Rightarrow> 'w \<Rightarrow> error option \<times> 'w" where
  "pse_Create sched db parameters providerName w =
     and_then (ExecContext db (''CREATE PSE '' @ psp_Name parameters) w)
       (spawn sched db
         ((if providerName \<noteq> [] then [setPSEPurpose (psp_Name parameters) providerName] else []) @
          [updateCertificatesForPSE True (psp_Name parameters) (psp_CertificateRefs parameters)]))"

definition pse_update_plans :: "string \<Rightarrow> CertificateRef list \<Rightarrow> CertificateRef list \<Rightarrow> string \<Rightarrow> plan list" where
  "pse_update_plans pseName toAdd toRemove providerName =
     (if providerName \<noteq> [] then [setPSEPurpose pseName providerName] else []) @
     [updateCertificatesForPSE True pseName toAdd, updateCertificatesForPSE False pseName toRemove]"

definition pse_Update ::
  "nat list \<Rightarrow> 'w DB \<Rightarrow> string \<Rightarrow> CertificateRef list \<Rightarrow> CertificateRef list \<Rightarrow> string \<Rightarrow> 'w \<Rightarrow> error option \<times> 'w" where
  "pse_Update sched db pseName toAdd toRemove providerName w =
     spawn sched db (pse_update_plans pseName toAdd toRemove providerName) w"

definition pse_Delete :: "'w DB \<Rightarrow> PersonalSecurityEnvironmentParameters \<Rightarrow> 'w \<Rightarrow> error option \<times> 'w" where
  "pse_Delete db parameters w = ExecContext db (''DROP PSE '' @ psp_Name parameters) w"

section \<open>Controller\<close>

definition errNotPersonalSecurityEnvironment :: string where
  "errNotPersonalSecurityEnvironment = ''managed resource is not a PersonalSecurityEnvironment custom resource''"

definition pse_texts :: connect_texts where
  "pse_texts = \<lparr>errNotKind = errNotPersonalSecurityEnvironment,
     errTrackPCUsage = ''cannot track ProviderConfig usage: '', errGetPC = ''cannot get ProviderConfig: '',
     errNoSecretRef = ''ProviderConfig does not reference a credentials Secret'',
     errGetSecret = ''cannot get credentials Secret: '', errConnect = ''cannot connect to HANA db: ''\<rparr>"

definition pse_Connect ::
  "'w Kube \<Rightarrow> (gomap \<Rightarrow> 'w \<Rightarrow> (error + 'w DB) \<times> 'w) \<Rightarrow> Managed \<Rightarrow> 'w \<Rightarrow> (error + 'w DB) \<times> 'w" where
  "pse_Connect kube dbConnect mg w = (case mg of
     MPersonalSecurityEnvironment cr \<Rightarrow>
       map_prod (map_sum id fst) id
         (connect_sql pse_texts kube dbConnect mg (providerConfigReference cr) w)
   | _ \<Rightarrow> (Inl (ErrorString errNotPersonalSecurityEnvironment), w))"

text \<open>Despite its name the function returns whether the references denote the same certificate.\<close>

definition certDifferent :: "CertificateRef \<Rightarrow> CertificateRef \<Rightarrow> bool" where
  "certDifferent certA certB \<longleftrightarrow>
     (cr_ID certA \<noteq> None \<and> cr_ID certB \<noteq> None \<and> cr_ID certA = cr_ID certB) \<or>
     (cr_Name certA \<noteq> None \<and> cr_Name certB \<noteq> None \<and> cr_Name certA \<noteq> Some [] \<and> cr_Name certA = cr_Name certB)"

fun certListDifference :: "CertificateRef list \<Rightarrow> CertificateRef list \<Rightarrow> CertificateRef list" where
  "certListDifference [] b = []"
| "certListDifference (certA # a) b =
     (let found = list_ex (\<lambda>certB. certDifferent certA certB) b
      in if \<not> found then certA # certListDifference a b else certListDifference a b)"

definition pse_isUpToDate ::
  "PersonalSecurityEnvironmentParameters \<Rightarrow> PersonalSecurityEnvironmentObservation \<Rightarrow> string \<Rightarrow> bool" where
  "pse_isUpToDate p ob providerName \<longleftrightarrow>
     length (psp_CertificateRefs p) = length (pso_CertificateRefs ob) \<and>
     length (certListDifference (psp_CertificateRefs p) (pso_CertificateRefs ob)) = 0 \<and>
     providerName = pso_X509ProviderName ob \<and> psp_Name p = pso_Name ob"

definition getX509ProviderName :: "'w Kube \<Rightarrow> X509ProviderRef option \<Rightarrow> 'w \<Rightarrow> error + string" where
  "getX509ProviderName kube ref w = (case ref of
     None \<Rightarrow> Inr []
   | Some ref \<Rightarrow>
       (case xr_ProviderRef ref of
          Some (_, name) \<Rightarrow>
            (case GetX509Provider kube [] name w of
               Inl err \<Rightarrow> Inl err
             | Inr provider \<Rightarrow> Inr (xp_Name (x509provider_ForProvider provider)))
        | None \<Rightarrow>
            if xr_Name ref \<noteq> [] then Inr (xr_Name ref)
            else Inl (ErrorString ''X509ProviderRef must have either ProviderRef or Name specified'')))"

definition pse_Observe :: "nat list \<Rightarrow> 'w Kube \<Rightarrow> 'w DB \<Rightarrow> (ExternalObservation, 'w) handler" where
  "pse_Observe sched kube db mg w = (case mg of
     MPersonalSecurityEnvironment cr \<Rightarrow>
       let parameters = pse_ForProvider cr in
       (case pse_Read sched db parameters w of
          (Inl err, w') \<Rightarrow> (Inl err, mg, w')
        | (Inr None, w') \<Rightarrow> (Inr absent, mg, w')
        | (Inr (Some observed), w') \<Rightarrow>
            (case getX509ProviderName kube (psp_X509ProviderRef parameters) w' of
               Inl err \<Rightarrow> (Inl (Wrapped ''failed to get provider for pse: '' err), mg, w')
             | Inr providerName \<Rightarrow>
                 let cr = cr\<lparr>pse_AtProvider := observed\<rparr>;
                     cr = SetConditions Available cr;
                     cr = SetExternalName (pso_Name observed) cr
                 in (Inr (present (pse_isUpToDate parameters observed providerName)), MPersonalSecurityEnvironment cr, w')))
   | _ \<Rightarrow> (Inl (ErrorString errNotPersonalSecurityEnvironment), mg, w))"

definition pse_controller_Create :: "nat list \<Rightarrow> 'w Kube \<Rightarrow> 'w DB \<Rightarrow> (ConnectionDetails, 'w) handler" where
  "pse_controller_Create sched kube db mg w = (case mg of
     MPersonalSecurityEnvironment cr \<Rightarrow>
       let parameters = pse_ForProvider cr in
       (case getX509ProviderName kube (psp_X509ProviderRef parameters) w of
          Inl err \<Rightarrow> (Inl (Wrapped ''failed to get provider for pse: '' err), mg, w)
        | Inr providerName \<Rightarrow>
            (case pse_Create sched db parameters providerName w of
               (Some err, w') \<Rightarrow> (Inl err, mg, w')
             | (None, w') \<Rightarrow> (Inr [], mg, w')))
   | _ \<Rightarrow> (Inl (ErrorString errNotPersonalSecurityEnvironment), mg, w))"

definition pse_controller_Update :: "nat list \<Rightarrow> 'w Kube \<Rightarrow> 'w DB \<Rightarrow> (unit, 'w) handler" where
  "pse_controller_Update sched kube db mg w = (case mg of
     MPersonalSecurityEnvironment cr \<Rightarrow>
       let parameters = pse_ForProvider cr;
           observed = pse_AtProvider cr;
           toAdd = certListDifference (psp_CertificateRefs parameters) (pso_CertificateRefs observed);
           toRemove = certListDifference (pso_CertificateRefs observed) (psp_CertificateRefs parameters) in
       (case getX509ProviderName kube (psp_X509ProviderRef parameters) w of
          Inl err \<Rightarrow> (Inl (Wrapped ''failed to get provider for pse: '' err), mg, w)
        | Inr providerName \<Rightarrow>
            let providerName = (if providerName = pso_X509ProviderName observed then [] else providerName) in
            (case pse_Update sched db (psp_Name parameters) toAdd toRemove providerName w of
               (Some err, w') \<Rightarrow> (Inl err, mg, w')
             | (None, w') \<Rightarrow> (Inr (), MPersonalSecurityEnvironment (cr\<lparr>pse_AtProvider := (pse_AtProvider cr)
                 \<lparr>pso_CertificateRefs := psp_CertificateRefs parameters\<rparr>\<rparr>), w')))
   | _ \<Rightarrow> (Inl (ErrorString errNotPersonalSecurityEnvironment), mg, w))"

definition pse_controller_Delete :: "'w DB \<Rightarrow> (unit, 'w) handler" where
  "pse_controller_Delete db mg w = (case mg of
     MPersonalSecurityEnvironment cr \<Rightarrow>
       let cr = SetConditions Deleting cr;
           (err, w') = pse_Delete db (pse_ForProvider cr) w
       in (outcome err, MPersonalSecurityEnvironment cr, w')
   | _ \<Rightarrow> (Inl (ErrorString errNotPersonalSecurityEnvironment), mg, w))"

definition pse_external :: "nat list \<Rightarrow> 'w Kube \<Rightarrow> 'w DB \<Rightarrow> 'w ExternalClient" where
  "pse_external sched kube db = \<lparr>Observe = pse_Observe sched kube db, Create = pse_controller_Create sched kube db,
     Update = pse_controller_Update sched kube db, Delete = pse_controller_Delete db\<rparr>"

section \<open>Interfaces\<close>

lemmas pse_handlers = pse_external_def pse_Observe_def pse_controller_Create_def
  pse_controller_Update_def pse_controller_Delete_def

lemma pse_keeps:
  "\<exists>cr' cs. fst (after_call (pse_external sched kube db) k (MPersonalSecurityEnvironment cr) w) = MPersonalSecurityEnvironment cr' \<and>
     pse_ForProvider cr' = pse_ForProvider cr \<and> set_conditions cr' = set_conditions cr @ cs \<and>
     (k = CallDelete \<longrightarrow> cs = [Deleting])"
  by (cases k)
     (auto simp: pse_handlers SetConditions_def SetExternalName_def Let_def split: prod.split sum.split option.split)

interpretation pse_client: external_client "pse_external sched kube db" MPersonalSecurityEnvironment pse_ForProvider
  set_conditions "ErrorString errNotPersonalSecurityEnvironment" for sched and kube :: "'w Kube" and db :: "'w DB"
proof (unfold_locales, goal_cases)
  case 5
  show ?case by (rule pse_keeps)
qed (auto simp: pse_handlers split: Managed.splits)

section \<open>Properties\<close>


definition sample_pse :: "CertificateRef list \<Rightarrow> CertificateRef list \<Rightarrow> PersonalSecurityEnvironment" where
  "sample_pse desired observed =
     \<lparr>metadata = \<lparr>om_Name = ''e'', om_Namespace = [], om_UID = [], om_ExternalName = None\<rparr>,
      providerConfigReference = Some ''default'', set_conditions = [], status_conditions = [],
      pse_ForProvider = \<lparr>psp_Name = ''E'', psp_X509ProviderRef = Some \<lparr>xr_Name = ''X'', xr_ProviderRef = None\<rparr>,
        psp_CertificateRefs = desired\<rparr>,
      pse_AtProvider = \<lparr>pso_Name = ''E'', pso_X509ProviderName = ''X'', pso_CertificateRefs = observed\<rparr>\<rparr>"

definition no_kube :: "'w Kube" where
  "no_kube = \<lparr>GetProviderConfig = (\<lambda>n w. Inl (ApiStatus ''NotFound'' n)), GetSecret = (\<lambda>ns n w. Inl (ApiStatus ''NotFound'' n)),
     GetX509Provider = (\<lambda>ns n w. Inl (ApiStatus ''NotFound'' n)), ListUsers = (\<lambda>w. Inr []), Track = (\<lambda>mg w. (None, w))\<rparr>"

lemma sample_pse_provider:
  "getX509ProviderName no_kube (psp_X509ProviderRef (pse_ForProvider (sample_pse a b))) w = Inr ''X''"
  by (simp add: getX509ProviderName_def sample_pse_def)


text \<open>A reference that can denote a certificate.\<close>

definition usable_ref :: "CertificateRef \<Rightarrow> bool" where
  "usable_ref r \<longleftrightarrow> cr_ID r \<noteq> None \<or> (cr_Name r \<noteq> None \<and> cr_Name r \<noteq> Some [])"

lemma certDifferent_refl: "certDifferent r r \<longleftrightarrow> usable_ref r"
  by (auto simp: certDifferent_def usable_ref_def)

lemma certListDifference_filter: "certListDifference a b = filter (\<lambda>x. \<not> (\<exists>y \<in> set b. certDifferent x y)) a"
  by (induction a b rule: certListDifference.induct) (auto simp: list_ex_iff)

lemma certListDifference_self: "\<forall>r \<in> set a. usable_ref r \<Longrightarrow> certListDifference a a = []"
  by (auto simp: certListDifference_filter filter_empty_conv certDifferent_refl [symmetric])

lemma pse_Update_nothing: "pse_Update sched db n [] [] [] w = (None, w)"
proof -
  have "map (go_plan_of db) (pse_update_plans n [] [] []) = map Return [None, None]"
    by (simp add: pse_update_plans_def updateCertificatesForPSE_def go_plan_of_def plan_wrap_def plan_execs_def)
  then show ?thesis by (simp add: pse_Update_def spawn_def run_go_returned del: list.map)
qed





end
