(* ===== verification/Certificates.thy ===== *)
theory Certificates
  imports ExternalClients
begin

text \<open>
  Certificates: the client \<open>internal/clients/hana/certificate\<close>, whose \<open>Create\<close> and \<open>Delete\<close> run in
  a transaction of the database, and the controller \<open>internal/controller/certificate\<close>.
\<close>

section \<open>PEM and X.509\<close>

text \<open>
  The packages \<open>encoding/pem\<close> and \<open>crypto/x509\<close> are arguments. \<open>pem.Decode\<close> returns the next block
  and the remainder of its input; here it returns the block with the number \<open>n\<close> such that the
  remainder starts behind the first \<open>n + 1\<close> bytes (a block that was found takes at least one byte).
  Of a parsed certificate the program uses the serial number and \<open>NotBefore\<close> in UTC.
\<close>

record pem_block =
  pb_Type :: string
  pb_Headers :: gomap
  pb_Bytes :: string

record utc_time =
  t_year :: nat
  t_month :: nat
  t_day :: nat
  t_hour :: nat
  t_minute :: nat
  t_second :: nat

record x509_certificate =
  xc_SerialNumber :: int
  xc_NotBefore :: utc_time

record pem =
  pem_Decode :: "string \<Rightarrow> (pem_block \<times> nat) option"
  pem_EncodeToMemory :: "pem_block \<Rightarrow> string"
  x509_ParseCertificate :: "string \<Rightarrow> error + x509_certificate"

section \<open>Helpers of the client\<close>

text \<open>The loop of \<open>splitPEMChain\<close>, with the certificates collected so far.\<close>

lemma TrimSpace_pos: "TrimSpace data \<noteq> [] \<Longrightarrow> 0 < length data"
  by (cases data) (simp_all add: TrimSpace_def)

function splitPEMChain_from :: "pem \<Rightarrow> string list \<Rightarrow> string \<Rightarrow> error + string list" where
  "splitPEMChain_from p certificates data =
     (if TrimSpace data = [] then
        (if certificates = [] then Inl (ErrorString ''no certificates found in PEM chain'') else Inr certificates)
      else case pem_Decode p data of
        None \<Rightarrow> Inl (ErrorString ''failed to decode PEM certificate'')
      | Some (block, n) \<Rightarrow>
          if pb_Type block \<noteq> ''CERTIFICATE''
          then Inl (ErrorString (''unexpected PEM block type '' @ Quote (pb_Type block)))
          else splitPEMChain_from p (certificates @ [pem_EncodeToMemory p block]) (drop (Suc n) data))"
  by pat_completeness auto
termination
  by (relation "measure (\<lambda>(p, certificates, data). length data)") (auto dest: TrimSpace_pos)

declare splitPEMChain_from.simps [simp del]

definition splitPEMChain :: "pem \<Rightarrow> string \<Rightarrow> error + string list" where
  "splitPEMChain p data = splitPEMChain_from p [] data"

text \<open>
  \<open>sanitizeIdentifier\<close> ranges over the runes of the string: the first byte of a character outside
  ASCII is replaced, its continuation bytes (128--191) belong to the same rune.
\<close>

definition is_continuation :: "char \<Rightarrow> bool" where
  "is_continuation c = (let n = of_char c :: nat in 128 \<le> n \<and> n < 192)"

definition is_identifier_char :: "char \<Rightarrow> bool" where
  "is_identifier_char c =
     (let n = of_char c :: nat in (65 \<le> n \<and> n \<le> 90) \<or> (48 \<le> n \<and> n \<le> 57) \<or> c = CHR ''_'')"

definition sanitizeIdentifier :: "string \<Rightarrow> string" where
  "sanitizeIdentifier s =
     map (\<lambda>r. if is_identifier_char r then r else CHR ''_'')
       (filter (\<lambda>c. \<not> is_continuation c) (ToUpper s))"

text \<open>\<open>Format("02012006150405")\<close>: day, month, year, hour, minute and second, padded with zeros.\<close>

definition padded :: "nat \<Rightarrow> nat \<Rightarrow> string" where
  "padded k n = replicate (k - length (digits n)) (CHR ''0'') @ digits n"

definition timestamp :: "utc_time \<Rightarrow> string" where
  "timestamp t = padded 2 (t_day t) @ padded 2 (t_month t) @ padded 4 (t_year t) @
     padded 2 (t_hour t) @ padded 2 (t_minute t) @ padded 2 (t_second t)"

definition certName :: "pem \<Rightarrow> string \<Rightarrow> string \<Rightarrow> error + string" where
  "certName p base certPEM = (case pem_Decode p certPEM of
     None \<Rightarrow> Inl (ErrorString ''failed to decode PEM block for name derivation'')
   | Some (block, _) \<Rightarrow>
       (case x509_ParseCertificate p (pb_Bytes block) of
          Inl err \<Rightarrow> Inl (Wrapped ''failed to parse x509 certificate: '' err)
        | Inr cert \<Rightarrow> Inr (sanitizeIdentifier base @ ''_CRT_SRV_CERTIFICATE_'' @
            Itoa (xc_SerialNumber cert) @ ''_'' @ timestamp (xc_NotBefore cert))))"

section \<open>Client\<close>

definition newline :: string where
  "newline = [CHR 0x0A]"

definition certificate_pattern :: "string \<Rightarrow> string" where
  "certificate_pattern name = sanitizeIdentifier name @ ''_CRT_SRV_CERTIFICATE_%''"

definition certificate_query :: string where
  "certificate_query = newline @ ''SELECT CERTIFICATE_ID,'' @ newline @ ''       CERTIFICATE_NAME'' @ newline @
     ''FROM CERTIFICATES'' @ newline @ ''WHERE CERTIFICATE_NAME LIKE ?'' @ newline @
     ''ORDER BY CERTIFICATE_NAME'' @ newline"

text \<open>The deferred \<open>Close\<close> sets the error of a read that had none.\<close>

definition certificate_Read ::
  "'w DB \<Rightarrow> CertificateParameters \<Rightarrow> 'w \<Rightarrow> (error + CertificateObservation option) \<times> 'w" where
  "certificate_Read db parameters w =
     (case QueryContext db certificate_query [certificate_pattern (cp_Name parameters)] w of
        (Inl err, w') \<Rightarrow> (Inl (Wrapped ''failed to query certificates: '' err), w')
      | (Inr rows, w') \<Rightarrow>
          (case each_row (\<lambda>certs row. map_sum id (\<lambda>(i, name). certs @ [\<lparr>ic_ID = Some i, ic_Name = name\<rparr>])
                   (scan2 scan_int scan_string row)) [] (rows_data rows) of
             (Some err, _) \<Rightarrow> (Inl (Wrapped ''failed to scan certificate: '' err), w')
           | (None, certs) \<Rightarrow>
               (case rows_Err rows of
                  Some err \<Rightarrow> (Inl (Wrapped ''failed reading certificate rows: '' err), w')
                | None \<Rightarrow>
               (case rows_Close rows of
                  Some closeErr \<Rightarrow> (Inl (Wrapped ''failed to close certificate rows: '' closeErr), w')
                | None \<Rightarrow> (Inr (if certs = [] then None else Some \<lparr>co_Certificates = certs\<rparr>), w')))))"

definition create_certificate_query :: "string \<Rightarrow> string \<Rightarrow> string" where
  "create_certificate_query name cert = ''CREATE CERTIFICATE '' @ [dq] @ EscapeDoubleQuotes name @ [dq] @
     '' FROM '' @ [sq] @ EscapeSingleQuotes cert @ [sq]"

definition drop_certificate_query :: "string \<Rightarrow> string" where
  "drop_certificate_query name = ''DROP CERTIFICATE '' @ [dq] @ EscapeDoubleQuotes name @ [dq]"

fun create_certificates :: "pem \<Rightarrow> 'w DB \<Rightarrow> string \<Rightarrow> string list \<Rightarrow> 'w \<Rightarrow> error option \<times> 'w" where
  "create_certificates p db base [] w = (None, w)"
| "create_certificates p db base (cert # certs) w =
     (case certName p base cert of
        Inl err \<Rightarrow> (Some (Wrapped ''failed to derive certificate name: '' err), w)
      | Inr name \<Rightarrow>
          (case Tx_ExecContext db (create_certificate_query name cert) w of
             (Some err, w') \<Rightarrow> (Some (Wrapped (''failed to create certificate '' @ Quote name @ '': '') err), w')
           | (None, w') \<Rightarrow> create_certificates p db base certs w'))"

text \<open>
  In the loop of \<open>Create\<close> the variable \<open>err\<close> is declared anew, so that the deferred function, which
  tests the outer one, rolls back only when \<open>Commit\<close> fails.
\<close>

definition certificate_Create ::
  "pem \<Rightarrow> 'w DB \<Rightarrow> CertificateParameters \<Rightarrow> string \<Rightarrow> 'w \<Rightarrow> error option \<times> 'w" where
  "certificate_Create p db parameters certificatePEM w =
     (case splitPEMChain p certificatePEM of
        Inl err \<Rightarrow> (Some err, w)
      | Inr certificates \<Rightarrow>
     (case BeginTx db w of
        (Some err, w1) \<Rightarrow> (Some (Wrapped ''failed to begin transaction: '' err), w1)
      | (None, w1) \<Rightarrow>
     (case create_certificates p db (cp_Name parameters) certificates w1 of
        (Some err, w2) \<Rightarrow> (Some err, w2)
      | (None, w2) \<Rightarrow>
     (case Tx_Commit db w2 of
        (Some err, w3) \<Rightarrow> (Some (Wrapped ''failed to commit certificate transaction: '' err), snd (Tx_Rollback db w3))
      | (None, w3) \<Rightarrow> (None, w3)))))"

fun drop_certificates :: "'w DB \<Rightarrow> ImportedCertificate list \<Rightarrow> 'w \<Rightarrow> error option \<times> 'w" where
  "drop_certificates db [] w = (None, w)"
| "drop_certificates db (cert # certs) w =
     (case Tx_ExecContext db (drop_certificate_query (ic_Name cert)) w of
        (Some err, w') \<Rightarrow> (Some (Wrapped (''failed to drop certificate '' @ Quote (ic_Name cert) @ '': '') err), w')
      | (None, w') \<Rightarrow> drop_certificates db certs w')"

definition certificate_Delete :: "'w DB \<Rightarrow> CertificateParameters \<Rightarrow> 'w \<Rightarrow> error option \<times> 'w" where
  "certificate_Delete db parameters w =
     (case certificate_Read db parameters w of
        (Inl err, w') \<Rightarrow> (Some (Wrapped ''failed to read certificates before delete: '' err), w')
      | (Inr None, w') \<Rightarrow> (None, w')
      | (Inr (Some observed), w') \<Rightarrow>
     (case BeginTx db w' of
        (Some err, w1) \<Rightarrow> (Some (Wrapped ''failed to begin transaction: '' err), w1)
      | (None, w1) \<Rightarrow>
     (case drop_certificates db (co_Certificates observed) w1 of
        (Some err, w2) \<Rightarrow> (Some err, snd (Tx_Rollback db w2))
      | (None, w2) \<Rightarrow>
     (case Tx_Commit db w2 of
        (Some err, w3) \<Rightarrow> (Some (Wrapped ''failed to commit certificate delete transaction: '' err), snd (Tx_Rollback db w3))
      | (None, w3) \<Rightarrow> (None, w3)))))"

section \<open>Controller\<close>

definition errNotCertificate :: string where
  "errNotCertificate = ''managed resource is not a Certificate custom resource''"

definition certificate_texts :: connect_texts where
  "certificate_texts = \<lparr>errNotKind = errNotCertificate,
     errTrackPCUsage = ''cannot track ProviderConfig usage: '', errGetPC = ''cannot get ProviderConfig: '',
     errNoSecretRef = ''ProviderConfig does not reference a credentials Secret'',
     errGetSecret = ''cannot get credentials Secret: '', errConnect = ''cannot connect to HANA db: ''\<rparr>"

definition certificate_Connect ::
  "'w Kube \<Rightarrow> (gomap \<Rightarrow> 'w \<Rightarrow> (error + 'w DB) \<times> 'w) \<Rightarrow> Managed \<Rightarrow> 'w \<Rightarrow> (error + 'w DB) \<times> 'w" where
  "certificate_Connect kube dbConnect mg w = (case mg of
     MCertificate cr \<Rightarrow>
       map_prod (map_sum id fst) id
         (connect_sql certificate_texts kube dbConnect mg (providerConfigReference cr) w)
   | _ \<Rightarrow> (Inl (ErrorString errNotCertificate), w))"

definition getCertificatePEM :: "'w Kube \<Rightarrow> SecretKeySelector option \<Rightarrow> 'w \<Rightarrow> error + string" where
  "getCertificatePEM kube ref w = (case ref of
     None \<Rightarrow> Inl (ErrorString ''certificateSecretRef is required'')
   | Some ref \<Rightarrow>
       (case GetSecret kube (sr_Namespace ref) (sr_Name ref) w of
          Inl err \<Rightarrow> Inl (Wrapped (''cannot get secret '' @ sr_Namespace ref @ ''/'' @ sr_Name ref @ '': '') err)
        | Inr data \<Rightarrow>
            (case gomap_get data (sk_Key ref) of
               None \<Rightarrow> Inl (ErrorString (''secret '' @ sr_Namespace ref @ ''/'' @ sr_Name ref @
                 '' does not contain key '' @ Quote (sk_Key ref)))
             | Some certPEM \<Rightarrow> Inr certPEM)))"

definition certificate_Observe :: "'w DB \<Rightarrow> (ExternalObservation, 'w) handler" where
  "certificate_Observe db mg w = (case mg of
     MCertificate cr \<Rightarrow>
       (case certificate_Read db (certificate_ForProvider cr) w of
          (Inl err, w') \<Rightarrow> (Inl (Wrapped ''cannot read certificate from HANA: '' err), mg, w')
        | (Inr None, w') \<Rightarrow> (Inr absent, mg, w')
        | (Inr (Some observed), w') \<Rightarrow>
            let cr = cr\<lparr>certificate_AtProvider := (certificate_AtProvider cr)\<lparr>co_Certificates := co_Certificates observed\<rparr>\<rparr>;
                cr = SetConditions Available cr
            in (Inr (present True), MCertificate cr, w'))
   | _ \<Rightarrow> (Inl (ErrorString errNotCertificate), mg, w))"

definition certificate_controller_Create :: "pem \<Rightarrow> 'w Kube \<Rightarrow> 'w DB \<Rightarrow> (ConnectionDetails, 'w) handler" where
  "certificate_controller_Create p kube db mg w = (case mg of
     MCertificate cr \<Rightarrow>
       let cr = SetConditions Creating cr in
       (case getCertificatePEM kube (cp_CertificateSecretRef (certificate_ForProvider cr)) w of
          Inl err \<Rightarrow> (Inl (Wrapped ''cannot get certificate Secret: '' err), MCertificate cr, w)
        | Inr certPEM \<Rightarrow>
            let (err, w') = certificate_Create p db (certificate_ForProvider cr) certPEM w
            in (result ''cannot create certificate in HANA: '' [] err, MCertificate cr, w'))
   | _ \<Rightarrow> (Inl (ErrorString errNotCertificate), mg, w))"

text \<open>\<open>Update\<close> does not look at the resource it is called with.\<close>

definition certificate_controller_Update :: "(unit, 'w) handler" where
  "certificate_controller_Update mg w = (Inr (), mg, w)"

definition certificate_controller_Delete :: "'w DB \<Rightarrow> (unit, 'w) handler" where
  "certificate_controller_Delete db mg w = (case mg of
     MCertificate cr \<Rightarrow>
       let cr = SetConditions Deleting cr;
           (err, w') = certificate_Delete db (certificate_ForProvider cr) w
       in (result ''cannot delete certificate from HANA: '' () err, MCertificate cr, w')
   | _ \<Rightarrow> (Inl (ErrorString errNotCertificate), mg, w))"

definition certificate_external :: "pem \<Rightarrow> 'w Kube \<Rightarrow> 'w DB \<Rightarrow> 'w ExternalClient" where
  "certificate_external p kube db = \<lparr>Observe = certificate_Observe db, Create = certificate_controller_Create p kube db,
     Update = certificate_controller_Update, Delete = certificate_controller_Delete db\<rparr>"

section \<open>Interfaces\<close>

lemmas certificate_handlers = certificate_external_def certificate_Observe_def certificate_controller_Create_def
  certificate_controller_Update_def certificate_controller_Delete_def

lemma certificate_keeps:
  "\<exists>cr' cs. fst (after_call (certificate_external p kube db) k (MCertificate cr) w) = MCertificate cr' \<and>
     certificate_ForProvider cr' = certificate_ForProvider cr \<and> set_conditions cr' = set_conditions cr @ cs \<and>
     (k = CallDelete \<longrightarrow> cs = [Deleting])"
  by (cases k)
     (auto simp: certificate_handlers SetConditions_def Let_def split: prod.split sum.split option.split)

interpretation certificate_client: external_client "certificate_external p kube db" MCertificate certificate_ForProvider
  set_conditions "ErrorString errNotCertificate" for p and kube :: "'w Kube" and db :: "'w DB"
proof (unfold_locales, goal_cases)
  case 5
  show ?case by (rule certificate_keeps)
qed (auto simp: certificate_handlers split: Managed.splits)

section \<open>Transactions\<close>

text \<open>
  A server with transactions: the statements that took effect, and those of the transaction that is
  open, if one is. \<open>rej\<close> are the errors of statements, \<open>b\<close> and \<open>c\<close> those of \<open>BEGIN\<close> and \<open>COMMIT\<close>, and
  every query answers with \<open>catalogue\<close>.
\<close>

record tx_world =
  tw_committed :: "string list"
  tw_open :: "string list option"

definition transactional ::
  "(string \<Rightarrow> error option) \<Rightarrow> error option \<Rightarrow> error option \<Rightarrow> rows \<Rightarrow> tx_world DB" where
  "transactional rej b c catalogue =
     \<lparr>ExecContext = (\<lambda>q w. (rej q, if rej q = None then w\<lparr>tw_committed := tw_committed w @ [q]\<rparr> else w)),
      QueryRowContext = (\<lambda>q a w. (Inl ErrNoRows, w)),
      QueryContext = (\<lambda>q a w. (Inr catalogue, w)),
      BeginTx = (\<lambda>w. (b, if b = None then w\<lparr>tw_open := Some []\<rparr> else w)),
      Tx_ExecContext = (\<lambda>q w. (rej q, if rej q = None then w\<lparr>tw_open := map_option (\<lambda>qs. qs @ [q]) (tw_open w)\<rparr> else w)),
      Tx_Commit = (\<lambda>w. (c, if c = None then w\<lparr>tw_committed := tw_committed w @ elems (tw_open w), tw_open := None\<rparr> else w)),
      Tx_Rollback = (\<lambda>w. (None, w\<lparr>tw_open := None\<rparr>))\<rparr>"

lemma transactional_ops [simp]:
  "QueryContext (transactional rej b c rs) q a w = (Inr rs, w)"
  "BeginTx (transactional rej b c rs) w = (b, if b = None then w\<lparr>tw_open := Some []\<rparr> else w)"
  "Tx_ExecContext (transactional rej b c rs) q w =
     (rej q, if rej q = None then w\<lparr>tw_open := map_option (\<lambda>qs. qs @ [q]) (tw_open w)\<rparr> else w)"
  "Tx_Commit (transactional rej b c rs) w =
     (c, if c = None then w\<lparr>tw_committed := tw_committed w @ elems (tw_open w), tw_open := None\<rparr> else w)"
  "Tx_Rollback (transactional rej b c rs) w = (None, w\<lparr>tw_open := None\<rparr>)"
  by (simp_all add: transactional_def)

lemma tx_world_same [simp]: "tw_open w = None \<Longrightarrow> w\<lparr>tw_open := None\<rparr> = w" for w :: tx_world
  by (cases w) simp

lemma drop_certificates_tx:
  "tw_open w = Some qs \<Longrightarrow> \<exists>ds. drop_certificates (transactional rej b c rs) certs w =
     (fst (drop_certificates (transactional rej b c rs) certs w), w\<lparr>tw_open := Some (qs @ ds)\<rparr>)
   \<and> (fst (drop_certificates (transactional rej b c rs) certs w) = None \<longrightarrow>
        ds = map (drop_certificate_query \<circ> ic_Name) certs)"
proof (induction certs arbitrary: w qs)
  case Nil
  then show ?case by (intro exI [of _ "[]"]) (cases w, simp)
next
  case (Cons cert certs)
  let ?q = "drop_certificate_query (ic_Name cert)"
  show ?case
  proof (cases "rej ?q")
    case None
    let ?w = "w\<lparr>tw_open := Some (qs @ [?q])\<rparr>"
    have "tw_open ?w = Some (qs @ [?q])" by simp
    from Cons.IH [OF this] show ?thesis using Cons.prems None by force
  next
    case (Some e)
    then show ?thesis using Cons.prems by (intro exI [of _ "[]"]) (cases w, simp)
  qed
qed

lemma certificate_Read_tx: "certificate_Read (transactional rej b c rs) parameters w =
    (fst (certificate_Read (transactional rej b c rs) parameters w), w)"
  by (simp add: certificate_Read_def split: prod.split option.split)

section \<open>Properties\<close>

text \<open>
  C26. Deleting certificates is all or nothing. On a server with transactions, whichever statement
  fails, and also when the transaction cannot be begun or committed, no transaction stays open and
  an error means that nothing was changed; without an error exactly the certificates that were read
  have been dropped, each once.
\<close>

theorem certificate_delete_atomic:
  assumes "tw_open w = None" and del: "certificate_Delete (transactional rej b c rs) parameters w = (err, w')"
  shows "tw_open w' = None \<and> (err \<noteq> None \<longrightarrow> w' = w)
    \<and> (err = None \<longrightarrow> (\<exists>ob. fst (certificate_Read (transactional rej b c rs) parameters w) = Inr ob
          \<and> tw_committed w' = tw_committed w @ (case ob of None \<Rightarrow> []
               | Some ob \<Rightarrow> map (drop_certificate_query \<circ> ic_Name) (co_Certificates ob))))"
proof -
  let ?db = "transactional rej b c rs"
  obtain r where r: "certificate_Read ?db parameters w = (r, w)" using certificate_Read_tx by metis
  show ?thesis
  proof (cases "\<exists>ob. r = Inr (Some ob) \<and> b = None")
    case False
    then show ?thesis using del r assms(1)
      by (auto simp: certificate_Delete_def split: sum.splits option.splits)
  next
    case True
    then obtain ob where ob: "r = Inr (Some ob)" and b: "b = None" by blast
    have "tw_open (w\<lparr>tw_open := Some []\<rparr>) = Some []" by simp
    from drop_certificates_tx [OF this, of rej b c rs "co_Certificates ob"] obtain dn e where
      d: "drop_certificates ?db (co_Certificates ob) (w\<lparr>tw_open := Some []\<rparr>) = (e, w\<lparr>tw_open := Some dn\<rparr>)"
        "e = None \<Longrightarrow> dn = map (drop_certificate_query \<circ> ic_Name) (co_Certificates ob)"
      by auto
    show ?thesis using del r ob b d assms(1)
      by (auto simp: certificate_Delete_def split: option.splits if_splits)
  qed
qed

text \<open>
  A small encoding of certificates for examples: the body of a block stands between parentheses,
  and its length is the serial number.
\<close>

definition sample_pem :: pem where
  "sample_pem =
     \<lparr>pem_Decode = (\<lambda>data. let s = dropWhile is_space data; body = takeWhile (\<lambda>c. c \<noteq> CHR '')'') (drop 1 s) in
        if take 1 s = ''('' \<and> CHR '')'' \<in> set s
        then Some (\<lparr>pb_Type = ''CERTIFICATE'', pb_Headers = [], pb_Bytes = body\<rparr>, length data - length s + length body + 1)
        else None),
      pem_EncodeToMemory = (\<lambda>block. ''('' @ pb_Bytes block @ '')''),
      x509_ParseCertificate = (\<lambda>bytes. Inr \<lparr>xc_SerialNumber = int (length bytes), xc_NotBefore =
        \<lparr>t_year = 2026, t_month = 1, t_day = 2, t_hour = 3, t_minute = 4, t_second = 5\<rparr>\<rparr>)\<rparr>"

definition sample_catalogue :: rows where
  "sample_catalogue = \<lparr>rows_data = [[SInt 1, SText ''a''], [SInt 2, SText ''b'']], rows_Err = None, rows_Close = None\<rparr>"

definition sample_world :: tx_world where
  "sample_world = \<lparr>tw_committed = [], tw_open = None\<rparr>"

definition reject_b :: "string \<Rightarrow> error option" where
  "reject_b q = (if q = drop_certificate_query ''b'' then Some (ErrorString ''in use'') else None)"

theorem certificate_delete_atomic_witness:
  "snd (certificate_Delete (transactional reject_b None None sample_catalogue)
      \<lparr>cp_Name = ''a'', cp_CertificateSecretRef = None\<rparr> sample_world) = sample_world"
proof -
  let ?r = "certificate_Delete (transactional reject_b None None sample_catalogue)
      \<lparr>cp_Name = ''a'', cp_CertificateSecretRef = None\<rparr> sample_world"
  have "fst ?r \<noteq> None" by code_simp
  moreover have "tw_open sample_world = None" by (simp add: sample_world_def)
  ultimately show ?thesis using certificate_delete_atomic [of sample_world _ _ _ _ _ "fst ?r" "snd ?r"] by simp
qed

section \<open>Creating\<close>

text \<open>The statements that create the certificates of a chain.\<close>

definition create_queries :: "string list \<Rightarrow> string list \<Rightarrow> string list" where
  "create_queries names certs = map2 create_certificate_query names certs"

text \<open>How far the loop of \<open>Create\<close> gets: either through, or to the first certificate that fails.\<close>

lemma create_certificates_tx:
  assumes "tw_open w = Some qs"
  shows "\<exists>k \<le> length certs. \<exists>names. list_all2 (\<lambda>cert name. certName p base cert = Inr name) (take k certs) names
    \<and> snd (create_certificates p (transactional rej b c rs) base certs w) =
        w\<lparr>tw_open := Some (qs @ create_queries names (take k certs))\<rparr>
    \<and> (fst (create_certificates p (transactional rej b c rs) base certs w) = None \<longleftrightarrow> k = length certs)"
  using assms
proof (induction certs arbitrary: w qs)
  case Nil
  then show ?case by (cases w) (simp add: create_queries_def)
next
  case (Cons cert certs)
  show ?case
  proof (cases "\<exists>name. certName p base cert = Inr name \<and> rej (create_certificate_query name cert) = None")
    case False
    then have "snd (create_certificates p (transactional rej b c rs) base (cert # certs) w) = w"
        "fst (create_certificates p (transactional rej b c rs) base (cert # certs) w) \<noteq> None"
      by (auto split: sum.split option.split)
    moreover have "w\<lparr>tw_open := Some qs\<rparr> = w" using Cons.prems by (cases w) simp
    ultimately show ?thesis by (intro exI [of _ 0] conjI exI [of _ "[]"]) (simp_all add: create_queries_def)
  next
    case True
    then obtain name where n: "certName p base cert = Inr name" "rej (create_certificate_query name cert) = None" by blast
    let ?w = "w\<lparr>tw_open := Some (qs @ [create_certificate_query name cert])\<rparr>"
    have "tw_open ?w = Some (qs @ [create_certificate_query name cert])" by simp
    from Cons.IH [OF this] show ?thesis
    proof (elim exE conjE, goal_cases)
      case (1 k names)
      then show ?case using n Cons.prems
        by (intro exI [of _ "Suc k"] conjI exI [of _ "name # names"]) (simp_all add: create_queries_def)
    qed
  qed
qed

text \<open>
  C27. Creating certificates. On a server with transactions an error of \<open>Create\<close> means that nothing
  took effect, and without an error exactly one statement per certificate of the chain took effect,
  in the order of the chain, each with the name derived from the certificate.
\<close>

theorem certificate_create_all_or_nothing:
  assumes "tw_open w = None"
    and cr: "certificate_Create p (transactional rej b c rs) parameters certificatePEM w = (err, w')"
  shows "(err \<noteq> None \<longrightarrow> tw_committed w' = tw_committed w)
    \<and> (err = None \<longrightarrow> tw_open w' = None \<and> (\<exists>certs names. splitPEMChain p certificatePEM = Inr certs
          \<and> list_all2 (\<lambda>cert name. certName p (cp_Name parameters) cert = Inr name) certs names
          \<and> tw_committed w' = tw_committed w @ create_queries names certs))"
proof -
  let ?db = "transactional rej b c rs"
  show ?thesis
  proof (cases "\<exists>certs. splitPEMChain p certificatePEM = Inr certs \<and> b = None")
    case False
    then show ?thesis using cr assms(1)
      by (auto simp: certificate_Create_def split: sum.splits option.splits)
  next
    case True
    then obtain certs where certs: "splitPEMChain p certificatePEM = Inr certs" and b: "b = None" by blast
    have "tw_open (w\<lparr>tw_open := Some []\<rparr>) = Some []" by simp
    from create_certificates_tx [OF this, of certs p "cp_Name parameters" rej b c rs] obtain k names where
      k: "snd (create_certificates p ?db (cp_Name parameters) certs (w\<lparr>tw_open := Some []\<rparr>)) =
            w\<lparr>tw_open := Some (create_queries names (take k certs))\<rparr>"
        "list_all2 (\<lambda>cert name. certName p (cp_Name parameters) cert = Inr name) (take k certs) names"
        "fst (create_certificates p ?db (cp_Name parameters) certs (w\<lparr>tw_open := Some []\<rparr>)) = None \<longleftrightarrow> k = length certs"
      by auto
    obtain e where e: "create_certificates p ?db (cp_Name parameters) certs (w\<lparr>tw_open := Some []\<rparr>) =
        (e, w\<lparr>tw_open := Some (create_queries names (take k certs))\<rparr>)" using k(1) by (metis prod.collapse)
    then show ?thesis using cr certs b k(2,3)
      by (cases e; cases c) (simp_all add: certificate_Create_def, auto)
  qed
qed

theorem certificate_create_all_or_nothing_witness:
  "tw_committed (snd (certificate_Create sample_pem (transactional reject_b None None sample_catalogue)
      \<lparr>cp_Name = ''a'', cp_CertificateSecretRef = None\<rparr> ''(x) (yz)'' sample_world)) =
   create_queries [''A_CRT_SRV_CERTIFICATE_1_02012026030405'', ''A_CRT_SRV_CERTIFICATE_2_02012026030405''] [''(x)'', ''(yz)'']"
proof -
  let ?r = "certificate_Create sample_pem (transactional reject_b None None sample_catalogue)
      \<lparr>cp_Name = ''a'', cp_CertificateSecretRef = None\<rparr> ''(x) (yz)'' sample_world"
  obtain e w' where r: "?r = (e, w')" by (cases ?r)
  have "fst ?r = None" by code_simp
  then have e: "e = None" by (simp only: r fst_conv)
  have o: "tw_open sample_world = None" "tw_committed sample_world = []" by (simp_all add: sample_world_def)
  obtain certs names where c: "splitPEMChain sample_pem ''(x) (yz)'' = Inr certs"
      "list_all2 (\<lambda>cert name. certName sample_pem ''a'' cert = Inr name) certs names"
      "tw_committed w' = create_queries names certs"
    using certificate_create_all_or_nothing [OF o(1) r] e o(2) by auto
  have "splitPEMChain sample_pem ''(x) (yz)'' = Inr [''(x)'', ''(yz)'']" by code_simp
  then have certs: "certs = [''(x)'', ''(yz)'']" using c(1) by simp
  have "certName sample_pem ''a'' ''(x)'' = Inr ''A_CRT_SRV_CERTIFICATE_1_02012026030405''"
    "certName sample_pem ''a'' ''(yz)'' = Inr ''A_CRT_SRV_CERTIFICATE_2_02012026030405''" by code_simp+
  then have "names = [''A_CRT_SRV_CERTIFICATE_1_02012026030405'', ''A_CRT_SRV_CERTIFICATE_2_02012026030405'']"
    using c(2) by (auto simp: certs list_all2_Cons1)
  then show ?thesis using c(3) certs r by simp
qed

text \<open>
  C28. A certificate that the server rejects leaves the transaction of \<open>Create\<close> open: it is neither
  committed nor rolled back, and the statements for the certificates in front of the rejected one
  stay pending.
\<close>

theorem certificate_create_leaves_transaction_open:
  assumes "splitPEMChain p certificatePEM = Inr (before @ cert # rest)"
    and "list_all2 (\<lambda>cert name. certName p (cp_Name parameters) cert = Inr name) before names"
    and "list_all (\<lambda>q. rej q = None) (create_queries names before)"
    and "certName p (cp_Name parameters) cert = Inr name"
    and "rej (create_certificate_query name cert) = Some e"
  shows "certificate_Create p (transactional rej None c rs) parameters certificatePEM w =
     (Some (Wrapped (''failed to create certificate '' @ Quote name @ '': '') e),
      w\<lparr>tw_open := Some (create_queries names before)\<rparr>)"
proof -
  have "create_certificates p (transactional rej None c rs) (cp_Name parameters) (before @ cert # rest) w' =
      (Some (Wrapped (''failed to create certificate '' @ Quote name @ '': '') e),
       w'\<lparr>tw_open := Some (qs @ create_queries names before)\<rparr>)" if "tw_open w' = Some qs" for w' :: tx_world and qs
    using assms(2,3) that
  proof (induction before names arbitrary: w' qs rule: list_all2_induct)
    case Nil
    then show ?case using assms(4,5) by (cases w') (simp add: create_queries_def)
  next
    case (Cons cert1 before name1 names)
    let ?w = "w'\<lparr>tw_open := Some (qs @ [create_certificate_query name1 cert1])\<rparr>"
    have "tw_open ?w = Some (qs @ [create_certificate_query name1 cert1])" by simp
    from Cons.IH [OF _ this] show ?case using Cons.prems Cons.hyps by (simp add: create_queries_def)
  qed
  from this [of "w\<lparr>tw_open := Some []\<rparr>" "[]"] show ?thesis
    using assms(1) by (simp add: certificate_Create_def)
qed

definition reject_second :: "string \<Rightarrow> error option" where
  "reject_second q =
     (if q = create_certificate_query ''A_CRT_SRV_CERTIFICATE_2_02012026030405'' ''(yz)''
      then Some (ErrorString ''exists'') else None)"

theorem certificate_create_leaves_transaction_open_witness:
  "tw_open (snd (certificate_Create sample_pem (transactional reject_second None None sample_catalogue)
      \<lparr>cp_Name = ''a'', cp_CertificateSecretRef = None\<rparr> ''(x) (yz)'' sample_world)) =
   Some (create_queries [''A_CRT_SRV_CERTIFICATE_1_02012026030405''] [''(x)''])"
proof -
  have 1: "splitPEMChain sample_pem ''(x) (yz)'' = Inr ([''(x)''] @ ''(yz)'' # [])" by code_simp
  have 2: "list_all2 (\<lambda>cert name. certName sample_pem (cp_Name \<lparr>cp_Name = ''a'', cp_CertificateSecretRef = None\<rparr>) cert = Inr name)
     [''(x)''] [''A_CRT_SRV_CERTIFICATE_1_02012026030405'']" by code_simp
  have 3: "list_all (\<lambda>q. reject_second q = None) (create_queries [''A_CRT_SRV_CERTIFICATE_1_02012026030405''] [''(x)''])"
    by code_simp
  have 4: "certName sample_pem (cp_Name \<lparr>cp_Name = ''a'', cp_CertificateSecretRef = None\<rparr>) ''(yz)'' =
      Inr ''A_CRT_SRV_CERTIFICATE_2_02012026030405''" by code_simp
  have 5: "reject_second (create_certificate_query ''A_CRT_SRV_CERTIFICATE_2_02012026030405'' ''(yz)'') = Some (ErrorString ''exists'')"
    by (simp add: reject_second_def)
  show ?thesis using certificate_create_leaves_transaction_open [OF 1 2 3 4 5] by simp
qed

section \<open>Names\<close>

text \<open>The predicate \<open>LIKE\<close> of SQL: \<open>%\<close> stands for any text, \<open>_\<close> for any one character.\<close>

fun like :: "string \<Rightarrow> string \<Rightarrow> bool" where
  "like [] s = (s = [])"
| "like (x # p) [] = (x = CHR ''%'' \<and> like p [])"
| "like (x # p) (c # s) =
     (if x = CHR ''%'' then like p (c # s) \<or> like (x # p) s
      else (x = CHR ''_'' \<or> x = c) \<and> like p s)"

lemma like_any [simp]: "like ''%'' s"
  by (induction s) auto

lemma like_append:
  "list_all2 (\<lambda>x c. x \<noteq> CHR ''%'' \<and> (x = CHR ''_'' \<or> x = c)) p s \<Longrightarrow> like q t \<Longrightarrow> like (p @ q) (s @ t)"
  by (induction p s rule: list_all2_induct) auto

lemma like_same: "CHR ''%'' \<notin> set p \<Longrightarrow> like q t \<Longrightarrow> like (p @ q) (p @ t)"
  by (rule like_append) (auto simp: list_all2_same)

lemma sanitized_chars: "c \<in> set (sanitizeIdentifier s) \<Longrightarrow> is_identifier_char c"
  by (auto simp: sanitizeIdentifier_def is_identifier_char_def split: if_splits)

lemma sanitized_no_percent: "CHR ''%'' \<notin> set (sanitizeIdentifier s)"
  using sanitized_chars [of "CHR ''%''" s] by (auto simp: is_identifier_char_def)

text \<open>
  C29. The pattern with which a resource finds its certificates in the catalogue matches every name
  that \<open>Create\<close> derives for it, and also every name derived for another resource whose sanitized name
  differs only where the own one has an underscore: observing the one finds, and deleting the one
  drops, the certificates of the other.
\<close>

theorem certificate_pattern_matches:
  assumes "list_all2 (\<lambda>x c. x = CHR ''_'' \<or> x = c) (sanitizeIdentifier base) (sanitizeIdentifier other)"
    and "certName p other cert = Inr name"
  shows "like (certificate_pattern base) name"
proof -
  obtain t where t: "name = sanitizeIdentifier other @ ''_CRT_SRV_CERTIFICATE_'' @ t"
    using assms(2) by (auto simp: certName_def split: option.splits sum.splits)
  have "list_all2 (\<lambda>x c. x \<noteq> CHR ''%'' \<and> (x = CHR ''_'' \<or> x = c)) (sanitizeIdentifier base) (sanitizeIdentifier other)"
    using assms(1) sanitized_no_percent [of base] by (auto simp: list_all2_conv_all_nth) (metis nth_mem)
  moreover have "like (''_CRT_SRV_CERTIFICATE_'' @ ''%'') (''_CRT_SRV_CERTIFICATE_'' @ t)"
    by (rule like_same) simp_all
  ultimately have "like (sanitizeIdentifier base @ (''_CRT_SRV_CERTIFICATE_'' @ ''%'')) (sanitizeIdentifier other @ (''_CRT_SRV_CERTIFICATE_'' @ t))"
    by (rule like_append)
  then show ?thesis by (simp add: t certificate_pattern_def)
qed

theorem certificate_pattern_matches_witness:
  "like (certificate_pattern ''a-b'') ''AXB_CRT_SRV_CERTIFICATE_1_02012026030405''
   \<and> certName sample_pem ''axb'' ''(x)'' = Inr ''AXB_CRT_SRV_CERTIFICATE_1_02012026030405''"
proof -
  have "list_all2 (\<lambda>x c. x = CHR ''_'' \<or> x = c) (sanitizeIdentifier ''a-b'') (sanitizeIdentifier ''axb'')" by code_simp
  moreover have "certName sample_pem ''axb'' ''(x)'' = Inr ''AXB_CRT_SRV_CERTIFICATE_1_02012026030405''" by code_simp
  ultimately show ?thesis using certificate_pattern_matches by blast
qed

section \<open>Chains\<close>

lemma TrimSpace_empty: "TrimSpace s = [] \<longleftrightarrow> (\<forall>c \<in> set s. is_space c)"
proof -
  have "TrimSpace s = [] \<longleftrightarrow> (\<forall>c \<in> set (dropWhile is_space s). is_space c)"
    unfolding TrimSpace_def by (simp only: rev_is_Nil_conv dropWhile_eq_Nil_conv set_rev)
  also have "\<dots> \<longleftrightarrow> dropWhile is_space s = []"
  proof (cases "dropWhile is_space s")
    case (Cons c cs)
    then have "\<not> is_space c" using hd_dropWhile [of is_space s] by simp
    then show ?thesis using Cons by simp
  next
    case Nil
    then show ?thesis unfolding Nil by simp
  qed
  finally show ?thesis by (simp only: dropWhile_eq_Nil_conv)
qed

lemma TrimSpace_append: "TrimSpace (s @ t) = [] \<longleftrightarrow> TrimSpace s = [] \<and> TrimSpace t = []"
  unfolding TrimSpace_empty by auto

lemma splitPEMChain_from_chain:
  assumes "\<forall>(ws, b) \<in> set xs. pb_Type b = ''CERTIFICATE'' \<and> TrimSpace (pem_EncodeToMemory p b) \<noteq> [] \<and>
      (\<forall>s. pem_Decode p (ws @ pem_EncodeToMemory p b @ s) = Some (b, length (ws @ pem_EncodeToMemory p b) - 1))"
    and "TrimSpace trailer = []"
  shows "splitPEMChain_from p certs (concat (map (\<lambda>(ws, b). ws @ pem_EncodeToMemory p b) xs) @ trailer) =
     (if certs = [] \<and> xs = [] then Inl (ErrorString ''no certificates found in PEM chain'')
      else Inr (certs @ map (pem_EncodeToMemory p \<circ> snd) xs))"
  using assms(1)
proof (induction xs arbitrary: certs)
  case Nil
  then show ?case using assms(2) by (simp add: splitPEMChain_from.simps)
next
  case (Cons x xs)
  obtain ws b where x: "x = (ws, b)" by (cases x)
  let ?e = "pem_EncodeToMemory p b"
  let ?s = "concat (map (\<lambda>(ws, b). ws @ pem_EncodeToMemory p b) xs) @ trailer"
  have b: "pb_Type b = ''CERTIFICATE''" "TrimSpace ?e \<noteq> []"
      "pem_Decode p (ws @ ?e @ ?s) = Some (b, length (ws @ ?e) - 1)"
    using Cons.prems by (auto simp: x)
  have "Suc (length (ws @ ?e) - 1) = length (ws @ ?e)" using TrimSpace_pos [OF b(2)] by simp
  then have d: "drop (Suc (length (ws @ ?e) - 1)) (ws @ ?e @ ?s) = ?s" by (metis append.assoc append_eq_conv_conj)
  have "TrimSpace (ws @ ?e @ ?s) \<noteq> []" using b(2) by (simp add: TrimSpace_append)
  then have "splitPEMChain_from p certs (ws @ ?e @ ?s) = splitPEMChain_from p (certs @ [?e]) ?s"
    using b(1,3) d by (subst splitPEMChain_from.simps) simp
  then show ?case using Cons.IH [of "certs @ [?e]"] Cons.prems by (simp add: x)
qed

text \<open>
  C30. Splitting a chain. A text made of encoded certificates, each preceded by what the decoder
  skips, and followed by white space, is split into exactly these certificates, in their order. The
  hypothesis on the decoder is its contract: it returns the next block, and the remainder of the
  input begins right behind it.
\<close>

theorem splitPEMChain_roundtrip:
  assumes "\<forall>(ws, b) \<in> set xs. pb_Type b = ''CERTIFICATE'' \<and> TrimSpace (pem_EncodeToMemory p b) \<noteq> [] \<and>
      (\<forall>s. pem_Decode p (ws @ pem_EncodeToMemory p b @ s) = Some (b, length (ws @ pem_EncodeToMemory p b) - 1))"
    and "TrimSpace trailer = []" and "xs \<noteq> []"
  shows "splitPEMChain p (concat (map (\<lambda>(ws, b). ws @ pem_EncodeToMemory p b) xs) @ trailer) =
     Inr (map (pem_EncodeToMemory p \<circ> snd) xs)"
  using splitPEMChain_from_chain [OF assms(1,2), of "[]"] assms(3) by (simp add: splitPEMChain_def)

lemma sample_pem_decodes:
  assumes "list_all is_space ws" and "CHR '')'' \<notin> set body"
  shows "pem_Decode sample_pem (ws @ (''('' @ body @ '')'') @ s) =
    Some (\<lparr>pb_Type = ''CERTIFICATE'', pb_Headers = [], pb_Bytes = body\<rparr>, length (ws @ (''('' @ body @ '')'')) - 1)"
proof -
  have "dropWhile is_space (ws @ (''('' @ body @ '')'') @ s) = ''('' @ body @ '')'' @ s"
    using assms(1) by (simp add: list_all_iff dropWhile_append2 is_space_def)
  moreover have "takeWhile (\<lambda>c. c \<noteq> CHR '')'') (body @ '')'' @ s) = body"
    using assms(2) by (subst takeWhile_append2) auto
  ultimately show ?thesis by (simp add: sample_pem_def Let_def)
qed

theorem splitPEMChain_roundtrip_witness:
  "splitPEMChain sample_pem (''(x)'' @ '' '' @ ''(yz)'' @ '' '') = Inr [''(x)'', ''(yz)'']"
proof -
  let ?b = "\<lambda>body. \<lparr>pb_Type = ''CERTIFICATE'', pb_Headers = [], pb_Bytes = body\<rparr>"
  have e: "pem_EncodeToMemory sample_pem (?b body) = ''('' @ body @ '')''" for body by (simp add: sample_pem_def)
  have t: "TrimSpace '' '' = []" "TrimSpace (''('' @ ''x'' @ '')'') \<noteq> []" "TrimSpace (''('' @ ''yz'' @ '')'') \<noteq> []" by code_simp+
  have "\<forall>(ws, b) \<in> set [([], ?b ''x''), ('' '', ?b ''yz'')]. pb_Type b = ''CERTIFICATE'' \<and> TrimSpace (pem_EncodeToMemory sample_pem b) \<noteq> [] \<and>
      (\<forall>s. pem_Decode sample_pem (ws @ pem_EncodeToMemory sample_pem b @ s) = Some (b, length (ws @ pem_EncodeToMemory sample_pem b) - 1))"
    using t sample_pem_decodes [of "[]" "''x''"] sample_pem_decodes [of "'' ''" "''yz''"] by (simp add: e is_space_def)
  from splitPEMChain_roundtrip [OF this t(1)] show ?thesis by (simp add: sample_pem_def)
qed

end
