(* ===== verification/Encodings.thy ===== *)
theory Encodings
  imports Prelude
begin

text \<open>
  The encodings of the standard library that the connection pool and the clients of the REST
  interfaces use: percent encoding in URLs (\<open>net/url\<close>) and Base64 without padding
  (\<open>encoding/base64\<close>). Both are shown to lose nothing.
\<close>

section \<open>Percent encoding\<close>

text \<open>The parts of a URL in which the program escapes a text, with the characters that stay.\<close>

datatype url_mode = encodeUserPassword | encodeHost | encodeQueryComponent

definition is_alnum :: "char \<Rightarrow> bool" where
  "is_alnum c = (let n = of_char c :: nat in (48 \<le> n \<and> n \<le> 57) \<or> (65 \<le> n \<and> n \<le> 90) \<or> (97 \<le> n \<and> n \<le> 122))"

definition shouldEscape :: "url_mode \<Rightarrow> char \<Rightarrow> bool" where
  "shouldEscape mode c =
     (if is_alnum c then False
      else if mode = encodeHost \<and> c \<in> set (''!$&()*+,;=:[]<>'' @ [sq, dq]) then False
      else if c \<in> set ''-_.~'' then False
      else if c \<in> set ''$&+,/:;=?@'' then (if mode = encodeUserPassword then c \<in> set ''@/?:'' else True)
      else True)"

definition upperhex :: "nat \<Rightarrow> char" where
  "upperhex n = char_of (if n < 10 then 48 + n else 55 + n)"

definition escape_char :: "url_mode \<Rightarrow> char \<Rightarrow> string" where
  "escape_char mode c =
     (if c = CHR '' '' \<and> mode = encodeQueryComponent then ''+''
      else if shouldEscape mode c
      then [CHR ''%'', upperhex (of_char c div 16), upperhex (of_char c mod 16)]
      else [c])"

definition escape :: "url_mode \<Rightarrow> string \<Rightarrow> string" where
  "escape mode s = concat (map (escape_char mode) s)"

text \<open>Reading an escaped text, for the proofs.\<close>

definition unhex :: "char \<Rightarrow> nat" where
  "unhex c = (let n = of_char c in if n < 58 then n - 48 else n - 55)"

fun unescape :: "url_mode \<Rightarrow> string \<Rightarrow> string" where
  "unescape mode [] = []"
| "unescape mode (c # cs) =
     (if c = CHR ''%'' then
        (case cs of a # b # rest \<Rightarrow> char_of (16 * unhex a + unhex b) # unescape mode rest | _ \<Rightarrow> [])
      else if c = CHR ''+'' \<and> mode = encodeQueryComponent then CHR '' '' # unescape mode cs
      else c # unescape mode cs)"

lemma unhex_upperhex: "n < 16 \<Longrightarrow> unhex (upperhex n) = n"
  by (auto simp: unhex_def upperhex_def Let_def)

lemma shouldEscape_percent: "shouldEscape mode (CHR ''%'')"
  by (simp add: shouldEscape_def is_alnum_def)

lemma shouldEscape_plus: "shouldEscape encodeQueryComponent (CHR ''+'')"
  by (simp add: shouldEscape_def is_alnum_def)

lemma of_char_less: "(of_char c :: nat) < 256"
  by (metis nat_of_char_less_256)

lemma unescape_escape_char: "unescape mode (escape_char mode c @ s) = c # unescape mode s"
proof -
  have "unhex (upperhex (of_char c div 16)) = of_char c div 16" "unhex (upperhex (of_char c mod 16)) = of_char c mod 16"
    using of_char_less [of c] by (simp_all add: unhex_upperhex less_mult_imp_div_less)
  then have "char_of (16 * unhex (upperhex (of_char c div 16)) + unhex (upperhex (of_char c mod 16))) = c"
    by (simp only: mult_div_mod_eq char_of_char)
  then show ?thesis
    using shouldEscape_percent [of mode] shouldEscape_plus by (auto simp: escape_char_def)
qed

lemma unescape_escape: "unescape mode (escape mode s) = s"
  unfolding escape_def by (induction s) (simp_all add: unescape_escape_char)

lemma escape_inj [simp]: "escape mode s = escape mode t \<longleftrightarrow> s = t"
  by (metis unescape_escape)

text \<open>A character that must be escaped does not occur in an escaped text, percent and plus apart.\<close>

lemma upperhex_alnum: "n < 16 \<Longrightarrow> is_alnum (upperhex n)"
  by (auto simp: is_alnum_def upperhex_def)

lemma escape_chars:
  assumes "shouldEscape mode c" "c \<noteq> CHR ''%''" "c \<noteq> CHR ''+''"
  shows "c \<notin> set (escape mode s)"
proof -
  have "\<not> is_alnum c" using assms(1) by (auto simp: shouldEscape_def)
  moreover have "is_alnum (upperhex (of_char d div 16))" "is_alnum (upperhex (of_char d mod 16))" for d
    using of_char_less [of d] by (simp_all add: upperhex_alnum less_mult_imp_div_less)
  ultimately have "c \<notin> set (escape_char mode d)" for d
    using assms by (auto simp: escape_char_def)
  then show ?thesis by (simp add: escape_def)
qed

text \<open>Two texts that are cut at the first occurrence of the same character.\<close>

lemma cut_eq_iff:
  "c \<notin> set xs \<Longrightarrow> c \<notin> set ys \<Longrightarrow> xs @ c # s = ys @ c # t \<longleftrightarrow> xs = ys \<and> s = t"
proof (induction xs arbitrary: ys)
  case Nil
  then show ?case by (cases ys) auto
next
  case (Cons x xs)
  then show ?case by (cases ys) auto
qed

section \<open>Base64\<close>

definition base64_alphabet :: string where
  "base64_alphabet = ''ABCDEFGHIJKLMNOPQRSTUVWXYZabcdefghijklmnopqrstuvwxyz0123456789+/''"

fun base64_sextets :: "nat list \<Rightarrow> nat list" where
  "base64_sextets [] = []"
| "base64_sextets [a] = [a div 4, a mod 4 * 16]"
| "base64_sextets [a, b] = [a div 4, a mod 4 * 16 + b div 16, b mod 16 * 4]"
| "base64_sextets (a # b # c # bytes) =
     a div 4 # (a mod 4 * 16 + b div 16) # (b mod 16 * 4 + c div 64) # c mod 64 # base64_sextets bytes"

text \<open>\<open>base64.RawStdEncoding.EncodeToString\<close>.\<close>

definition RawStdEncoding :: "string \<Rightarrow> string" where
  "RawStdEncoding s = map (\<lambda>n. base64_alphabet ! n) (base64_sextets (map of_char s))"

fun base64_bytes :: "nat list \<Rightarrow> nat list" where
  "base64_bytes [x, y] = [x * 4 + y div 16]"
| "base64_bytes [x, y, z] = [x * 4 + y div 16, y mod 16 * 16 + z div 4]"
| "base64_bytes (x # y # z # u # r) =
     (x * 4 + y div 16) # (y mod 16 * 16 + z div 4) # (z mod 4 * 64 + u) # base64_bytes r"
| "base64_bytes _ = []"

lemma base64_group:
  assumes "b < 256" "c < 256"
  shows "a div 4 * 4 + (a mod 4 * 16 + b div 16) div 16 = (a :: nat)"
    and "(a mod 4 * 16 + b div 16) mod 16 * 16 + (b mod 16 * 4 + c div 64) div 4 = (b :: nat)"
    and "(b mod 16 * 4 + c div 64) mod 4 * 64 + c mod 64 = (c :: nat)"
proof -
  have b: "b div 16 < 16" and c: "c div 64 < 4" using assms by (simp_all add: less_mult_imp_div_less)
  show "a div 4 * 4 + (a mod 4 * 16 + b div 16) div 16 = a" using b by simp
  have "(a mod 4 * 16 + b div 16) mod 16 = b div 16" using b by simp
  moreover have "(b mod 16 * 4 + c div 64) div 4 = b mod 16" using c by simp
  ultimately show "(a mod 4 * 16 + b div 16) mod 16 * 16 + (b mod 16 * 4 + c div 64) div 4 = b"
    by (simp only: div_mult_mod_eq)
  have "(b mod 16 * 4 + c div 64) mod 4 = c div 64" using c by simp
  then show "(b mod 16 * 4 + c div 64) mod 4 * 64 + c mod 64 = c" by (simp only: div_mult_mod_eq)
qed

lemma base64_bytes_sextets: "\<forall>n \<in> set bytes. n < 256 \<Longrightarrow> base64_bytes (base64_sextets bytes) = bytes"
proof (induction bytes rule: base64_sextets.induct)
  case (2 a)
  then show ?case by simp
next
  case (3 a b)
  then show ?case using base64_group(1) [where a = a and b = b and c = 0] base64_group(2) [where a = a and b = b and c = 0] by simp
next
  case (4 a b c bytes)
  then show ?case using base64_group(1,2) [where a = a and b = b and c = c] base64_group(3) [of b c] by simp
qed simp

lemma base64_sextets_bound: "\<forall>n \<in> set bytes. n < 256 \<Longrightarrow> \<forall>m \<in> set (base64_sextets bytes). m < 64"
proof (induction bytes rule: base64_sextets.induct)
  case (2 a)
  then show ?case by (auto simp: less_mult_imp_div_less)
next
  case (3 a b)
  then have "a div 4 < 64" "b div 16 < 16" "a mod 4 < 4" "b mod 16 < 16" by (simp_all add: less_mult_imp_div_less)
  then show ?case by auto
next
  case (4 a b c bytes)
  then have "a div 4 < 64" "b div 16 < 16" "c div 64 < 4" by (simp_all add: less_mult_imp_div_less)
  moreover have "a mod 4 < 4" "b mod 16 < 16" "c mod 64 < 64" by simp_all
  ultimately show ?case using 4 by auto
qed simp

lemma base64_alphabet_distinct: "distinct base64_alphabet" and base64_alphabet_length: "length base64_alphabet = 64"
  by (simp_all add: base64_alphabet_def)

lemma base64_digits_inj:
  assumes "\<forall>m \<in> set xs. m < 64" "\<forall>m \<in> set ys. m < 64"
    and "map (\<lambda>n. base64_alphabet ! n) xs = map (\<lambda>n. base64_alphabet ! n) ys"
  shows "xs = ys"
proof -
  have "inj_on (\<lambda>n. base64_alphabet ! n) {..<64}"
    using inj_on_nth [OF base64_alphabet_distinct, of "{..<64}"] by (simp add: base64_alphabet_length)
  then show ?thesis using assms by (intro map_inj_on [of "\<lambda>n. base64_alphabet ! n"]) (auto simp: inj_on_def)
qed

lemma RawStdEncoding_inj [simp]: "RawStdEncoding s = RawStdEncoding t \<longleftrightarrow> s = t"
proof
  have b: "\<forall>n \<in> set (map of_char s). n < (256 :: nat)" for s using of_char_less by auto
  assume "RawStdEncoding s = RawStdEncoding t"
  then have "base64_sextets (map of_char s) = base64_sextets (map of_char t)"
    unfolding RawStdEncoding_def by (intro base64_digits_inj base64_sextets_bound b)
  then have "map of_char s = (map of_char t :: nat list)" using base64_bytes_sextets [OF b] by metis
  then show "s = t" by (metis (no_types, lifting) char_of_char map_idI map_map o_def)
qed simp

end
