(* ===== verification/HanaPool.thy ===== *)
theory HanaPool
  imports ExternalClients Encodings
begin

text \<open>
  The pool of database connections, \<open>internal/clients/hana/hana.go\<close>: the type \<open>hanaDB\<close> with its
  \<open>sync.Map\<close>, the functions \<open>New\<close>, \<open>Connect\<close>, \<open>Disconnect\<close> and \<open>DSN\<close>.

  All controllers share one pool and call \<open>Connect\<close> concurrently. A call is therefore also given as
  a sequence of atomic steps on the shared pool (\<open>connect_step\<close>), and \<open>pool_step\<close> interleaves any
  number of calls. A connection (\<open>*sql.DB\<close>) is the number of the call of \<open>sql.Open\<close> that made it.
  Closing one happens in a goroutine of its own; \<open>hp_closing\<close> are the connections for which one
  has been started. The map only ever holds connections, so the type assertions on its values do
  not fail.
\<close>

section \<open>DSN\<close>

text \<open>\<open>url.URL.String\<close> for a URL with user information, a host, no path and a query.\<close>

definition DSN :: "string \<Rightarrow> string \<Rightarrow> string \<Rightarrow> string \<Rightarrow> string" where
  "DSN username password endpoint port =
     ''hdb://'' @ escape encodeUserPassword username @ '':'' @ escape encodeUserPassword password @ ''@'' @
     escape encodeHost (endpoint @ '':'' @ port) @ ''?'' @ ''TLSServerName='' @ endpoint"

section \<open>The pool\<close>

record hana_pool =
  hp_dbs :: "(string \<times> nat) list"
  hp_opened :: "string list"
  hp_closing :: "nat list"
  hp_salt :: string

text \<open>The driver behind \<open>database/sql\<close>, and the key derivation function Argon2id.\<close>

record 'w sql_driver =
  sql_Open :: "string \<Rightarrow> 'w \<Rightarrow> error option \<times> 'w"
  sql_Ping :: "nat \<Rightarrow> 'w \<Rightarrow> error option \<times> 'w"
  argon2_IDKey :: "string \<Rightarrow> string \<Rightarrow> string"

definition hana_New :: "string \<Rightarrow> hana_pool" where
  "hana_New salt = \<lparr>hp_dbs = [], hp_opened = [], hp_closing = [], hp_salt = salt\<rparr>"

text \<open>A missing key of the secret reads as the empty text.\<close>

definition creds_DSN :: "gomap \<Rightarrow> string" where
  "creds_DSN creds =
     (let get = (\<lambda>key. case gomap_get creds key of None \<Rightarrow> [] | Some v \<Rightarrow> v)
      in DSN (get ''username'') (get ''password'') (get ''endpoint'') (get ''port''))"

definition dsnHash :: "'w sql_driver \<Rightarrow> string \<Rightarrow> string \<Rightarrow> string" where
  "dsnHash drv salt dsn = RawStdEncoding (argon2_IDKey drv dsn salt)"

text \<open>\<open>h.dbs.Swap\<close>, with the goroutine that closes the previous connection.\<close>

definition pool_swap :: "string \<Rightarrow> nat \<Rightarrow> hana_pool \<Rightarrow> hana_pool" where
  "pool_swap key db pool =
     (let pool' = pool\<lparr>hp_dbs := gomap_set (hp_dbs pool) key db\<rparr> in
      case gomap_get (hp_dbs pool) key of
        None \<Rightarrow> pool'
      | Some prev \<Rightarrow> pool'\<lparr>hp_closing := hp_closing pool @ [prev]\<rparr>)"

definition hana_Connect ::
  "'w sql_driver \<Rightarrow> gomap \<Rightarrow> hana_pool \<Rightarrow> 'w \<Rightarrow> (error + nat) \<times> hana_pool \<times> 'w" where
  "hana_Connect drv creds pool w =
     (let dsn = creds_DSN creds;
          key = dsnHash drv (hp_salt pool) dsn;
          (cached, w1) = (case gomap_get (hp_dbs pool) key of
             None \<Rightarrow> (None, w)
           | Some db \<Rightarrow>
               (case sql_Ping drv db w of (None, w1) \<Rightarrow> (Some db, w1) | (Some _, w1) \<Rightarrow> (None, w1)))
      in case cached of
           Some db \<Rightarrow> (Inr db, pool, w1)
         | None \<Rightarrow>
             (case sql_Open drv dsn w1 of
                (Some err, w2) \<Rightarrow> (Inl (Wrapped ''failed to open HANA DB connection: '' err), pool, w2)
              | (None, w2) \<Rightarrow>
                  let db = length (hp_opened pool);
                      pool = pool\<lparr>hp_opened := hp_opened pool @ [dsn]\<rparr>
                  in case sql_Ping drv db w2 of
                       (Some err, w3) \<Rightarrow>
                         (Inl (Wrapped ''failed to ping HANA DB: '' err), pool\<lparr>hp_closing := hp_closing pool @ [db]\<rparr>, w3)
                     | (None, w3) \<Rightarrow> (Inr db, pool_swap key db pool, w3)))"

text \<open>\<open>Disconnect\<close> closes what the map holds, waits, and clears the map.\<close>

definition hana_Disconnect :: "hana_pool \<Rightarrow> hana_pool" where
  "hana_Disconnect pool = pool\<lparr>hp_dbs := [], hp_closing := hp_closing pool @ map snd (hp_dbs pool)\<rparr>"

section \<open>Concurrent calls\<close>

datatype connect_pc =
    PLoad
  | PPing nat
  | POpen
  | PPingNew nat
  | PSwap nat
  | PDone "error + nat"

fun connect_step ::
  "'w sql_driver \<Rightarrow> string \<Rightarrow> connect_pc \<Rightarrow> hana_pool \<Rightarrow> 'w \<Rightarrow> connect_pc \<times> hana_pool \<times> 'w" where
  "connect_step drv dsn PLoad pool w =
     ((case gomap_get (hp_dbs pool) (dsnHash drv (hp_salt pool) dsn) of None \<Rightarrow> POpen | Some db \<Rightarrow> PPing db), pool, w)"
| "connect_step drv dsn (PPing db) pool w =
     (case sql_Ping drv db w of (None, w') \<Rightarrow> (PDone (Inr db), pool, w') | (Some _, w') \<Rightarrow> (POpen, pool, w'))"
| "connect_step drv dsn POpen pool w =
     (case sql_Open drv dsn w of
        (Some err, w') \<Rightarrow> (PDone (Inl (Wrapped ''failed to open HANA DB connection: '' err)), pool, w')
      | (None, w') \<Rightarrow> (PPingNew (length (hp_opened pool)), pool\<lparr>hp_opened := hp_opened pool @ [dsn]\<rparr>, w'))"
| "connect_step drv dsn (PPingNew db) pool w =
     (case sql_Ping drv db w of
        (Some err, w') \<Rightarrow> (PDone (Inl (Wrapped ''failed to ping HANA DB: '' err)), pool\<lparr>hp_closing := hp_closing pool @ [db]\<rparr>, w')
      | (None, w') \<Rightarrow> (PSwap db, pool, w'))"
| "connect_step drv dsn (PSwap db) pool w = (PDone (Inr db), pool_swap (dsnHash drv (hp_salt pool) dsn) db pool, w)"
| "connect_step drv dsn (PDone r) pool w = (PDone r, pool, w)"

text \<open>Several steps of one call.\<close>

fun connect_steps :: "'w sql_driver \<Rightarrow> string \<Rightarrow> nat \<Rightarrow> connect_pc \<times> hana_pool \<times> 'w \<Rightarrow> connect_pc \<times> hana_pool \<times> 'w" where
  "connect_steps drv dsn 0 s = s"
| "connect_steps drv dsn (Suc n) (pc, pool, w) = connect_steps drv dsn n (connect_step drv dsn pc pool w)"

lemma connect_steps_done [simp]: "connect_steps drv dsn n (PDone r, pool, w) = (PDone r, pool, w)"
  by (induction n) simp_all

text \<open>
  The system: the pool, the rest of the world, and the calls with their DSN. Calls start at any
  time, one step of one call is executed at a time, the rest of the world changes in any way, and
  \<open>Disconnect\<close> runs when every call has returned (\<open>main\<close> defers it behind the end of the manager).
\<close>

type_synonym 'w pool_system = "hana_pool \<times> 'w \<times> (string \<times> connect_pc) list"

inductive pool_reach :: "'w sql_driver \<Rightarrow> string \<Rightarrow> 'w pool_system \<Rightarrow> bool" for drv :: "'w sql_driver" and salt :: string where
  New: "pool_reach drv salt (hana_New salt, w, [])"
| Call: "pool_reach drv salt (pool, w, ts) \<Longrightarrow> pool_reach drv salt (pool, w, ts @ [(creds_DSN creds, PLoad)])"
| Step: "pool_reach drv salt (pool, w, ts) \<Longrightarrow> i < length ts \<Longrightarrow> ts ! i = (dsn, pc) \<Longrightarrow>
    connect_step drv dsn pc pool w = (pc', pool', w') \<Longrightarrow> pool_reach drv salt (pool', w', ts[i := (dsn, pc')])"
| World: "pool_reach drv salt (pool, w, ts) \<Longrightarrow> pool_reach drv salt (pool, w', ts)"
| Disconnect: "pool_reach drv salt (pool, w, ts) \<Longrightarrow> list_all (\<lambda>(dsn, pc). \<exists>r. pc = PDone r) ts \<Longrightarrow>
    pool_reach drv salt (hana_Disconnect pool, w, ts)"

section \<open>The invariant\<close>

text \<open>
  The connections that a call has opened and not yet handed over. Every connection ever opened is,
  exactly once, in the map, being closed, or held by a call; a connection in the map was opened for
  a DSN with the hash it is stored under; and a call works with connections for its own hash.
\<close>

fun held_by :: "connect_pc \<Rightarrow> nat list" where
  "held_by (PPingNew db) = [db]"
| "held_by (PSwap db) = [db]"
| "held_by _ = []"

fun works_with :: "connect_pc \<Rightarrow> nat list" where
  "works_with (PPing db) = [db]"
| "works_with (PPingNew db) = [db]"
| "works_with (PSwap db) = [db]"
| "works_with (PDone (Inr db)) = [db]"
| "works_with _ = []"

definition held :: "(string \<times> connect_pc) list \<Rightarrow> nat multiset" where
  "held ts = sum_list (map (mset \<circ> held_by \<circ> snd) ts)"

definition accounted :: "hana_pool \<Rightarrow> (string \<times> connect_pc) list \<Rightarrow> bool" where
  "accounted pool ts \<longleftrightarrow>
     mset (map snd (hp_dbs pool)) + mset (hp_closing pool) + held ts = mset [0..<length (hp_opened pool)]"

definition hash_of :: "'w sql_driver \<Rightarrow> hana_pool \<Rightarrow> nat \<Rightarrow> string option" where
  "hash_of drv pool db =
     (if db < length (hp_opened pool) then Some (dsnHash drv (hp_salt pool) (hp_opened pool ! db)) else None)"

definition pool_inv :: "'w sql_driver \<Rightarrow> hana_pool \<Rightarrow> (string \<times> connect_pc) list \<Rightarrow> bool" where
  "pool_inv drv pool ts \<longleftrightarrow> gomap_ok (hp_dbs pool) \<and> accounted pool ts \<and>
     (\<forall>(key, db) \<in> set (hp_dbs pool). hash_of drv pool db = Some key) \<and>
     (\<forall>(dsn, pc) \<in> set ts. \<forall>db \<in> set (works_with pc). hash_of drv pool db = Some (dsnHash drv (hp_salt pool) dsn))"

lemma held_snoc [simp]: "held (ts @ [t]) = held ts + mset (held_by (snd t))"
  by (simp add: held_def)

lemma held_update: "i < length ts \<Longrightarrow> held (ts[i := t]) + mset (held_by (snd (ts ! i))) = held ts + mset (held_by (snd t))"
proof (induction ts arbitrary: i)
  case (Cons a ts)
  then show ?case by (cases i) (auto simp: held_def ac_simps)
qed simp

lemma gomap_set_values:
  "mset (map snd (gomap_set m k v)) + (case gomap_get m k of None \<Rightarrow> {#} | Some p \<Rightarrow> {#p#}) = mset (map snd m) + {#v#}"
  by (induction m k v rule: gomap_set.induct) (auto simp: gomap_get_def split: option.splits)

lemma hash_of_opened:
  "hash_of drv pool db = Some k \<Longrightarrow> hash_of drv (pool\<lparr>hp_opened := hp_opened pool @ [dsn]\<rparr>) db = Some k"
  by (auto simp: hash_of_def nth_append split: if_splits)

lemma hash_of_frame [simp]:
  "hash_of drv (pool\<lparr>hp_closing := x\<rparr>) = hash_of drv pool"
  "hash_of drv (pool\<lparr>hp_dbs := y\<rparr>) = hash_of drv pool"
  "hash_of drv (pool\<lparr>hp_opened := hp_opened pool @ [dsn]\<rparr>) (length (hp_opened pool)) = Some (dsnHash drv (hp_salt pool) dsn)"
  by (auto simp: hash_of_def)

lemma gomap_set_elems: "(k', v') \<in> set (gomap_set m k v) \<Longrightarrow> k' = k \<and> v' = v \<or> (k', v') \<in> set m"
  by (induction m k v rule: gomap_set.induct) (auto split: if_splits)

lemma multiset_balance:
  fixes A B :: "'a multiset"
  assumes "H' + p = H + p'" "B + H = N" "A + p' + N = B + p + N'"
  shows "A + H' = N'"
proof (rule multiset_eqI)
  fix x
  show "count (A + H') x = count N' x"
    using assms [THEN arg_cong [where f = "\<lambda>M. count M x"]] by simp
qed

lemma pool_inv_update:
  assumes inv: "pool_inv drv pool ts" and i: "i < length ts" "ts ! i = (dsn, pc)"
    and salt: "hp_salt pool' = hp_salt pool"
    and mono: "\<And>db k. hash_of drv pool db = Some k \<Longrightarrow> hash_of drv pool' db = Some k"
    and ok: "gomap_ok (hp_dbs pool')"
    and acc: "mset (map snd (hp_dbs pool')) + mset (hp_closing pool') + mset (held_by pc') + mset [0..<length (hp_opened pool)] =
        mset (map snd (hp_dbs pool)) + mset (hp_closing pool) + mset (held_by pc) + mset [0..<length (hp_opened pool')]"
    and keys: "\<And>key db. (key, db) \<in> set (hp_dbs pool') \<Longrightarrow> hash_of drv pool' db = Some key"
    and own: "\<And>db. db \<in> set (works_with pc') \<Longrightarrow> hash_of drv pool' db = Some (dsnHash drv (hp_salt pool) dsn)"
  shows "pool_inv drv pool' (ts[i := (dsn, pc')])"
proof -
  let ?ts = "ts[i := (dsn, pc')]"
  have "held ?ts + mset (held_by pc) = held ts + mset (held_by pc')" using held_update [OF i(1), of "(dsn, pc')"] i(2) by simp
  moreover have "mset (map snd (hp_dbs pool)) + mset (hp_closing pool) + held ts = mset [0..<length (hp_opened pool)]"
    using inv by (simp add: pool_inv_def accounted_def)
  ultimately have "mset (map snd (hp_dbs pool')) + mset (hp_closing pool') + held ?ts = mset [0..<length (hp_opened pool')]"
    using acc by (rule multiset_balance)
  then have "accounted pool' ?ts" by (simp add: accounted_def)
  moreover have "\<forall>db \<in> set (works_with q). hash_of drv pool' db = Some (dsnHash drv (hp_salt pool') d)" if "(d, q) \<in> set ?ts" for d q
  proof (cases "(d, q) \<in> set ts")
    case True
    then show ?thesis using inv mono salt by (fastforce simp: pool_inv_def)
  next
    case False
    then have "(d, q) = (dsn, pc')" using that set_update_subset_insert [of ts i "(dsn, pc')"] by auto
    then show ?thesis using own salt by simp
  qed
  ultimately show ?thesis using ok keys by (auto simp: pool_inv_def)
qed

lemma pool_inv_step:
  assumes inv: "pool_inv drv pool ts" and i: "i < length ts" "ts ! i = (dsn, pc)"
    and st: "connect_step drv dsn pc pool w = (pc', pool', w')"
  shows "pool_inv drv pool' (ts[i := (dsn, pc')])"
proof -
  let ?key = "dsnHash drv (hp_salt pool) dsn"
  have ok: "gomap_ok (hp_dbs pool)" and keys: "\<And>key db. (key, db) \<in> set (hp_dbs pool) \<Longrightarrow> hash_of drv pool db = Some key"
    using inv by (auto simp: pool_inv_def)
  have own: "hash_of drv pool db = Some ?key" if "db \<in> set (works_with pc)" for db
    using inv i that nth_mem [OF i(1)] by (fastforce simp: pool_inv_def)
  note upd = pool_inv_update [OF inv i]
  show ?thesis
  proof (cases pc)
    case PLoad
    then show ?thesis using st ok keys
      by (intro upd) (auto simp: gomap_get_def split: option.splits dest: map_of_SomeD)
  next
    case (PPing db)
    then show ?thesis using st ok keys own
      by (intro upd) (auto split: prod.splits option.splits)
  next
    case POpen
    then show ?thesis using st ok keys
      by (intro upd) (auto simp: hash_of_opened atLeast0_lessThan_Suc split: prod.splits option.splits)
  next
    case (PPingNew db)
    then show ?thesis using st ok keys own
      by (intro upd) (auto split: prod.splits option.splits)
  next
    case (PSwap db)
    let ?prev = "case gomap_get (hp_dbs pool) ?key of None \<Rightarrow> {#} | Some p \<Rightarrow> {#p#}"
    have p: "pc' = PDone (Inr db)" "pool' = pool_swap ?key db pool" using st PSwap by simp_all
    have s: "hp_dbs pool' = gomap_set (hp_dbs pool) ?key db" "mset (hp_closing pool') = mset (hp_closing pool) + ?prev"
        "hp_opened pool' = hp_opened pool" "hp_salt pool' = hp_salt pool"
      by (auto simp: p pool_swap_def Let_def split: option.split)
    have h: "hash_of drv pool' = hash_of drv pool" by (auto simp: hash_of_def s)
    have k: "key = ?key \<and> d = db \<or> (key, d) \<in> set (hp_dbs pool)" if "(key, d) \<in> set (gomap_set (hp_dbs pool) ?key db)" for key d
      using that by (rule gomap_set_elems)
    have v: "mset (map snd (hp_dbs pool')) + mset (hp_closing pool') = mset (map snd (hp_dbs pool)) + mset (hp_closing pool) + {#db#}"
      using gomap_set_values [of "hp_dbs pool" ?key db] unfolding s(1,2) by (metis add.assoc add.commute)
    show ?thesis using ok keys own [of db] k v by (intro upd) (auto simp: s(1,3,4) h p(1) PSwap)
  next
    case (PDone r)
    then show ?thesis using st ok keys own by (intro upd) auto
  qed
qed

lemma pool_inv_reach: "pool_reach drv salt s \<Longrightarrow> pool_inv drv (fst s) (snd (snd s)) \<and> hp_salt (fst s) = salt"
proof (induction rule: pool_reach.induct)
  case (New w)
  show ?case by (simp add: hana_New_def pool_inv_def accounted_def held_def gomap_ok_def)
next
  case (Call pool w ts creds)
  then show ?case by (auto simp: pool_inv_def accounted_def)
next
  case (Step pool w ts i dsn pc pc' pool' w')
  have "hp_salt pool' = hp_salt pool"
    using Step.hyps(4) by (cases pc) (auto simp: pool_swap_def Let_def split: prod.splits option.splits)
  then show ?case using pool_inv_step [OF _ Step.hyps(2-4)] Step.IH by simp
next
  case (World pool w ts w')
  then show ?case by simp
next
  case (Disconnect pool w ts)
  then show ?case
    by (auto simp: hana_Disconnect_def pool_inv_def accounted_def gomap_ok_def ac_simps)
qed

section \<open>Properties\<close>

lemma userinfo_free:
  "CHR '':'' \<notin> set (escape encodeUserPassword s)" "CHR ''@'' \<notin> set (escape encodeUserPassword s)"
  "CHR ''?'' \<notin> set (escape encodeHost s)"
  by (rule escape_chars; simp add: shouldEscape_def is_alnum_def)+

lemma DSN_inj:
  "DSN u p e port = DSN u' p' e' port' \<longleftrightarrow> u = u' \<and> p = p' \<and> e = e' \<and> port = port'"
proof
  assume "DSN u p e port = DSN u' p' e' port'"
  then have "escape encodeUserPassword u @ CHR '':'' # (escape encodeUserPassword p @ CHR ''@'' #
        (escape encodeHost (e @ '':'' @ port) @ CHR ''?'' # (''TLSServerName='' @ e))) =
      escape encodeUserPassword u' @ CHR '':'' # (escape encodeUserPassword p' @ CHR ''@'' #
        (escape encodeHost (e' @ '':'' @ port') @ CHR ''?'' # (''TLSServerName='' @ e')))"
    by (simp add: DSN_def)
  then show "u = u' \<and> p = p' \<and> e = e' \<and> port = port'"
    by (auto simp: cut_eq_iff userinfo_free)
qed simp

text \<open>
  The DSN determines the credentials: two DSNs are equal only when user name, password,
  endpoint and port are, whatever characters they contain, so that no text in a secret can make
  one connection pass for another.
\<close>

theorem DSN_determines_credentials:
  "DSN u p e port = DSN u' p' e' port' \<longleftrightarrow> u = u' \<and> p = p' \<and> e = e' \<and> port = port'"
  by (rule DSN_inj)

text \<open>
  C32. The pool under concurrency. Whatever calls of \<open>Connect\<close> run at the same time and however their
  steps interleave, every connection that was ever opened is, exactly once, in the map, being closed,
  or held by a call that has not returned: none is lost, none is closed twice, and none in the map is
  being closed. The map has one entry per key, and the entry was opened for a DSN with that hash.
\<close>

theorem pool_accounts_for_connections:
  assumes "pool_reach drv salt (pool, w, ts)"
  shows "mset (map snd (hp_dbs pool)) + mset (hp_closing pool) + held ts = mset [0..<length (hp_opened pool)]
    \<and> distinct (map fst (hp_dbs pool))
    \<and> (\<forall>(key, db) \<in> set (hp_dbs pool). db \<notin> set (hp_closing pool) \<and> key = dsnHash drv salt (hp_opened pool ! db))"
proof -
  have inv: "pool_inv drv pool ts" "hp_salt pool = salt" using pool_inv_reach [OF assms] by simp_all
  then have acc: "mset (map snd (hp_dbs pool)) + mset (hp_closing pool) + held ts = mset [0..<length (hp_opened pool)]"
    by (simp add: pool_inv_def accounted_def)
  have dis: "count (mset (map snd (hp_dbs pool)) + mset (hp_closing pool)) db \<le> 1" for db
  proof -
    have "count (mset [0..<length (hp_opened pool)]) db \<le> 1" by (metis distinct_count_atmost_1 distinct_upt le_refl zero_le)
    then show ?thesis unfolding acc [symmetric] by simp
  qed
  have "db \<notin> set (hp_closing pool) \<and> key = dsnHash drv salt (hp_opened pool ! db)" if "(key, db) \<in> set (hp_dbs pool)" for key db
  proof
    have "db \<in> set (map snd (hp_dbs pool))" using that by force
    then have "0 < count (mset (map snd (hp_dbs pool))) db" by (simp only: count_greater_zero_iff set_mset_mset)
    then have "count (mset (hp_closing pool)) db = 0" using dis [of db] unfolding count_union by linarith
    then show "db \<notin> set (hp_closing pool)" by (metis count_eq_zero_iff set_mset_mset)
    have "hash_of drv pool db = Some key" using inv(1) that by (fastforce simp: pool_inv_def)
    then show "key = dsnHash drv salt (hp_opened pool ! db)" using inv(2) by (auto simp: hash_of_def split: if_splits)
  qed
  then show ?thesis using acc inv(1) by (auto simp: pool_inv_def gomap_ok_def)
qed

text \<open>
  C33. A call gets a connection of its own credentials. Whatever other calls run at the same time, the
  connection that \<open>Connect\<close> returns was opened with the user name, the password, the endpoint and the
  port of the caller, provided that the hash does not confuse it with one that was opened.
\<close>

theorem connect_returns_own_connection:
  assumes "pool_reach drv salt (pool, w, ts)" and "(DSN u p e port, PDone (Inr db)) \<in> set ts"
    and "inj_on (\<lambda>dsn. argon2_IDKey drv dsn salt) (insert (DSN u p e port) (set (hp_opened pool)))"
  shows "db < length (hp_opened pool)
    \<and> (\<forall>u' p' e' port'. hp_opened pool ! db = DSN u' p' e' port' \<longrightarrow> u' = u \<and> p' = p \<and> e' = e \<and> port' = port)"
proof -
  have inv: "pool_inv drv pool ts" "hp_salt pool = salt" using pool_inv_reach [OF assms(1)] by simp_all
  then have "hash_of drv pool db = Some (dsnHash drv salt (DSN u p e port))"
    using assms(2) by (fastforce simp: pool_inv_def)
  then have db: "db < length (hp_opened pool)" "dsnHash drv salt (hp_opened pool ! db) = dsnHash drv salt (DSN u p e port)"
    using inv(2) by (auto simp: hash_of_def split: if_splits)
  then have "argon2_IDKey drv (hp_opened pool ! db) salt = argon2_IDKey drv (DSN u p e port) salt"
    by (simp add: dsnHash_def)
  then have "hp_opened pool ! db = DSN u p e port" using assms(3) db(1) by (simp add: inj_on_def)
  then show ?thesis using db(1) by (metis DSN_inj)
qed

text \<open>A driver for examples: everything can be opened, and the connections of a set answer.\<close>

definition sample_driver :: "(nat \<Rightarrow> bool) \<Rightarrow> unit sql_driver" where
  "sample_driver alive = \<lparr>sql_Open = (\<lambda>dsn w. (None, w)),
     sql_Ping = (\<lambda>db w. (if alive db then None else Some (ErrorString ''bad connection''), w)),
     argon2_IDKey = (\<lambda>dsn salt. dsn @ salt)\<rparr>"

definition sample_creds :: gomap where
  "sample_creds = [(''endpoint'', ''h''), (''port'', ''1''), (''username'', ''u''), (''password'', ''p'')]"

text \<open>The calls run by a schedule, which names the call of each step.\<close>

fun run_calls :: "'w sql_driver \<Rightarrow> nat list \<Rightarrow> 'w pool_system \<Rightarrow> 'w pool_system" where
  "run_calls drv [] s = s"
| "run_calls drv (i # sched) (pool, w, ts) =
     (if i < length ts
      then case connect_step drv (fst (ts ! i)) (snd (ts ! i)) pool w of
             (pc', pool', w') \<Rightarrow> run_calls drv sched (pool', w', ts[i := (fst (ts ! i), pc')])
      else run_calls drv sched (pool, w, ts))"

lemma run_calls_reach: "pool_reach drv salt s \<Longrightarrow> pool_reach drv salt (run_calls drv sched s)"
proof (induction drv sched s rule: run_calls.induct)
  case (2 drv i sched pool w ts)
  obtain pc' pool' w' where st: "connect_step drv (fst (ts ! i)) (snd (ts ! i)) pool w = (pc', pool', w')"
    by (metis prod_cases3)
  show ?case
  proof (cases "i < length ts")
    case True
    have "pool_reach drv salt (pool', w', ts[i := (fst (ts ! i), pc')])"
      using Step [OF "2.prems" True _ st] by simp
    then show ?thesis using "2.IH"(1) [OF True st [symmetric] refl] True st by simp
  next
    case False
    then show ?thesis using "2.IH"(2) [OF False "2.prems"] by simp
  qed
qed simp

lemma one_call_reach: "pool_reach drv salt (hana_New salt, w, [(creds_DSN creds, PLoad)])"
  using Call [OF New [of drv salt w], of creds] by simp

lemma two_calls_reach: "pool_reach drv salt (hana_New salt, w, [(creds_DSN creds, PLoad), (creds_DSN creds, PLoad)])"
  using Call [OF Call [OF New [of drv salt w]], of creds creds] by simp

theorem pool_accounts_for_connections_witness:
  "\<exists>pool ts. pool_reach (sample_driver (\<lambda>db. True)) ''s'' (pool, (), ts) \<and> hp_closing pool = [0] \<and> map snd (hp_dbs pool) = [1]
     \<and> mset (map snd (hp_dbs pool)) + mset (hp_closing pool) + held ts = mset [0..<length (hp_opened pool)]"
proof -
  let ?s = "run_calls (sample_driver (\<lambda>db. True)) [0, 1, 0, 0, 0, 1, 1, 1]
    (hana_New ''s'', (), [(creds_DSN sample_creds, PLoad), (creds_DSN sample_creds, PLoad)])"
  obtain pool w ts where s: "?s = (pool, w, ts)" by (metis prod_cases3)
  have r: "pool_reach (sample_driver (\<lambda>db. True)) ''s'' (pool, (), ts)"
    using run_calls_reach [OF two_calls_reach] s by (metis old.unit.exhaust)
  have "hp_closing (fst ?s) = [0] \<and> map snd (hp_dbs (fst ?s)) = [1]"
    by (simp add: sample_driver_def hana_New_def gomap_get_def pool_swap_def Let_def)
  then have c: "hp_closing pool = [0]" "map snd (hp_dbs pool) = [1]" by (simp_all only: s fst_conv)
  show ?thesis by (intro exI conjI, rule r, rule c(1), rule c(2), rule conjunct1 [OF pool_accounts_for_connections [OF r]])
qed

theorem connect_returns_own_connection_witness:
  "\<exists>pool ts. pool_reach (sample_driver (\<lambda>db. True)) ''s'' (pool, (), ts) \<and> hp_opened pool ! 0 = DSN ''u'' ''p'' ''h'' ''1''"
proof -
  let ?s = "run_calls (sample_driver (\<lambda>db. True)) [0, 0, 0, 0]
    (hana_New ''s'', (), [(creds_DSN sample_creds, PLoad)])"
  obtain pool w ts where s: "?s = (pool, w, ts)" by (metis prod_cases3)
  have d: "creds_DSN sample_creds = DSN ''u'' ''p'' ''h'' ''1''" by (simp add: creds_DSN_def sample_creds_def gomap_get_def)
  have "pool_reach (sample_driver (\<lambda>db. True)) ''s'' ?s"
    by (rule run_calls_reach [OF one_call_reach])
  then have r: "pool_reach (sample_driver (\<lambda>db. True)) ''s'' (pool, (), ts)" using s by (metis old.unit.exhaust)
  have "ts = [(DSN ''u'' ''p'' ''h'' ''1'', PDone (Inr 0))]" "hp_opened pool = [DSN ''u'' ''p'' ''h'' ''1'']"
    using s by (auto simp: d sample_driver_def hana_New_def gomap_get_def pool_swap_def Let_def)
  then show ?thesis
    using connect_returns_own_connection [OF r, of "''u''" "''p''" "''h''" "''1''" 0] r by (auto simp: sample_driver_def)
qed

text \<open>
  C34. Two calls with the same credentials can take each other's connection away. When both find the
  map without an entry, both open a connection, and the one that stores it last closes the one that
  was already returned to the other.
\<close>

theorem concurrent_connect_closes_returned:
  assumes "\<forall>dsn w. sql_Open drv dsn w = (None, w)" and "\<forall>db w. sql_Ping drv db w = (None, w)"
  shows "\<exists>pool. pool_reach drv salt (pool, w, [(creds_DSN creds, PDone (Inr 0)), (creds_DSN creds, PDone (Inr 1))])
     \<and> 0 \<in> set (hp_closing pool)"
proof -
  have "pool_reach drv salt (run_calls drv [0, 1, 0, 0, 0, 1, 1, 1]
      (hana_New salt, w, [(creds_DSN creds, PLoad), (creds_DSN creds, PLoad)]))"
    by (rule run_calls_reach [OF two_calls_reach])
  then show ?thesis using assms
    by (simp add: hana_New_def gomap_get_def pool_swap_def Let_def) (metis hana_pool.select_convs(3) list.set_intros(1))
qed

theorem concurrent_connect_closes_returned_witness:
  "\<exists>pool. pool_reach (sample_driver (\<lambda>db. True)) ''s''
      (pool, (), [(creds_DSN sample_creds, PDone (Inr 0)), (creds_DSN sample_creds, PDone (Inr 1))])
     \<and> 0 \<in> set (hp_closing pool)"
  by (rule concurrent_connect_closes_returned) (simp_all add: sample_driver_def)

lemma pool_swap_get: "gomap_get (hp_dbs (pool_swap key db pool)) key = Some db"
    and pool_swap_salt: "hp_salt (pool_swap key db pool) = hp_salt pool"
  by (auto simp: pool_swap_def gomap_get_def Let_def split: option.split)

text \<open>
  A connection is used again. After \<open>Connect\<close> returned one, the next call with credentials of the
  same DSN returns it as long as it answers, without opening another and without changing the pool;
  and \<open>Connect\<close> never returns a connection that did not answer just before.
\<close>

theorem connect_reuses_connection:
  assumes "hana_Connect drv creds pool w = (Inr db, pool', w')" and "creds_DSN creds' = creds_DSN creds"
    and "sql_Ping drv db w2 = (None, w3)"
  shows "hana_Connect drv creds' pool' w2 = (Inr db, pool', w3)
    \<and> (\<exists>w1. sql_Ping drv db w1 = (None, w'))"
proof -
  have "gomap_get (hp_dbs pool') (dsnHash drv (hp_salt pool') (creds_DSN creds)) = Some db \<and> (\<exists>w1. sql_Ping drv db w1 = (None, w'))"
    using assms(1) pool_swap_get pool_swap_salt
    by (fastforce simp: hana_Connect_def Let_def split: option.splits prod.splits)
  then show ?thesis using assms(2,3) by (auto simp: hana_Connect_def Let_def)
qed

theorem connect_reuses_connection_witness:
  "fst (hana_Connect (sample_driver (\<lambda>db. True)) sample_creds
     (fst (snd (hana_Connect (sample_driver (\<lambda>db. True)) sample_creds (hana_New ''s'') ()))) ()) = Inr 0"
proof -
  let ?drv = "sample_driver (\<lambda>db. True)"
  obtain r pool w where c: "hana_Connect ?drv sample_creds (hana_New ''s'') () = (r, pool, w)" by (metis prod_cases3)
  have "r = Inr 0" using c by (auto simp: hana_Connect_def sample_driver_def hana_New_def gomap_get_def Let_def)
  then have "hana_Connect ?drv sample_creds (hana_New ''s'') () = (Inr 0, pool, w)" using c by simp
  from connect_reuses_connection [OF this refl, of "()" "()"] show ?thesis using c by (simp add: sample_driver_def)
qed

subsection \<open>Bounds\<close>

fun remaining :: "connect_pc \<Rightarrow> nat" where
  "remaining PLoad = 5"
| "remaining (PPing db) = 4"
| "remaining POpen = 3"
| "remaining (PPingNew db) = 2"
| "remaining (PSwap db) = 1"
| "remaining (PDone r) = 0"

definition in_progress :: "(string \<times> connect_pc) list \<Rightarrow> (string \<times> connect_pc) list" where
  "in_progress ts = filter (\<lambda>(dsn, pc). 0 < remaining pc) ts"

lemma remaining_step: "remaining (fst (connect_step drv dsn pc pool w)) \<le> remaining pc - 1"
  by (cases pc) (auto split: option.split prod.split)

lemma remaining_0 [simp]: "remaining pc = 0 \<longleftrightarrow> (\<exists>r. pc = PDone r)"
  by (cases pc) auto

lemma run_calls_length [simp]: "length (snd (snd (run_calls drv sched s))) = length (snd (snd s))"
proof (induction drv sched s rule: run_calls.induct)
  case (2 drv i sched pool w ts)
  obtain pc' pool' w' where st: "connect_step drv (fst (ts ! i)) (snd (ts ! i)) pool w = (pc', pool', w')"
    by (metis prod_cases3)
  show ?case using 2 st by simp
qed simp

lemma run_calls_remaining:
  "j < length (snd (snd s)) \<Longrightarrow>
     remaining (snd (snd (snd (run_calls drv sched s)) ! j)) \<le> remaining (snd (snd (snd s) ! j)) - count_list sched j"
proof (induction drv sched s rule: run_calls.induct)
  case (2 drv i sched pool w ts)
  obtain pc' pool' w' where st: "connect_step drv (fst (ts ! i)) (snd (ts ! i)) pool w = (pc', pool', w')"
    by (metis prod_cases3)
  have dec: "remaining pc' \<le> remaining (snd (ts ! i)) - 1"
    using remaining_step [of drv "fst (ts ! i)" "snd (ts ! i)" pool w] st by simp
  show ?case
  proof (cases "i < length ts")
    case True
    have "remaining (snd (snd (snd (run_calls drv sched (pool', w', ts[i := (fst (ts ! i), pc')]))) ! j)) \<le>
        remaining (snd (ts[i := (fst (ts ! i), pc')] ! j)) - count_list sched j"
      using "2.IH"(1) [OF True st [symmetric] refl] "2.prems" by simp
    then show ?thesis using True st dec "2.prems" by (cases "i = j") auto
  next
    case False
    then show ?thesis using "2.IH"(2) [OF False] "2.prems" by auto
  qed
qed simp



lemma held_size: "size (held ts) \<le> length (in_progress ts)"
proof (induction ts)
  case (Cons t ts)
  obtain dsn pc where t: "t = (dsn, pc)" by (cases t)
  have "length (held_by pc) \<le> (if 0 < remaining pc then 1 else 0)" by (cases pc) auto
  then show ?case using Cons.IH by (auto simp: held_def in_progress_def t split: if_splits)
qed (simp add: held_def)

text \<open>
  C35. The pool does not leak. Whatever calls were made and however they interleave, the connections that were
  opened and are not being closed are at most one for every DSN that was ever opened, and one for
  every call in progress: errors, lost races and replaced connections leave nothing behind.
\<close>

theorem pool_connections_bounded:
  assumes "pool_reach drv salt (pool, w, ts)"
  shows "length (hp_opened pool) \<le> length (hp_closing pool) + card (set (hp_opened pool)) + length (in_progress ts)"
proof -
  have inv: "pool_inv drv pool ts" using pool_inv_reach [OF assms] by simp
  let ?hash = "dsnHash drv (hp_salt pool)"
  have key: "key \<in> ?hash ` set (hp_opened pool)" if "(key, db) \<in> set (hp_dbs pool)" for key db
  proof -
    have "hash_of drv pool db = Some key" using inv that by (auto simp: pool_inv_def)
    then show ?thesis by (auto simp: hash_of_def split: if_splits)
  qed
  have "length (hp_dbs pool) = card (set (map fst (hp_dbs pool)))"
    using inv distinct_card [of "map fst (hp_dbs pool)"] by (simp add: pool_inv_def gomap_ok_def)
  also have "\<dots> \<le> card (?hash ` set (hp_opened pool))" by (rule card_mono) (auto intro: key)
  also have "\<dots> \<le> card (set (hp_opened pool))" by (rule card_image_le) simp
  finally have dbs: "length (hp_dbs pool) \<le> card (set (hp_opened pool))" .
  have "size (mset (map snd (hp_dbs pool)) + mset (hp_closing pool) + held ts) = size (mset [0..<length (hp_opened pool)])"
    using inv by (simp add: pool_inv_def accounted_def)
  then have "length (hp_dbs pool) + length (hp_closing pool) + size (held ts) = length (hp_opened pool)" by simp
  then show ?thesis using dbs held_size [of ts] by linarith
qed

theorem pool_connections_bounded_witness:
  "\<exists>pool ts. pool_reach (sample_driver (\<lambda>db. True)) ''s'' (pool, (), ts) \<and> length (hp_opened pool) = 2 \<and> length (hp_closing pool) = 1
     \<and> length (hp_opened pool) \<le> length (hp_closing pool) + card (set (hp_opened pool)) + length (in_progress ts)"
proof -
  let ?s = "run_calls (sample_driver (\<lambda>db. True)) [0, 1, 0, 0, 0, 1, 1, 1]
    (hana_New ''s'', (), [(creds_DSN sample_creds, PLoad), (creds_DSN sample_creds, PLoad)])"
  obtain pool w ts where s: "?s = (pool, w, ts)" by (metis prod_cases3)
  have r: "pool_reach (sample_driver (\<lambda>db. True)) ''s'' (pool, (), ts)"
    using run_calls_reach [OF two_calls_reach] s by (metis old.unit.exhaust)
  have "length (hp_opened (fst ?s)) = 2 \<and> length (hp_closing (fst ?s)) = 1"
    by (simp add: sample_driver_def hana_New_def gomap_get_def pool_swap_def Let_def)
  then have c: "length (hp_opened pool) = 2" "length (hp_closing pool) = 1" by (simp_all only: s fst_conv)
  show ?thesis by (intro exI conjI, rule r, rule c(1), rule c(2), rule pool_connections_bounded [OF r])
qed


end
