(* ===== verification/Json.thy ===== *)
theory Json
  imports Encodings
begin

text \<open>
  The package \<open>encoding/json\<close> as far as the provider uses it: \<open>Marshal\<close> for structures of texts and
  booleans, and \<open>Unmarshal\<close> into structures. Reading works in two passes, a scanner for tokens and a
  machine with a stack for the grammar, and ends with the assignment of members to fields. The
  bytes of characters outside ASCII stay as they are. The texts of the errors are not modelled.
\<close>

datatype json =
    JNull
  | JBool bool
  | JNumber string
  | JString string
  | JArray "json list"
  | JObject "(string \<times> json) list"

section \<open>Marshal\<close>

definition json_u :: "nat \<Rightarrow> string" where
  "json_u n = [bslash, CHR ''u'', CHR ''0'', CHR ''0'', hex_digit (n div 16), hex_digit (n mod 16)]"

definition json_escape_char :: "char \<Rightarrow> string" where
  "json_escape_char c =
     (let n = of_char c :: nat in
      if c = dq \<or> c = bslash then [bslash, c]
      else if n = 8 then [bslash, CHR ''b''] else if n = 12 then [bslash, CHR ''f'']
      else if n = 10 then [bslash, CHR ''n''] else if n = 13 then [bslash, CHR ''r'']
      else if n = 9 then [bslash, CHR ''t'']
      else if n < 32 \<or> c \<in> set ''<>&'' then json_u n
      else [c])"

definition json_quote :: "string \<Rightarrow> string" where
  "json_quote s = [dq] @ concat (map json_escape_char s) @ [dq]"

fun json_Marshal :: "json \<Rightarrow> string" where
  "json_Marshal JNull = ''null''"
| "json_Marshal (JBool b) = (if b then ''true'' else ''false'')"
| "json_Marshal (JNumber s) = s"
| "json_Marshal (JString s) = json_quote s"
| "json_Marshal (JArray vs) = ''['' @ Join (map json_Marshal vs) '','' @ '']''"
| "json_Marshal (JObject ms) = ''{'' @ Join (map (\<lambda>(k, v). json_quote k @ '':'' @ json_Marshal v) ms) '','' @ ''}''"

section \<open>Tokens\<close>

definition json_hex :: "char \<Rightarrow> nat option" where
  "json_hex c =
     (let n = of_char c in
      if 48 \<le> n \<and> n \<le> 57 then Some (n - 48) else if 97 \<le> n \<and> n \<le> 102 then Some (n - 87)
      else if 65 \<le> n \<and> n \<le> 70 then Some (n - 55) else None)"

text \<open>Four hexadecimal digits.\<close>

definition getu4 :: "string \<Rightarrow> (nat \<times> string) option" where
  "getu4 s = (case s of
     a # b # c # d # r \<Rightarrow>
       (case (json_hex a, json_hex b, json_hex c, json_hex d) of
          (Some a, Some b, Some c, Some d) \<Rightarrow> Some (((a * 16 + b) * 16 + c) * 16 + d, r)
        | _ \<Rightarrow> None)
   | _ \<Rightarrow> None)"

definition utf8 :: "nat \<Rightarrow> string" where
  "utf8 n =
     (if n < 128 then [char_of n]
      else if n < 2048 then [char_of (192 + n div 64), char_of (128 + n mod 64)]
      else if n < 65536 then [char_of (224 + n div 4096), char_of (128 + n div 64 mod 64), char_of (128 + n mod 64)]
      else [char_of (240 + n div 262144), char_of (128 + n div 4096 mod 64), char_of (128 + n div 64 mod 64), char_of (128 + n mod 64)])"

text \<open>
  What follows \<open>\u\<close>: a code unit, or two that form a surrogate pair; a lone surrogate becomes the
  replacement character.
\<close>

definition json_unicode :: "string \<Rightarrow> (string \<times> string) option" where
  "json_unicode s = (case getu4 s of
     None \<Rightarrow> None
   | Some (n, r) \<Rightarrow>
       if 55296 \<le> n \<and> n < 57344 then
         (case (if take 2 r = [bslash, CHR ''u''] then getu4 (drop 2 r) else None) of
            Some (m, r') \<Rightarrow>
              if n < 56320 \<and> 56320 \<le> m \<and> m < 57344
              then Some (utf8 (65536 + (n - 55296) * 1024 + (m - 56320)), r')
              else Some (utf8 65533, r)
          | None \<Rightarrow> Some (utf8 65533, r))
       else Some (utf8 n, r))"

definition json_simple :: "char \<Rightarrow> char option" where
  "json_simple c =
     (if c = dq \<or> c = bslash \<or> c = CHR ''/'' then Some c
      else if c = CHR ''b'' then Some (char_of (8 :: nat)) else if c = CHR ''f'' then Some (char_of (12 :: nat))
      else if c = CHR ''n'' then Some (char_of (10 :: nat)) else if c = CHR ''r'' then Some (char_of (13 :: nat))
      else if c = CHR ''t'' then Some (char_of (9 :: nat)) else None)"

lemma getu4_shorter: "getu4 s = Some (n, r) \<Longrightarrow> length r < length s"
  by (auto simp: getu4_def split: list.splits option.splits)

lemma json_unicode_shorter: "json_unicode s = Some (t, r) \<Longrightarrow> length r < length s"
  unfolding json_unicode_def
  by (auto split: option.splits if_splits dest!: getu4_shorter)

text \<open>A text behind its opening quote, with what follows the closing one.\<close>

function json_text :: "string \<Rightarrow> (string \<times> string) option" where
  "json_text [] = None"
| "json_text (c # cs) =
     (if c = dq then Some ([], cs)
      else if c = bslash then
        (if take 1 cs = ''u'' then
           (case json_unicode (drop 1 cs) of
              None \<Rightarrow> None
            | Some (t, r) \<Rightarrow> map_option (map_prod ((@) t) id) (json_text r))
         else (case cs of
              [] \<Rightarrow> None
            | e # r \<Rightarrow>
                (case json_simple e of
                   None \<Rightarrow> None
                 | Some d \<Rightarrow> map_option (map_prod ((#) d) id) (json_text r))))
      else if of_char c < (32 :: nat) then None
      else map_option (map_prod ((#) c) id) (json_text cs))"
  by pat_completeness auto
termination
  by (relation "measure length") (auto dest!: json_unicode_shorter)

lemma json_text_shorter: "json_text s = Some (t, r) \<Longrightarrow> length r < length s"
proof (induction s arbitrary: t r rule: json_text.induct)
  case (2 c cs)
  then show ?case
    by (fastforce split: if_splits option.splits list.splits dest!: json_unicode_shorter)
qed simp

datatype token = TLBrace | TRBrace | TLBracket | TRBracket | TColon | TComma
  | TString string | TNumber string | TTrue | TFalse | TNull

definition number_chars :: "string \<Rightarrow> string" where
  "number_chars s = takeWhile (\<lambda>c. c \<in> set ''0123456789+-.eE'') s"

definition drop_digits :: "string \<Rightarrow> string option" where
  "drop_digits s = (let ds = takeWhile (\<lambda>c. c \<in> set ''0123456789'') s in if ds = [] then None else Some (drop (length ds) s))"

text \<open>The grammar of numbers.\<close>

definition valid_number :: "string \<Rightarrow> bool" where
  "valid_number s =
     (let s = (if take 1 s = ''-'' then drop 1 s else s);
          int_part = (if take 1 s = ''0'' then Some (drop 1 s) else drop_digits s);
          frac_part = Option.bind int_part (\<lambda>s. if take 1 s = ''.'' then drop_digits (drop 1 s) else Some s);
          exp_part = Option.bind frac_part (\<lambda>s. if take 1 s \<in> {''e'', ''E''}
            then (let s = drop 1 s in drop_digits (if take 1 s \<in> {''+'', ''-''} then drop 1 s else s)) else Some s)
      in exp_part = Some [])"

function json_tokens :: "string \<Rightarrow> token list option" where
  "json_tokens [] = Some []"
| "json_tokens (c # cs) =
     (if of_char c \<in> {9, 10, 13, 32 :: nat} then json_tokens cs
      else if c = CHR ''{'' then map_option ((#) TLBrace) (json_tokens cs)
      else if c = CHR ''}'' then map_option ((#) TRBrace) (json_tokens cs)
      else if c = CHR ''['' then map_option ((#) TLBracket) (json_tokens cs)
      else if c = CHR '']'' then map_option ((#) TRBracket) (json_tokens cs)
      else if c = CHR '':'' then map_option ((#) TColon) (json_tokens cs)
      else if c = CHR '','' then map_option ((#) TComma) (json_tokens cs)
      else if c = dq then
        (case json_text cs of None \<Rightarrow> None | Some (t, r) \<Rightarrow> map_option ((#) (TString t)) (json_tokens r))
      else if HasPrefix (c # cs) ''true'' then map_option ((#) TTrue) (json_tokens (drop 3 cs))
      else if HasPrefix (c # cs) ''false'' then map_option ((#) TFalse) (json_tokens (drop 4 cs))
      else if HasPrefix (c # cs) ''null'' then map_option ((#) TNull) (json_tokens (drop 3 cs))
      else if valid_number (number_chars (c # cs)) then
        map_option ((#) (TNumber (number_chars (c # cs)))) (json_tokens (drop (length (number_chars (c # cs)) - 1) cs))
      else None)"
  by pat_completeness auto
termination
  by (relation "measure length") (auto dest!: json_text_shorter)

declare json_text.simps [simp del] json_tokens.simps [simp del]

section \<open>Grammar\<close>

text \<open>
  The open arrays and objects with their elements so far; an object is on the stack while the value
  of its last key is read. \<open>maxNestingDepth\<close> is 10000.
\<close>

datatype json_frame = InArray "json list" | InObject "(string \<times> json) list" string

datatype json_state = WantValue | WantValueOrEnd | WantKeyOrEnd | WantKey "(string \<times> json) list"
  | WantColon "(string \<times> json) list" string | Have json

definition json_value :: "json_frame list \<Rightarrow> token \<Rightarrow> (json_frame list \<times> json_state) option" where
  "json_value stk t = (case t of
     TLBrace \<Rightarrow> if length stk < 10000 then Some (stk, WantKeyOrEnd) else None
   | TLBracket \<Rightarrow> if length stk < 10000 then Some (InArray [] # stk, WantValueOrEnd) else None
   | TString s \<Rightarrow> Some (stk, Have (JString s))
   | TNumber s \<Rightarrow> Some (stk, Have (JNumber s))
   | TTrue \<Rightarrow> Some (stk, Have (JBool True))
   | TFalse \<Rightarrow> Some (stk, Have (JBool False))
   | TNull \<Rightarrow> Some (stk, Have JNull)
   | _ \<Rightarrow> None)"

fun json_after :: "json_frame list \<Rightarrow> json \<Rightarrow> token \<Rightarrow> (json_frame list \<times> json_state) option" where
  "json_after (InArray vs # stk) v TComma = Some (InArray (vs @ [v]) # stk, WantValue)"
| "json_after (InArray vs # stk) v TRBracket = Some (stk, Have (JArray (vs @ [v])))"
| "json_after (InObject ms k # stk) v TComma = Some (stk, WantKey (ms @ [(k, v)]))"
| "json_after (InObject ms k # stk) v TRBrace = Some (stk, Have (JObject (ms @ [(k, v)])))"
| "json_after _ _ _ = None"

definition json_key :: "(string \<times> json) list \<Rightarrow> json_frame list \<Rightarrow> token \<Rightarrow> (json_frame list \<times> json_state) option" where
  "json_key ms stk t = (case t of TString k \<Rightarrow> Some (stk, WantColon ms k) | _ \<Rightarrow> None)"

definition json_step :: "json_frame list \<times> json_state \<Rightarrow> token \<Rightarrow> (json_frame list \<times> json_state) option" where
  "json_step s t = (case s of
     (stk, WantValue) \<Rightarrow> json_value stk t
   | (stk, WantValueOrEnd) \<Rightarrow> if t = TRBracket then Some (tl stk, Have (JArray [])) else json_value stk t
   | (stk, WantKeyOrEnd) \<Rightarrow> if t = TRBrace then Some (stk, Have (JObject [])) else json_key [] stk t
   | (stk, WantKey ms) \<Rightarrow> json_key ms stk t
   | (stk, WantColon ms k) \<Rightarrow> if t = TColon then Some (InObject ms k # stk, WantValue) else None
   | (stk, Have v) \<Rightarrow> json_after stk v t)"

fun json_run :: "json_frame list \<times> json_state \<Rightarrow> token list \<Rightarrow> json option" where
  "json_run s [] = (case s of ([], Have v) \<Rightarrow> Some v | _ \<Rightarrow> None)"
| "json_run s (t # ts) = (case json_step s t of None \<Rightarrow> None | Some s' \<Rightarrow> json_run s' ts)"

definition json_parse :: "string \<Rightarrow> json option" where
  "json_parse s = Option.bind (json_tokens s) (json_run ([], WantValue))"

section \<open>Unmarshal\<close>

definition json_syntax_error :: error where
  "json_syntax_error = ErrorString ''invalid JSON''"

definition json_type_error :: error where
  "json_type_error = ErrorString ''json: cannot unmarshal value''"

text \<open>
  The fields of a structure, each with how a value is stored. A member is stored in the field of its
  name, or else in the first whose name is the same but for case; other members are skipped.
\<close>

type_synonym 'a json_fields = "(string \<times> (json \<Rightarrow> 'a \<Rightarrow> error + 'a)) list"

definition json_field :: "'a json_fields \<Rightarrow> string \<Rightarrow> (json \<Rightarrow> 'a \<Rightarrow> error + 'a)" where
  "json_field fs k = (case map_of fs k of
     Some f \<Rightarrow> f
   | None \<Rightarrow>
       (case map_of (map (map_prod ToUpper id) fs) (ToUpper k) of Some f \<Rightarrow> f | None \<Rightarrow> (\<lambda>v a. Inr a)))"

fun json_members :: "'a json_fields \<Rightarrow> (string \<times> json) list \<Rightarrow> 'a \<Rightarrow> error + 'a" where
  "json_members fs [] a = Inr a"
| "json_members fs ((k, v) # ms) a = (case json_field fs k v a of Inl err \<Rightarrow> Inl err | Inr a' \<Rightarrow> json_members fs ms a')"

definition json_struct :: "'a json_fields \<Rightarrow> json \<Rightarrow> 'a \<Rightarrow> error + 'a" where
  "json_struct fs v a = (case v of JObject ms \<Rightarrow> json_members fs ms a | JNull \<Rightarrow> Inr a | _ \<Rightarrow> Inl json_type_error)"

text \<open>Storing a text, an optional text (a pointer) or a boolean; \<open>null\<close> leaves a field as it is, or clears a pointer.\<close>

definition json_to_string :: "(string \<Rightarrow> 'a \<Rightarrow> 'a) \<Rightarrow> json \<Rightarrow> 'a \<Rightarrow> error + 'a" where
  "json_to_string put v a = (case v of JString s \<Rightarrow> Inr (put s a) | JNull \<Rightarrow> Inr a | _ \<Rightarrow> Inl json_type_error)"

definition json_to_pointer :: "(string option \<Rightarrow> 'a \<Rightarrow> 'a) \<Rightarrow> json \<Rightarrow> 'a \<Rightarrow> error + 'a" where
  "json_to_pointer put v a = (case v of JString s \<Rightarrow> Inr (put (Some s) a) | JNull \<Rightarrow> Inr (put None a) | _ \<Rightarrow> Inl json_type_error)"

definition json_to_bool :: "(bool \<Rightarrow> 'a \<Rightarrow> 'a) \<Rightarrow> json \<Rightarrow> 'a \<Rightarrow> error + 'a" where
  "json_to_bool put v a = (case v of JBool b \<Rightarrow> Inr (put b a) | JNull \<Rightarrow> Inr a | _ \<Rightarrow> Inl json_type_error)"

definition json_Unmarshal :: "(json \<Rightarrow> 'a \<Rightarrow> error + 'a) \<Rightarrow> string \<Rightarrow> 'a \<Rightarrow> error + 'a" where
  "json_Unmarshal store data a = (case json_parse data of None \<Rightarrow> Inl json_syntax_error | Some v \<Rightarrow> store v a)"

section \<open>Reading what was written\<close>

lemma json_hex_digit: "n < 16 \<Longrightarrow> json_hex (hex_digit n) = Some n"
  by (auto simp: json_hex_def hex_digit_def Let_def)

lemma json_unicode_byte:
  assumes "n < 128"
  shows "json_unicode (CHR ''0'' # CHR ''0'' # hex_digit (n div 16) # hex_digit (n mod 16) # r) = Some ([char_of n], r)"
proof -
  have "json_hex (CHR ''0'') = Some 0" by (simp add: json_hex_def)
  then have "getu4 (CHR ''0'' # CHR ''0'' # hex_digit (n div 16) # hex_digit (n mod 16) # r) = Some (n, r)"
    using assms by (simp add: getu4_def json_hex_digit less_mult_imp_div_less)
  then show ?thesis using assms by (simp add: json_unicode_def utf8_def)
qed

lemma json_text_escape_char: "json_text (json_escape_char c @ s) = map_option (map_prod ((#) c) id) (json_text s)"
proof (cases "json_escape_char c = json_u (of_char c)")
  case True
  have n: "(of_char c :: nat) < 128"
    using True by (cases c) (auto simp: json_escape_char_def json_u_def Let_def split: if_splits)
  have "(@) [c] = (#) c" by auto
  then show ?thesis
    by (simp add: True json_u_def json_text.simps(2) [of bslash] json_unicode_byte [OF n])
next
  case False
  have r: "of_char c = n \<Longrightarrow> char_of n = c" for n :: nat by (metis char_of_char)
  show ?thesis using False r [of 8] r [of 9] r [of 10] r [of 12] r [of 13]
    by (auto simp: json_escape_char_def Let_def json_text.simps json_simple_def split: if_splits)
qed

lemma json_text_quoted: "json_text (concat (map json_escape_char s) @ dq # r) = Some (s, r)"
proof (induction s)
  case Nil
  then show ?case by (simp add: json_text.simps)
qed (simp add: json_text_escape_char)

lemma json_tokens_quote: "json_tokens (json_quote s @ r) = map_option ((#) (TString s)) (json_tokens r)"
  by (simp add: json_quote_def json_tokens.simps(2) [of dq] json_text_quoted)

lemma json_tokens_punctuation:
  "json_tokens (CHR ''{'' # r) = map_option ((#) TLBrace) (json_tokens r)"
  "json_tokens (CHR ''}'' # r) = map_option ((#) TRBrace) (json_tokens r)"
  "json_tokens (CHR '':'' # r) = map_option ((#) TColon) (json_tokens r)"
  "json_tokens (CHR '','' # r) = map_option ((#) TComma) (json_tokens r)"
  "json_tokens [] = Some []"
  by (simp_all add: json_tokens.simps)

text \<open>
  Reading is inverse to writing, for values without numbers that are not nested too deeply. The
  tokens of a value come first.
\<close>

fun plain :: "json \<Rightarrow> bool" where
  "plain (JNumber s) = False"
| "plain (JArray vs) = list_all plain vs"
| "plain (JObject ms) = list_all (\<lambda>(k, v). plain v) ms"
| "plain _ = True"

fun depth :: "json \<Rightarrow> nat" where
  "depth (JArray vs) = Suc (fold max (map depth vs) 0)"
| "depth (JObject ms) = Suc (fold max (map (\<lambda>(k, v). depth v) ms) 0)"
| "depth _ = 0"

fun comma_tokens :: "token list list \<Rightarrow> token list" where
  "comma_tokens [] = []"
| "comma_tokens [t] = t"
| "comma_tokens (t # u # ts) = t @ TComma # comma_tokens (u # ts)"

fun tokens_of :: "json \<Rightarrow> token list" where
  "tokens_of JNull = [TNull]"
| "tokens_of (JBool b) = [if b then TTrue else TFalse]"
| "tokens_of (JNumber s) = [TNumber s]"
| "tokens_of (JString s) = [TString s]"
| "tokens_of (JArray vs) = TLBracket # comma_tokens (map tokens_of vs) @ [TRBracket]"
| "tokens_of (JObject ms) = TLBrace # comma_tokens (map (\<lambda>(k, v). TString k # TColon # tokens_of v) ms) @ [TRBrace]"

lemma append_as_function: "(@) [] = (\<lambda>ys. ys)" "(@) (x # xs) = (\<lambda>ys. x # xs @ ys)"
  by auto

lemma json_tokens_Join:
  assumes "\<forall>x \<in> set xs. \<forall>r. json_tokens (f x @ r) = map_option ((@) (g x)) (json_tokens r)"
  shows "json_tokens (Join (map f xs) '','' @ r) = map_option ((@) (comma_tokens (map g xs))) (json_tokens r)"
  using assms
proof (induction xs)
  case (Cons x xs)
  show ?case
  proof (cases xs)
    case Nil
    then show ?thesis using Cons.prems by simp
  next
    case (Cons y ys)
    then show ?thesis using Cons.IH Cons.prems
      by (simp add: json_tokens_punctuation option.map_comp comp_def)
  qed
qed (simp add: append_as_function option.map_ident)

lemma json_tokens_words:
  "json_tokens (CHR ''['' # r) = map_option ((#) TLBracket) (json_tokens r)"
  "json_tokens (CHR '']'' # r) = map_option ((#) TRBracket) (json_tokens r)"
  "json_tokens (''null'' @ r) = map_option ((#) TNull) (json_tokens r)"
  "json_tokens (''true'' @ r) = map_option ((#) TTrue) (json_tokens r)"
  "json_tokens (''false'' @ r) = map_option ((#) TFalse) (json_tokens r)"
  by (simp_all add: json_tokens.simps(2) go_string)

lemma json_tokens_Marshal: "plain v \<Longrightarrow> json_tokens (json_Marshal v @ r) = map_option ((@) (tokens_of v)) (json_tokens r)"
proof (induction v arbitrary: r rule: json_Marshal.induct)
  case 1
  show ?case using json_tokens_words(3) [of r] by (simp add: comp_def)
next
  case (2 b)
  show ?case using json_tokens_words(4,5) [of r] by (cases b) (simp_all add: comp_def)
next
  case (4 s)
  show ?case by (simp add: json_tokens_quote comp_def)
next
  case (5 vs)
  have "\<forall>x \<in> set vs. \<forall>r. json_tokens (json_Marshal x @ r) = map_option ((@) (tokens_of x)) (json_tokens r)"
    using "5.IH" "5.prems" by (simp add: list_all_iff)
  from json_tokens_Join [OF this] show ?case
    by (simp add: json_tokens_words option.map_comp comp_def)
next
  case (6 ms)
  have "\<forall>x \<in> set ms. \<forall>r. json_tokens ((\<lambda>(k, v). json_quote k @ '':'' @ json_Marshal v) x @ r) =
      map_option ((@) ((\<lambda>(k, v). TString k # TColon # tokens_of v) x)) (json_tokens r)"
    using "6.IH" "6.prems"
    by (fastforce simp: list_all_iff json_tokens_quote json_tokens_punctuation option.map_comp comp_def append_as_function)
  from json_tokens_Join [OF this] show ?case
    by (simp add: json_tokens_punctuation option.map_comp comp_def)
qed simp

lemma fold_max_ge: "x \<in> set xs \<or> x \<le> a \<Longrightarrow> x \<le> fold max xs (a :: nat)"
  by (induction xs arbitrary: a) (auto simp: le_max_iff_disj)

lemma depth_member:
  "v \<in> set vs \<Longrightarrow> depth v < depth (JArray vs)" "(k, v) \<in> set ms \<Longrightarrow> depth v < depth (JObject ms)"
  by (force simp: less_Suc_eq_le intro: fold_max_ge)+

lemma json_run_elements:
  assumes "\<forall>v \<in> set vs. \<forall>us ts. json_run (InArray us # stk, WantValue) (tokens_of v @ ts) = json_run (InArray us # stk, Have v) ts"
    and "vs \<noteq> []"
  shows "json_run (InArray us # stk, WantValue) (comma_tokens (map tokens_of vs) @ TRBracket # ts) = json_run (stk, Have (JArray (us @ vs))) ts"
  using assms
proof (induction vs arbitrary: us)
  case (Cons v vs)
  show ?case
  proof (cases vs)
    case Nil
    then show ?thesis using Cons.prems by (simp add: json_step_def)
  next
    case (Cons w ws)
    then show ?thesis using Cons.IH [of "us @ [v]"] Cons.prems by (simp add: json_step_def)
  qed
qed simp

lemma json_run_members:
  assumes "\<forall>(k, v) \<in> set ms. \<forall>fs ts. json_run (InObject fs k # stk, WantValue) (tokens_of v @ ts) = json_run (InObject fs k # stk, Have v) ts"
    and "ms \<noteq> []"
  shows "json_run (stk, WantKey fs) (comma_tokens (map (\<lambda>(k, v). TString k # TColon # tokens_of v) ms) @ TRBrace # ts) =
      json_run (stk, Have (JObject (fs @ ms))) ts"
  using assms
proof (induction ms arbitrary: fs)
  case (Cons m ms)
  obtain k v where m: "m = (k, v)" by (cases m)
  show ?case
  proof (cases ms)
    case Nil
    then show ?thesis using Cons.prems by (simp add: m json_step_def json_key_def)
  next
    case (Cons n ns)
    then show ?thesis using Cons.IH [of "fs @ [(k, v)]"] Cons.prems by (auto simp: m json_step_def json_key_def split: prod.splits)
  qed
qed simp

lemma tokens_of_hd: "\<exists>t ts. tokens_of v = t # ts \<and> t \<noteq> TRBracket"
  by (cases v) auto

lemma json_run_first:
  "t \<noteq> TRBracket \<Longrightarrow> json_run (stk, WantValueOrEnd) (t # ts) = json_run (stk, WantValue) (t # ts)"
  "json_run (stk, WantKeyOrEnd) (TString k # ts) = json_run (stk, WantKey []) (TString k # ts)"
  by (simp_all add: json_step_def)

lemma json_run_tokens:
  "plain v \<Longrightarrow> depth v + length stk \<le> 10000 \<Longrightarrow> json_run (stk, WantValue) (tokens_of v @ ts) = json_run (stk, Have v) ts"
proof (induction v arbitrary: stk ts rule: tokens_of.induct)
  case (5 vs)
  show ?case
  proof (cases vs)
    case Nil
    then show ?thesis using "5.prems" by (simp add: json_step_def json_value_def)
  next
    case (Cons u us)
    have "\<forall>v \<in> set vs. \<forall>fs ts. json_run (InArray fs # stk, WantValue) (tokens_of v @ ts) = json_run (InArray fs # stk, Have v) ts"
    proof (intro ballI allI)
      fix v fs ts
      assume v: "v \<in> set vs"
      then have "depth v + length (InArray fs # stk) \<le> 10000" using depth_member(1) [OF v] "5.prems"(2) by simp
      then show "json_run (InArray fs # stk, WantValue) (tokens_of v @ ts) = json_run (InArray fs # stk, Have v) ts"
        using "5.IH" [OF v] "5.prems"(1) v by (simp add: list_all_iff)
    qed
    from json_run_elements [OF this, of "[]" ts] have r: "json_run (InArray [] # stk, WantValue) (comma_tokens (map tokens_of vs) @ TRBracket # ts) =
        json_run (stk, Have (JArray vs)) ts" using Cons by simp
    obtain t ts' where "tokens_of u = t # ts'" "t \<noteq> TRBracket" using tokens_of_hd by blast
    then obtain ts'' where h: "comma_tokens (map tokens_of vs) @ TRBracket # ts = t # ts''" "t \<noteq> TRBracket"
      using Cons by (cases us) auto
    show ?thesis using r h "5.prems"(2) json_run_first(1) [OF h(2), of "InArray [] # stk" ts'']
      by (simp add: json_step_def [of "(stk, WantValue)"] json_value_def)
  qed
next
  case (6 ms)
  show ?case
  proof (cases ms)
    case Nil
    then show ?thesis using "6.prems" by (simp add: json_step_def json_value_def)
  next
    case (Cons m ns)
    have "\<forall>(k, v) \<in> set ms. \<forall>fs ts. json_run (InObject fs k # stk, WantValue) (tokens_of v @ ts) = json_run (InObject fs k # stk, Have v) ts"
    proof (clarify)
      fix k v fs ts
      assume v: "(k, v) \<in> set ms"
      then have "depth v + length (InObject fs k # stk) \<le> 10000" using depth_member(2) [OF v] "6.prems"(2) by simp
      then show "json_run (InObject fs k # stk, WantValue) (tokens_of v @ ts) = json_run (InObject fs k # stk, Have v) ts"
        using "6.IH" [OF v refl] "6.prems"(1) v by (auto simp: list_all_iff)
    qed
    from json_run_members [OF this, of "[]" ts] have r: "json_run (stk, WantKey [])
        (comma_tokens (map (\<lambda>(k, v). TString k # TColon # tokens_of v) ms) @ TRBrace # ts) = json_run (stk, Have (JObject ms)) ts"
      using Cons by simp
    obtain k ts' where h: "comma_tokens (map (\<lambda>(k, v). TString k # TColon # tokens_of v) ms) @ TRBrace # ts = TString k # ts'"
      using Cons by (cases ns; cases m) auto
    show ?thesis using r h "6.prems"(2) json_run_first(2) [of stk k ts']
      by (simp add: json_step_def [of "(stk, WantValue)"] json_value_def)
  qed
qed (simp_all add: json_step_def json_value_def)

lemma json_parse_Marshal: "plain v \<Longrightarrow> depth v \<le> 10000 \<Longrightarrow> json_parse (json_Marshal v) = Some v"
  using json_tokens_Marshal [of v "[]"] json_run_tokens [of v "[]" "[]"]
  by (simp add: json_parse_def json_tokens_punctuation)

end
