(* ===== verification/InstanceMappings.thy ===== *)
theory InstanceMappings
  imports ExternalClients Json
begin

text \<open>
  Instance mappings: the client of the HANA Cloud Admin API (\<open>internal/clients/hanacloud\<close>), its part for
  mappings (\<open>internal/clients/hanacloud/instancemapping\<close>), and the controller
  \<open>internal/controller/instancemapping\<close>. Requests go over HTTP with JSON bodies; the transport (\<open>net/http\<close>
  with the OAuth2 token source) is an argument.
\<close>

section \<open>HTTP\<close>

record http_request =
  rq_Method :: string
  rq_URL :: string
  rq_Header :: gomap
  rq_Body :: "string option"

text \<open>The body of a response as \<open>io.ReadAll\<close> returns it: the bytes read, and an error.\<close>

record http_response =
  rs_StatusCode :: int
  rs_Body :: string
  rs_ReadErr :: "error option"

text \<open>\<open>http.NewRequestWithContext\<close> can refuse a URL; \<open>Do\<close> performs a request.\<close>

record 'w http_client =
  http_NewRequest :: "string \<Rightarrow> string \<Rightarrow> error option"
  http_Do :: "http_request \<Rightarrow> 'w \<Rightarrow> (error + http_response) \<times> 'w"

text \<open>Building a request, performing it, and handing the response on; both errors are wrapped.\<close>

definition http_perform ::
  "'w http_client \<Rightarrow> http_request \<Rightarrow> (http_response \<Rightarrow> error + 'a) \<Rightarrow> 'w \<Rightarrow> (error + 'a) \<times> 'w" where
  "http_perform http req handle w = (case http_NewRequest http (rq_Method req) (rq_URL req) of
     Some err \<Rightarrow> (Inl (Wrapped ''failed to create request: '' err), w)
   | None \<Rightarrow>
       (case http_Do http req w of
          (Inl err, w') \<Rightarrow> (Inl (Wrapped ''failed to execute request: '' err), w')
        | (Inr resp, w') \<Rightarrow> (handle resp, w')))"

definition api_status_error :: "http_response \<Rightarrow> error" where
  "api_status_error resp = ErrorString (''API returned status '' @ Itoa (rs_StatusCode resp) @ '': '' @ rs_Body resp)"

section \<open>Client for mappings\<close>

record mapping =
  im_Platform :: string
  im_PrimaryID :: string
  im_SecondaryID :: "string option"
  im_IsDefault :: bool

record CreateMappingRequest =
  cm_Platform :: string
  cm_PrimaryID :: string
  cm_SecondaryID :: "string option"
  cm_IsDefault :: bool

definition mapping_fields :: "mapping json_fields" where
  "mapping_fields =
     [(''platform'', json_to_string (\<lambda>s m. m\<lparr>im_Platform := s\<rparr>)),
      (''primaryID'', json_to_string (\<lambda>s m. m\<lparr>im_PrimaryID := s\<rparr>)),
      (''secondaryID'', json_to_pointer (\<lambda>s m. m\<lparr>im_SecondaryID := s\<rparr>)),
      (''isDefault'', json_to_bool (\<lambda>b m. m\<lparr>im_IsDefault := b\<rparr>))]"

definition zero_mapping :: mapping where
  "zero_mapping = \<lparr>im_Platform = [], im_PrimaryID = [], im_SecondaryID = None, im_IsDefault = False\<rparr>"

fun json_elements :: "(json \<Rightarrow> error + 'a) \<Rightarrow> json list \<Rightarrow> error + 'a list" where
  "json_elements f [] = Inr []"
| "json_elements f (v # vs) = (case f v of Inl err \<Rightarrow> Inl err | Inr a \<Rightarrow> map_sum id ((#) a) (json_elements f vs))"

text \<open>The structure \<open>listMappingsResponse\<close>.\<close>

definition mappings_field :: "json \<Rightarrow> mapping list \<Rightarrow> error + mapping list" where
  "mappings_field v ms = (case v of
     JArray vs \<Rightarrow> json_elements (\<lambda>v. json_struct mapping_fields v zero_mapping) vs
   | JNull \<Rightarrow> Inr []
   | _ \<Rightarrow> Inl json_type_error)"

definition listMappingsResponse :: "json \<Rightarrow> mapping list \<Rightarrow> error + mapping list" where
  "listMappingsResponse = json_struct [(''mappings'', mappings_field)]"

definition mappings_URL :: "string \<Rightarrow> string \<Rightarrow> string" where
  "mappings_URL baseURL serviceInstanceID =
     ''https://'' @ baseURL @ ''/inventory/v2/serviceInstances/'' @ serviceInstanceID @ ''/instanceMappings''"

definition mappings_List :: "string \<Rightarrow> 'w http_client \<Rightarrow> string \<Rightarrow> 'w \<Rightarrow> (error + mapping list) \<times> 'w" where
  "mappings_List baseURL http serviceInstanceID w =
     http_perform http \<lparr>rq_Method = ''GET'', rq_URL = mappings_URL baseURL serviceInstanceID, rq_Header = [], rq_Body = None\<rparr>
       (\<lambda>resp.
          if rs_StatusCode resp = 404 then Inr []
          else if rs_StatusCode resp \<noteq> 200 then Inl (api_status_error resp)
          else case rs_ReadErr resp of
            Some err \<Rightarrow> Inl (Wrapped ''failed to read response body: '' err)
          | None \<Rightarrow>
              (case json_Unmarshal listMappingsResponse (rs_Body resp) [] of
                 Inl err \<Rightarrow> Inl (Wrapped ''failed to decode response: '' err)
               | Inr ms \<Rightarrow> Inr ms)) w"

definition request_json :: "CreateMappingRequest \<Rightarrow> json" where
  "request_json req = JObject
     [(''platform'', JString (cm_Platform req)), (''primaryID'', JString (cm_PrimaryID req)),
      (''secondaryID'', case cm_SecondaryID req of None \<Rightarrow> JNull | Some s \<Rightarrow> JString s),
      (''isDefault'', JBool (cm_IsDefault req))]"

definition mappings_Create ::
  "string \<Rightarrow> 'w http_client \<Rightarrow> string \<Rightarrow> CreateMappingRequest \<Rightarrow> 'w \<Rightarrow> (error + unit) \<times> 'w" where
  "mappings_Create baseURL http serviceInstanceID req w =
     http_perform http \<lparr>rq_Method = ''POST'', rq_URL = mappings_URL baseURL serviceInstanceID,
         rq_Header = [(''Content-Type'', ''application/json'')], rq_Body = Some (json_Marshal (request_json req))\<rparr>
       (\<lambda>resp. if rs_StatusCode resp \<noteq> 200 \<and> rs_StatusCode resp \<noteq> 201 then Inl (api_status_error resp) else Inr ()) w"

text \<open>\<open>url.Values.Encode\<close> writes the parameters in the order of their names.\<close>

definition delete_URL :: "string \<Rightarrow> string \<Rightarrow> string \<Rightarrow> string \<Rightarrow> string" where
  "delete_URL baseURL serviceInstanceID primaryID secondaryID =
     mappings_URL baseURL serviceInstanceID @ ''?'' @
     ''primaryID='' @ escape encodeQueryComponent primaryID @ ''&secondaryID='' @ escape encodeQueryComponent secondaryID"

definition mappings_Delete ::
  "string \<Rightarrow> 'w http_client \<Rightarrow> string \<Rightarrow> string \<Rightarrow> string \<Rightarrow> 'w \<Rightarrow> (error + unit) \<times> 'w" where
  "mappings_Delete baseURL http serviceInstanceID primaryID secondaryID w =
     http_perform http \<lparr>rq_Method = ''DELETE'', rq_URL = delete_URL baseURL serviceInstanceID primaryID secondaryID,
         rq_Header = [], rq_Body = None\<rparr>
       (\<lambda>resp.
          if rs_StatusCode resp = 404 then Inr ()
          else if rs_StatusCode resp \<noteq> 200 \<and> rs_StatusCode resp \<noteq> 204 then Inl (api_status_error resp)
          else Inr ()) w"

text \<open>The interface \<open>instancemapping.Client\<close>, and \<open>NewClient\<close>.\<close>

record 'w imClient =
  im_List :: "string \<Rightarrow> 'w \<Rightarrow> (error + mapping list) \<times> 'w"
  im_Create :: "string \<Rightarrow> CreateMappingRequest \<Rightarrow> 'w \<Rightarrow> (error + unit) \<times> 'w"
  im_Delete :: "string \<Rightarrow> string \<Rightarrow> string \<Rightarrow> 'w \<Rightarrow> (error + unit) \<times> 'w"

definition NewClient :: "string \<Rightarrow> 'w http_client \<Rightarrow> 'w imClient" where
  "NewClient baseURL http = \<lparr>im_List = mappings_List baseURL http, im_Create = mappings_Create baseURL http,
     im_Delete = mappings_Delete baseURL http\<rparr>"

section \<open>Client of the Admin API\<close>

record UAAConfig =
  ua_URL :: string
  ua_ClientID :: string
  ua_ClientSecret :: string

record AdminAPICredentials =
  ac_BaseURL :: string
  ac_UAA :: UAAConfig

definition zero_credentials :: AdminAPICredentials where
  "zero_credentials = \<lparr>ac_BaseURL = [], ac_UAA = \<lparr>ua_URL = [], ua_ClientID = [], ua_ClientSecret = []\<rparr>\<rparr>"

definition uaa_fields :: "UAAConfig json_fields" where
  "uaa_fields =
     [(''url'', json_to_string (\<lambda>s u. u\<lparr>ua_URL := s\<rparr>)), (''clientid'', json_to_string (\<lambda>s u. u\<lparr>ua_ClientID := s\<rparr>)),
      (''clientsecret'', json_to_string (\<lambda>s u. u\<lparr>ua_ClientSecret := s\<rparr>))]"

definition credentials_fields :: "AdminAPICredentials json_fields" where
  "credentials_fields =
     [(''baseurl'', json_to_string (\<lambda>s c. c\<lparr>ac_BaseURL := s\<rparr>)),
      (''uaa'', \<lambda>v c. map_sum id (\<lambda>u. c\<lparr>ac_UAA := u\<rparr>) (json_struct uaa_fields v (ac_UAA c)))]"

definition ParseAdminAPICredentials :: "string \<Rightarrow> error + AdminAPICredentials" where
  "ParseAdminAPICredentials data = (case json_Unmarshal (json_struct credentials_fields) data zero_credentials of
     Inl err \<Rightarrow> Inl (Wrapped ''failed to parse admin API credentials: '' err)
   | Inr creds \<Rightarrow> Inr creds)"

text \<open>\<open>oauth2\<close> is \<open>clientcredentials.Config.Client\<close> for a client identifier, its secret and the token URL.\<close>

type_synonym 'w oauth2 = "string \<Rightarrow> string \<Rightarrow> string \<Rightarrow> 'w http_client"

record 'w hanaCloudClient =
  hc_baseURL :: string
  hc_httpClient :: "'w http_client option"
  hc_imClient :: "'w imClient option"

definition hanacloud_New :: "'w hanaCloudClient" where
  "hanacloud_New = \<lparr>hc_baseURL = [], hc_httpClient = None, hc_imClient = None\<rparr>"

definition hanacloud_Connect ::
  "'w oauth2 \<Rightarrow> AdminAPICredentials \<Rightarrow> 'w hanaCloudClient \<Rightarrow> error option \<times> 'w hanaCloudClient" where
  "hanacloud_Connect oauth2 creds c =
     (if ac_BaseURL creds = [] then (Some (ErrorString ''baseurl is required''), c)
      else if ua_URL (ac_UAA creds) = [] then (Some (ErrorString ''uaa.url is required''), c)
      else if ua_ClientID (ac_UAA creds) = [] then (Some (ErrorString ''uaa.clientid is required''), c)
      else if ua_ClientSecret (ac_UAA creds) = [] then (Some (ErrorString ''uaa.clientsecret is required''), c)
      else
        let http = oauth2 (ua_ClientID (ac_UAA creds)) (ua_ClientSecret (ac_UAA creds)) (ua_URL (ac_UAA creds) @ ''/oauth/token'')
        in (None, c\<lparr>hc_httpClient := Some http, hc_baseURL := ac_BaseURL creds,
              hc_imClient := Some (NewClient (ac_BaseURL creds) http)\<rparr>))"

definition hanacloud_Disconnect :: "'w hanaCloudClient \<Rightarrow> 'w hanaCloudClient" where
  "hanacloud_Disconnect c = c\<lparr>hc_httpClient := None, hc_imClient := None, hc_baseURL := []\<rparr>"

section \<open>Controller\<close>

text \<open>A nil client in the result would be the client of one that is not connected; \<open>Connect\<close> sets it.\<close>

definition DefaultClientFactory :: "'w oauth2 \<Rightarrow> AdminAPICredentials \<Rightarrow> error + 'w imClient option" where
  "DefaultClientFactory oauth2 creds = (case hanacloud_Connect oauth2 creds hanacloud_New of
     (Some err, _) \<Rightarrow> Inl err
   | (None, client) \<Rightarrow> Inr (hc_imClient client))"

definition errNotInstanceMapping :: string where
  "errNotInstanceMapping = ''managed resource is not an InstanceMapping custom resource''"

definition instancemapping_Connect ::
  "('w, 'k) Kube_scheme \<Rightarrow> (AdminAPICredentials \<Rightarrow> error + 'c) \<Rightarrow> Managed \<Rightarrow> 'w \<Rightarrow> error + 'c" where
  "instancemapping_Connect kube factory mg w = (case mg of
     MInstanceMapping cr \<Rightarrow>
       let secretRef = imp_AdminCredentialsSecretRef (instancemapping_ForProvider cr) in
       (case GetSecret kube (sr_Namespace secretRef) (sr_Name secretRef) w of
          Inl err \<Rightarrow> Inl (Wrapped ''cannot get admin credentials secret: '' err)
        | Inr data \<Rightarrow>
       (case gomap_get data (sk_Key secretRef) of
          None \<Rightarrow> Inl (ErrorString (''credentials key '' @ Quote (sk_Key secretRef) @ '' not found in secret''))
        | Some credentialsJSON \<Rightarrow>
       (case ParseAdminAPICredentials credentialsJSON of
          Inl err \<Rightarrow> Inl (Wrapped ''cannot parse admin API credentials: '' err)
        | Inr creds \<Rightarrow>
       (case factory creds of
          Inl err \<Rightarrow> Inl (Wrapped ''cannot connect to HANA Cloud API: '' err)
        | Inr client \<Rightarrow> Inr client))))
   | _ \<Rightarrow> Inl (ErrorString errNotInstanceMapping))"

definition stringPtrEqual :: "string option \<Rightarrow> string option \<Rightarrow> bool" where
  "stringPtrEqual a b = (case (a, b) of
     (None, None) \<Rightarrow> True | (Some x, Some y) \<Rightarrow> x = y | _ \<Rightarrow> False)"

text \<open>\<open>now\<close> is the clock.\<close>

definition instancemapping_Observe :: "('w \<Rightarrow> string) \<Rightarrow> 'w imClient \<Rightarrow> (ExternalObservation, 'w) handler" where
  "instancemapping_Observe now client mg w = (case mg of
     MInstanceMapping cr \<Rightarrow>
       let params = instancemapping_ForProvider cr in
       (case im_List client (imp_ServiceInstanceID params) w of
          (Inl err, w') \<Rightarrow> (Inl (Wrapped ''cannot list instance mappings: '' err), mg, w')
        | (Inr mappings, w') \<Rightarrow>
            if list_ex (\<lambda>m. im_PrimaryID m = imp_PrimaryID params \<and> stringPtrEqual (im_SecondaryID m) (imp_SecondaryID params)) mappings
            then
              let cr = cr\<lparr>instancemapping_AtProvider := \<lparr>imo_MappingExists = True, imo_LastSyncTime = Some (now w')\<rparr>\<rparr>;
                  cr = SetConditions Available cr
              in (Inr (present True), MInstanceMapping cr, w')
            else
              let cr = cr\<lparr>instancemapping_AtProvider := (instancemapping_AtProvider cr)\<lparr>imo_MappingExists := False\<rparr>\<rparr>
              in (Inr absent, MInstanceMapping cr, w'))
   | _ \<Rightarrow> (Inl (ErrorString errNotInstanceMapping), mg, w))"

definition instancemapping_Create :: "'w imClient \<Rightarrow> (ConnectionDetails, 'w) handler" where
  "instancemapping_Create client mg w = (case mg of
     MInstanceMapping cr \<Rightarrow>
       let params = instancemapping_ForProvider cr;
           req = \<lparr>cm_Platform = imp_Platform params, cm_PrimaryID = imp_PrimaryID params,
                  cm_SecondaryID = imp_SecondaryID params, cm_IsDefault = imp_IsDefault params\<rparr> in
       (case im_Create client (imp_ServiceInstanceID params) req w of
          (Inl err, w') \<Rightarrow> (Inl (Wrapped ''cannot create instance mapping: '' err), mg, w')
        | (Inr _, w') \<Rightarrow> (Inr [], MInstanceMapping (SetConditions Creating cr), w'))
   | _ \<Rightarrow> (Inl (ErrorString errNotInstanceMapping), mg, w))"

definition instancemapping_Update :: "(unit, 'w) handler" where
  "instancemapping_Update mg w = (Inr (), mg, w)"

definition instancemapping_Delete :: "'w imClient \<Rightarrow> (unit, 'w) handler" where
  "instancemapping_Delete client mg w = (case mg of
     MInstanceMapping cr \<Rightarrow>
       let params = instancemapping_ForProvider cr;
           secondaryID = (case imp_SecondaryID params of None \<Rightarrow> [] | Some s \<Rightarrow> s) in
       (case im_Delete client (imp_ServiceInstanceID params) (imp_PrimaryID params) secondaryID w of
          (Inl err, w') \<Rightarrow> (Inl (Wrapped ''cannot delete instance mapping: '' err), mg, w')
        | (Inr _, w') \<Rightarrow> (Inr (), MInstanceMapping (SetConditions Deleting cr), w'))
   | _ \<Rightarrow> (Inl (ErrorString errNotInstanceMapping), mg, w))"

definition instancemapping_external :: "('w \<Rightarrow> string) \<Rightarrow> 'w imClient \<Rightarrow> 'w ExternalClient" where
  "instancemapping_external now client = \<lparr>Observe = instancemapping_Observe now client, Create = instancemapping_Create client,
     Update = instancemapping_Update, Delete = instancemapping_Delete client\<rparr>"

section \<open>Interfaces\<close>

lemmas instancemapping_handlers = instancemapping_external_def instancemapping_Observe_def instancemapping_Create_def
  instancemapping_Update_def instancemapping_Delete_def

text \<open>\<open>Delete\<close> sets its condition only when it succeeded, so the controller satisfies the weaker contract.\<close>

lemma instancemapping_keeps:
  "\<exists>cr' cs. fst (after_call (instancemapping_external now client) k (MInstanceMapping cr) w) = MInstanceMapping cr' \<and>
     instancemapping_ForProvider cr' = instancemapping_ForProvider cr \<and> set_conditions cr' = set_conditions cr @ cs"
  by (cases k)
     (auto simp: instancemapping_handlers SetConditions_def Let_def split: prod.split sum.split)

interpretation instancemapping_client: managed_client "instancemapping_external now client" MInstanceMapping
  instancemapping_ForProvider set_conditions "ErrorString errNotInstanceMapping" for now and client :: "'w imClient"
proof (unfold_locales, goal_cases)
  case 5
  show ?case by (rule instancemapping_keeps)
qed (auto simp: instancemapping_handlers split: Managed.splits)

section \<open>Properties\<close>

text \<open>A mapping as the service sends it, with the tags of the structure; an absent secondary identifier is left out.\<close>

definition mapping_json :: "mapping \<Rightarrow> json" where
  "mapping_json m = JObject ([(''platform'', JString (im_Platform m)), (''primaryID'', JString (im_PrimaryID m))] @
     (case im_SecondaryID m of None \<Rightarrow> [] | Some s \<Rightarrow> [(''secondaryID'', JString s)]) @ [(''isDefault'', JBool (im_IsDefault m))])"

lemma mapping_json_read: "json_struct mapping_fields (mapping_json m) zero_mapping = Inr m"
  by (cases m; cases "im_SecondaryID m")
     (simp_all add: mapping_json_def json_struct_def json_field_def mapping_fields_def zero_mapping_def
        json_to_string_def json_to_pointer_def json_to_bool_def)

lemma mapping_json_plain: "plain (mapping_json m)" "depth (mapping_json m) = 1"
  by (simp_all add: mapping_json_def split: option.split)

lemma json_elements_map: "(\<And>x. f (g x) = Inr x) \<Longrightarrow> json_elements f (map g xs) = Inr xs"
  by (induction xs) simp_all

definition mappings_body :: "mapping list \<Rightarrow> string" where
  "mappings_body ms = json_Marshal (JObject [(''mappings'', JArray (map mapping_json ms))])"

lemma fold_max_le: "\<forall>x \<in> set xs. x \<le> b \<Longrightarrow> a \<le> b \<Longrightarrow> fold max xs a \<le> (b :: nat)"
  by (induction xs arbitrary: a) auto

lemma mappings_body_read: "json_Unmarshal listMappingsResponse (mappings_body ms) [] = Inr ms"
proof -
  let ?v = "JObject [(''mappings'', JArray (map mapping_json ms))]"
  have "fold max (map depth (map mapping_json ms)) 0 \<le> 1"
    by (rule fold_max_le) (auto simp: mapping_json_plain)
  then have "json_parse (mappings_body ms) = Some ?v"
    unfolding mappings_body_def by (intro json_parse_Marshal) (simp_all add: mapping_json_plain list_all_iff)
  then show ?thesis
    by (simp add: json_Unmarshal_def listMappingsResponse_def json_struct_def [of "[(_, mappings_field)]"] json_field_def
        mappings_field_def json_elements_map mapping_json_read)
qed

text \<open>
  C36. Observing an instance mapping. When the service answers with its mappings, written as JSON with
  any characters in their texts, the controller reports the resource as existing exactly when one of
  them has its primary and its secondary identifier, and records that in the status. Platform and
  default flag are not compared.
\<close>

theorem instancemapping_observe_finds:
  assumes "http_NewRequest http ''GET'' url = None" and "url = mappings_URL base (imp_ServiceInstanceID (instancemapping_ForProvider cr))"
    and "http_Do http \<lparr>rq_Method = ''GET'', rq_URL = url, rq_Header = [], rq_Body = None\<rparr> w =
        (Inr \<lparr>rs_StatusCode = 200, rs_Body = mappings_body ms, rs_ReadErr = None\<rparr>, w')"
    and "found \<longleftrightarrow> (\<exists>m \<in> set ms. im_PrimaryID m = imp_PrimaryID (instancemapping_ForProvider cr)
        \<and> im_SecondaryID m = imp_SecondaryID (instancemapping_ForProvider cr))"
  shows "\<exists>cr'. instancemapping_Observe now (NewClient base http) (MInstanceMapping cr) w =
        (Inr (if found then present True else absent), MInstanceMapping cr', w')
      \<and> instancemapping_ForProvider cr' = instancemapping_ForProvider cr
      \<and> imo_MappingExists (instancemapping_AtProvider cr') = found"
proof -
  have "stringPtrEqual a b \<longleftrightarrow> a = b" for a b by (simp add: stringPtrEqual_def split: option.split)
  then have "found \<longleftrightarrow> list_ex (\<lambda>m. im_PrimaryID m = imp_PrimaryID (instancemapping_ForProvider cr)
      \<and> stringPtrEqual (im_SecondaryID m) (imp_SecondaryID (instancemapping_ForProvider cr))) ms"
    using assms(4) by (simp add: list_ex_iff)
  moreover have "im_List (NewClient base http) (imp_ServiceInstanceID (instancemapping_ForProvider cr)) w = (Inr ms, w')"
    using assms(1-3) by (simp add: NewClient_def mappings_List_def http_perform_def mappings_body_read)
  ultimately show ?thesis
    by (simp add: instancemapping_Observe_def SetConditions_def Let_def)
qed

definition sample_service :: "mapping list \<Rightarrow> unit http_client" where
  "sample_service ms = \<lparr>http_NewRequest = (\<lambda>method url. None),
     http_Do = (\<lambda>req w. (Inr \<lparr>rs_StatusCode = 200, rs_Body = mappings_body ms, rs_ReadErr = None\<rparr>, w))\<rparr>"

definition sample_instancemapping :: InstanceMapping where
  "sample_instancemapping =
     \<lparr>metadata = \<lparr>om_Name = ''m'', om_Namespace = [], om_UID = [], om_ExternalName = None\<rparr>,
      providerConfigReference = None, set_conditions = [], status_conditions = [],
      instancemapping_ForProvider = \<lparr>imp_ServiceInstanceID = ''i'', imp_Platform = ''kubernetes'', imp_PrimaryID = ''c'',
        imp_SecondaryID = Some ''n'', imp_IsDefault = False,
        imp_AdminCredentialsSecretRef = \<lparr>sr_Name = ''s'', sr_Namespace = ''ns'', sk_Key = ''credentials''\<rparr>\<rparr>,
      instancemapping_AtProvider = \<lparr>imo_MappingExists = False, imo_LastSyncTime = None\<rparr>\<rparr>"

theorem instancemapping_observe_finds_witness:
  "fst (instancemapping_Observe (\<lambda>w. ''t'') (NewClient ''api'' (sample_service
      [\<lparr>im_Platform = ''kubernetes'', im_PrimaryID = ''c'', im_SecondaryID = Some ''n'', im_IsDefault = True\<rparr>]))
      (MInstanceMapping sample_instancemapping) ()) = Inr (present True)"
proof -
  let ?ms = "[\<lparr>im_Platform = ''kubernetes'', im_PrimaryID = ''c'', im_SecondaryID = Some ''n'', im_IsDefault = True\<rparr>]"
  have "http_NewRequest (sample_service ?ms) ''GET'' u = None" for u by (simp add: sample_service_def)
  moreover have "http_Do (sample_service ?ms) r () =
      (Inr \<lparr>rs_StatusCode = 200, rs_Body = mappings_body ?ms, rs_ReadErr = None\<rparr>, ())" for r
    by (simp add: sample_service_def)
  ultimately have "\<exists>cr'. instancemapping_Observe (\<lambda>w. ''t'') (NewClient ''api'' (sample_service ?ms)) (MInstanceMapping sample_instancemapping) () =
      (Inr (if True then present True else absent), MInstanceMapping cr', ())
      \<and> instancemapping_ForProvider cr' = instancemapping_ForProvider sample_instancemapping
      \<and> imo_MappingExists (instancemapping_AtProvider cr') = True"
    by (intro instancemapping_observe_finds [where ms = ?ms, OF _ refl]) (simp_all add: sample_instancemapping_def)
  then show ?thesis by auto
qed

text \<open>What the client sends and what the controllers write for each other is read back unchanged.\<close>

lemma request_json_read:
  "json_Unmarshal (json_struct mapping_fields) (json_Marshal (request_json req)) zero_mapping =
     Inr \<lparr>im_Platform = cm_Platform req, im_PrimaryID = cm_PrimaryID req, im_SecondaryID = cm_SecondaryID req, im_IsDefault = cm_IsDefault req\<rparr>"
proof -
  have "json_parse (json_Marshal (request_json req)) = Some (request_json req)"
    by (rule json_parse_Marshal) (simp_all add: request_json_def split: option.split)
  then show ?thesis
    by (simp add: json_Unmarshal_def request_json_def json_struct_def json_field_def mapping_fields_def zero_mapping_def
        json_to_string_def json_to_pointer_def json_to_bool_def split: option.split)
qed

end
