(* ===== verification/KymaInstanceMappings.thy ===== *)
theory KymaInstanceMappings
  imports InstanceMappings
begin

text \<open>
  Kyma instance mappings: the controller \<open>internal/controller/kymainstancemapping\<close> and the remote cluster
  client \<open>internal/clients/remotecluster\<close>. The controller reads a service instance, a service binding and
  its secret from a cluster, and creates a secret with credentials and a child \<open>InstanceMapping\<close>, which
  the controller of \<open>InstanceMappings\<close> reconciles.
\<close>

section \<open>The clusters\<close>

text \<open>
  What is read from the Kyma cluster; the types belong to the SAP BTP service operator. A condition is
  its type with its status. The data of a config map is a map.
\<close>

record ServiceInstance =
  si_Name :: string
  si_InstanceID :: string
  si_Conditions :: "(string \<times> string) list"

record ServiceBinding =
  sb_Namespace :: string
  sb_SecretName :: string

record 'w ClusterClient =
  GetServiceInstance :: "string \<Rightarrow> string \<Rightarrow> 'w \<Rightarrow> error + ServiceInstance"
  GetServiceBinding :: "string \<Rightarrow> string \<Rightarrow> 'w \<Rightarrow> error + ServiceBinding"
  GetClusterSecret :: "string \<Rightarrow> string \<Rightarrow> 'w \<Rightarrow> error + gomap"
  GetConfigMap :: "string \<Rightarrow> string \<Rightarrow> 'w \<Rightarrow> error + gomap"

text \<open>The management cluster, with the objects the controller writes there.\<close>

record OwnerReference =
  or_APIVersion :: string
  or_Kind :: string
  or_Name :: string
  or_UID :: string
  or_Controller :: "bool option"
  or_BlockOwnerDeletion :: "bool option"

record Secret =
  secret_Name :: string
  secret_Namespace :: string
  secret_OwnerReferences :: "OwnerReference list"
  secret_Data :: gomap

record 'w ManagementClient = "'w Kube" +
  GetInstanceMapping :: "string \<Rightarrow> 'w \<Rightarrow> error + InstanceMapping"
  GetSecretObject :: "string \<Rightarrow> string \<Rightarrow> 'w \<Rightarrow> error + Secret"
  CreateSecret :: "Secret \<Rightarrow> 'w \<Rightarrow> error option \<times> 'w"
  UpdateSecret :: "Secret \<Rightarrow> 'w \<Rightarrow> error option \<times> 'w"
  CreateInstanceMapping :: "OwnerReference list \<Rightarrow> InstanceMapping \<Rightarrow> 'w \<Rightarrow> error option \<times> 'w"

text \<open>\<open>apierrors.IsNotFound\<close> and \<open>apierrors.IsAlreadyExists\<close>: the reason of a status error in the chain.\<close>

definition api_reason :: "error \<Rightarrow> string option" where
  "api_reason err = (case error_root err of ApiStatus reason text \<Rightarrow> Some reason | _ \<Rightarrow> None)"

definition IsNotFound :: "error \<Rightarrow> bool" where
  "IsNotFound err = (api_reason err = Some ''NotFound'')"

definition IsAlreadyExists :: "error \<Rightarrow> bool" where
  "IsAlreadyExists err = (api_reason err = Some ''AlreadyExists'')"

section \<open>Remote clusters\<close>

text \<open>The functions of \<open>client-go\<close> and \<open>controller-runtime\<close> behind a remote client.\<close>

record ('cfg, 'w) remote_api =
  RESTConfigFromKubeConfig :: "string \<Rightarrow> error + 'cfg"
  corev1_AddToScheme :: "error option"
  services_AddToScheme :: "error option"
  client_New :: "'cfg \<Rightarrow> error + 'w ClusterClient"

definition CreateRemoteClient :: "('cfg, 'w) remote_api \<Rightarrow> string \<Rightarrow> error + 'w ClusterClient" where
  "CreateRemoteClient api kubeconfigData = (case RESTConfigFromKubeConfig api kubeconfigData of
     Inl err \<Rightarrow> Inl (Wrapped ''failed to create REST config from kubeconfig: '' err)
   | Inr restConfig \<Rightarrow>
  (case corev1_AddToScheme api of
     Some err \<Rightarrow> Inl (Wrapped ''failed to add core v1 to scheme: '' err)
   | None \<Rightarrow>
  (case services_AddToScheme api of
     Some err \<Rightarrow> Inl (Wrapped ''failed to add BTP service operator v1 to scheme: '' err)
   | None \<Rightarrow>
  (case client_New api restConfig of
     Inl err \<Rightarrow> Inl (Wrapped ''failed to create remote client: '' err)
   | Inr remoteClient \<Rightarrow> Inr remoteClient))))"

section \<open>Connect\<close>

record kymaExtractedData =
  ky_serviceInstanceID :: string
  ky_clusterID :: string
  ky_serviceInstanceName :: string
  ky_serviceInstanceReady :: bool
  ky_adminAPICredentials :: AdminAPICredentials

definition errNotKymaInstanceMapping :: string where
  "errNotKymaInstanceMapping = ''managed resource is not a KymaInstanceMapping custom resource''"

definition getKubeconfigData :: "('w, 'k) Kube_scheme \<Rightarrow> KymaInstanceMapping \<Rightarrow> 'w \<Rightarrow> error + string" where
  "getKubeconfigData kube cr w = (case kp_KymaConnectionRef (kyma_ForProvider cr) of
     None \<Rightarrow> Inr []
   | Some conn \<Rightarrow>
       let ref = kc_SecretRef conn;
           key = (if kc_KubeconfigKey conn = [] then ''kubeconfig'' else kc_KubeconfigKey conn) in
       (case GetSecret kube (sr_Namespace ref) (sr_Name ref) w of
          Inl err \<Rightarrow> Inl (Wrapped ''cannot get kubeconfig secret: '' err)
        | Inr data \<Rightarrow>
            (case gomap_get data key of
               None \<Rightarrow> Inl (ErrorString (''kubeconfig key '' @ Quote key @ '' not found in secret''))
             | Some kubeconfigData \<Rightarrow> Inr kubeconfigData)))"

definition isConditionTrue :: "(string \<times> string) list \<Rightarrow> string \<Rightarrow> bool" where
  "isConditionTrue conditions condType = list_ex (\<lambda>(t, status). t = condType \<and> status = ''True'') conditions"

definition isServiceInstanceReady :: "ServiceInstance \<Rightarrow> bool" where
  "isServiceInstanceReady si = list_ex (\<lambda>(t, status). t = ''Ready'' \<and> status = ''True'') (si_Conditions si)"

text \<open>The JSON text is put together without escaping.\<close>

definition parseAdminAPICredentials :: "gomap \<Rightarrow> error + AdminAPICredentials" where
  "parseAdminAPICredentials data = (case gomap_get data ''baseurl'' of
     None \<Rightarrow> Inl (ErrorString ''admin API credentials secret missing required keys'')
   | Some urlBytes \<Rightarrow>
  (case gomap_get data ''uaa'' of
     None \<Rightarrow> Inl (ErrorString ''admin API credentials secret missing required keys'')
   | Some uaaBytes \<Rightarrow>
       ParseAdminAPICredentials (''{'' @ [dq] @ ''baseurl'' @ [dq] @ '':'' @ [dq] @ urlBytes @ [dq] @ '','' @
         [dq] @ ''uaa'' @ [dq] @ '':'' @ uaaBytes @ ''}'')))"

definition extractKymaData :: "'w ClusterClient \<Rightarrow> KymaInstanceMapping \<Rightarrow> 'w \<Rightarrow> error + kymaExtractedData" where
  "extractKymaData cluster cr w =
     (let p = kyma_ForProvider cr in
      case GetServiceInstance cluster (rr_Namespace (kp_ServiceInstanceRef p)) (rr_Name (kp_ServiceInstanceRef p)) w of
        Inl err \<Rightarrow> Inl (Wrapped ''cannot get ServiceInstance from remote cluster: '' err)
      | Inr serviceInstance \<Rightarrow>
      if si_InstanceID serviceInstance = [] then Inl (ErrorString ''ServiceInstance on remote cluster has no instanceID'')
      else
     (case GetServiceBinding cluster (rr_Namespace (kp_AdminBindingRef p)) (rr_Name (kp_AdminBindingRef p)) w of
        Inl err \<Rightarrow> Inl (Wrapped ''cannot get ServiceBinding from remote cluster: '' err)
      | Inr serviceBinding \<Rightarrow>
     (case GetClusterSecret cluster (sb_Namespace serviceBinding) (sb_SecretName serviceBinding) w of
        Inl err \<Rightarrow> Inl (Wrapped ''cannot get admin API credentials secret from remote cluster: '' err)
      | Inr adminSecret \<Rightarrow>
     (case parseAdminAPICredentials adminSecret of
        Inl err \<Rightarrow> Inl (Wrapped ''cannot parse admin API credentials: '' err)
      | Inr creds \<Rightarrow>
      let cmRef = (case kp_ClusterIDConfigMapRef p of
            None \<Rightarrow> \<lparr>rr_Name = ''sap-btp-operator-config'', rr_Namespace = ''kyma-system''\<rparr> | Some r \<Rightarrow> r) in
     (case GetConfigMap cluster (rr_Namespace cmRef) (rr_Name cmRef) w of
        Inl err \<Rightarrow> Inl (Wrapped ''cannot get ConfigMap from remote cluster: '' err)
      | Inr configMap \<Rightarrow>
     (case gomap_get configMap ''CLUSTER_ID'' of
        None \<Rightarrow> Inl (ErrorString ''CLUSTER_ID not found in ConfigMap'')
      | Some clusterID \<Rightarrow>
          Inr \<lparr>ky_serviceInstanceID = si_InstanceID serviceInstance, ky_clusterID = clusterID,
            ky_serviceInstanceName = si_Name serviceInstance, ky_serviceInstanceReady = isServiceInstanceReady serviceInstance,
            ky_adminAPICredentials = creds\<rparr>))))))"

definition kyma_cluster ::
  "('w, 'k) Kube_scheme \<Rightarrow> 'w ClusterClient \<Rightarrow> ('cfg, 'w) remote_api \<Rightarrow> KymaInstanceMapping \<Rightarrow> 'w \<Rightarrow> error + 'w ClusterClient" where
  "kyma_cluster kube local_cluster api cr w = (case kp_KymaConnectionRef (kyma_ForProvider cr) of
     None \<Rightarrow> Inr local_cluster
   | Some _ \<Rightarrow>
       (case getKubeconfigData kube cr w of
          Inl err \<Rightarrow> Inl err
        | Inr kubeconfigData \<Rightarrow>
            (case CreateRemoteClient api kubeconfigData of
               Inl err \<Rightarrow> Inl (Wrapped ''cannot create remote cluster client: '' err)
             | Inr cluster \<Rightarrow> Inr cluster)))"

text \<open>\<open>Connect\<close> already writes a part of the status.\<close>

definition kyma_Connect ::
  "('w, 'k) Kube_scheme \<Rightarrow> 'w ClusterClient \<Rightarrow> ('cfg, 'w) remote_api \<Rightarrow> (kymaExtractedData, 'w) handler" where
  "kyma_Connect kube local_cluster api mg w = (case mg of
     MKymaInstanceMapping cr \<Rightarrow>
       (case Track kube mg w of
          (Some err, w') \<Rightarrow> (Inl (Wrapped ''cannot track ProviderConfig usage: '' err), mg, w')
        | (None, w') \<Rightarrow>
       (case kyma_cluster kube local_cluster api cr w' of
          Inl err \<Rightarrow> (Inl err, mg, w')
        | Inr cluster \<Rightarrow>
       (case extractKymaData cluster cr w' of
          Inl err \<Rightarrow> (Inl (Wrapped ''cannot extract data from Kyma cluster: '' err), mg, w')
        | Inr kymaData \<Rightarrow>
            let cr = cr\<lparr>kyma_AtProvider := (kyma_AtProvider cr)\<lparr>ko_Kyma := Some
                  \<lparr>kco_ServiceInstanceID = ky_serviceInstanceID kymaData, kco_ClusterID = ky_clusterID kymaData,
                   kco_ServiceInstanceName = ky_serviceInstanceName kymaData, kco_ServiceInstanceReady = ky_serviceInstanceReady kymaData\<rparr>\<rparr>\<rparr>
            in (Inr kymaData, MKymaInstanceMapping cr, w'))))
   | _ \<Rightarrow> (Inl (ErrorString errNotKymaInstanceMapping), mg, w))"

section \<open>Handlers\<close>

definition getCredentialsNamespace :: "KymaInstanceMapping \<Rightarrow> string" where
  "getCredentialsNamespace cr =
     (if kp_CredentialsSecretNamespace (kyma_ForProvider cr) \<noteq> [] then kp_CredentialsSecretNamespace (kyma_ForProvider cr)
      else ''crossplane-system'')"

definition getChildResourceNames :: "KymaInstanceMapping \<Rightarrow> string \<times> string" where
  "getChildResourceNames cr = (om_Name (metadata cr) @ ''-admin-creds'', om_Name (metadata cr) @ ''-mapping'')"

definition credentials_json :: "AdminAPICredentials \<Rightarrow> json" where
  "credentials_json creds = JObject [(''baseurl'', JString (ac_BaseURL creds)),
     (''uaa'', JObject [(''url'', JString (ua_URL (ac_UAA creds))), (''clientid'', JString (ua_ClientID (ac_UAA creds))),
        (''clientsecret'', JString (ua_ClientSecret (ac_UAA creds)))])]"

definition buildCredentialsJSON :: "AdminAPICredentials \<Rightarrow> string" where
  "buildCredentialsJSON creds = json_Marshal (credentials_json creds)"

definition kyma_Observe :: "'w ManagementClient \<Rightarrow> (ExternalObservation, 'w) handler" where
  "kyma_Observe kube mg w = (case mg of
     MKymaInstanceMapping cr \<Rightarrow>
       let (secretName, imName) = getChildResourceNames cr;
           ns = getCredentialsNamespace cr in
       (case GetInstanceMapping kube imName w of
          Inl err \<Rightarrow>
            if IsNotFound err then (Inr absent, mg, w)
            else (Inl (Wrapped ''cannot get InstanceMapping: '' err), mg, w)
        | Inr im \<Rightarrow>
            let ready = isConditionTrue (status_conditions im) ''Ready'';
                at = (kyma_AtProvider cr)\<lparr>ko_ChildResources := Some
                  \<lparr>ch_InstanceMappingName = imName, ch_CredentialsSecretName = secretName, ch_CredentialsSecretNamespace = ns,
                   ch_InstanceMappingReady = ready, ch_InstanceMappingSynced = isConditionTrue (status_conditions im) ''Synced''\<rparr>\<rparr>;
                p = instancemapping_ForProvider im;
                at = (if imo_MappingExists (instancemapping_AtProvider im)
                      then at\<lparr>ko_Hana := Some \<lparr>hc_MappingID = Some \<lparr>mi_ServiceInstanceID = imp_ServiceInstanceID p,
                         mi_PrimaryID = imp_PrimaryID p, mi_SecondaryID = imp_SecondaryID p\<rparr>, hc_Ready = ready\<rparr>\<rparr>
                      else at);
                cr = cr\<lparr>kyma_AtProvider := at\<rparr>;
                cr = (if ready then SetConditions Available cr else cr)
            in (Inr (present True), MKymaInstanceMapping cr, w))
   | _ \<Rightarrow> (Inl (ErrorString errNotKymaInstanceMapping), mg, w))"

definition kyma_owner :: "KymaInstanceMapping \<Rightarrow> OwnerReference list" where
  "kyma_owner cr = [\<lparr>or_APIVersion = ''inventory.hana.orchestrate.cloud.sap/v1alpha1'', or_Kind = ''KymaInstanceMapping'',
     or_Name = om_Name (metadata cr), or_UID = om_UID (metadata cr), or_Controller = Some True, or_BlockOwnerDeletion = Some True\<rparr>]"

definition child_secret :: "kymaExtractedData \<Rightarrow> KymaInstanceMapping \<Rightarrow> Secret" where
  "child_secret kymaData cr = \<lparr>secret_Name = fst (getChildResourceNames cr), secret_Namespace = getCredentialsNamespace cr,
     secret_OwnerReferences = kyma_owner cr,
     secret_Data = [(''credentials'', buildCredentialsJSON (ky_adminAPICredentials kymaData))]\<rparr>"

definition child_mapping :: "kymaExtractedData \<Rightarrow> KymaInstanceMapping \<Rightarrow> InstanceMapping" where
  "child_mapping kymaData cr =
     \<lparr>metadata = \<lparr>om_Name = snd (getChildResourceNames cr), om_Namespace = [], om_UID = [], om_ExternalName = None\<rparr>,
      providerConfigReference = None, set_conditions = [], status_conditions = [],
      instancemapping_ForProvider =
        \<lparr>imp_ServiceInstanceID = ky_serviceInstanceID kymaData, imp_Platform = ''kubernetes'',
         imp_PrimaryID = ky_clusterID kymaData, imp_SecondaryID = kp_TargetNamespace (kyma_ForProvider cr),
         imp_IsDefault = kp_IsDefault (kyma_ForProvider cr),
         imp_AdminCredentialsSecretRef = \<lparr>sr_Name = fst (getChildResourceNames cr), sr_Namespace = getCredentialsNamespace cr,
           sk_Key = ''credentials''\<rparr>\<rparr>,
      instancemapping_AtProvider = \<lparr>imo_MappingExists = False, imo_LastSyncTime = None\<rparr>\<rparr>"

text \<open>The first step of \<open>Create\<close>: the secret is created, or its data replaced when it is there already.\<close>

definition write_secret :: "'w ManagementClient \<Rightarrow> Secret \<Rightarrow> 'w \<Rightarrow> error option \<times> 'w" where
  "write_secret kube secret w = (case CreateSecret kube secret w of
     (None, w') \<Rightarrow> (None, w')
   | (Some err, w') \<Rightarrow>
       if \<not> IsAlreadyExists err then (Some (Wrapped ''cannot create credentials secret: '' err), w')
       else
         (case GetSecretObject kube (secret_Namespace secret) (secret_Name secret) w' of
            Inl err \<Rightarrow> (Some (Wrapped ''cannot update credentials secret: '' err), w')
          | Inr existing \<Rightarrow>
              (case UpdateSecret kube (existing\<lparr>secret_Data := secret_Data secret\<rparr>) w' of
                 (Some err, w2) \<Rightarrow> (Some (Wrapped ''cannot update credentials secret: '' err), w2)
               | (None, w2) \<Rightarrow> (None, w2))))"

definition write_mapping :: "'w ManagementClient \<Rightarrow> OwnerReference list \<Rightarrow> InstanceMapping \<Rightarrow> 'w \<Rightarrow> error option \<times> 'w" where
  "write_mapping kube owners im w = (case CreateInstanceMapping kube owners im w of
     (None, w') \<Rightarrow> (None, w')
   | (Some err, w') \<Rightarrow>
       if IsAlreadyExists err then (None, w') else (Some (Wrapped ''cannot create InstanceMapping: '' err), w'))"

definition kyma_Create :: "kymaExtractedData \<Rightarrow> 'w ManagementClient \<Rightarrow> (ConnectionDetails, 'w) handler" where
  "kyma_Create kymaData kube mg w = (case mg of
     MKymaInstanceMapping cr \<Rightarrow>
       let (secretName, imName) = getChildResourceNames cr in
       (case and_then (write_secret kube (child_secret kymaData cr) w)
               (write_mapping kube (kyma_owner cr) (child_mapping kymaData cr)) of
          (Some err, w') \<Rightarrow> (Inl err, mg, w')
        | (None, w') \<Rightarrow>
            let cr = cr\<lparr>kyma_AtProvider := (kyma_AtProvider cr)\<lparr>ko_ChildResources := Some
                  \<lparr>ch_InstanceMappingName = imName, ch_CredentialsSecretName = secretName,
                   ch_CredentialsSecretNamespace = getCredentialsNamespace cr, ch_InstanceMappingReady = False, ch_InstanceMappingSynced = False\<rparr>\<rparr>\<rparr>
            in (Inr [], MKymaInstanceMapping (SetConditions Creating cr), w'))
   | _ \<Rightarrow> (Inl (ErrorString errNotKymaInstanceMapping), mg, w))"

definition kyma_Update :: "(unit, 'w) handler" where
  "kyma_Update mg w = (Inr (), mg, w)"

definition kyma_Delete :: "(unit, 'w) handler" where
  "kyma_Delete mg w = (case mg of
     MKymaInstanceMapping cr \<Rightarrow> (Inr (), MKymaInstanceMapping (SetConditions Deleting cr), w)
   | _ \<Rightarrow> (Inl (ErrorString errNotKymaInstanceMapping), mg, w))"

definition kyma_external :: "kymaExtractedData \<Rightarrow> 'w ManagementClient \<Rightarrow> 'w ExternalClient" where
  "kyma_external kymaData kube = \<lparr>Observe = kyma_Observe kube, Create = kyma_Create kymaData kube, Update = kyma_Update, Delete = kyma_Delete\<rparr>"

section \<open>Interfaces\<close>

lemmas kyma_handlers = kyma_external_def kyma_Observe_def kyma_Create_def kyma_Update_def kyma_Delete_def

lemma kyma_keeps:
  "\<exists>cr' cs. fst (after_call (kyma_external kymaData kube) k (MKymaInstanceMapping cr) w) = MKymaInstanceMapping cr' \<and>
     kyma_ForProvider cr' = kyma_ForProvider cr \<and> set_conditions cr' = set_conditions cr @ cs \<and>
     (k = CallDelete \<longrightarrow> cs = [Deleting])"
  by (cases k)
     (auto simp: kyma_handlers getChildResourceNames_def SetConditions_def Let_def split: prod.split sum.split option.split)

interpretation kyma_client: external_client "kyma_external kymaData kube" MKymaInstanceMapping kyma_ForProvider
  set_conditions "ErrorString errNotKymaInstanceMapping" for kymaData and kube :: "'w ManagementClient"
proof (unfold_locales, goal_cases)
  case 5
  show ?case by (rule kyma_keeps)
qed (auto simp: kyma_handlers split: Managed.splits)

section \<open>Properties\<close>

text \<open>
  An API server that stores secrets by namespace and name, and instance mappings, which are
  cluster-scoped, by name together with their owners.
\<close>

record api_store =
  st_secrets :: "string \<times> string \<Rightarrow> Secret option"
  st_mappings :: "string \<Rightarrow> (OwnerReference list \<times> InstanceMapping) option"

definition api_error :: "string \<Rightarrow> error" where
  "api_error reason = ApiStatus reason []"

definition store_client :: "api_store ManagementClient" where
  "store_client =
     \<lparr>GetProviderConfig = (\<lambda>name w. Inl (api_error ''NotFound'')),
      GetSecret = (\<lambda>ns name w. case st_secrets w (ns, name) of None \<Rightarrow> Inl (api_error ''NotFound'') | Some s \<Rightarrow> Inr (secret_Data s)),
      GetX509Provider = (\<lambda>ns name w. Inl (api_error ''NotFound'')),
      ListUsers = (\<lambda>w. Inr []),
      Track = (\<lambda>mg w. (None, w)),
      GetInstanceMapping = (\<lambda>name w. case st_mappings w name of None \<Rightarrow> Inl (api_error ''NotFound'') | Some (_, im) \<Rightarrow> Inr im),
      GetSecretObject = (\<lambda>ns name w. case st_secrets w (ns, name) of None \<Rightarrow> Inl (api_error ''NotFound'') | Some s \<Rightarrow> Inr s),
      CreateSecret = (\<lambda>s w. if st_secrets w (secret_Namespace s, secret_Name s) = None
        then (None, w\<lparr>st_secrets := (st_secrets w)((secret_Namespace s, secret_Name s) \<mapsto> s)\<rparr>)
        else (Some (api_error ''AlreadyExists''), w)),
      UpdateSecret = (\<lambda>s w. (None, w\<lparr>st_secrets := (st_secrets w)((secret_Namespace s, secret_Name s) \<mapsto> s)\<rparr>)),
      CreateInstanceMapping = (\<lambda>owners im w. if st_mappings w (om_Name (metadata im)) = None
        then (None, w\<lparr>st_mappings := (st_mappings w)(om_Name (metadata im) \<mapsto> (owners, im))\<rparr>)
        else (Some (api_error ''AlreadyExists''), w))\<rparr>"

text \<open>A store keeps every object under its own name.\<close>

definition store_ok :: "api_store \<Rightarrow> bool" where
  "store_ok w \<longleftrightarrow> (\<forall>ns name s. st_secrets w (ns, name) = Some s \<longrightarrow> secret_Namespace s = ns \<and> secret_Name s = name)"

definition secret_after :: "kymaExtractedData \<Rightarrow> KymaInstanceMapping \<Rightarrow> Secret option \<Rightarrow> Secret" where
  "secret_after kymaData cr old = (case old of
     None \<Rightarrow> child_secret kymaData cr
   | Some s \<Rightarrow> s\<lparr>secret_Data := secret_Data (child_secret kymaData cr)\<rparr>)"

definition store_after :: "kymaExtractedData \<Rightarrow> KymaInstanceMapping \<Rightarrow> api_store \<Rightarrow> api_store" where
  "store_after kymaData cr w =
     (let key = (getCredentialsNamespace cr, fst (getChildResourceNames cr)); im = snd (getChildResourceNames cr) in
      w\<lparr>st_secrets := (st_secrets w)(key \<mapsto> secret_after kymaData cr (st_secrets w key)),
        st_mappings := (if st_mappings w im = None
           then (st_mappings w)(im \<mapsto> (kyma_owner cr, child_mapping kymaData cr)) else st_mappings w)\<rparr>)"

lemma child_names [simp]:
  "secret_Namespace (child_secret kymaData cr) = getCredentialsNamespace cr"
  "secret_Name (child_secret kymaData cr) = fst (getChildResourceNames cr)"
  "om_Name (metadata (child_mapping kymaData cr)) = snd (getChildResourceNames cr)"
  by (simp_all add: child_secret_def child_mapping_def)

lemma api_error_reasons [simp]: "IsAlreadyExists (api_error r) = (r = ''AlreadyExists'')" "IsNotFound (api_error r) = (r = ''NotFound'')"
  by (simp_all add: IsAlreadyExists_def IsNotFound_def api_reason_def api_error_def)

lemma write_secret_store:
  assumes "store_ok w"
  shows "write_secret store_client (child_secret kymaData cr) w =
     (None, w\<lparr>st_secrets := (st_secrets w)((getCredentialsNamespace cr, fst (getChildResourceNames cr)) \<mapsto>
        secret_after kymaData cr (st_secrets w (getCredentialsNamespace cr, fst (getChildResourceNames cr))))\<rparr>)"
proof (cases "st_secrets w (getCredentialsNamespace cr, fst (getChildResourceNames cr))")
  case None
  then show ?thesis by (simp add: write_secret_def store_client_def secret_after_def)
next
  case (Some s)
  then have "secret_Namespace s = getCredentialsNamespace cr" "secret_Name s = fst (getChildResourceNames cr)"
    using assms unfolding store_ok_def by blast+
  then show ?thesis using Some by (simp add: write_secret_def store_client_def secret_after_def)
qed

lemma write_mapping_store:
  "write_mapping store_client (kyma_owner cr) (child_mapping kymaData cr) w =
     (None, w\<lparr>st_mappings := (if st_mappings w (snd (getChildResourceNames cr)) = None
        then (st_mappings w)(snd (getChildResourceNames cr) \<mapsto> (kyma_owner cr, child_mapping kymaData cr)) else st_mappings w)\<rparr>)"
  by (simp add: write_mapping_def store_client_def)

lemma kyma_Create_store:
  assumes "store_ok w"
  shows "\<exists>cr'. kyma_Create kymaData store_client (MKymaInstanceMapping cr) w = (Inr [], MKymaInstanceMapping cr', store_after kymaData cr w)
    \<and> metadata cr' = metadata cr \<and> kyma_ForProvider cr' = kyma_ForProvider cr"
proof -
  have "and_then (write_secret store_client (child_secret kymaData cr) w) (write_mapping store_client (kyma_owner cr) (child_mapping kymaData cr)) =
      (None, store_after kymaData cr w)"
    unfolding write_secret_store [OF assms] and_then_None write_mapping_store by (simp add: store_after_def Let_def)
  then show ?thesis by (simp add: kyma_Create_def SetConditions_def getChildResourceNames_def Let_def)
qed

lemma store_after_ok: "store_ok w \<Longrightarrow> store_ok (store_after kymaData cr w)"
  by (auto simp: store_ok_def store_after_def secret_after_def Let_def split: option.split)

lemma store_after_twice: "store_after kymaData cr (store_after kymaData cr w) = store_after kymaData cr w"
  by (auto simp: store_after_def secret_after_def Let_def split: option.split)

lemma store_after_cong:
  assumes "metadata cr' = metadata cr" "kyma_ForProvider cr' = kyma_ForProvider cr"
  shows "store_after kymaData cr' w = store_after kymaData cr w"
proof -
  have names: "getChildResourceNames cr' = getChildResourceNames cr" "getCredentialsNamespace cr' = getCredentialsNamespace cr"
      "kyma_owner cr' = kyma_owner cr"
    using assms by (simp_all add: getChildResourceNames_def getCredentialsNamespace_def kyma_owner_def)
  then have "child_secret kymaData cr' = child_secret kymaData cr" "child_mapping kymaData cr' = child_mapping kymaData cr"
    using assms(2) by (simp_all add: child_secret_def child_mapping_def)
  then show ?thesis using names unfolding store_after_def secret_after_def by presburger
qed


definition sample_kymaData :: kymaExtractedData where
  "sample_kymaData = \<lparr>ky_serviceInstanceID = ''i'', ky_clusterID = ''c'', ky_serviceInstanceName = ''hana'', ky_serviceInstanceReady = True,
     ky_adminAPICredentials = \<lparr>ac_BaseURL = ''api'', ac_UAA = \<lparr>ua_URL = ''https://uaa'', ua_ClientID = ''id'', ua_ClientSecret = ''a<b''\<rparr>\<rparr>\<rparr>"

definition sample_kyma :: KymaInstanceMapping where
  "sample_kyma =
     \<lparr>metadata = \<lparr>om_Name = ''k'', om_Namespace = [], om_UID = ''uid'', om_ExternalName = None\<rparr>,
      providerConfigReference = None, set_conditions = [], status_conditions = [],
      kyma_ForProvider = \<lparr>kp_KymaConnectionRef = None, kp_AdminBindingRef = \<lparr>rr_Name = ''b'', rr_Namespace = ''n''\<rparr>,
        kp_ServiceInstanceRef = \<lparr>rr_Name = ''hana'', rr_Namespace = ''n''\<rparr>, kp_TargetNamespace = Some ''n'',
        kp_ClusterIDConfigMapRef = None, kp_IsDefault = False, kp_CredentialsSecretNamespace = []\<rparr>,
      kyma_AtProvider = \<lparr>ko_Kyma = None, ko_Hana = None, ko_ChildResources = None\<rparr>\<rparr>"

definition empty_store :: api_store where
  "empty_store = \<lparr>st_secrets = (\<lambda>key. None), st_mappings = (\<lambda>name. None)\<rparr>"

lemma empty_store_ok: "store_ok empty_store"
  by (simp add: store_ok_def empty_store_def)


lemma credentials_read: "ParseAdminAPICredentials (buildCredentialsJSON creds) = Inr creds"
proof -
  have "json_parse (buildCredentialsJSON creds) = Some (credentials_json creds)"
    unfolding buildCredentialsJSON_def by (rule json_parse_Marshal) (simp_all add: credentials_json_def)
  then show ?thesis
    by (cases creds; cases "ac_UAA creds")
       (simp add: ParseAdminAPICredentials_def json_Unmarshal_def credentials_json_def json_struct_def json_field_def
          credentials_fields_def uaa_fields_def zero_credentials_def json_to_string_def)
qed

text \<open>
  C38. The two controllers understand each other. After \<open>Create\<close> of a Kyma instance mapping, the controller
  of the child reads the secret that was written and connects to the Admin API with exactly the base URL,
  client identifier, secret and token URL that were extracted from the cluster, whatever characters they
  contain.
\<close>

theorem kyma_child_connects:
  assumes "store_ok w" and "creds = ky_adminAPICredentials kymaData"
    and "ac_BaseURL creds \<noteq> []" "ua_URL (ac_UAA creds) \<noteq> []" "ua_ClientID (ac_UAA creds) \<noteq> []" "ua_ClientSecret (ac_UAA creds) \<noteq> []"
    and "kyma_Create kymaData store_client (MKymaInstanceMapping cr) w = (r, mg', w')"
  shows "instancemapping_Connect store_client (DefaultClientFactory oauth) (MInstanceMapping (child_mapping kymaData cr)) w' =
     Inr (Some (NewClient (ac_BaseURL creds)
       (oauth (ua_ClientID (ac_UAA creds)) (ua_ClientSecret (ac_UAA creds)) (ua_URL (ac_UAA creds) @ ''/oauth/token''))))"
proof -
  have "w' = store_after kymaData cr w" using kyma_Create_store [OF assms(1), of kymaData cr] assms(7) by auto
  then have "GetSecret store_client (getCredentialsNamespace cr) (fst (getChildResourceNames cr)) w' =
      Inr [(''credentials'', buildCredentialsJSON creds)]"
    using assms(2) by (simp add: store_client_def store_after_def secret_after_def child_secret_def Let_def split: option.split)
  then show ?thesis using assms(3-6)
    by (simp add: instancemapping_Connect_def child_mapping_def gomap_get_def credentials_read DefaultClientFactory_def
        hanacloud_Connect_def Let_def)
qed

definition sample_transport :: "string \<Rightarrow> api_store http_client" where
  "sample_transport token = \<lparr>http_NewRequest = (\<lambda>method url. None), http_Do = (\<lambda>req w. (Inl (ErrorString token), w))\<rparr>"

theorem kyma_child_connects_witness:
  "instancemapping_Connect store_client (DefaultClientFactory (\<lambda>i s u. sample_transport (i @ s @ u))) (MInstanceMapping (child_mapping sample_kymaData sample_kyma))
      (snd (snd (kyma_Create sample_kymaData store_client (MKymaInstanceMapping sample_kyma) empty_store))) =
     Inr (Some (NewClient ''api'' (sample_transport (''id'' @ ''a<b'' @ ''https://uaa/oauth/token''))))"
proof -
  obtain r mg' w' where k: "kyma_Create sample_kymaData store_client (MKymaInstanceMapping sample_kyma) empty_store = (r, mg', w')"
    by (metis prod_cases3)
  show ?thesis using kyma_child_connects [OF empty_store_ok refl _ _ _ _ k, where oauth = "\<lambda>i s u. sample_transport (i @ s @ u)"] k
    by (simp add: sample_kymaData_def)
qed

end
