(* ===== verification/GoMemory.thy ===== *)
theory GoMemory
  imports Prelude "HOL-Library.Sublist"
begin

text \<open>
  Memory, for the code whose point is which memory it shares: the generated methods of
  \<open>apis/\<close>. A value is what a Go variable holds; a pointer, a slice and a map hold addresses. Memory is
  the list of its cells, indexed by address: a cell holds a variable, an element of an array, or the
  table of a map. Allocating appends cells, so that an address is never used twice.

  A type says how to read a value: \<open>has_ty\<close> that it has the type in a memory, \<open>reach\<close> which cells it
  reaches, \<open>content_of\<close> what it means, with the addresses followed. The locale \<open>deep_copy\<close> is the contract of
  \<open>DeepCopyInto\<close>: only new cells are written and reached, and the content is the same; the lemmas
  about \<open>copy_ptr\<close>, \<open>copy_slice\<close>, \<open>copy_map\<close> and \<open>copy_fields\<close> derive it for the shapes the generator emits.
\<close>

section \<open>Values, types and memory\<close>

datatype val =
    VBool bool
  | VInt int
  | VString string
  | VPtr "nat option"
  | VSlice "(nat \<times> nat) option"
  | VMap "nat option"
  | VTable gomap
  | VStruct "(string \<times> val) list"

text \<open>A slice is the address of its first element and its length; a map is \<open>map[string]string\<close>, the only one
  that occurs.\<close>

datatype ty =
    TBool
  | TInt
  | TString
  | TPtr ty
  | TSlice ty
  | TMap
  | TStruct "(string \<times> ty) list"

type_synonym memory = "val list"

type_synonym copier = "val \<Rightarrow> memory \<Rightarrow> val \<times> memory"

text \<open>The value of a variable that was declared or allocated and not yet assigned.\<close>

fun zero_value :: "ty \<Rightarrow> val" and zero_value_fields :: "(string \<times> ty) list \<Rightarrow> (string \<times> val) list" where
  "zero_value TBool = VBool False"
| "zero_value TInt = VInt 0"
| "zero_value TString = VString []"
| "zero_value (TPtr t) = VPtr None"
| "zero_value (TSlice t) = VSlice None"
| "zero_value TMap = VMap None"
| "zero_value (TStruct fs) = VStruct (zero_value_fields fs)"
| "zero_value_fields [] = []"
| "zero_value_fields ((f, t) # fs) = (f, zero_value t) # zero_value_fields fs"

text \<open>Types without pointers, slices and maps: an assignment copies everything.\<close>

fun plain :: "ty \<Rightarrow> bool" and plain_fields :: "(string \<times> ty) list \<Rightarrow> bool" where
  "plain TBool = True"
| "plain TInt = True"
| "plain TString = True"
| "plain (TPtr t) = False"
| "plain (TSlice t) = False"
| "plain TMap = False"
| "plain (TStruct fs) = plain_fields fs"
| "plain_fields [] = True"
| "plain_fields ((f, t) # fs) = (plain t \<and> plain_fields fs)"

fun has_ty :: "memory \<Rightarrow> ty \<Rightarrow> val \<Rightarrow> bool"
  and fields_have_ty :: "memory \<Rightarrow> (string \<times> ty) list \<Rightarrow> (string \<times> val) list \<Rightarrow> bool" where
  "has_ty m TBool v = (case v of VBool b \<Rightarrow> True | _ \<Rightarrow> False)"
| "has_ty m TInt v = (case v of VInt i \<Rightarrow> True | _ \<Rightarrow> False)"
| "has_ty m TString v = (case v of VString s \<Rightarrow> True | _ \<Rightarrow> False)"
| "has_ty m (TPtr t) v = (case v of VPtr None \<Rightarrow> True | VPtr (Some a) \<Rightarrow> a < length m \<and> has_ty m t (m ! a) | _ \<Rightarrow> False)"
| "has_ty m (TSlice t) v = (case v of VSlice None \<Rightarrow> True
     | VSlice (Some (a, n)) \<Rightarrow> a + n \<le> length m \<and> list_all (\<lambda>i. has_ty m t (m ! i)) [a..<a + n] | _ \<Rightarrow> False)"
| "has_ty m TMap v = (case v of VMap None \<Rightarrow> True
     | VMap (Some a) \<Rightarrow> a < length m \<and> (case m ! a of VTable tab \<Rightarrow> gomap_ok tab | _ \<Rightarrow> False) | _ \<Rightarrow> False)"
| "has_ty m (TStruct fs) v = (case v of VStruct vs \<Rightarrow> distinct (map fst fs) \<and> fields_have_ty m fs vs | _ \<Rightarrow> False)"
| "fields_have_ty m [] vs = (vs = [])"
| "fields_have_ty m ((f, t) # fs) vs =
     (case vs of [] \<Rightarrow> False | (g, v) # vs' \<Rightarrow> g = f \<and> has_ty m t v \<and> fields_have_ty m fs vs')"

fun reach :: "memory \<Rightarrow> ty \<Rightarrow> val \<Rightarrow> nat set"
  and reach_fields :: "memory \<Rightarrow> (string \<times> ty) list \<Rightarrow> (string \<times> val) list \<Rightarrow> nat set" where
  "reach m TBool v = {}"
| "reach m TInt v = {}"
| "reach m TString v = {}"
| "reach m (TPtr t) v = (case v of VPtr (Some a) \<Rightarrow> insert a (reach m t (m ! a)) | _ \<Rightarrow> {})"
| "reach m (TSlice t) v = (case v of VSlice (Some (a, n)) \<Rightarrow> {a..<a + n} \<union> (\<Union>i\<in>{a..<a + n}. reach m t (m ! i)) | _ \<Rightarrow> {})"
| "reach m TMap v = (case v of VMap (Some a) \<Rightarrow> {a} | _ \<Rightarrow> {})"
| "reach m (TStruct fs) v = (case v of VStruct vs \<Rightarrow> reach_fields m fs vs | _ \<Rightarrow> {})"
| "reach_fields m [] vs = {}"
| "reach_fields m ((f, t) # fs) vs = (case vs of [] \<Rightarrow> {} | (g, v) # vs' \<Rightarrow> reach m t v \<union> reach_fields m fs vs')"

text \<open>The content does not mention addresses; a map is the function it stands for.\<close>

datatype content =
    CPlain val
  | CNil
  | CPtr content
  | CSlice "content list"
  | CMap "string \<Rightarrow> string option"
  | CStruct "(string \<times> content) list"

fun content_of :: "memory \<Rightarrow> ty \<Rightarrow> val \<Rightarrow> content"
  and content_of_fields :: "memory \<Rightarrow> (string \<times> ty) list \<Rightarrow> (string \<times> val) list \<Rightarrow> (string \<times> content) list" where
  "content_of m TBool v = CPlain v"
| "content_of m TInt v = CPlain v"
| "content_of m TString v = CPlain v"
| "content_of m (TPtr t) v = (case v of VPtr (Some a) \<Rightarrow> CPtr (content_of m t (m ! a)) | _ \<Rightarrow> CNil)"
| "content_of m (TSlice t) v =
     (case v of VSlice (Some (a, n)) \<Rightarrow> CSlice (map (\<lambda>i. content_of m t (m ! i)) [a..<a + n]) | _ \<Rightarrow> CNil)"
| "content_of m TMap v = (case v of VMap (Some a) \<Rightarrow> (case m ! a of VTable tab \<Rightarrow> CMap (map_of tab) | _ \<Rightarrow> CNil) | _ \<Rightarrow> CNil)"
| "content_of m (TStruct fs) v = (case v of VStruct vs \<Rightarrow> CStruct (content_of_fields m fs vs) | _ \<Rightarrow> CNil)"
| "content_of_fields m [] vs = []"
| "content_of_fields m ((f, t) # fs) vs =
     (case vs of [] \<Rightarrow> [] | (g, v) # vs' \<Rightarrow> (f, content_of m t v) # content_of_fields m fs vs')"

text \<open>Reading and assigning a field of a struct; a value that is none has no fields.\<close>

fun field :: "string \<Rightarrow> val \<Rightarrow> val" where
  "field f (VStruct vs) = (case map_of vs f of Some v \<Rightarrow> v | None \<Rightarrow> VPtr None)"
| "field f v = VPtr None"

fun set_field :: "string \<Rightarrow> val \<Rightarrow> val \<Rightarrow> val" where
  "set_field f w (VStruct vs) = VStruct (map (\<lambda>(g, v). (g, if g = f then w else v)) vs)"
| "set_field f w v = v"

section \<open>The frame: what a value depends on\<close>

definition agree_on :: "nat set \<Rightarrow> memory \<Rightarrow> memory \<Rightarrow> bool" where
  "agree_on A m m' \<longleftrightarrow> length m \<le> length m' \<and> (\<forall>a\<in>A. a < length m \<longrightarrow> m' ! a = m ! a)"

lemma agree_on_subset: "agree_on A m m' \<Longrightarrow> B \<subseteq> A \<Longrightarrow> agree_on B m m'"
  by (auto simp: agree_on_def)

lemma agree_on_prefix: "prefix m m' \<Longrightarrow> agree_on A m m'"
  by (auto simp: agree_on_def prefix_def nth_append)

text \<open>Induction on types and the fields of structs.\<close>

lemma ty_induct [case_names Bool Int String Ptr Slice Map Struct Nil Cons]:
  assumes "P TBool" "P TInt" "P TString" "\<And>t. P t \<Longrightarrow> P (TPtr t)" "\<And>t. P t \<Longrightarrow> P (TSlice t)" "P TMap"
    and struct: "\<And>fs. Q fs \<Longrightarrow> P (TStruct fs)" and nil: "Q []" and cons: "\<And>f t fs. P t \<Longrightarrow> Q fs \<Longrightarrow> Q ((f, t) # fs)"
  shows "P t" and "Q fs"
proof -
  have *: "Q gs" if "\<And>f t. (f, t) \<in> set gs \<Longrightarrow> P t" for gs
    using that
  proof (induction gs)
    case (Cons p gs)
    then show ?case by (cases p) (auto intro: cons)
  qed (rule nil)
  show p: "P t" for t
  proof (induction t)
    case (TStruct fs)
    show ?case by (rule struct [OF *]) (use TStruct in force)
  qed (use assms(1-6) in auto)
  show "Q fs" using * p by blast
qed

text \<open>Values of a type, in the form that case analysis needs.\<close>

lemma has_ty_iff:
  "has_ty m TBool v \<longleftrightarrow> (\<exists>b. v = VBool b)"
  "has_ty m TInt v \<longleftrightarrow> (\<exists>i. v = VInt i)"
  "has_ty m TString v \<longleftrightarrow> (\<exists>s. v = VString s)"
  "has_ty m (TPtr t) v \<longleftrightarrow> v = VPtr None \<or> (\<exists>a. v = VPtr (Some a) \<and> a < length m \<and> has_ty m t (m ! a))"
  "has_ty m (TSlice t) v \<longleftrightarrow> v = VSlice None \<or>
     (\<exists>a n. v = VSlice (Some (a, n)) \<and> a + n \<le> length m \<and> (\<forall>i \<in> {a..<a + n}. has_ty m t (m ! i)))"
  "has_ty m (TStruct fs) v \<longleftrightarrow> (\<exists>vs. v = VStruct vs \<and> distinct (map fst fs) \<and> fields_have_ty m fs vs)"
  by (auto simp: list_all_iff split: val.splits option.splits)

lemma has_ty_Map:
  "has_ty m TMap v \<longleftrightarrow> v = VMap None \<or> (\<exists>a tab. v = VMap (Some a) \<and> a < length m \<and> m ! a = VTable tab \<and> gomap_ok tab)"
proof (cases "\<exists>a. v = VMap (Some a)")
  case True
  then obtain a where "v = VMap (Some a)" by blast
  then show ?thesis by (cases "m ! a") auto
qed (auto split: val.splits option.splits)

lemma fields_have_ty_Cons:
  "fields_have_ty m ((f, t) # fs) vs \<longleftrightarrow> (\<exists>v vs'. vs = (f, v) # vs' \<and> has_ty m t v \<and> fields_have_ty m fs vs')"
  by (auto split: list.splits)

lemmas typing = has_ty_iff has_ty_Map fields_have_ty.simps(1) fields_have_ty_Cons

declare has_ty.simps [simp del] fields_have_ty.simps [simp del]

lemma reach_bound:
  "has_ty m t v \<Longrightarrow> reach m t v \<subseteq> {..<length m}"
  "fields_have_ty m fs vs \<Longrightarrow> reach_fields m fs vs \<subseteq> {..<length m}"
proof (induction t and fs arbitrary: v and vs rule: ty_induct)
  case (Slice t)
  then show ?case by (fastforce simp: typing)
next
  case (Cons f t fs)
  then show ?case by (fastforce simp: typing)
qed (fastforce simp: typing)+

lemma frame:
  "has_ty m t v \<Longrightarrow> agree_on (reach m t v) m m' \<Longrightarrow>
     has_ty m' t v \<and> reach m' t v = reach m t v \<and> content_of m' t v = content_of m t v"
  "fields_have_ty m fs vs \<Longrightarrow> agree_on (reach_fields m fs vs) m m' \<Longrightarrow>
     fields_have_ty m' fs vs \<and> reach_fields m' fs vs = reach_fields m fs vs \<and> content_of_fields m' fs vs = content_of_fields m fs vs"
proof (induction t and fs arbitrary: v and vs rule: ty_induct)
  case (Ptr t)
  then show ?case by (fastforce simp: typing agree_on_def)
next
  case (Slice t)
  show ?case
  proof (cases "v = VSlice None")
    case False
    then obtain a n where v: "v = VSlice (Some (a, n))" and len: "a + n \<le> length m"
      and tys: "\<And>i. i \<in> {a..<a + n} \<Longrightarrow> has_ty m t (m ! i)" using Slice.prems(1) by (auto simp: typing)
    have same: "m' ! i = m ! i" if "i \<in> {a..<a + n}" for i
      using Slice.prems(2) that len by (auto simp: v agree_on_def)
    have IH: "has_ty m' t (m ! i) \<and> reach m' t (m ! i) = reach m t (m ! i) \<and> content_of m' t (m ! i) = content_of m t (m ! i)"
      if i: "i \<in> {a..<a + n}" for i
    proof -
      have "agree_on (reach m t (m ! i)) m m'" using Slice.prems(2) i by (auto simp: v agree_on_def)
      then show ?thesis using Slice.IH tys [OF i] by blast
    qed
    have "a + n \<le> length m'" using len Slice.prems(2) by (simp add: agree_on_def)
    then show ?thesis using same IH by (auto simp: v typing)
  qed (simp add: typing)
next
  case Map
  then show ?case by (auto simp: typing agree_on_def)
next
  case (Cons f t fs)
  obtain v vs' where vs: "vs = (f, v) # vs'" and ty: "has_ty m t v" "fields_have_ty m fs vs'"
    using Cons.prems(1) by (auto simp: typing)
  have "agree_on (reach m t v) m m'" "agree_on (reach_fields m fs vs') m m'"
    using Cons.prems(2) by (auto simp: vs agree_on_def)
  then show ?case using Cons.IH ty by (simp add: vs typing)
qed (auto simp: typing)

section \<open>Copying\<close>

text \<open>
  The shapes of a generated \<open>DeepCopyInto\<close>. A copier maps the value of \<open>*in\<close> to the value left in \<open>*out\<close>:
  an assignment; a new variable for a pointer that is not nil; a new array of the same length for a
  slice, filled from the first element on; a new table for a map, filled in the order of \<open>range\<close>; and for a
  struct \<open>*out = *in\<close>, then its fields in the order of the code.
\<close>

definition copy_assign :: copier where
  "copy_assign v m = (v, m)"

definition copy_ptr :: "ty \<Rightarrow> copier \<Rightarrow> copier" where
  "copy_ptr t c v m =
     (case v of
        VPtr (Some a) \<Rightarrow> (case c (m ! a) (m @ [zero_value t]) of (w, m') \<Rightarrow> (VPtr (Some (length m)), m'[length m := w]))
      | _ \<Rightarrow> (v, m))"

fun copy_loop :: "copier \<Rightarrow> nat \<Rightarrow> nat \<Rightarrow> nat \<Rightarrow> memory \<Rightarrow> memory" where
  "copy_loop c a b 0 m = m"
| "copy_loop c a b (Suc n) m = (case c (m ! a) m of (w, m') \<Rightarrow> copy_loop c (Suc a) (Suc b) n (m'[b := w]))"

definition copy_slice :: "ty \<Rightarrow> copier \<Rightarrow> copier" where
  "copy_slice t c v m =
     (case v of
        VSlice (Some (a, n)) \<Rightarrow> (VSlice (Some (length m, n)), copy_loop c a (length m) n (m @ replicate n (zero_value t)))
      | _ \<Rightarrow> (v, m))"

fun map_loop :: "nat \<Rightarrow> gomap \<Rightarrow> memory \<Rightarrow> memory" where
  "map_loop b [] m = m"
| "map_loop b ((k, x) # kvs) m =
     map_loop b kvs (case m ! b of VTable tab \<Rightarrow> m[b := VTable (gomap_set tab k x)] | _ \<Rightarrow> m)"

definition copy_map :: "(gomap \<Rightarrow> gomap) \<Rightarrow> copier" where
  "copy_map ord v m =
     (case v of
        VMap (Some a) \<Rightarrow>
          (case m ! a of VTable tab \<Rightarrow> (VMap (Some (length m)), map_loop (length m) (ord tab) (m @ [VTable []])) | _ \<Rightarrow> (v, m))
      | _ \<Rightarrow> (v, m))"

fun copy_fields_from :: "(string \<times> copier) list \<Rightarrow> val \<Rightarrow> copier" where
  "copy_fields_from [] i out m = (out, m)"
| "copy_fields_from ((f, c) # cs) i out m = (case c (field f i) m of (w, m') \<Rightarrow> copy_fields_from cs i (set_field f w out) m')"

definition copy_fields :: "(string \<times> copier) list \<Rightarrow> copier" where
  "copy_fields cs v m = copy_fields_from cs v v m"

section \<open>The contract of a deep copy\<close>

definition copied :: "memory \<Rightarrow> memory \<Rightarrow> ty \<Rightarrow> val \<Rightarrow> val \<Rightarrow> bool" where
  "copied m m' t v w \<longleftrightarrow>
     has_ty m' t w \<and> content_of m' t w = content_of m t v \<and> reach m' t w \<subseteq> {length m..<length m'}"

locale deep_copy =
  fixes t :: ty and copy :: copier
  assumes extends: "has_ty m t v \<Longrightarrow> prefix m (snd (copy v m))"
    and copies: "has_ty m t v \<Longrightarrow> copied m (snd (copy v m)) t v (fst (copy v m))"
begin

text \<open>Whatever is later written to other cells leaves the copy alone, and writing to the cells of the copy
  leaves everything alone that was there before.\<close>

lemma copy_independent:
  assumes "has_ty m t v" and "copy v m = (w, m1)" and "agree_on {length m..<length m1} m1 m2"
  shows "content_of m2 t w = content_of m t v"
proof -
  have c: "has_ty m1 t w" "content_of m1 t w = content_of m t v" "reach m1 t w \<subseteq> {length m..<length m1}"
    using copies [OF assms(1)] assms(2) by (simp_all add: copied_def)
  show ?thesis using frame(1) [OF c(1) agree_on_subset [OF assms(3) c(3)]] c(2) by simp
qed

lemma original_independent:
  assumes "has_ty m t v" and "copy v m = (w, m1)" and "has_ty m u x" and "agree_on {..<length m} m1 m2"
  shows "content_of m2 u x = content_of m u x"
proof -
  have p: "prefix m m1" using extends [OF assms(1)] assms(2) by simp
  then have "agree_on {..<length m} m m2" using assms(4) agree_on_prefix [OF p, of UNIV]
    by (auto simp: agree_on_def)
  then show ?thesis using frame(1) [OF assms(3) agree_on_subset] reach_bound(1) [OF assms(3)] by blast
qed

end

lemma prefix_length_nth: "prefix m m' \<longleftrightarrow> length m \<le> length m' \<and> (\<forall>i<length m. m' ! i = m ! i)"
proof
  assume r: "length m \<le> length m' \<and> (\<forall>i<length m. m' ! i = m ! i)"
  then have "take (length m) m' = m" by (intro nth_equalityI) auto
  then show "prefix m m'" by (metis take_is_prefix)
qed (auto simp: prefix_def nth_append)

lemma prefix_update: "prefix m m' \<Longrightarrow> length m \<le> b \<Longrightarrow> prefix m (m'[b := w])"
  by (auto simp: prefix_length_nth)

lemma typed_later:
  assumes "prefix m m'" "has_ty m t v"
  shows "has_ty m' t v" "content_of m' t v = content_of m t v"
  using frame(1) [OF assms(2) agree_on_prefix [OF assms(1)]] by auto

lemma copied_later:
  assumes c: "copied m1 m2 t v w" and v: "has_ty m t v" and p: "prefix m m1" and a: "agree_on {length m1..<length m2} m2 m3"
  shows "copied m m3 t v w"
proof -
  have w: "has_ty m2 t w" "content_of m2 t w = content_of m1 t v" "reach m2 t w \<subseteq> {length m1..<length m2}"
    using c by (auto simp: copied_def)
  have f: "has_ty m3 t w" "reach m3 t w = reach m2 t w" "content_of m3 t w = content_of m2 t w"
    using frame(1) [OF w(1) agree_on_subset [OF a w(3)]] by auto
  have "length m \<le> length m1" "length m2 \<le> length m3" using p a by (auto simp: prefix_length_le agree_on_def)
  then have "{length m1..<length m2} \<subseteq> {length m..<length m3}" by auto
  then show ?thesis using f w(2,3) typed_later(2) [OF p v] by (auto simp: copied_def)
qed

lemma plain_copied: "plain t \<Longrightarrow> has_ty m t v \<Longrightarrow> has_ty m' t v \<and> content_of m' t v = content_of m t v \<and> reach m' t v = {}"
  "plain_fields fs \<Longrightarrow> fields_have_ty m fs vs \<Longrightarrow>
     fields_have_ty m' fs vs \<and> content_of_fields m' fs vs = content_of_fields m fs vs \<and> reach_fields m' fs vs = {}"
  by (induction t and fs arbitrary: v and vs rule: ty_induct) (auto simp: typing)

lemma deep_copyI:
  assumes "\<And>m v w m'. has_ty m t v \<Longrightarrow> copy v m = (w, m') \<Longrightarrow> prefix m m' \<and> copied m m' t v w"
  shows "deep_copy t copy"
proof
  fix m v
  assume "has_ty m t v"
  from assms [OF this prod.collapse [symmetric]]
  show "prefix m (snd (copy v m))" "copied m (snd (copy v m)) t v (fst (copy v m))" by simp_all
qed

lemma deep_copy_assign: "plain t \<Longrightarrow> deep_copy t copy_assign"
  by unfold_locales (auto simp: copy_assign_def copied_def dest: plain_copied(1) intro: prefix_order.refl)

lemma deep_copy_ptr:
  assumes "deep_copy t c"
  shows "deep_copy (TPtr t) (copy_ptr t c)"
proof (rule deep_copyI)
  fix m v w m'
  assume v: "has_ty m (TPtr t) v" and r: "copy_ptr t c v m = (w, m')"
  show "prefix m m' \<and> copied m m' (TPtr t) v w"
  proof (cases "v = VPtr None")
    case True
    then show ?thesis using r by (auto simp: copy_ptr_def copied_def typing)
  next
    case False
    then obtain a where a: "v = VPtr (Some a)" "a < length m" "has_ty m t (m ! a)" using v by (auto simp: typing)
    let ?m1 = "m @ [zero_value t]"
    obtain x m2 where x: "c (m ! a) ?m1 = (x, m2)" by (cases "c (m ! a) ?m1")
    have wm: "w = VPtr (Some (length m))" "m' = m2[length m := x]" using r x a(1) by (auto simp: copy_ptr_def)
    have ty: "has_ty ?m1 t (m ! a)" using typed_later(1) [OF _ a(3)] by simp
    have p: "prefix ?m1 m2" using deep_copy.extends [OF assms ty] x by simp
    have p2: "prefix m m2" "length m < length m2" using p prefix_length_le [OF p] by (auto dest: append_prefixD)
    have c: "copied ?m1 m2 t (m ! a) x" using deep_copy.copies [OF assms ty] x by simp
    have "agree_on {length ?m1..<length m2} m2 m'" by (auto simp: wm agree_on_def)
    then have "copied m m' t (m ! a) x" by (intro copied_later [OF c a(3)]) simp
    moreover have "m' ! length m = x" using p2(2) by (simp add: wm)
    ultimately show ?thesis using p2 prefix_update [OF p2(1), of "length m" x]
      by (auto simp: a(1) wm copied_def typing)
  qed
qed

lemma copy_loop_copies:
  assumes c: "deep_copy t c" and "prefix m0 m" "a + n \<le> length m0" "length m0 \<le> b" "b + n \<le> length m"
    and "\<forall>i \<in> {a..<a + n}. has_ty m0 t (m0 ! i)"
  shows "prefix m0 (copy_loop c a b n m) \<and> length m \<le> length (copy_loop c a b n m)
    \<and> (\<forall>j < length m. j \<notin> {b..<b + n} \<longrightarrow> copy_loop c a b n m ! j = m ! j)
    \<and> (\<forall>i < n. copied m0 (copy_loop c a b n m) t (m0 ! (a + i)) (copy_loop c a b n m ! (b + i)))"
  using assms(2-)
proof (induction n arbitrary: a b m)
  case (Suc n)
  obtain w m1 where w: "c (m ! a) m = (w, m1)" by (cases "c (m ! a) m")
  have ma: "m ! a = m0 ! a" and ty0: "has_ty m0 t (m0 ! a)" using Suc.prems by (auto simp: prefix_length_nth)
  have ty: "has_ty m t (m ! a)" using typed_later(1) [OF Suc.prems(1) ty0] ma by simp
  have pm: "prefix m m1" and cp: "copied m m1 t (m0 ! a) w"
    using deep_copy.extends [OF c ty] deep_copy.copies [OF c ty] w ma by simp_all
  have l1: "length m \<le> length m1" using pm by (rule prefix_length_le)
  let ?m2 = "m1[b := w]"
  let ?m' = "copy_loop c (Suc a) (Suc b) n ?m2"
  have r: "copy_loop c a b (Suc n) m = ?m'" by (simp add: w)
  have p2: "prefix m0 ?m2"
    using prefix_update [OF prefix_order.trans [OF Suc.prems(1) pm] Suc.prems(3)] .
  have IH: "prefix m0 ?m'" "length ?m2 \<le> length ?m'" "\<forall>j < length ?m2. j \<notin> {Suc b..<Suc b + n} \<longrightarrow> ?m' ! j = ?m2 ! j"
      "\<forall>i < n. copied m0 ?m' t (m0 ! (Suc a + i)) (?m' ! (Suc b + i))"
    using Suc.IH [OF p2, of "Suc a" "Suc b"] Suc.prems l1 by auto
  have keep: "?m' ! j = m ! j" if "j < length m" "j \<notin> {b..<b + Suc n}" for j
    using IH(3) that l1 pm by (auto simp: prefix_length_nth)
  have wb: "?m' ! b = w" using IH(3) l1 Suc.prems(4) by auto
  have "agree_on {length m..<length m1} m1 ?m'" using IH(2,3) l1 Suc.prems(4) by (auto simp: agree_on_def)
  then have first: "copied m0 ?m' t (m0 ! a) w" by (rule copied_later [OF cp ty0 Suc.prems(1)])
  have "copied m0 ?m' t (m0 ! (a + i)) (?m' ! (b + i))" if "i < Suc n" for i
    using first wb IH(4) that by (cases i) auto
  then show ?case unfolding r using IH(1,2) keep l1 by auto
qed simp

lemma deep_copy_slice:
  assumes "deep_copy t c"
  shows "deep_copy (TSlice t) (copy_slice t c)"
proof (rule deep_copyI)
  fix m v w m'
  assume v: "has_ty m (TSlice t) v" and r: "copy_slice t c v m = (w, m')"
  show "prefix m m' \<and> copied m m' (TSlice t) v w"
  proof (cases "v = VSlice None")
    case True
    then show ?thesis using r by (auto simp: copy_slice_def copied_def typing)
  next
    case False
    then obtain a n where a: "v = VSlice (Some (a, n))" "a + n \<le> length m" "\<forall>i \<in> {a..<a + n}. has_ty m t (m ! i)"
      using v by (auto simp: typing)
    let ?b = "length m"
    have wm: "w = VSlice (Some (?b, n))" "m' = copy_loop c a ?b n (m @ replicate n (zero_value t))"
      using r a(1) by (auto simp: copy_slice_def)
    have l: "prefix m m'" "?b + n \<le> length m'" "\<And>i. i < n \<Longrightarrow> copied m m' t (m ! (a + i)) (m' ! (?b + i))"
      using copy_loop_copies [OF assms, of m "m @ replicate n (zero_value t)" a n ?b] a(2,3) by (simp_all add: wm(2))
    have cp: "copied m m' t (m ! (a + (i - ?b))) (m' ! i)" if "i \<in> {?b..<?b + n}" for i
      using l(3) [of "i - ?b"] that by auto
    then have "content_of m' (TSlice t) w = content_of m (TSlice t) v" using l(3)
      by (auto simp: wm(1) a(1) copied_def intro!: nth_equalityI)
    moreover have "has_ty m' (TSlice t) w" using cp l(2) by (auto simp: wm(1) typing copied_def)
    moreover have "reach m' (TSlice t) w \<subseteq> {?b..<length m'}" using cp l(2) by (fastforce simp: wm(1) copied_def)
    ultimately show ?thesis using l(1) by (simp add: copied_def)
  qed
qed

lemma map_loop_table:
  "b < length m \<Longrightarrow> m ! b = VTable tab \<Longrightarrow> map_loop b kvs m = m[b := VTable (foldl (\<lambda>u (k, x). gomap_set u k x) tab kvs)]"
proof (induction kvs arbitrary: m tab)
  case (Cons p kvs)
  then show ?case by (cases p) simp
qed (metis foldl_Nil list_update_id map_loop.simps(1))

lemma foldl_gomap_set:
  "map_of (foldl (\<lambda>u (k, x). gomap_set u k x) tab kvs) = map_of (rev kvs @ tab)"
  "gomap_ok tab \<Longrightarrow> gomap_ok (foldl (\<lambda>u (k, x). gomap_set u k x) tab kvs)"
  by (induction kvs arbitrary: tab) (auto simp: fun_eq_iff map_add_def split: option.split)

lemma map_of_reordered: "mset kvs = mset tab \<Longrightarrow> gomap_ok tab \<Longrightarrow> map_of (rev kvs) = map_of tab"
  by (metis gomap_ok_def map_of_inject_set mset_eq_setD mset_map mset_rev mset_eq_imp_distinct_iff set_rev)

lemma deep_copy_map:
  assumes "\<And>tab. mset (ord tab) = mset tab"
  shows "deep_copy TMap (copy_map ord)"
proof (rule deep_copyI)
  fix m v w m'
  assume v: "has_ty m TMap v" and r: "copy_map ord v m = (w, m')"
  show "prefix m m' \<and> copied m m' TMap v w"
  proof (cases "v = VMap None")
    case True
    then show ?thesis using r by (auto simp: copy_map_def copied_def typing)
  next
    case False
    then obtain a tab where a: "v = VMap (Some a)" "m ! a = VTable tab" "gomap_ok tab" using v by (auto simp: typing)
    have "map_of (rev (ord tab)) = map_of tab" using map_of_reordered [OF assms a(3)] .
    moreover have "w = VMap (Some (length m))"
        "m' = m @ [VTable (foldl (\<lambda>u (k, x). gomap_set u k x) [] (ord tab))]"
      using r a map_loop_table [of "length m" "m @ [VTable []]" "[]" "ord tab"] by (auto simp: copy_map_def)
    ultimately show ?thesis using a foldl_gomap_set [of "[]" "ord tab"]
      by (auto simp: copied_def typing gomap_ok_def)
  qed
qed

subsection \<open>Structs\<close>

lemma field_Cons: "field f (VStruct ((g, v) # vs)) = (if f = g then v else field f (VStruct vs))"
  by simp

lemma set_field_struct:
  "set_field f w (VStruct vs) = VStruct (map (\<lambda>(g, v). (g, if g = f then w else v)) vs)"
  "map fst (map (\<lambda>(g, v). (g, if g = f then w else v)) vs) = map fst vs"
  "field g (VStruct (map (\<lambda>(g, v). (g, if g = f then w else v)) vs)) =
     (if g = f \<and> f \<in> fst ` set vs then w else field g (VStruct vs))"
proof -
  show "map fst (map (\<lambda>(g, v). (g, if g = f then w else v)) vs) = map fst vs" by (induction vs) auto
  have "map_of (map (\<lambda>(g, v). (g, if g = f then w else v)) vs) g =
      (if g = f \<and> f \<in> fst ` set vs then Some w else map_of vs g)"
  proof (induction vs)
    case (Cons p vs)
    then show ?case by (cases p; cases "g = f") auto
  qed simp
  then show "field g (VStruct (map (\<lambda>(g, v). (g, if g = f then w else v)) vs)) =
     (if g = f \<and> f \<in> fst ` set vs then w else field g (VStruct vs))"
    by simp
qed simp

lemma fields_by_name:
  assumes "distinct (map fst fs)" "map fst vs = map fst fs"
  shows "fields_have_ty m fs vs \<longleftrightarrow> (\<forall>(f, t) \<in> set fs. has_ty m t (field f (VStruct vs)))"
    "content_of_fields m fs vs = map (\<lambda>(f, t). (f, content_of m t (field f (VStruct vs)))) fs"
    "reach_fields m fs vs = (\<Union>(f, t) \<in> set fs. reach m t (field f (VStruct vs)))"
  using assms
proof (induction fs arbitrary: vs)
  case Nil
  case 1 then show ?case by (simp add: typing)
  case 2 then show ?case by simp
  case 3 then show ?case by simp
next
  case (Cons p fs)
  obtain f t where p: "p = (f, t)" by (cases p)
  have other: "field g (VStruct ((f, v) # vs')) = field g (VStruct vs')" if "(g, u) \<in> set fs" "f \<notin> fst ` set fs" for g u v vs'
    using that by (force simp: field_Cons)
  {
    case 1
    then obtain v vs' where vs: "vs = (f, v) # vs'" "map fst vs' = map fst fs" by (cases vs) (auto simp: p)
    then show ?case using 1 Cons.IH(1) [OF _ vs(2)] other by (auto simp: p typing split del: if_split)
  next
    case 2
    then obtain v vs' where vs: "vs = (f, v) # vs'" "map fst vs' = map fst fs" by (cases vs) (auto simp: p)
    then show ?case using 2 Cons.IH(2) [OF _ vs(2)] other by (auto simp: p)
  next
    case 3
    then obtain v vs' where vs: "vs = (f, v) # vs'" "map fst vs' = map fst fs" by (cases vs) (auto simp: p)
    then show ?case using 3 Cons.IH(3) [OF _ vs(2)] other by (auto simp: p)
  }
qed

lemma fields_names: "fields_have_ty m fs vs \<Longrightarrow> map fst vs = map fst fs"
proof (induction fs arbitrary: vs)
  case (Cons p fs)
  then show ?case by (cases p) (auto simp: typing)
qed (simp add: typing)

lemma field_typed:
  "has_ty m (TStruct fs) v \<Longrightarrow> (f, t) \<in> set fs \<Longrightarrow> has_ty m t (field f v)"
  using fields_by_name(1) [OF _ fields_names] by (fastforce simp: typing)

lemma copied_struct:
  assumes "distinct (map fst fs)" "map fst vs = map fst fs" "map fst ws = map fst fs"
    and "\<And>f t. (f, t) \<in> set fs \<Longrightarrow> copied m m' t (field f (VStruct vs)) (field f (VStruct ws))"
  shows "copied m m' (TStruct fs) (VStruct vs) (VStruct ws)"
proof -
  have "has_ty m' (TStruct fs) (VStruct ws)" using assms(1,4) fields_by_name(1) [OF assms(1,3)]
    by (auto simp: typing copied_def simp del: field.simps)
  moreover have "content_of m' (TStruct fs) (VStruct ws) = content_of m (TStruct fs) (VStruct vs)"
    using assms(4) by (auto simp: fields_by_name(2) [OF assms(1,3)] fields_by_name(2) [OF assms(1,2)] copied_def simp del: field.simps)
  moreover have "reach m' (TStruct fs) (VStruct ws) \<subseteq> {length m..<length m'}"
    using assms(4) by (fastforce simp: fields_by_name(3) [OF assms(1,3)] copied_def simp del: field.simps)
  ultimately show ?thesis by (simp add: copied_def)
qed

lemma copy_fields_from_copies:
  assumes i: "has_ty m0 (TStruct fs) i" and fs: "distinct (map fst fs)"
    and "\<And>f c. (f, c) \<in> set cs \<Longrightarrow> \<exists>t. (f, t) \<in> set fs \<and> deep_copy t c"
    and "map fst ws = map fst fs" "prefix m0 m" "copy_fields_from cs i (VStruct ws) m = (out, m')"
  shows "\<exists>ws'. out = VStruct ws' \<and> map fst ws' = map fst fs \<and> prefix m m'
    \<and> (\<forall>g. g \<notin> fst ` set cs \<longrightarrow> field g out = field g (VStruct ws))
    \<and> (\<forall>(g, t) \<in> set fs. g \<in> fst ` set cs \<longrightarrow> copied m0 m' t (field g i) (field g out))"
  using assms(3-)
proof (induction cs arbitrary: ws m)
  case (Cons p cs)
  obtain f c where p: "p = (f, c)" by (cases p)
  obtain t where t: "(f, t) \<in> set fs" "deep_copy t c" using Cons.prems(1) p by force
  obtain w m1 where w: "c (field f i) m = (w, m1)" by (cases "c (field f i) m")
  have ty0: "has_ty m0 t (field f i)" by (rule field_typed [OF i t(1)])
  have ty: "has_ty m t (field f i)" by (rule typed_later(1) [OF Cons.prems(3) ty0])
  have c1: "prefix m m1" "copied m m1 t (field f i) w"
    using deep_copy.extends [OF t(2) ty] deep_copy.copies [OF t(2) ty] w by simp_all
  define us where "us = map (\<lambda>(g, v). (g, if g = f then w else v)) ws"
  have names: "f \<in> fst ` set ws" using Cons.prems(2) t(1) by (metis fst_conv image_eqI list.set_map)
  have us: "map fst us = map fst fs" "set_field f w (VStruct ws) = VStruct us"
      "\<And>g. field g (VStruct us) = (if g = f then w else field g (VStruct ws))"
    using Cons.prems(2) set_field_struct(2) [of f w ws] set_field_struct(3) [of _ f w ws] names by (auto simp: us_def simp del: field.simps)
  obtain ws' where IH: "out = VStruct ws'" "map fst ws' = map fst fs" "prefix m1 m'"
      "\<forall>g. g \<notin> fst ` set cs \<longrightarrow> field g out = field g (VStruct us)"
      "\<forall>(g, t) \<in> set fs. g \<in> fst ` set cs \<longrightarrow> copied m0 m' t (field g i) (field g out)"
    using Cons.IH [OF _ us(1) prefix_order.trans [OF Cons.prems(3) c1(1)]] Cons.prems(1,4) w us(2)
    by (auto simp: p simp del: field.simps)
  have new: "copied m0 m' t (field f i) w"
    by (rule copied_later [OF c1(2) ty0 Cons.prems(3) agree_on_prefix [OF IH(3)]])
  have "t' = t" if "(f, t') \<in> set fs" for t' using that t(1) fs by (metis eq_key_imp_eq_value)
  then have "copied m0 m' t' (field g i) (field g out)" if "(g, t') \<in> set fs" "g \<in> insert f (fst ` set cs)" for g t'
    using that IH(4,5) new us(3) by (cases "g \<in> fst ` set cs") (auto simp del: field.simps)
  then show ?case using IH(1,2,4) us(3) prefix_order.trans [OF c1(1) IH(3)] by (auto simp: p simp del: field.simps)
qed auto

text \<open>
  A struct is copied when every field of its type is, by the copier named for it or, if there is none,
  because its type is plain. This is what the generator has to get right: a field with a pointer
  that it forgets stays shared.
\<close>

definition fields_covered :: "(string \<times> copier) list \<Rightarrow> (string \<times> ty) list \<Rightarrow> bool" where
  "fields_covered cs fs \<longleftrightarrow> distinct (map fst fs) \<and> set (map fst cs) \<subseteq> set (map fst fs)
     \<and> (\<forall>(f, t) \<in> set fs. case map_of cs f of None \<Rightarrow> plain t | Some c \<Rightarrow> deep_copy t c) \<and> distinct (map fst cs)"

lemma deep_copy_struct:
  assumes "fields_covered cs fs"
  shows "deep_copy (TStruct fs) (copy_fields cs)"
proof (rule deep_copyI)
  fix m v w m'
  assume v: "has_ty m (TStruct fs) v" and r: "copy_fields cs v m = (w, m')"
  have fs: "distinct (map fst fs)" and cov: "\<And>f t. (f, t) \<in> set fs \<Longrightarrow> case map_of cs f of None \<Rightarrow> plain t | Some c \<Rightarrow> deep_copy t c"
    using assms by (auto simp: fields_covered_def)
  obtain vs where vs: "v = VStruct vs" "map fst vs = map fst fs" using v fields_names by (auto simp: typing)
  have cs: "\<exists>t. (f, t) \<in> set fs \<and> deep_copy t c" if fc: "(f, c) \<in> set cs" for f c
  proof -
    have "map_of cs f = Some c" using assms fc by (simp add: fields_covered_def)
    moreover obtain t where "(f, t) \<in> set fs" using assms fc by (force simp: fields_covered_def)
    ultimately show ?thesis using cov by force
  qed
  obtain ws where ws: "w = VStruct ws" "map fst ws = map fst fs" "prefix m m'"
      "\<forall>g. g \<notin> fst ` set cs \<longrightarrow> field g w = field g v"
      "\<forall>(g, t) \<in> set fs. g \<in> fst ` set cs \<longrightarrow> copied m m' t (field g v) (field g w)"
    using copy_fields_from_copies [OF v fs cs vs(2) prefix_order.refl, of cs] r
    by (auto simp: copy_fields_def vs(1) simp del: field.simps)
  have "copied m m' t (field f v) (field f w)" if f: "(f, t) \<in> set fs" for f t
  proof (cases "f \<in> fst ` set cs")
    case False
    then have "map_of cs f = None" by (simp add: map_of_eq_None_iff)
    then have "plain t" using cov [OF f] by simp
    from plain_copied(1) [OF this field_typed [OF v f], of m'] show ?thesis using ws(4) False by (simp add: copied_def)
  qed (use ws(5) f in auto)
  then show "prefix m m' \<and> copied m m' (TStruct fs) v w"
    unfolding vs(1) ws(1) using copied_struct [OF fs vs(2) ws(2)] ws(3) by blast
qed

section \<open>What the API packages import\<close>

text \<open>
  The types of the Kubernetes and Crossplane packages and their copy methods are those of \<open>e\<close>, by their
  qualified names, as are the methods \<open>GetCondition\<close> and \<open>SetConditions\<close> that a status inherits;
  \<open>range_order e\<close> is the order in which \<open>range\<close> visits a map. \<open>env_ok\<close> is what these packages
  document: the types in \<open>plain_externals\<close> hold no addresses, the methods of the types in \<open>deep_externals\<close>
  are deep copies (a time is a value: its location is never written), and so is \<open>(*metav1.Time).DeepCopy\<close>,
  which takes a pointer; \<open>range\<close> visits every entry once.
\<close>

record api_env =
  ext_type :: "string \<Rightarrow> ty"
  ext_copy :: "string \<Rightarrow> copier"
  ext_GetCondition :: "string \<Rightarrow> string \<Rightarrow> val \<Rightarrow> memory \<Rightarrow> val"
  ext_SetConditions :: "string \<Rightarrow> val list \<Rightarrow> val \<Rightarrow> memory \<Rightarrow> val \<times> memory"
  range_order :: "gomap \<Rightarrow> gomap"

definition plain_externals :: "string list" where
  "plain_externals = [''metav1.TypeMeta'', ''xpv1.SecretKeySelector'', ''xpv1.SecretReference'', ''xpv1.CredentialsSource'']"

definition deep_externals :: "string list" where
  "deep_externals = [''metav1.ObjectMeta'', ''metav1.ListMeta'', ''metav1.Time'', ''xpv1.ResourceSpec'', ''xpv1.ResourceStatus'',
     ''xpv1.Reference'', ''xpv1.ProviderConfigStatus'', ''xpv1.ProviderConfigUsage'', ''xpv1.SecretStoreConfig'',
     ''xpv1.ConditionedStatus'']"

definition env_ok :: "api_env \<Rightarrow> bool" where
  "env_ok e \<longleftrightarrow> list_all (\<lambda>n. plain (ext_type e n)) plain_externals
     \<and> list_all (\<lambda>n. deep_copy (ext_type e n) (ext_copy e n)) deep_externals
     \<and> deep_copy (TPtr (ext_type e ''metav1.Time'')) (ext_copy e ''*metav1.Time'')
     \<and> (\<forall>tab. mset (range_order e tab) = mset tab)"

text \<open>A value of the interface \<open>runtime.Object\<close>: nil, or a pointer with its type. \<open>DeepCopyObject\<close> returns nil for nil.\<close>

type_synonym Object = "(string \<times> nat) option"

definition as_Object :: "string \<Rightarrow> val \<times> memory \<Rightarrow> Object \<times> memory" where
  "as_Object kind c = (case c of (VPtr (Some a), m) \<Rightarrow> (Some (kind, a), m) | (_, m) \<Rightarrow> (None, m))"

named_theorems deep_copies \<open>deep copies by type\<close>

lemma env_ok_deep [deep_copies]:
  assumes "env_ok e"
  shows "plain (ext_type e ''metav1.TypeMeta'')" "plain (ext_type e ''xpv1.SecretKeySelector'')"
    "plain (ext_type e ''xpv1.SecretReference'')" "plain (ext_type e ''xpv1.CredentialsSource'')"
    "deep_copy (ext_type e ''metav1.ObjectMeta'') (ext_copy e ''metav1.ObjectMeta'')"
    "deep_copy (ext_type e ''metav1.ListMeta'') (ext_copy e ''metav1.ListMeta'')"
    "deep_copy (ext_type e ''metav1.Time'') (ext_copy e ''metav1.Time'')"
    "deep_copy (TPtr (ext_type e ''metav1.Time'')) (ext_copy e ''*metav1.Time'')"
    "deep_copy (ext_type e ''xpv1.ResourceSpec'') (ext_copy e ''xpv1.ResourceSpec'')"
    "deep_copy (ext_type e ''xpv1.ResourceStatus'') (ext_copy e ''xpv1.ResourceStatus'')"
    "deep_copy (ext_type e ''xpv1.Reference'') (ext_copy e ''xpv1.Reference'')"
    "deep_copy (ext_type e ''xpv1.ProviderConfigStatus'') (ext_copy e ''xpv1.ProviderConfigStatus'')"
    "deep_copy (ext_type e ''xpv1.ProviderConfigUsage'') (ext_copy e ''xpv1.ProviderConfigUsage'')"
    "deep_copy (ext_type e ''xpv1.SecretStoreConfig'') (ext_copy e ''xpv1.SecretStoreConfig'')"
    "deep_copy (ext_type e ''xpv1.ConditionedStatus'') (ext_copy e ''xpv1.ConditionedStatus'')"
    "deep_copy TMap (copy_map (range_order e))"
  using assms by (simp_all add: env_ok_def plain_externals_def deep_externals_def deep_copy_map)

declare deep_copy_assign [deep_copies] deep_copy_ptr [deep_copies] deep_copy_slice [deep_copies]

end
