(* ===== verification/GoFields.thy ===== *)
theory GoFields
  imports GoMemory
begin

text \<open>
  Fields of structs in structs, by their path: the promoted fields that generated accessors read and
  assign. Assigning one keeps the type of the struct and every field that does not lie on its path.
\<close>

section \<open>Paths\<close>

fun type_at :: "string list \<Rightarrow> ty \<Rightarrow> ty option" where
  "type_at [] t = Some t"
| "type_at (f # p) (TStruct fs) = (case map_of fs f of Some t \<Rightarrow> type_at p t | None \<Rightarrow> None)"
| "type_at (f # p) t = None"

fun get_path :: "string list \<Rightarrow> val \<Rightarrow> val" where
  "get_path [] v = v"
| "get_path (f # p) v = get_path p (field f v)"

fun put_path :: "string list \<Rightarrow> val \<Rightarrow> val \<Rightarrow> val" where
  "put_path [] r v = r"
| "put_path (f # p) r v = set_field f (put_path p r (field f v)) v"

text \<open>A method with a pointer receiver that reads or assigns one field; a nil receiver panics.\<close>

definition nil_dereference :: error where
  "nil_dereference = Panic ''invalid memory address or nil pointer dereference''"

definition field_get :: "string list \<Rightarrow> val \<Rightarrow> memory \<Rightarrow> error + val" where
  "field_get p mg m = (case mg of VPtr (Some a) \<Rightarrow> Inr (get_path p (m ! a)) | _ \<Rightarrow> Inl nil_dereference)"

definition field_set :: "string list \<Rightarrow> val \<Rightarrow> val \<Rightarrow> memory \<Rightarrow> error + memory" where
  "field_set p r mg m = (case mg of VPtr (Some a) \<Rightarrow> Inr (m[a := put_path p r (m ! a)]) | _ \<Rightarrow> Inl nil_dereference)"

section \<open>Laws\<close>

lemma field_set_field:
  "field g (set_field f w v) = (if g = f \<and> (\<exists>vs. v = VStruct vs \<and> f \<in> fst ` set vs) then w else field g v)"
proof (cases "\<exists>vs. v = VStruct vs")
  case True
  then obtain vs where "v = VStruct vs" by blast
  then show ?thesis using set_field_struct(3) [of g f w vs] by (simp del: field.simps)
next
  case False
  then show ?thesis by (cases v) auto
qed

lemma get_put_other: "\<not> prefix p q \<Longrightarrow> \<not> prefix q p \<Longrightarrow> get_path q (put_path p r v) = get_path q v"
proof (induction p arbitrary: q v)
  case (Cons f p)
  then obtain g q' where q: "q = g # q'" by (cases q) auto
  show ?case
  proof (cases "g = f")
    case True
    then show ?thesis using Cons.IH [of q' "field f v"] Cons.prems by (simp add: q field_set_field)
  qed (simp add: q field_set_field)
qed simp

lemma typed_field_step:
  assumes "has_ty m t v" "type_at (f # p) t = Some u"
  obtains fs vs t' where "t = TStruct fs" "v = VStruct vs" "map fst vs = map fst fs" "distinct (map fst fs)" "(f, t') \<in> set fs"
    "type_at p t' = Some u" "has_ty m t' (field f v)" "f \<in> fst ` set vs"
proof -
  obtain fs t' where t: "t = TStruct fs" "map_of fs f = Some t'" "type_at p t' = Some u"
    using assms(2) by (cases t) (auto split: option.splits)
  obtain vs where vs: "v = VStruct vs" "distinct (map fst fs)" "fields_have_ty m fs vs" using assms(1) t(1) by (auto simp: typing)
  have names: "map fst vs = map fst fs" by (rule fields_names [OF vs(3)])
  have mem: "(f, t') \<in> set fs" by (rule map_of_SomeD [OF t(2)])
  then have "f \<in> fst ` set vs" using names by (metis fst_conv image_eqI list.set_map)
  then show thesis using that [OF t(1) vs(1) names vs(2) mem t(3)] field_typed [OF _ mem] assms(1) t(1) by simp
qed

lemma get_path_typed: "has_ty m t v \<Longrightarrow> type_at p t = Some u \<Longrightarrow> has_ty m u (get_path p v)"
proof (induction p arbitrary: t v)
  case (Cons f p)
  from Cons.prems obtain t' where "type_at p t' = Some u" "has_ty m t' (field f v)" by (rule typed_field_step)
  then show ?case using Cons.IH by simp
qed simp

lemma get_put_same: "has_ty m t v \<Longrightarrow> type_at p t = Some u \<Longrightarrow> get_path p (put_path p r v) = r"
proof (induction p arbitrary: t v)
  case (Cons f p)
  from Cons.prems obtain vs t' where s: "v = VStruct vs" "f \<in> fst ` set vs" "type_at p t' = Some u" "has_ty m t' (field f v)"
    by (rule typed_field_step)
  show ?case using Cons.IH [OF s(4,3)] s(1,2) by (simp add: field_set_field del: field.simps set_field.simps)
qed simp

lemma put_path_typed:
  "has_ty m t v \<Longrightarrow> type_at p t = Some u \<Longrightarrow> has_ty m u r \<Longrightarrow>
     has_ty m t (put_path p r v) \<and> reach m t (put_path p r v) \<subseteq> reach m t v \<union> reach m u r"
proof (induction p arbitrary: t v)
  case (Cons f p)
  from Cons.prems(1,2) obtain fs vs t' where s: "t = TStruct fs" "v = VStruct vs" "map fst vs = map fst fs" "distinct (map fst fs)"
      "(f, t') \<in> set fs" "type_at p t' = Some u" "has_ty m t' (field f v)" "f \<in> fst ` set vs"
    by (rule typed_field_step)
  define w where "w = put_path p r (field f v)"
  define ws where "ws = map (\<lambda>(g, x). (g, if g = f then w else x)) vs"
  have w: "has_ty m t' w" "reach m t' w \<subseteq> reach m t' (field f v) \<union> reach m u r"
    using Cons.IH [OF s(7,6) Cons.prems(3)] by (auto simp: w_def)
  have put: "put_path (f # p) r v = VStruct ws" unfolding put_path.simps w_def [symmetric] by (simp add: s(2) ws_def)
  have ws: "map fst ws = map fst fs" "\<And>g. field g (VStruct ws) = (if g = f then w else field g v)"
    using s(2,3,8) set_field_struct(2) [of f w vs] set_field_struct(3) [of _ f w vs] by (auto simp: ws_def simp del: field.simps)
  have only: "x = t'" if "(f, x) \<in> set fs" for x using that s(4,5) by (metis eq_key_imp_eq_value)
  have vty: "has_ty m x (field g v)" if "(g, x) \<in> set fs" for g x using field_typed Cons.prems(1) that s(1) by blast
  have "has_ty m t (VStruct ws)"
    using fields_by_name(1) [OF s(4) ws(1)] s(4) ws(2) vty w(1) only by (auto simp: s(1) typing simp del: field.simps)
  moreover have sub: "reach m x (field g v) \<subseteq> reach m t v" if "(g, x) \<in> set fs" for g x
    using that fields_by_name(3) [OF s(4,3), of m] by (auto simp: s(1,2) simp del: field.simps)
  have "reach m x (field g (VStruct ws)) \<subseteq> reach m t v \<union> reach m u r" if "(g, x) \<in> set fs" for g x
  proof (cases "g = f")
    case True
    then have "x = t'" "field g (VStruct ws) = w" using only that ws(2) by auto
    then show ?thesis using w(2) sub [OF s(5)] by auto
  qed (use sub [OF that] ws(2) in auto)
  then have "reach m t (VStruct ws) \<subseteq> reach m t v \<union> reach m u r"
    using fields_by_name(3) [OF s(4) ws(1)] by (auto simp: s(1) simp del: field.simps)
  ultimately show ?case unfolding put by simp
qed simp

lemma field_set_typed:
  assumes "a < length m" "has_ty m t (m ! a)" "type_at p t = Some u" "has_ty m u r" "a \<notin> reach m t (m ! a)" "a \<notin> reach m u r"
    and "field_set p r (VPtr (Some a)) m = Inr m'"
  shows "has_ty m' (TPtr t) (VPtr (Some a))" "field_get p (VPtr (Some a)) m' = Inr r"
    "\<not> prefix p q \<Longrightarrow> \<not> prefix q p \<Longrightarrow> field_get q (VPtr (Some a)) m' = field_get q (VPtr (Some a)) m"
    "length m' = length m" "\<And>b. b \<noteq> a \<Longrightarrow> m' ! b = m ! b"
proof -
  have m': "m' = m[a := put_path p r (m ! a)]" using assms(7) by (simp add: field_set_def)
  have put: "has_ty m t (put_path p r (m ! a))" "a \<notin> reach m t (put_path p r (m ! a))"
    using put_path_typed [OF assms(2-4)] assms(5,6) by auto
  then have "agree_on (reach m t (put_path p r (m ! a))) m m'"
    by (simp add: agree_on_def m') (metis nth_list_update_neq)
  from frame(1) [OF put(1) this] show "has_ty m' (TPtr t) (VPtr (Some a))" using assms(1) by (simp add: typing m')
  show "field_get p (VPtr (Some a)) m' = Inr r" using get_put_same [OF assms(2,3)] assms(1) by (simp add: field_get_def m')
  show "\<not> prefix p q \<Longrightarrow> \<not> prefix q p \<Longrightarrow> field_get q (VPtr (Some a)) m' = field_get q (VPtr (Some a)) m"
    using assms(1) by (simp add: field_get_def m' get_put_other)
qed (use assms(7) in \<open>auto simp: field_set_def\<close>)

end
