(* ===== verification/ConfigTypes.thy ===== *)
theory ConfigTypes
  imports GoMemory
begin

text \<open>
  The package \<open>apis/v1alpha1\<close>: the provider configuration. For every struct of the package its type, with
  the fields as they are declared, and its generated methods \<open>DeepCopyInto\<close>, \<open>DeepCopy\<close> and, for the objects
  of the API, \<open>DeepCopyObject\<close> (\<open>zz_generated.deepcopy.go\<close>). The lemmas of the collection \<open>deep_copies\<close> say that
  every \<open>DeepCopyInto\<close> is a deep copy: no field of the type that holds an address is left out.
\<close>

section \<open>Provider configurations\<close>

definition ProviderCredentials_ty :: "api_env \<Rightarrow> ty" where
  "ProviderCredentials_ty e = TStruct
     [(''Source'', ext_type e ''xpv1.CredentialsSource''),
      (''ConnectionSecretRef'', TPtr (ext_type e ''xpv1.SecretReference''))]"

definition ProviderCredentials_DeepCopyInto :: "api_env \<Rightarrow> copier" where
  "ProviderCredentials_DeepCopyInto e = copy_fields
     [(''ConnectionSecretRef'', copy_ptr (ext_type e ''xpv1.SecretReference'') copy_assign)]"

definition ProviderCredentials_DeepCopy :: "api_env \<Rightarrow> copier" where
  "ProviderCredentials_DeepCopy e = copy_ptr (ProviderCredentials_ty e) (ProviderCredentials_DeepCopyInto e)"

definition ProviderConfigSpec_ty :: "api_env \<Rightarrow> ty" where
  "ProviderConfigSpec_ty e = TStruct
     [(''Credentials'', ProviderCredentials_ty e)]"

definition ProviderConfigSpec_DeepCopyInto :: "api_env \<Rightarrow> copier" where
  "ProviderConfigSpec_DeepCopyInto e = copy_fields
     [(''Credentials'', ProviderCredentials_DeepCopyInto e)]"

definition ProviderConfigSpec_DeepCopy :: "api_env \<Rightarrow> copier" where
  "ProviderConfigSpec_DeepCopy e = copy_ptr (ProviderConfigSpec_ty e) (ProviderConfigSpec_DeepCopyInto e)"

definition ProviderConfigStatus_ty :: "api_env \<Rightarrow> ty" where
  "ProviderConfigStatus_ty e = TStruct
     [(''ProviderConfigStatus'', ext_type e ''xpv1.ProviderConfigStatus'')]"

definition ProviderConfigStatus_DeepCopyInto :: "api_env \<Rightarrow> copier" where
  "ProviderConfigStatus_DeepCopyInto e = copy_fields
     [(''ProviderConfigStatus'', ext_copy e ''xpv1.ProviderConfigStatus'')]"

definition ProviderConfigStatus_DeepCopy :: "api_env \<Rightarrow> copier" where
  "ProviderConfigStatus_DeepCopy e = copy_ptr (ProviderConfigStatus_ty e) (ProviderConfigStatus_DeepCopyInto e)"

definition ProviderConfig_ty :: "api_env \<Rightarrow> ty" where
  "ProviderConfig_ty e = TStruct
     [(''TypeMeta'', ext_type e ''metav1.TypeMeta''), (''ObjectMeta'', ext_type e ''metav1.ObjectMeta''),
      (''Spec'', ProviderConfigSpec_ty e), (''Status'', ProviderConfigStatus_ty e)]"

definition ProviderConfig_DeepCopyInto :: "api_env \<Rightarrow> copier" where
  "ProviderConfig_DeepCopyInto e = copy_fields
     [(''TypeMeta'', copy_assign), (''ObjectMeta'', ext_copy e ''metav1.ObjectMeta''),
      (''Spec'', ProviderConfigSpec_DeepCopyInto e), (''Status'', ProviderConfigStatus_DeepCopyInto e)]"

definition ProviderConfig_DeepCopy :: "api_env \<Rightarrow> copier" where
  "ProviderConfig_DeepCopy e = copy_ptr (ProviderConfig_ty e) (ProviderConfig_DeepCopyInto e)"

definition ProviderConfig_DeepCopyObject :: "api_env \<Rightarrow> val \<Rightarrow> memory \<Rightarrow> Object \<times> memory" where
  "ProviderConfig_DeepCopyObject e v m = as_Object ''ProviderConfig'' (ProviderConfig_DeepCopy e v m)"

definition ProviderConfigList_ty :: "api_env \<Rightarrow> ty" where
  "ProviderConfigList_ty e = TStruct
     [(''TypeMeta'', ext_type e ''metav1.TypeMeta''), (''ListMeta'', ext_type e ''metav1.ListMeta''),
      (''Items'', TSlice (ProviderConfig_ty e))]"

definition ProviderConfigList_DeepCopyInto :: "api_env \<Rightarrow> copier" where
  "ProviderConfigList_DeepCopyInto e = copy_fields
     [(''TypeMeta'', copy_assign), (''ListMeta'', ext_copy e ''metav1.ListMeta''),
      (''Items'', copy_slice (ProviderConfig_ty e) (ProviderConfig_DeepCopyInto e))]"

definition ProviderConfigList_DeepCopy :: "api_env \<Rightarrow> copier" where
  "ProviderConfigList_DeepCopy e = copy_ptr (ProviderConfigList_ty e) (ProviderConfigList_DeepCopyInto e)"

definition ProviderConfigList_DeepCopyObject :: "api_env \<Rightarrow> val \<Rightarrow> memory \<Rightarrow> Object \<times> memory" where
  "ProviderConfigList_DeepCopyObject e v m = as_Object ''ProviderConfigList'' (ProviderConfigList_DeepCopy e v m)"


section \<open>Usages of provider configurations\<close>

definition ProviderConfigUsage_ty :: "api_env \<Rightarrow> ty" where
  "ProviderConfigUsage_ty e = TStruct
     [(''TypeMeta'', ext_type e ''metav1.TypeMeta''), (''ObjectMeta'', ext_type e ''metav1.ObjectMeta''),
      (''ProviderConfigUsage'', ext_type e ''xpv1.ProviderConfigUsage'')]"

definition ProviderConfigUsage_DeepCopyInto :: "api_env \<Rightarrow> copier" where
  "ProviderConfigUsage_DeepCopyInto e = copy_fields
     [(''TypeMeta'', copy_assign), (''ObjectMeta'', ext_copy e ''metav1.ObjectMeta''),
      (''ProviderConfigUsage'', ext_copy e ''xpv1.ProviderConfigUsage'')]"

definition ProviderConfigUsage_DeepCopy :: "api_env \<Rightarrow> copier" where
  "ProviderConfigUsage_DeepCopy e = copy_ptr (ProviderConfigUsage_ty e) (ProviderConfigUsage_DeepCopyInto e)"

definition ProviderConfigUsage_DeepCopyObject :: "api_env \<Rightarrow> val \<Rightarrow> memory \<Rightarrow> Object \<times> memory" where
  "ProviderConfigUsage_DeepCopyObject e v m = as_Object ''ProviderConfigUsage'' (ProviderConfigUsage_DeepCopy e v m)"

definition ProviderConfigUsageList_ty :: "api_env \<Rightarrow> ty" where
  "ProviderConfigUsageList_ty e = TStruct
     [(''TypeMeta'', ext_type e ''metav1.TypeMeta''), (''ListMeta'', ext_type e ''metav1.ListMeta''),
      (''Items'', TSlice (ProviderConfigUsage_ty e))]"

definition ProviderConfigUsageList_DeepCopyInto :: "api_env \<Rightarrow> copier" where
  "ProviderConfigUsageList_DeepCopyInto e = copy_fields
     [(''TypeMeta'', copy_assign), (''ListMeta'', ext_copy e ''metav1.ListMeta''),
      (''Items'', copy_slice (ProviderConfigUsage_ty e) (ProviderConfigUsage_DeepCopyInto e))]"

definition ProviderConfigUsageList_DeepCopy :: "api_env \<Rightarrow> copier" where
  "ProviderConfigUsageList_DeepCopy e = copy_ptr (ProviderConfigUsageList_ty e) (ProviderConfigUsageList_DeepCopyInto e)"

definition ProviderConfigUsageList_DeepCopyObject :: "api_env \<Rightarrow> val \<Rightarrow> memory \<Rightarrow> Object \<times> memory" where
  "ProviderConfigUsageList_DeepCopyObject e v m = as_Object ''ProviderConfigUsageList'' (ProviderConfigUsageList_DeepCopy e v m)"


section \<open>Secret stores\<close>

definition StoreConfigSpec_ty :: "api_env \<Rightarrow> ty" where
  "StoreConfigSpec_ty e = TStruct
     [(''SecretStoreConfig'', ext_type e ''xpv1.SecretStoreConfig'')]"

definition StoreConfigSpec_DeepCopyInto :: "api_env \<Rightarrow> copier" where
  "StoreConfigSpec_DeepCopyInto e = copy_fields
     [(''SecretStoreConfig'', ext_copy e ''xpv1.SecretStoreConfig'')]"

definition StoreConfigSpec_DeepCopy :: "api_env \<Rightarrow> copier" where
  "StoreConfigSpec_DeepCopy e = copy_ptr (StoreConfigSpec_ty e) (StoreConfigSpec_DeepCopyInto e)"

definition StoreConfigStatus_ty :: "api_env \<Rightarrow> ty" where
  "StoreConfigStatus_ty e = TStruct
     [(''ConditionedStatus'', ext_type e ''xpv1.ConditionedStatus'')]"

definition StoreConfigStatus_DeepCopyInto :: "api_env \<Rightarrow> copier" where
  "StoreConfigStatus_DeepCopyInto e = copy_fields
     [(''ConditionedStatus'', ext_copy e ''xpv1.ConditionedStatus'')]"

definition StoreConfigStatus_DeepCopy :: "api_env \<Rightarrow> copier" where
  "StoreConfigStatus_DeepCopy e = copy_ptr (StoreConfigStatus_ty e) (StoreConfigStatus_DeepCopyInto e)"

definition StoreConfig_ty :: "api_env \<Rightarrow> ty" where
  "StoreConfig_ty e = TStruct
     [(''TypeMeta'', ext_type e ''metav1.TypeMeta''), (''ObjectMeta'', ext_type e ''metav1.ObjectMeta''),
      (''Spec'', StoreConfigSpec_ty e), (''Status'', StoreConfigStatus_ty e)]"

definition StoreConfig_DeepCopyInto :: "api_env \<Rightarrow> copier" where
  "StoreConfig_DeepCopyInto e = copy_fields
     [(''TypeMeta'', copy_assign), (''ObjectMeta'', ext_copy e ''metav1.ObjectMeta''),
      (''Spec'', StoreConfigSpec_DeepCopyInto e), (''Status'', StoreConfigStatus_DeepCopyInto e)]"

definition StoreConfig_DeepCopy :: "api_env \<Rightarrow> copier" where
  "StoreConfig_DeepCopy e = copy_ptr (StoreConfig_ty e) (StoreConfig_DeepCopyInto e)"

definition StoreConfig_DeepCopyObject :: "api_env \<Rightarrow> val \<Rightarrow> memory \<Rightarrow> Object \<times> memory" where
  "StoreConfig_DeepCopyObject e v m = as_Object ''StoreConfig'' (StoreConfig_DeepCopy e v m)"

definition StoreConfigList_ty :: "api_env \<Rightarrow> ty" where
  "StoreConfigList_ty e = TStruct
     [(''TypeMeta'', ext_type e ''metav1.TypeMeta''), (''ListMeta'', ext_type e ''metav1.ListMeta''),
      (''Items'', TSlice (StoreConfig_ty e))]"

definition StoreConfigList_DeepCopyInto :: "api_env \<Rightarrow> copier" where
  "StoreConfigList_DeepCopyInto e = copy_fields
     [(''TypeMeta'', copy_assign), (''ListMeta'', ext_copy e ''metav1.ListMeta''),
      (''Items'', copy_slice (StoreConfig_ty e) (StoreConfig_DeepCopyInto e))]"

definition StoreConfigList_DeepCopy :: "api_env \<Rightarrow> copier" where
  "StoreConfigList_DeepCopy e = copy_ptr (StoreConfigList_ty e) (StoreConfigList_DeepCopyInto e)"

definition StoreConfigList_DeepCopyObject :: "api_env \<Rightarrow> val \<Rightarrow> memory \<Rightarrow> Object \<times> memory" where
  "StoreConfigList_DeepCopyObject e v m = as_Object ''StoreConfigList'' (StoreConfigList_DeepCopy e v m)"


section \<open>Every copy is deep\<close>

lemma ProviderCredentials_deep [deep_copies]:
  "env_ok e \<Longrightarrow> deep_copy (ProviderCredentials_ty e) (ProviderCredentials_DeepCopyInto e)"
  unfolding ProviderCredentials_ty_def ProviderCredentials_DeepCopyInto_def
  by (intro deep_copy_struct) (simp add: fields_covered_def deep_copies)

lemma ProviderConfigSpec_deep [deep_copies]:
  "env_ok e \<Longrightarrow> deep_copy (ProviderConfigSpec_ty e) (ProviderConfigSpec_DeepCopyInto e)"
  unfolding ProviderConfigSpec_ty_def ProviderConfigSpec_DeepCopyInto_def
  by (intro deep_copy_struct) (simp add: fields_covered_def deep_copies)

lemma ProviderConfigStatus_deep [deep_copies]:
  "env_ok e \<Longrightarrow> deep_copy (ProviderConfigStatus_ty e) (ProviderConfigStatus_DeepCopyInto e)"
  unfolding ProviderConfigStatus_ty_def ProviderConfigStatus_DeepCopyInto_def
  by (intro deep_copy_struct) (simp add: fields_covered_def deep_copies)

lemma ProviderConfig_deep [deep_copies]:
  "env_ok e \<Longrightarrow> deep_copy (ProviderConfig_ty e) (ProviderConfig_DeepCopyInto e)"
  unfolding ProviderConfig_ty_def ProviderConfig_DeepCopyInto_def
  by (intro deep_copy_struct) (simp add: fields_covered_def deep_copies)

lemma ProviderConfigList_deep [deep_copies]:
  "env_ok e \<Longrightarrow> deep_copy (ProviderConfigList_ty e) (ProviderConfigList_DeepCopyInto e)"
  unfolding ProviderConfigList_ty_def ProviderConfigList_DeepCopyInto_def
  by (intro deep_copy_struct) (simp add: fields_covered_def deep_copies)

lemma ProviderConfigUsage_deep [deep_copies]:
  "env_ok e \<Longrightarrow> deep_copy (ProviderConfigUsage_ty e) (ProviderConfigUsage_DeepCopyInto e)"
  unfolding ProviderConfigUsage_ty_def ProviderConfigUsage_DeepCopyInto_def
  by (intro deep_copy_struct) (simp add: fields_covered_def deep_copies)

lemma ProviderConfigUsageList_deep [deep_copies]:
  "env_ok e \<Longrightarrow> deep_copy (ProviderConfigUsageList_ty e) (ProviderConfigUsageList_DeepCopyInto e)"
  unfolding ProviderConfigUsageList_ty_def ProviderConfigUsageList_DeepCopyInto_def
  by (intro deep_copy_struct) (simp add: fields_covered_def deep_copies)

lemma StoreConfigSpec_deep [deep_copies]:
  "env_ok e \<Longrightarrow> deep_copy (StoreConfigSpec_ty e) (StoreConfigSpec_DeepCopyInto e)"
  unfolding StoreConfigSpec_ty_def StoreConfigSpec_DeepCopyInto_def
  by (intro deep_copy_struct) (simp add: fields_covered_def deep_copies)

lemma StoreConfigStatus_deep [deep_copies]:
  "env_ok e \<Longrightarrow> deep_copy (StoreConfigStatus_ty e) (StoreConfigStatus_DeepCopyInto e)"
  unfolding StoreConfigStatus_ty_def StoreConfigStatus_DeepCopyInto_def
  by (intro deep_copy_struct) (simp add: fields_covered_def deep_copies)

lemma StoreConfig_deep [deep_copies]:
  "env_ok e \<Longrightarrow> deep_copy (StoreConfig_ty e) (StoreConfig_DeepCopyInto e)"
  unfolding StoreConfig_ty_def StoreConfig_DeepCopyInto_def
  by (intro deep_copy_struct) (simp add: fields_covered_def deep_copies)

lemma StoreConfigList_deep [deep_copies]:
  "env_ok e \<Longrightarrow> deep_copy (StoreConfigList_ty e) (StoreConfigList_DeepCopyInto e)"
  unfolding StoreConfigList_ty_def StoreConfigList_DeepCopyInto_def
  by (intro deep_copy_struct) (simp add: fields_covered_def deep_copies)

end
