(* ===== verification/AdminTypes.thy ===== *)
theory AdminTypes
  imports GoMemory
begin

text \<open>
  The package \<open>apis/admin/v1alpha1\<close>: users, roles, groups, audit policies, certificates, X.509 providers and security environments. For every struct of the package its type, with
  the fields as they are declared, and its generated methods \<open>DeepCopyInto\<close>, \<open>DeepCopy\<close> and, for the objects
  of the API, \<open>DeepCopyObject\<close> (\<open>zz_generated.deepcopy.go\<close>). The lemmas of the collection \<open>deep_copies\<close> say that
  every \<open>DeepCopyInto\<close> is a deep copy: no field of the type that holds an address is left out.
\<close>

section \<open>References and personal security environments\<close>

definition CertificateRef_ty :: ty where
  "CertificateRef_ty = TStruct
     [(''ID'', TPtr TInt), (''Name'', TPtr TString)]"

definition CertificateRef_DeepCopyInto :: copier where
  "CertificateRef_DeepCopyInto = copy_fields
     [(''ID'', copy_ptr TInt copy_assign), (''Name'', copy_ptr TString copy_assign)]"

definition CertificateRef_DeepCopy :: copier where
  "CertificateRef_DeepCopy = copy_ptr CertificateRef_ty CertificateRef_DeepCopyInto"

definition X509ProviderRef_ty :: "api_env \<Rightarrow> ty" where
  "X509ProviderRef_ty e = TStruct
     [(''Name'', TString), (''ProviderRef'', TPtr (ext_type e ''xpv1.Reference''))]"

definition X509ProviderRef_DeepCopyInto :: "api_env \<Rightarrow> copier" where
  "X509ProviderRef_DeepCopyInto e = copy_fields
     [(''ProviderRef'', copy_ptr (ext_type e ''xpv1.Reference'') (ext_copy e ''xpv1.Reference''))]"

definition X509ProviderRef_DeepCopy :: "api_env \<Rightarrow> copier" where
  "X509ProviderRef_DeepCopy e = copy_ptr (X509ProviderRef_ty e) (X509ProviderRef_DeepCopyInto e)"

definition X509UserMapping_ty :: "api_env \<Rightarrow> ty" where
  "X509UserMapping_ty e = TStruct
     [(''X509ProviderRef'', X509ProviderRef_ty e), (''SubjectName'', TString)]"

definition X509UserMapping_DeepCopyInto :: "api_env \<Rightarrow> copier" where
  "X509UserMapping_DeepCopyInto e = copy_fields
     [(''X509ProviderRef'', X509ProviderRef_DeepCopyInto e)]"

definition X509UserMapping_DeepCopy :: "api_env \<Rightarrow> copier" where
  "X509UserMapping_DeepCopy e = copy_ptr (X509UserMapping_ty e) (X509UserMapping_DeepCopyInto e)"

definition PersonalSecurityEnvironmentParameters_ty :: "api_env \<Rightarrow> ty" where
  "PersonalSecurityEnvironmentParameters_ty e = TStruct
     [(''Name'', TString), (''X509ProviderRef'', TPtr (X509ProviderRef_ty e)),
      (''CertificateRefs'', TSlice CertificateRef_ty)]"

definition PersonalSecurityEnvironmentParameters_DeepCopyInto :: "api_env \<Rightarrow> copier" where
  "PersonalSecurityEnvironmentParameters_DeepCopyInto e = copy_fields
     [(''X509ProviderRef'', copy_ptr (X509ProviderRef_ty e) (X509ProviderRef_DeepCopyInto e)),
      (''CertificateRefs'', copy_slice CertificateRef_ty CertificateRef_DeepCopyInto)]"

definition PersonalSecurityEnvironmentParameters_DeepCopy :: "api_env \<Rightarrow> copier" where
  "PersonalSecurityEnvironmentParameters_DeepCopy e = copy_ptr (PersonalSecurityEnvironmentParameters_ty e) (PersonalSecurityEnvironmentParameters_DeepCopyInto e)"

definition PersonalSecurityEnvironmentSpec_ty :: "api_env \<Rightarrow> ty" where
  "PersonalSecurityEnvironmentSpec_ty e = TStruct
     [(''ResourceSpec'', ext_type e ''xpv1.ResourceSpec''),
      (''ForProvider'', PersonalSecurityEnvironmentParameters_ty e)]"

definition PersonalSecurityEnvironmentSpec_DeepCopyInto :: "api_env \<Rightarrow> copier" where
  "PersonalSecurityEnvironmentSpec_DeepCopyInto e = copy_fields
     [(''ResourceSpec'', ext_copy e ''xpv1.ResourceSpec''),
      (''ForProvider'', PersonalSecurityEnvironmentParameters_DeepCopyInto e)]"

definition PersonalSecurityEnvironmentSpec_DeepCopy :: "api_env \<Rightarrow> copier" where
  "PersonalSecurityEnvironmentSpec_DeepCopy e = copy_ptr (PersonalSecurityEnvironmentSpec_ty e) (PersonalSecurityEnvironmentSpec_DeepCopyInto e)"

definition PersonalSecurityEnvironmentObservation_ty :: ty where
  "PersonalSecurityEnvironmentObservation_ty = TStruct
     [(''Name'', TString), (''X509ProviderName'', TString), (''CertificateRefs'', TSlice CertificateRef_ty)]"

definition PersonalSecurityEnvironmentObservation_DeepCopyInto :: copier where
  "PersonalSecurityEnvironmentObservation_DeepCopyInto = copy_fields
     [(''CertificateRefs'', copy_slice CertificateRef_ty CertificateRef_DeepCopyInto)]"

definition PersonalSecurityEnvironmentObservation_DeepCopy :: copier where
  "PersonalSecurityEnvironmentObservation_DeepCopy = copy_ptr PersonalSecurityEnvironmentObservation_ty PersonalSecurityEnvironmentObservation_DeepCopyInto"

definition PersonalSecurityEnvironmentStatus_ty :: "api_env \<Rightarrow> ty" where
  "PersonalSecurityEnvironmentStatus_ty e = TStruct
     [(''ResourceStatus'', ext_type e ''xpv1.ResourceStatus''),
      (''AtProvider'', PersonalSecurityEnvironmentObservation_ty)]"

definition PersonalSecurityEnvironmentStatus_DeepCopyInto :: "api_env \<Rightarrow> copier" where
  "PersonalSecurityEnvironmentStatus_DeepCopyInto e = copy_fields
     [(''ResourceStatus'', ext_copy e ''xpv1.ResourceStatus''),
      (''AtProvider'', PersonalSecurityEnvironmentObservation_DeepCopyInto)]"

definition PersonalSecurityEnvironmentStatus_DeepCopy :: "api_env \<Rightarrow> copier" where
  "PersonalSecurityEnvironmentStatus_DeepCopy e = copy_ptr (PersonalSecurityEnvironmentStatus_ty e) (PersonalSecurityEnvironmentStatus_DeepCopyInto e)"

definition PersonalSecurityEnvironment_ty :: "api_env \<Rightarrow> ty" where
  "PersonalSecurityEnvironment_ty e = TStruct
     [(''TypeMeta'', ext_type e ''metav1.TypeMeta''), (''ObjectMeta'', ext_type e ''metav1.ObjectMeta''),
      (''Spec'', PersonalSecurityEnvironmentSpec_ty e), (''Status'', PersonalSecurityEnvironmentStatus_ty e)]"

definition PersonalSecurityEnvironment_DeepCopyInto :: "api_env \<Rightarrow> copier" where
  "PersonalSecurityEnvironment_DeepCopyInto e = copy_fields
     [(''TypeMeta'', copy_assign), (''ObjectMeta'', ext_copy e ''metav1.ObjectMeta''),
      (''Spec'', PersonalSecurityEnvironmentSpec_DeepCopyInto e),
      (''Status'', PersonalSecurityEnvironmentStatus_DeepCopyInto e)]"

definition PersonalSecurityEnvironment_DeepCopy :: "api_env \<Rightarrow> copier" where
  "PersonalSecurityEnvironment_DeepCopy e = copy_ptr (PersonalSecurityEnvironment_ty e) (PersonalSecurityEnvironment_DeepCopyInto e)"

definition PersonalSecurityEnvironment_DeepCopyObject :: "api_env \<Rightarrow> val \<Rightarrow> memory \<Rightarrow> Object \<times> memory" where
  "PersonalSecurityEnvironment_DeepCopyObject e v m = as_Object ''PersonalSecurityEnvironment'' (PersonalSecurityEnvironment_DeepCopy e v m)"

definition PersonalSecurityEnvironmentList_ty :: "api_env \<Rightarrow> ty" where
  "PersonalSecurityEnvironmentList_ty e = TStruct
     [(''TypeMeta'', ext_type e ''metav1.TypeMeta''), (''ListMeta'', ext_type e ''metav1.ListMeta''),
      (''Items'', TSlice (PersonalSecurityEnvironment_ty e))]"

definition PersonalSecurityEnvironmentList_DeepCopyInto :: "api_env \<Rightarrow> copier" where
  "PersonalSecurityEnvironmentList_DeepCopyInto e = copy_fields
     [(''TypeMeta'', copy_assign), (''ListMeta'', ext_copy e ''metav1.ListMeta''),
      (''Items'', copy_slice (PersonalSecurityEnvironment_ty e) (PersonalSecurityEnvironment_DeepCopyInto e))]"

definition PersonalSecurityEnvironmentList_DeepCopy :: "api_env \<Rightarrow> copier" where
  "PersonalSecurityEnvironmentList_DeepCopy e = copy_ptr (PersonalSecurityEnvironmentList_ty e) (PersonalSecurityEnvironmentList_DeepCopyInto e)"

definition PersonalSecurityEnvironmentList_DeepCopyObject :: "api_env \<Rightarrow> val \<Rightarrow> memory \<Rightarrow> Object \<times> memory" where
  "PersonalSecurityEnvironmentList_DeepCopyObject e v m = as_Object ''PersonalSecurityEnvironmentList'' (PersonalSecurityEnvironmentList_DeepCopy e v m)"


section \<open>Audit policies\<close>

definition AuditPolicyParameters_ty :: ty where
  "AuditPolicyParameters_ty = TStruct
     [(''PolicyName'', TString), (''AuditActions'', TSlice TString), (''AuditStatus'', TString),
      (''AuditLevel'', TString), (''AuditTrailRetention'', TPtr TInt), (''Enabled'', TPtr TBool)]"

definition AuditPolicyParameters_DeepCopyInto :: copier where
  "AuditPolicyParameters_DeepCopyInto = copy_fields
     [(''AuditActions'', copy_slice TString copy_assign), (''AuditTrailRetention'', copy_ptr TInt copy_assign),
      (''Enabled'', copy_ptr TBool copy_assign)]"

definition AuditPolicyParameters_DeepCopy :: copier where
  "AuditPolicyParameters_DeepCopy = copy_ptr AuditPolicyParameters_ty AuditPolicyParameters_DeepCopyInto"

definition AuditPolicyObservation_ty :: ty where
  "AuditPolicyObservation_ty = TStruct
     [(''PolicyName'', TString), (''AuditActions'', TSlice TString), (''AuditStatus'', TString),
      (''AuditLevel'', TString), (''AuditTrailRetention'', TPtr TInt), (''Enabled'', TPtr TBool)]"

definition AuditPolicyObservation_DeepCopyInto :: copier where
  "AuditPolicyObservation_DeepCopyInto = copy_fields
     [(''AuditActions'', copy_slice TString copy_assign), (''AuditTrailRetention'', copy_ptr TInt copy_assign),
      (''Enabled'', copy_ptr TBool copy_assign)]"

definition AuditPolicyObservation_DeepCopy :: copier where
  "AuditPolicyObservation_DeepCopy = copy_ptr AuditPolicyObservation_ty AuditPolicyObservation_DeepCopyInto"

definition AuditPolicySpec_ty :: "api_env \<Rightarrow> ty" where
  "AuditPolicySpec_ty e = TStruct
     [(''ResourceSpec'', ext_type e ''xpv1.ResourceSpec''), (''ForProvider'', AuditPolicyParameters_ty)]"

definition AuditPolicySpec_DeepCopyInto :: "api_env \<Rightarrow> copier" where
  "AuditPolicySpec_DeepCopyInto e = copy_fields
     [(''ResourceSpec'', ext_copy e ''xpv1.ResourceSpec''), (''ForProvider'', AuditPolicyParameters_DeepCopyInto)]"

definition AuditPolicySpec_DeepCopy :: "api_env \<Rightarrow> copier" where
  "AuditPolicySpec_DeepCopy e = copy_ptr (AuditPolicySpec_ty e) (AuditPolicySpec_DeepCopyInto e)"

definition AuditPolicyStatus_ty :: "api_env \<Rightarrow> ty" where
  "AuditPolicyStatus_ty e = TStruct
     [(''ResourceStatus'', ext_type e ''xpv1.ResourceStatus''), (''AtProvider'', AuditPolicyObservation_ty)]"

definition AuditPolicyStatus_DeepCopyInto :: "api_env \<Rightarrow> copier" where
  "AuditPolicyStatus_DeepCopyInto e = copy_fields
     [(''ResourceStatus'', ext_copy e ''xpv1.ResourceStatus''), (''AtProvider'', AuditPolicyObservation_DeepCopyInto)]"

definition AuditPolicyStatus_DeepCopy :: "api_env \<Rightarrow> copier" where
  "AuditPolicyStatus_DeepCopy e = copy_ptr (AuditPolicyStatus_ty e) (AuditPolicyStatus_DeepCopyInto e)"

definition AuditPolicy_ty :: "api_env \<Rightarrow> ty" where
  "AuditPolicy_ty e = TStruct
     [(''TypeMeta'', ext_type e ''metav1.TypeMeta''), (''ObjectMeta'', ext_type e ''metav1.ObjectMeta''),
      (''Spec'', AuditPolicySpec_ty e), (''Status'', AuditPolicyStatus_ty e)]"

definition AuditPolicy_DeepCopyInto :: "api_env \<Rightarrow> copier" where
  "AuditPolicy_DeepCopyInto e = copy_fields
     [(''TypeMeta'', copy_assign), (''ObjectMeta'', ext_copy e ''metav1.ObjectMeta''),
      (''Spec'', AuditPolicySpec_DeepCopyInto e), (''Status'', AuditPolicyStatus_DeepCopyInto e)]"

definition AuditPolicy_DeepCopy :: "api_env \<Rightarrow> copier" where
  "AuditPolicy_DeepCopy e = copy_ptr (AuditPolicy_ty e) (AuditPolicy_DeepCopyInto e)"

definition AuditPolicy_DeepCopyObject :: "api_env \<Rightarrow> val \<Rightarrow> memory \<Rightarrow> Object \<times> memory" where
  "AuditPolicy_DeepCopyObject e v m = as_Object ''AuditPolicy'' (AuditPolicy_DeepCopy e v m)"

definition AuditPolicyList_ty :: "api_env \<Rightarrow> ty" where
  "AuditPolicyList_ty e = TStruct
     [(''TypeMeta'', ext_type e ''metav1.TypeMeta''), (''ListMeta'', ext_type e ''metav1.ListMeta''),
      (''Items'', TSlice (AuditPolicy_ty e))]"

definition AuditPolicyList_DeepCopyInto :: "api_env \<Rightarrow> copier" where
  "AuditPolicyList_DeepCopyInto e = copy_fields
     [(''TypeMeta'', copy_assign), (''ListMeta'', ext_copy e ''metav1.ListMeta''),
      (''Items'', copy_slice (AuditPolicy_ty e) (AuditPolicy_DeepCopyInto e))]"

definition AuditPolicyList_DeepCopy :: "api_env \<Rightarrow> copier" where
  "AuditPolicyList_DeepCopy e = copy_ptr (AuditPolicyList_ty e) (AuditPolicyList_DeepCopyInto e)"

definition AuditPolicyList_DeepCopyObject :: "api_env \<Rightarrow> val \<Rightarrow> memory \<Rightarrow> Object \<times> memory" where
  "AuditPolicyList_DeepCopyObject e v m = as_Object ''AuditPolicyList'' (AuditPolicyList_DeepCopy e v m)"


section \<open>Certificates\<close>

definition CertificateParameters_ty :: "api_env \<Rightarrow> ty" where
  "CertificateParameters_ty e = TStruct
     [(''Name'', TString), (''CertificateSecretRef'', TPtr (ext_type e ''xpv1.SecretKeySelector''))]"

definition CertificateParameters_DeepCopyInto :: "api_env \<Rightarrow> copier" where
  "CertificateParameters_DeepCopyInto e = copy_fields
     [(''CertificateSecretRef'', copy_ptr (ext_type e ''xpv1.SecretKeySelector'') copy_assign)]"

definition CertificateParameters_DeepCopy :: "api_env \<Rightarrow> copier" where
  "CertificateParameters_DeepCopy e = copy_ptr (CertificateParameters_ty e) (CertificateParameters_DeepCopyInto e)"

definition ImportedCertificate_ty :: ty where
  "ImportedCertificate_ty = TStruct
     [(''ID'', TPtr TInt), (''Name'', TString)]"

definition ImportedCertificate_DeepCopyInto :: copier where
  "ImportedCertificate_DeepCopyInto = copy_fields
     [(''ID'', copy_ptr TInt copy_assign)]"

definition ImportedCertificate_DeepCopy :: copier where
  "ImportedCertificate_DeepCopy = copy_ptr ImportedCertificate_ty ImportedCertificate_DeepCopyInto"

definition CertificateObservation_ty :: ty where
  "CertificateObservation_ty = TStruct
     [(''Certificates'', TSlice ImportedCertificate_ty)]"

definition CertificateObservation_DeepCopyInto :: copier where
  "CertificateObservation_DeepCopyInto = copy_fields
     [(''Certificates'', copy_slice ImportedCertificate_ty ImportedCertificate_DeepCopyInto)]"

definition CertificateObservation_DeepCopy :: copier where
  "CertificateObservation_DeepCopy = copy_ptr CertificateObservation_ty CertificateObservation_DeepCopyInto"

definition CertificateSpec_ty :: "api_env \<Rightarrow> ty" where
  "CertificateSpec_ty e = TStruct
     [(''ResourceSpec'', ext_type e ''xpv1.ResourceSpec''), (''ForProvider'', CertificateParameters_ty e)]"

definition CertificateSpec_DeepCopyInto :: "api_env \<Rightarrow> copier" where
  "CertificateSpec_DeepCopyInto e = copy_fields
     [(''ResourceSpec'', ext_copy e ''xpv1.ResourceSpec''), (''ForProvider'', CertificateParameters_DeepCopyInto e)]"

definition CertificateSpec_DeepCopy :: "api_env \<Rightarrow> copier" where
  "CertificateSpec_DeepCopy e = copy_ptr (CertificateSpec_ty e) (CertificateSpec_DeepCopyInto e)"

definition CertificateStatus_ty :: "api_env \<Rightarrow> ty" where
  "CertificateStatus_ty e = TStruct
     [(''ResourceStatus'', ext_type e ''xpv1.ResourceStatus''), (''AtProvider'', CertificateObservation_ty)]"

definition CertificateStatus_DeepCopyInto :: "api_env \<Rightarrow> copier" where
  "CertificateStatus_DeepCopyInto e = copy_fields
     [(''ResourceStatus'', ext_copy e ''xpv1.ResourceStatus''), (''AtProvider'', CertificateObservation_DeepCopyInto)]"

definition CertificateStatus_DeepCopy :: "api_env \<Rightarrow> copier" where
  "CertificateStatus_DeepCopy e = copy_ptr (CertificateStatus_ty e) (CertificateStatus_DeepCopyInto e)"

definition Certificate_ty :: "api_env \<Rightarrow> ty" where
  "Certificate_ty e = TStruct
     [(''TypeMeta'', ext_type e ''metav1.TypeMeta''), (''ObjectMeta'', ext_type e ''metav1.ObjectMeta''),
      (''Spec'', CertificateSpec_ty e), (''Status'', CertificateStatus_ty e)]"

definition Certificate_DeepCopyInto :: "api_env \<Rightarrow> copier" where
  "Certificate_DeepCopyInto e = copy_fields
     [(''TypeMeta'', copy_assign), (''ObjectMeta'', ext_copy e ''metav1.ObjectMeta''),
      (''Spec'', CertificateSpec_DeepCopyInto e), (''Status'', CertificateStatus_DeepCopyInto e)]"

definition Certificate_DeepCopy :: "api_env \<Rightarrow> copier" where
  "Certificate_DeepCopy e = copy_ptr (Certificate_ty e) (Certificate_DeepCopyInto e)"

definition Certificate_DeepCopyObject :: "api_env \<Rightarrow> val \<Rightarrow> memory \<Rightarrow> Object \<times> memory" where
  "Certificate_DeepCopyObject e v m = as_Object ''Certificate'' (Certificate_DeepCopy e v m)"

definition CertificateList_ty :: "api_env \<Rightarrow> ty" where
  "CertificateList_ty e = TStruct
     [(''TypeMeta'', ext_type e ''metav1.TypeMeta''), (''ListMeta'', ext_type e ''metav1.ListMeta''),
      (''Items'', TSlice (Certificate_ty e))]"

definition CertificateList_DeepCopyInto :: "api_env \<Rightarrow> copier" where
  "CertificateList_DeepCopyInto e = copy_fields
     [(''TypeMeta'', copy_assign), (''ListMeta'', ext_copy e ''metav1.ListMeta''),
      (''Items'', copy_slice (Certificate_ty e) (Certificate_DeepCopyInto e))]"

definition CertificateList_DeepCopy :: "api_env \<Rightarrow> copier" where
  "CertificateList_DeepCopy e = copy_ptr (CertificateList_ty e) (CertificateList_DeepCopyInto e)"

definition CertificateList_DeepCopyObject :: "api_env \<Rightarrow> val \<Rightarrow> memory \<Rightarrow> Object \<times> memory" where
  "CertificateList_DeepCopyObject e v m = as_Object ''CertificateList'' (CertificateList_DeepCopy e v m)"


section \<open>Roles\<close>

definition RoleParameters_ty :: ty where
  "RoleParameters_ty = TStruct
     [(''RoleName'', TString), (''Schema'', TString), (''LdapGroups'', TSlice TString),
      (''Privileges'', TSlice TString), (''Rolegroup'', TString), (''NoGrantToCreator'', TBool)]"

definition RoleParameters_DeepCopyInto :: copier where
  "RoleParameters_DeepCopyInto = copy_fields
     [(''LdapGroups'', copy_slice TString copy_assign), (''Privileges'', copy_slice TString copy_assign)]"

definition RoleParameters_DeepCopy :: copier where
  "RoleParameters_DeepCopy = copy_ptr RoleParameters_ty RoleParameters_DeepCopyInto"

definition RoleObservation_ty :: ty where
  "RoleObservation_ty = TStruct
     [(''RoleName'', TString), (''Schema'', TString), (''LdapGroups'', TSlice TString),
      (''Privileges'', TSlice TString), (''Rolegroup'', TString)]"

definition RoleObservation_DeepCopyInto :: copier where
  "RoleObservation_DeepCopyInto = copy_fields
     [(''LdapGroups'', copy_slice TString copy_assign), (''Privileges'', copy_slice TString copy_assign)]"

definition RoleObservation_DeepCopy :: copier where
  "RoleObservation_DeepCopy = copy_ptr RoleObservation_ty RoleObservation_DeepCopyInto"

definition RoleSpec_ty :: "api_env \<Rightarrow> ty" where
  "RoleSpec_ty e = TStruct
     [(''ResourceSpec'', ext_type e ''xpv1.ResourceSpec''), (''ForProvider'', RoleParameters_ty)]"

definition RoleSpec_DeepCopyInto :: "api_env \<Rightarrow> copier" where
  "RoleSpec_DeepCopyInto e = copy_fields
     [(''ResourceSpec'', ext_copy e ''xpv1.ResourceSpec''), (''ForProvider'', RoleParameters_DeepCopyInto)]"

definition RoleSpec_DeepCopy :: "api_env \<Rightarrow> copier" where
  "RoleSpec_DeepCopy e = copy_ptr (RoleSpec_ty e) (RoleSpec_DeepCopyInto e)"

definition RoleStatus_ty :: "api_env \<Rightarrow> ty" where
  "RoleStatus_ty e = TStruct
     [(''ResourceStatus'', ext_type e ''xpv1.ResourceStatus''), (''AtProvider'', RoleObservation_ty)]"

definition RoleStatus_DeepCopyInto :: "api_env \<Rightarrow> copier" where
  "RoleStatus_DeepCopyInto e = copy_fields
     [(''ResourceStatus'', ext_copy e ''xpv1.ResourceStatus''), (''AtProvider'', RoleObservation_DeepCopyInto)]"

definition RoleStatus_DeepCopy :: "api_env \<Rightarrow> copier" where
  "RoleStatus_DeepCopy e = copy_ptr (RoleStatus_ty e) (RoleStatus_DeepCopyInto e)"

definition Role_ty :: "api_env \<Rightarrow> ty" where
  "Role_ty e = TStruct
     [(''TypeMeta'', ext_type e ''metav1.TypeMeta''), (''ObjectMeta'', ext_type e ''metav1.ObjectMeta''),
      (''Spec'', RoleSpec_ty e), (''Status'', RoleStatus_ty e)]"

definition Role_DeepCopyInto :: "api_env \<Rightarrow> copier" where
  "Role_DeepCopyInto e = copy_fields
     [(''TypeMeta'', copy_assign), (''ObjectMeta'', ext_copy e ''metav1.ObjectMeta''),
      (''Spec'', RoleSpec_DeepCopyInto e), (''Status'', RoleStatus_DeepCopyInto e)]"

definition Role_DeepCopy :: "api_env \<Rightarrow> copier" where
  "Role_DeepCopy e = copy_ptr (Role_ty e) (Role_DeepCopyInto e)"

definition Role_DeepCopyObject :: "api_env \<Rightarrow> val \<Rightarrow> memory \<Rightarrow> Object \<times> memory" where
  "Role_DeepCopyObject e v m = as_Object ''Role'' (Role_DeepCopy e v m)"

definition RoleList_ty :: "api_env \<Rightarrow> ty" where
  "RoleList_ty e = TStruct
     [(''TypeMeta'', ext_type e ''metav1.TypeMeta''), (''ListMeta'', ext_type e ''metav1.ListMeta''),
      (''Items'', TSlice (Role_ty e))]"

definition RoleList_DeepCopyInto :: "api_env \<Rightarrow> copier" where
  "RoleList_DeepCopyInto e = copy_fields
     [(''TypeMeta'', copy_assign), (''ListMeta'', ext_copy e ''metav1.ListMeta''),
      (''Items'', copy_slice (Role_ty e) (Role_DeepCopyInto e))]"

definition RoleList_DeepCopy :: "api_env \<Rightarrow> copier" where
  "RoleList_DeepCopy e = copy_ptr (RoleList_ty e) (RoleList_DeepCopyInto e)"

definition RoleList_DeepCopyObject :: "api_env \<Rightarrow> val \<Rightarrow> memory \<Rightarrow> Object \<times> memory" where
  "RoleList_DeepCopyObject e v m = as_Object ''RoleList'' (RoleList_DeepCopy e v m)"


section \<open>Role groups\<close>

definition RolegroupParameters_ty :: ty where
  "RolegroupParameters_ty = TStruct
     [(''RolegroupName'', TString), (''DisableRoleAdmin'', TBool), (''NoGrantToCreator'', TBool),
      (''ForGrantsOnTenantObjects'', TBool)]"

definition RolegroupParameters_DeepCopyInto :: copier where
  "RolegroupParameters_DeepCopyInto = copy_assign"

definition RolegroupParameters_DeepCopy :: copier where
  "RolegroupParameters_DeepCopy = copy_ptr RolegroupParameters_ty RolegroupParameters_DeepCopyInto"

definition RolegroupObservation_ty :: ty where
  "RolegroupObservation_ty = TStruct
     [(''RolegroupName'', TString), (''DisableRoleAdmin'', TBool)]"

definition RolegroupObservation_DeepCopyInto :: copier where
  "RolegroupObservation_DeepCopyInto = copy_assign"

definition RolegroupObservation_DeepCopy :: copier where
  "RolegroupObservation_DeepCopy = copy_ptr RolegroupObservation_ty RolegroupObservation_DeepCopyInto"

definition RolegroupSpec_ty :: "api_env \<Rightarrow> ty" where
  "RolegroupSpec_ty e = TStruct
     [(''ResourceSpec'', ext_type e ''xpv1.ResourceSpec''), (''ForProvider'', RolegroupParameters_ty)]"

definition RolegroupSpec_DeepCopyInto :: "api_env \<Rightarrow> copier" where
  "RolegroupSpec_DeepCopyInto e = copy_fields
     [(''ResourceSpec'', ext_copy e ''xpv1.ResourceSpec''), (''ForProvider'', copy_assign)]"

definition RolegroupSpec_DeepCopy :: "api_env \<Rightarrow> copier" where
  "RolegroupSpec_DeepCopy e = copy_ptr (RolegroupSpec_ty e) (RolegroupSpec_DeepCopyInto e)"

definition RolegroupStatus_ty :: "api_env \<Rightarrow> ty" where
  "RolegroupStatus_ty e = TStruct
     [(''ResourceStatus'', ext_type e ''xpv1.ResourceStatus''), (''AtProvider'', RolegroupObservation_ty)]"

definition RolegroupStatus_DeepCopyInto :: "api_env \<Rightarrow> copier" where
  "RolegroupStatus_DeepCopyInto e = copy_fields
     [(''ResourceStatus'', ext_copy e ''xpv1.ResourceStatus''), (''AtProvider'', copy_assign)]"

definition RolegroupStatus_DeepCopy :: "api_env \<Rightarrow> copier" where
  "RolegroupStatus_DeepCopy e = copy_ptr (RolegroupStatus_ty e) (RolegroupStatus_DeepCopyInto e)"

definition Rolegroup_ty :: "api_env \<Rightarrow> ty" where
  "Rolegroup_ty e = TStruct
     [(''TypeMeta'', ext_type e ''metav1.TypeMeta''), (''ObjectMeta'', ext_type e ''metav1.ObjectMeta''),
      (''Spec'', RolegroupSpec_ty e), (''Status'', RolegroupStatus_ty e)]"

definition Rolegroup_DeepCopyInto :: "api_env \<Rightarrow> copier" where
  "Rolegroup_DeepCopyInto e = copy_fields
     [(''TypeMeta'', copy_assign), (''ObjectMeta'', ext_copy e ''metav1.ObjectMeta''),
      (''Spec'', RolegroupSpec_DeepCopyInto e), (''Status'', RolegroupStatus_DeepCopyInto e)]"

definition Rolegroup_DeepCopy :: "api_env \<Rightarrow> copier" where
  "Rolegroup_DeepCopy e = copy_ptr (Rolegroup_ty e) (Rolegroup_DeepCopyInto e)"

definition Rolegroup_DeepCopyObject :: "api_env \<Rightarrow> val \<Rightarrow> memory \<Rightarrow> Object \<times> memory" where
  "Rolegroup_DeepCopyObject e v m = as_Object ''Rolegroup'' (Rolegroup_DeepCopy e v m)"

definition RolegroupList_ty :: "api_env \<Rightarrow> ty" where
  "RolegroupList_ty e = TStruct
     [(''TypeMeta'', ext_type e ''metav1.TypeMeta''), (''ListMeta'', ext_type e ''metav1.ListMeta''),
      (''Items'', TSlice (Rolegroup_ty e))]"

definition RolegroupList_DeepCopyInto :: "api_env \<Rightarrow> copier" where
  "RolegroupList_DeepCopyInto e = copy_fields
     [(''TypeMeta'', copy_assign), (''ListMeta'', ext_copy e ''metav1.ListMeta''),
      (''Items'', copy_slice (Rolegroup_ty e) (Rolegroup_DeepCopyInto e))]"

definition RolegroupList_DeepCopy :: "api_env \<Rightarrow> copier" where
  "RolegroupList_DeepCopy e = copy_ptr (RolegroupList_ty e) (RolegroupList_DeepCopyInto e)"

definition RolegroupList_DeepCopyObject :: "api_env \<Rightarrow> val \<Rightarrow> memory \<Rightarrow> Object \<times> memory" where
  "RolegroupList_DeepCopyObject e v m = as_Object ''RolegroupList'' (RolegroupList_DeepCopy e v m)"


section \<open>Users\<close>

definition Password_ty :: "api_env \<Rightarrow> ty" where
  "Password_ty e = TStruct
     [(''PasswordSecretRef'', TPtr (ext_type e ''xpv1.SecretKeySelector'')), (''ForceFirstPasswordChange'', TBool)]"

definition Password_DeepCopyInto :: "api_env \<Rightarrow> copier" where
  "Password_DeepCopyInto e = copy_fields
     [(''PasswordSecretRef'', copy_ptr (ext_type e ''xpv1.SecretKeySelector'') copy_assign)]"

definition Password_DeepCopy :: "api_env \<Rightarrow> copier" where
  "Password_DeepCopy e = copy_ptr (Password_ty e) (Password_DeepCopyInto e)"

definition Authentication_ty :: "api_env \<Rightarrow> ty" where
  "Authentication_ty e = TStruct
     [(''Password'', TPtr (Password_ty e)), (''X509Providers'', TSlice (X509UserMapping_ty e))]"

definition Authentication_DeepCopyInto :: "api_env \<Rightarrow> copier" where
  "Authentication_DeepCopyInto e = copy_fields
     [(''Password'', copy_ptr (Password_ty e) (Password_DeepCopyInto e)),
      (''X509Providers'', copy_slice (X509UserMapping_ty e) (X509UserMapping_DeepCopyInto e))]"

definition Authentication_DeepCopy :: "api_env \<Rightarrow> copier" where
  "Authentication_DeepCopy e = copy_ptr (Authentication_ty e) (Authentication_DeepCopyInto e)"

definition UserParameters_ty :: "api_env \<Rightarrow> ty" where
  "UserParameters_ty e = TStruct
     [(''Username'', TString), (''RestrictedUser'', TBool), (''Authentication'', Authentication_ty e),
      (''Privileges'', TSlice TString), (''Roles'', TSlice TString), (''Parameters'', TMap), (''Usergroup'', TString),
      (''IsPasswordLifetimeCheckEnabled'', TBool)]"

definition UserParameters_DeepCopyInto :: "api_env \<Rightarrow> copier" where
  "UserParameters_DeepCopyInto e = copy_fields
     [(''Authentication'', Authentication_DeepCopyInto e), (''Privileges'', copy_slice TString copy_assign),
      (''Roles'', copy_slice TString copy_assign), (''Parameters'', copy_map (range_order e))]"

definition UserParameters_DeepCopy :: "api_env \<Rightarrow> copier" where
  "UserParameters_DeepCopy e = copy_ptr (UserParameters_ty e) (UserParameters_DeepCopyInto e)"

definition UserObservation_ty :: "api_env \<Rightarrow> ty" where
  "UserObservation_ty e = TStruct
     [(''Username'', TPtr TString), (''RestrictedUser'', TPtr TBool),
      (''X509Providers'', TSlice (X509UserMapping_ty e)), (''LastPasswordChangeTime'', ext_type e ''metav1.Time''),
      (''PasswordUpToDate'', TPtr TBool), (''CreatedAt'', ext_type e ''metav1.Time''),
      (''Privileges'', TSlice TString), (''Roles'', TSlice TString), (''Parameters'', TMap),
      (''Usergroup'', TPtr TString), (''IsPasswordLifetimeCheckEnabled'', TPtr TBool),
      (''IsPasswordEnabled'', TPtr TBool)]"

definition UserObservation_DeepCopyInto :: "api_env \<Rightarrow> copier" where
  "UserObservation_DeepCopyInto e = copy_fields
     [(''Username'', copy_ptr TString copy_assign), (''RestrictedUser'', copy_ptr TBool copy_assign),
      (''X509Providers'', copy_slice (X509UserMapping_ty e) (X509UserMapping_DeepCopyInto e)),
      (''LastPasswordChangeTime'', ext_copy e ''metav1.Time''), (''PasswordUpToDate'', copy_ptr TBool copy_assign),
      (''CreatedAt'', ext_copy e ''metav1.Time''), (''Privileges'', copy_slice TString copy_assign),
      (''Roles'', copy_slice TString copy_assign), (''Parameters'', copy_map (range_order e)),
      (''Usergroup'', copy_ptr TString copy_assign), (''IsPasswordLifetimeCheckEnabled'', copy_ptr TBool copy_assign),
      (''IsPasswordEnabled'', copy_ptr TBool copy_assign)]"

definition UserObservation_DeepCopy :: "api_env \<Rightarrow> copier" where
  "UserObservation_DeepCopy e = copy_ptr (UserObservation_ty e) (UserObservation_DeepCopyInto e)"

definition UserSpec_ty :: "api_env \<Rightarrow> ty" where
  "UserSpec_ty e = TStruct
     [(''ResourceSpec'', ext_type e ''xpv1.ResourceSpec''), (''ForProvider'', UserParameters_ty e),
      (''PrivilegeManagementPolicy'', TString)]"

definition UserSpec_DeepCopyInto :: "api_env \<Rightarrow> copier" where
  "UserSpec_DeepCopyInto e = copy_fields
     [(''ResourceSpec'', ext_copy e ''xpv1.ResourceSpec''), (''ForProvider'', UserParameters_DeepCopyInto e)]"

definition UserSpec_DeepCopy :: "api_env \<Rightarrow> copier" where
  "UserSpec_DeepCopy e = copy_ptr (UserSpec_ty e) (UserSpec_DeepCopyInto e)"

definition UserStatus_ty :: "api_env \<Rightarrow> ty" where
  "UserStatus_ty e = TStruct
     [(''ResourceStatus'', ext_type e ''xpv1.ResourceStatus''), (''AtProvider'', UserObservation_ty e)]"

definition UserStatus_DeepCopyInto :: "api_env \<Rightarrow> copier" where
  "UserStatus_DeepCopyInto e = copy_fields
     [(''ResourceStatus'', ext_copy e ''xpv1.ResourceStatus''), (''AtProvider'', UserObservation_DeepCopyInto e)]"

definition UserStatus_DeepCopy :: "api_env \<Rightarrow> copier" where
  "UserStatus_DeepCopy e = copy_ptr (UserStatus_ty e) (UserStatus_DeepCopyInto e)"

definition User_ty :: "api_env \<Rightarrow> ty" where
  "User_ty e = TStruct
     [(''TypeMeta'', ext_type e ''metav1.TypeMeta''), (''ObjectMeta'', ext_type e ''metav1.ObjectMeta''),
      (''Spec'', UserSpec_ty e), (''Status'', UserStatus_ty e)]"

definition User_DeepCopyInto :: "api_env \<Rightarrow> copier" where
  "User_DeepCopyInto e = copy_fields
     [(''TypeMeta'', copy_assign), (''ObjectMeta'', ext_copy e ''metav1.ObjectMeta''),
      (''Spec'', UserSpec_DeepCopyInto e), (''Status'', UserStatus_DeepCopyInto e)]"

definition User_DeepCopy :: "api_env \<Rightarrow> copier" where
  "User_DeepCopy e = copy_ptr (User_ty e) (User_DeepCopyInto e)"

definition User_DeepCopyObject :: "api_env \<Rightarrow> val \<Rightarrow> memory \<Rightarrow> Object \<times> memory" where
  "User_DeepCopyObject e v m = as_Object ''User'' (User_DeepCopy e v m)"

definition UserList_ty :: "api_env \<Rightarrow> ty" where
  "UserList_ty e = TStruct
     [(''TypeMeta'', ext_type e ''metav1.TypeMeta''), (''ListMeta'', ext_type e ''metav1.ListMeta''),
      (''Items'', TSlice (User_ty e))]"

definition UserList_DeepCopyInto :: "api_env \<Rightarrow> copier" where
  "UserList_DeepCopyInto e = copy_fields
     [(''TypeMeta'', copy_assign), (''ListMeta'', ext_copy e ''metav1.ListMeta''),
      (''Items'', copy_slice (User_ty e) (User_DeepCopyInto e))]"

definition UserList_DeepCopy :: "api_env \<Rightarrow> copier" where
  "UserList_DeepCopy e = copy_ptr (UserList_ty e) (UserList_DeepCopyInto e)"

definition UserList_DeepCopyObject :: "api_env \<Rightarrow> val \<Rightarrow> memory \<Rightarrow> Object \<times> memory" where
  "UserList_DeepCopyObject e v m = as_Object ''UserList'' (UserList_DeepCopy e v m)"


section \<open>User groups\<close>

definition UsergroupParameters_ty :: ty where
  "UsergroupParameters_ty = TStruct
     [(''UsergroupName'', TString), (''DisableUserAdmin'', TBool), (''NoGrantToCreator'', TBool),
      (''Parameters'', TMap), (''EnableParameterSet'', TString)]"

definition UsergroupParameters_DeepCopyInto :: "api_env \<Rightarrow> copier" where
  "UsergroupParameters_DeepCopyInto e = copy_fields
     [(''Parameters'', copy_map (range_order e))]"

definition UsergroupParameters_DeepCopy :: "api_env \<Rightarrow> copier" where
  "UsergroupParameters_DeepCopy e = copy_ptr UsergroupParameters_ty (UsergroupParameters_DeepCopyInto e)"

definition UsergroupObservation_ty :: ty where
  "UsergroupObservation_ty = TStruct
     [(''UsergroupName'', TString), (''DisableUserAdmin'', TBool), (''Parameters'', TMap)]"

definition UsergroupObservation_DeepCopyInto :: "api_env \<Rightarrow> copier" where
  "UsergroupObservation_DeepCopyInto e = copy_fields
     [(''Parameters'', copy_map (range_order e))]"

definition UsergroupObservation_DeepCopy :: "api_env \<Rightarrow> copier" where
  "UsergroupObservation_DeepCopy e = copy_ptr UsergroupObservation_ty (UsergroupObservation_DeepCopyInto e)"

definition UsergroupSpec_ty :: "api_env \<Rightarrow> ty" where
  "UsergroupSpec_ty e = TStruct
     [(''ResourceSpec'', ext_type e ''xpv1.ResourceSpec''), (''ForProvider'', UsergroupParameters_ty)]"

definition UsergroupSpec_DeepCopyInto :: "api_env \<Rightarrow> copier" where
  "UsergroupSpec_DeepCopyInto e = copy_fields
     [(''ResourceSpec'', ext_copy e ''xpv1.ResourceSpec''), (''ForProvider'', UsergroupParameters_DeepCopyInto e)]"

definition UsergroupSpec_DeepCopy :: "api_env \<Rightarrow> copier" where
  "UsergroupSpec_DeepCopy e = copy_ptr (UsergroupSpec_ty e) (UsergroupSpec_DeepCopyInto e)"

definition UsergroupStatus_ty :: "api_env \<Rightarrow> ty" where
  "UsergroupStatus_ty e = TStruct
     [(''ResourceStatus'', ext_type e ''xpv1.ResourceStatus''), (''AtProvider'', UsergroupObservation_ty)]"

definition UsergroupStatus_DeepCopyInto :: "api_env \<Rightarrow> copier" where
  "UsergroupStatus_DeepCopyInto e = copy_fields
     [(''ResourceStatus'', ext_copy e ''xpv1.ResourceStatus''), (''AtProvider'', UsergroupObservation_DeepCopyInto e)]"

definition UsergroupStatus_DeepCopy :: "api_env \<Rightarrow> copier" where
  "UsergroupStatus_DeepCopy e = copy_ptr (UsergroupStatus_ty e) (UsergroupStatus_DeepCopyInto e)"

definition Usergroup_ty :: "api_env \<Rightarrow> ty" where
  "Usergroup_ty e = TStruct
     [(''TypeMeta'', ext_type e ''metav1.TypeMeta''), (''ObjectMeta'', ext_type e ''metav1.ObjectMeta''),
      (''Spec'', UsergroupSpec_ty e), (''Status'', UsergroupStatus_ty e)]"

definition Usergroup_DeepCopyInto :: "api_env \<Rightarrow> copier" where
  "Usergroup_DeepCopyInto e = copy_fields
     [(''TypeMeta'', copy_assign), (''ObjectMeta'', ext_copy e ''metav1.ObjectMeta''),
      (''Spec'', UsergroupSpec_DeepCopyInto e), (''Status'', UsergroupStatus_DeepCopyInto e)]"

definition Usergroup_DeepCopy :: "api_env \<Rightarrow> copier" where
  "Usergroup_DeepCopy e = copy_ptr (Usergroup_ty e) (Usergroup_DeepCopyInto e)"

definition Usergroup_DeepCopyObject :: "api_env \<Rightarrow> val \<Rightarrow> memory \<Rightarrow> Object \<times> memory" where
  "Usergroup_DeepCopyObject e v m = as_Object ''Usergroup'' (Usergroup_DeepCopy e v m)"

definition UsergroupList_ty :: "api_env \<Rightarrow> ty" where
  "UsergroupList_ty e = TStruct
     [(''TypeMeta'', ext_type e ''metav1.TypeMeta''), (''ListMeta'', ext_type e ''metav1.ListMeta''),
      (''Items'', TSlice (Usergroup_ty e))]"

definition UsergroupList_DeepCopyInto :: "api_env \<Rightarrow> copier" where
  "UsergroupList_DeepCopyInto e = copy_fields
     [(''TypeMeta'', copy_assign), (''ListMeta'', ext_copy e ''metav1.ListMeta''),
      (''Items'', copy_slice (Usergroup_ty e) (Usergroup_DeepCopyInto e))]"

definition UsergroupList_DeepCopy :: "api_env \<Rightarrow> copier" where
  "UsergroupList_DeepCopy e = copy_ptr (UsergroupList_ty e) (UsergroupList_DeepCopyInto e)"

definition UsergroupList_DeepCopyObject :: "api_env \<Rightarrow> val \<Rightarrow> memory \<Rightarrow> Object \<times> memory" where
  "UsergroupList_DeepCopyObject e v m = as_Object ''UsergroupList'' (UsergroupList_DeepCopy e v m)"


section \<open>X.509 providers\<close>

definition X509ProviderParameters_ty :: ty where
  "X509ProviderParameters_ty = TStruct
     [(''Name'', TString), (''Issuer'', TString), (''MatchingRules'', TSlice TString), (''Priority'', TPtr TInt)]"

definition X509ProviderParameters_DeepCopyInto :: copier where
  "X509ProviderParameters_DeepCopyInto = copy_fields
     [(''MatchingRules'', copy_slice TString copy_assign), (''Priority'', copy_ptr TInt copy_assign)]"

definition X509ProviderParameters_DeepCopy :: copier where
  "X509ProviderParameters_DeepCopy = copy_ptr X509ProviderParameters_ty X509ProviderParameters_DeepCopyInto"

definition X509ProviderObservation_ty :: ty where
  "X509ProviderObservation_ty = TStruct
     [(''Name'', TPtr TString), (''Issuer'', TPtr TString), (''MatchingRules'', TSlice TString),
      (''Priority'', TPtr TInt)]"

definition X509ProviderObservation_DeepCopyInto :: copier where
  "X509ProviderObservation_DeepCopyInto = copy_fields
     [(''Name'', copy_ptr TString copy_assign), (''Issuer'', copy_ptr TString copy_assign),
      (''MatchingRules'', copy_slice TString copy_assign), (''Priority'', copy_ptr TInt copy_assign)]"

definition X509ProviderObservation_DeepCopy :: copier where
  "X509ProviderObservation_DeepCopy = copy_ptr X509ProviderObservation_ty X509ProviderObservation_DeepCopyInto"

definition X509ProviderSpec_ty :: "api_env \<Rightarrow> ty" where
  "X509ProviderSpec_ty e = TStruct
     [(''ResourceSpec'', ext_type e ''xpv1.ResourceSpec''), (''ForProvider'', X509ProviderParameters_ty)]"

definition X509ProviderSpec_DeepCopyInto :: "api_env \<Rightarrow> copier" where
  "X509ProviderSpec_DeepCopyInto e = copy_fields
     [(''ResourceSpec'', ext_copy e ''xpv1.ResourceSpec''), (''ForProvider'', X509ProviderParameters_DeepCopyInto)]"

definition X509ProviderSpec_DeepCopy :: "api_env \<Rightarrow> copier" where
  "X509ProviderSpec_DeepCopy e = copy_ptr (X509ProviderSpec_ty e) (X509ProviderSpec_DeepCopyInto e)"

definition X509ProviderStatus_ty :: "api_env \<Rightarrow> ty" where
  "X509ProviderStatus_ty e = TStruct
     [(''ResourceStatus'', ext_type e ''xpv1.ResourceStatus''), (''AtProvider'', X509ProviderObservation_ty)]"

definition X509ProviderStatus_DeepCopyInto :: "api_env \<Rightarrow> copier" where
  "X509ProviderStatus_DeepCopyInto e = copy_fields
     [(''ResourceStatus'', ext_copy e ''xpv1.ResourceStatus''), (''AtProvider'', X509ProviderObservation_DeepCopyInto)]"

definition X509ProviderStatus_DeepCopy :: "api_env \<Rightarrow> copier" where
  "X509ProviderStatus_DeepCopy e = copy_ptr (X509ProviderStatus_ty e) (X509ProviderStatus_DeepCopyInto e)"

definition X509Provider_ty :: "api_env \<Rightarrow> ty" where
  "X509Provider_ty e = TStruct
     [(''TypeMeta'', ext_type e ''metav1.TypeMeta''), (''ObjectMeta'', ext_type e ''metav1.ObjectMeta''),
      (''Spec'', X509ProviderSpec_ty e), (''Status'', X509ProviderStatus_ty e)]"

definition X509Provider_DeepCopyInto :: "api_env \<Rightarrow> copier" where
  "X509Provider_DeepCopyInto e = copy_fields
     [(''TypeMeta'', copy_assign), (''ObjectMeta'', ext_copy e ''metav1.ObjectMeta''),
      (''Spec'', X509ProviderSpec_DeepCopyInto e), (''Status'', X509ProviderStatus_DeepCopyInto e)]"

definition X509Provider_DeepCopy :: "api_env \<Rightarrow> copier" where
  "X509Provider_DeepCopy e = copy_ptr (X509Provider_ty e) (X509Provider_DeepCopyInto e)"

definition X509Provider_DeepCopyObject :: "api_env \<Rightarrow> val \<Rightarrow> memory \<Rightarrow> Object \<times> memory" where
  "X509Provider_DeepCopyObject e v m = as_Object ''X509Provider'' (X509Provider_DeepCopy e v m)"

definition X509ProviderList_ty :: "api_env \<Rightarrow> ty" where
  "X509ProviderList_ty e = TStruct
     [(''TypeMeta'', ext_type e ''metav1.TypeMeta''), (''ListMeta'', ext_type e ''metav1.ListMeta''),
      (''Items'', TSlice (X509Provider_ty e))]"

definition X509ProviderList_DeepCopyInto :: "api_env \<Rightarrow> copier" where
  "X509ProviderList_DeepCopyInto e = copy_fields
     [(''TypeMeta'', copy_assign), (''ListMeta'', ext_copy e ''metav1.ListMeta''),
      (''Items'', copy_slice (X509Provider_ty e) (X509Provider_DeepCopyInto e))]"

definition X509ProviderList_DeepCopy :: "api_env \<Rightarrow> copier" where
  "X509ProviderList_DeepCopy e = copy_ptr (X509ProviderList_ty e) (X509ProviderList_DeepCopyInto e)"

definition X509ProviderList_DeepCopyObject :: "api_env \<Rightarrow> val \<Rightarrow> memory \<Rightarrow> Object \<times> memory" where
  "X509ProviderList_DeepCopyObject e v m = as_Object ''X509ProviderList'' (X509ProviderList_DeepCopy e v m)"


section \<open>Every copy is deep\<close>

lemma CertificateRef_deep [deep_copies]:
  "deep_copy CertificateRef_ty CertificateRef_DeepCopyInto"
  unfolding CertificateRef_ty_def CertificateRef_DeepCopyInto_def
  by (intro deep_copy_struct) (simp add: fields_covered_def deep_copies)

lemma X509ProviderRef_deep [deep_copies]:
  "env_ok e \<Longrightarrow> deep_copy (X509ProviderRef_ty e) (X509ProviderRef_DeepCopyInto e)"
  unfolding X509ProviderRef_ty_def X509ProviderRef_DeepCopyInto_def
  by (intro deep_copy_struct) (simp add: fields_covered_def deep_copies)

lemma X509UserMapping_deep [deep_copies]:
  "env_ok e \<Longrightarrow> deep_copy (X509UserMapping_ty e) (X509UserMapping_DeepCopyInto e)"
  unfolding X509UserMapping_ty_def X509UserMapping_DeepCopyInto_def
  by (intro deep_copy_struct) (simp add: fields_covered_def deep_copies)

lemma PersonalSecurityEnvironmentParameters_deep [deep_copies]:
  "env_ok e \<Longrightarrow> deep_copy (PersonalSecurityEnvironmentParameters_ty e) (PersonalSecurityEnvironmentParameters_DeepCopyInto e)"
  unfolding PersonalSecurityEnvironmentParameters_ty_def PersonalSecurityEnvironmentParameters_DeepCopyInto_def
  by (intro deep_copy_struct) (simp add: fields_covered_def deep_copies)

lemma PersonalSecurityEnvironmentSpec_deep [deep_copies]:
  "env_ok e \<Longrightarrow> deep_copy (PersonalSecurityEnvironmentSpec_ty e) (PersonalSecurityEnvironmentSpec_DeepCopyInto e)"
  unfolding PersonalSecurityEnvironmentSpec_ty_def PersonalSecurityEnvironmentSpec_DeepCopyInto_def
  by (intro deep_copy_struct) (simp add: fields_covered_def deep_copies)

lemma PersonalSecurityEnvironmentObservation_deep [deep_copies]:
  "deep_copy PersonalSecurityEnvironmentObservation_ty PersonalSecurityEnvironmentObservation_DeepCopyInto"
  unfolding PersonalSecurityEnvironmentObservation_ty_def PersonalSecurityEnvironmentObservation_DeepCopyInto_def
  by (intro deep_copy_struct) (simp add: fields_covered_def deep_copies)

lemma PersonalSecurityEnvironmentStatus_deep [deep_copies]:
  "env_ok e \<Longrightarrow> deep_copy (PersonalSecurityEnvironmentStatus_ty e) (PersonalSecurityEnvironmentStatus_DeepCopyInto e)"
  unfolding PersonalSecurityEnvironmentStatus_ty_def PersonalSecurityEnvironmentStatus_DeepCopyInto_def
  by (intro deep_copy_struct) (simp add: fields_covered_def deep_copies)

lemma PersonalSecurityEnvironment_deep [deep_copies]:
  "env_ok e \<Longrightarrow> deep_copy (PersonalSecurityEnvironment_ty e) (PersonalSecurityEnvironment_DeepCopyInto e)"
  unfolding PersonalSecurityEnvironment_ty_def PersonalSecurityEnvironment_DeepCopyInto_def
  by (intro deep_copy_struct) (simp add: fields_covered_def deep_copies)

lemma PersonalSecurityEnvironmentList_deep [deep_copies]:
  "env_ok e \<Longrightarrow> deep_copy (PersonalSecurityEnvironmentList_ty e) (PersonalSecurityEnvironmentList_DeepCopyInto e)"
  unfolding PersonalSecurityEnvironmentList_ty_def PersonalSecurityEnvironmentList_DeepCopyInto_def
  by (intro deep_copy_struct) (simp add: fields_covered_def deep_copies)

lemma AuditPolicyParameters_deep [deep_copies]:
  "deep_copy AuditPolicyParameters_ty AuditPolicyParameters_DeepCopyInto"
  unfolding AuditPolicyParameters_ty_def AuditPolicyParameters_DeepCopyInto_def
  by (intro deep_copy_struct) (simp add: fields_covered_def deep_copies)

lemma AuditPolicyObservation_deep [deep_copies]:
  "deep_copy AuditPolicyObservation_ty AuditPolicyObservation_DeepCopyInto"
  unfolding AuditPolicyObservation_ty_def AuditPolicyObservation_DeepCopyInto_def
  by (intro deep_copy_struct) (simp add: fields_covered_def deep_copies)

lemma AuditPolicySpec_deep [deep_copies]:
  "env_ok e \<Longrightarrow> deep_copy (AuditPolicySpec_ty e) (AuditPolicySpec_DeepCopyInto e)"
  unfolding AuditPolicySpec_ty_def AuditPolicySpec_DeepCopyInto_def
  by (intro deep_copy_struct) (simp add: fields_covered_def deep_copies)

lemma AuditPolicyStatus_deep [deep_copies]:
  "env_ok e \<Longrightarrow> deep_copy (AuditPolicyStatus_ty e) (AuditPolicyStatus_DeepCopyInto e)"
  unfolding AuditPolicyStatus_ty_def AuditPolicyStatus_DeepCopyInto_def
  by (intro deep_copy_struct) (simp add: fields_covered_def deep_copies)

lemma AuditPolicy_deep [deep_copies]:
  "env_ok e \<Longrightarrow> deep_copy (AuditPolicy_ty e) (AuditPolicy_DeepCopyInto e)"
  unfolding AuditPolicy_ty_def AuditPolicy_DeepCopyInto_def
  by (intro deep_copy_struct) (simp add: fields_covered_def deep_copies)

lemma AuditPolicyList_deep [deep_copies]:
  "env_ok e \<Longrightarrow> deep_copy (AuditPolicyList_ty e) (AuditPolicyList_DeepCopyInto e)"
  unfolding AuditPolicyList_ty_def AuditPolicyList_DeepCopyInto_def
  by (intro deep_copy_struct) (simp add: fields_covered_def deep_copies)

lemma CertificateParameters_deep [deep_copies]:
  "env_ok e \<Longrightarrow> deep_copy (CertificateParameters_ty e) (CertificateParameters_DeepCopyInto e)"
  unfolding CertificateParameters_ty_def CertificateParameters_DeepCopyInto_def
  by (intro deep_copy_struct) (simp add: fields_covered_def deep_copies)

lemma ImportedCertificate_deep [deep_copies]:
  "deep_copy ImportedCertificate_ty ImportedCertificate_DeepCopyInto"
  unfolding ImportedCertificate_ty_def ImportedCertificate_DeepCopyInto_def
  by (intro deep_copy_struct) (simp add: fields_covered_def deep_copies)

lemma CertificateObservation_deep [deep_copies]:
  "deep_copy CertificateObservation_ty CertificateObservation_DeepCopyInto"
  unfolding CertificateObservation_ty_def CertificateObservation_DeepCopyInto_def
  by (intro deep_copy_struct) (simp add: fields_covered_def deep_copies)

lemma CertificateSpec_deep [deep_copies]:
  "env_ok e \<Longrightarrow> deep_copy (CertificateSpec_ty e) (CertificateSpec_DeepCopyInto e)"
  unfolding CertificateSpec_ty_def CertificateSpec_DeepCopyInto_def
  by (intro deep_copy_struct) (simp add: fields_covered_def deep_copies)

lemma CertificateStatus_deep [deep_copies]:
  "env_ok e \<Longrightarrow> deep_copy (CertificateStatus_ty e) (CertificateStatus_DeepCopyInto e)"
  unfolding CertificateStatus_ty_def CertificateStatus_DeepCopyInto_def
  by (intro deep_copy_struct) (simp add: fields_covered_def deep_copies)

lemma Certificate_deep [deep_copies]:
  "env_ok e \<Longrightarrow> deep_copy (Certificate_ty e) (Certificate_DeepCopyInto e)"
  unfolding Certificate_ty_def Certificate_DeepCopyInto_def
  by (intro deep_copy_struct) (simp add: fields_covered_def deep_copies)

lemma CertificateList_deep [deep_copies]:
  "env_ok e \<Longrightarrow> deep_copy (CertificateList_ty e) (CertificateList_DeepCopyInto e)"
  unfolding CertificateList_ty_def CertificateList_DeepCopyInto_def
  by (intro deep_copy_struct) (simp add: fields_covered_def deep_copies)

lemma RoleParameters_deep [deep_copies]:
  "deep_copy RoleParameters_ty RoleParameters_DeepCopyInto"
  unfolding RoleParameters_ty_def RoleParameters_DeepCopyInto_def
  by (intro deep_copy_struct) (simp add: fields_covered_def deep_copies)

lemma RoleObservation_deep [deep_copies]:
  "deep_copy RoleObservation_ty RoleObservation_DeepCopyInto"
  unfolding RoleObservation_ty_def RoleObservation_DeepCopyInto_def
  by (intro deep_copy_struct) (simp add: fields_covered_def deep_copies)

lemma RoleSpec_deep [deep_copies]:
  "env_ok e \<Longrightarrow> deep_copy (RoleSpec_ty e) (RoleSpec_DeepCopyInto e)"
  unfolding RoleSpec_ty_def RoleSpec_DeepCopyInto_def
  by (intro deep_copy_struct) (simp add: fields_covered_def deep_copies)

lemma RoleStatus_deep [deep_copies]:
  "env_ok e \<Longrightarrow> deep_copy (RoleStatus_ty e) (RoleStatus_DeepCopyInto e)"
  unfolding RoleStatus_ty_def RoleStatus_DeepCopyInto_def
  by (intro deep_copy_struct) (simp add: fields_covered_def deep_copies)

lemma Role_deep [deep_copies]:
  "env_ok e \<Longrightarrow> deep_copy (Role_ty e) (Role_DeepCopyInto e)"
  unfolding Role_ty_def Role_DeepCopyInto_def
  by (intro deep_copy_struct) (simp add: fields_covered_def deep_copies)

lemma RoleList_deep [deep_copies]:
  "env_ok e \<Longrightarrow> deep_copy (RoleList_ty e) (RoleList_DeepCopyInto e)"
  unfolding RoleList_ty_def RoleList_DeepCopyInto_def
  by (intro deep_copy_struct) (simp add: fields_covered_def deep_copies)

lemma RolegroupParameters_deep [deep_copies]:
  "plain RolegroupParameters_ty" "deep_copy RolegroupParameters_ty RolegroupParameters_DeepCopyInto"
  by (simp_all add: RolegroupParameters_DeepCopyInto_def RolegroupParameters_ty_def deep_copies)

lemma RolegroupObservation_deep [deep_copies]:
  "plain RolegroupObservation_ty" "deep_copy RolegroupObservation_ty RolegroupObservation_DeepCopyInto"
  by (simp_all add: RolegroupObservation_DeepCopyInto_def RolegroupObservation_ty_def deep_copies)

lemma RolegroupSpec_deep [deep_copies]:
  "env_ok e \<Longrightarrow> deep_copy (RolegroupSpec_ty e) (RolegroupSpec_DeepCopyInto e)"
  unfolding RolegroupSpec_ty_def RolegroupSpec_DeepCopyInto_def
  by (intro deep_copy_struct) (simp add: fields_covered_def deep_copies)

lemma RolegroupStatus_deep [deep_copies]:
  "env_ok e \<Longrightarrow> deep_copy (RolegroupStatus_ty e) (RolegroupStatus_DeepCopyInto e)"
  unfolding RolegroupStatus_ty_def RolegroupStatus_DeepCopyInto_def
  by (intro deep_copy_struct) (simp add: fields_covered_def deep_copies)

lemma Rolegroup_deep [deep_copies]:
  "env_ok e \<Longrightarrow> deep_copy (Rolegroup_ty e) (Rolegroup_DeepCopyInto e)"
  unfolding Rolegroup_ty_def Rolegroup_DeepCopyInto_def
  by (intro deep_copy_struct) (simp add: fields_covered_def deep_copies)

lemma RolegroupList_deep [deep_copies]:
  "env_ok e \<Longrightarrow> deep_copy (RolegroupList_ty e) (RolegroupList_DeepCopyInto e)"
  unfolding RolegroupList_ty_def RolegroupList_DeepCopyInto_def
  by (intro deep_copy_struct) (simp add: fields_covered_def deep_copies)

lemma Password_deep [deep_copies]:
  "env_ok e \<Longrightarrow> deep_copy (Password_ty e) (Password_DeepCopyInto e)"
  unfolding Password_ty_def Password_DeepCopyInto_def
  by (intro deep_copy_struct) (simp add: fields_covered_def deep_copies)

lemma Authentication_deep [deep_copies]:
  "env_ok e \<Longrightarrow> deep_copy (Authentication_ty e) (Authentication_DeepCopyInto e)"
  unfolding Authentication_ty_def Authentication_DeepCopyInto_def
  by (intro deep_copy_struct) (simp add: fields_covered_def deep_copies)

lemma UserParameters_deep [deep_copies]:
  "env_ok e \<Longrightarrow> deep_copy (UserParameters_ty e) (UserParameters_DeepCopyInto e)"
  unfolding UserParameters_ty_def UserParameters_DeepCopyInto_def
  by (intro deep_copy_struct) (simp add: fields_covered_def deep_copies)

lemma UserObservation_deep [deep_copies]:
  "env_ok e \<Longrightarrow> deep_copy (UserObservation_ty e) (UserObservation_DeepCopyInto e)"
  unfolding UserObservation_ty_def UserObservation_DeepCopyInto_def
  by (intro deep_copy_struct) (simp add: fields_covered_def deep_copies)

lemma UserSpec_deep [deep_copies]:
  "env_ok e \<Longrightarrow> deep_copy (UserSpec_ty e) (UserSpec_DeepCopyInto e)"
  unfolding UserSpec_ty_def UserSpec_DeepCopyInto_def
  by (intro deep_copy_struct) (simp add: fields_covered_def deep_copies)

lemma UserStatus_deep [deep_copies]:
  "env_ok e \<Longrightarrow> deep_copy (UserStatus_ty e) (UserStatus_DeepCopyInto e)"
  unfolding UserStatus_ty_def UserStatus_DeepCopyInto_def
  by (intro deep_copy_struct) (simp add: fields_covered_def deep_copies)

lemma User_deep [deep_copies]:
  "env_ok e \<Longrightarrow> deep_copy (User_ty e) (User_DeepCopyInto e)"
  unfolding User_ty_def User_DeepCopyInto_def
  by (intro deep_copy_struct) (simp add: fields_covered_def deep_copies)

lemma UserList_deep [deep_copies]:
  "env_ok e \<Longrightarrow> deep_copy (UserList_ty e) (UserList_DeepCopyInto e)"
  unfolding UserList_ty_def UserList_DeepCopyInto_def
  by (intro deep_copy_struct) (simp add: fields_covered_def deep_copies)

lemma UsergroupParameters_deep [deep_copies]:
  "env_ok e \<Longrightarrow> deep_copy UsergroupParameters_ty (UsergroupParameters_DeepCopyInto e)"
  unfolding UsergroupParameters_ty_def UsergroupParameters_DeepCopyInto_def
  by (intro deep_copy_struct) (simp add: fields_covered_def deep_copies)

lemma UsergroupObservation_deep [deep_copies]:
  "env_ok e \<Longrightarrow> deep_copy UsergroupObservation_ty (UsergroupObservation_DeepCopyInto e)"
  unfolding UsergroupObservation_ty_def UsergroupObservation_DeepCopyInto_def
  by (intro deep_copy_struct) (simp add: fields_covered_def deep_copies)

lemma UsergroupSpec_deep [deep_copies]:
  "env_ok e \<Longrightarrow> deep_copy (UsergroupSpec_ty e) (UsergroupSpec_DeepCopyInto e)"
  unfolding UsergroupSpec_ty_def UsergroupSpec_DeepCopyInto_def
  by (intro deep_copy_struct) (simp add: fields_covered_def deep_copies)

lemma UsergroupStatus_deep [deep_copies]:
  "env_ok e \<Longrightarrow> deep_copy (UsergroupStatus_ty e) (UsergroupStatus_DeepCopyInto e)"
  unfolding UsergroupStatus_ty_def UsergroupStatus_DeepCopyInto_def
  by (intro deep_copy_struct) (simp add: fields_covered_def deep_copies)

lemma Usergroup_deep [deep_copies]:
  "env_ok e \<Longrightarrow> deep_copy (Usergroup_ty e) (Usergroup_DeepCopyInto e)"
  unfolding Usergroup_ty_def Usergroup_DeepCopyInto_def
  by (intro deep_copy_struct) (simp add: fields_covered_def deep_copies)

lemma UsergroupList_deep [deep_copies]:
  "env_ok e \<Longrightarrow> deep_copy (UsergroupList_ty e) (UsergroupList_DeepCopyInto e)"
  unfolding UsergroupList_ty_def UsergroupList_DeepCopyInto_def
  by (intro deep_copy_struct) (simp add: fields_covered_def deep_copies)

lemma X509ProviderParameters_deep [deep_copies]:
  "deep_copy X509ProviderParameters_ty X509ProviderParameters_DeepCopyInto"
  unfolding X509ProviderParameters_ty_def X509ProviderParameters_DeepCopyInto_def
  by (intro deep_copy_struct) (simp add: fields_covered_def deep_copies)

lemma X509ProviderObservation_deep [deep_copies]:
  "deep_copy X509ProviderObservation_ty X509ProviderObservation_DeepCopyInto"
  unfolding X509ProviderObservation_ty_def X509ProviderObservation_DeepCopyInto_def
  by (intro deep_copy_struct) (simp add: fields_covered_def deep_copies)

lemma X509ProviderSpec_deep [deep_copies]:
  "env_ok e \<Longrightarrow> deep_copy (X509ProviderSpec_ty e) (X509ProviderSpec_DeepCopyInto e)"
  unfolding X509ProviderSpec_ty_def X509ProviderSpec_DeepCopyInto_def
  by (intro deep_copy_struct) (simp add: fields_covered_def deep_copies)

lemma X509ProviderStatus_deep [deep_copies]:
  "env_ok e \<Longrightarrow> deep_copy (X509ProviderStatus_ty e) (X509ProviderStatus_DeepCopyInto e)"
  unfolding X509ProviderStatus_ty_def X509ProviderStatus_DeepCopyInto_def
  by (intro deep_copy_struct) (simp add: fields_covered_def deep_copies)

lemma X509Provider_deep [deep_copies]:
  "env_ok e \<Longrightarrow> deep_copy (X509Provider_ty e) (X509Provider_DeepCopyInto e)"
  unfolding X509Provider_ty_def X509Provider_DeepCopyInto_def
  by (intro deep_copy_struct) (simp add: fields_covered_def deep_copies)

lemma X509ProviderList_deep [deep_copies]:
  "env_ok e \<Longrightarrow> deep_copy (X509ProviderList_ty e) (X509ProviderList_DeepCopyInto e)"
  unfolding X509ProviderList_ty_def X509ProviderList_DeepCopyInto_def
  by (intro deep_copy_struct) (simp add: fields_covered_def deep_copies)

section \<open>The copies that handlers take\<close>

text \<open>
  The handlers of X.509 providers, security environments and audit policies copy the parameters and the observation of a
  resource before they fill in defaults. What they write to the copy does not reach the resource.
\<close>

interpretation x509_parameters: deep_copy "TPtr X509ProviderParameters_ty" X509ProviderParameters_DeepCopy
  unfolding X509ProviderParameters_DeepCopy_def by (rule deep_copy_ptr [OF X509ProviderParameters_deep])

interpretation x509_observation: deep_copy "TPtr X509ProviderObservation_ty" X509ProviderObservation_DeepCopy
  unfolding X509ProviderObservation_DeepCopy_def by (rule deep_copy_ptr [OF X509ProviderObservation_deep])

interpretation pse_observation: deep_copy "TPtr PersonalSecurityEnvironmentObservation_ty" PersonalSecurityEnvironmentObservation_DeepCopy
  unfolding PersonalSecurityEnvironmentObservation_DeepCopy_def by (rule deep_copy_ptr [OF PersonalSecurityEnvironmentObservation_deep])

interpretation auditpolicy_observation: deep_copy "TPtr AuditPolicyObservation_ty" AuditPolicyObservation_DeepCopy
  unfolding AuditPolicyObservation_DeepCopy_def by (rule deep_copy_ptr [OF AuditPolicyObservation_deep])

lemmas handler_copies_keep_resource = x509_parameters.original_independent x509_observation.original_independent
  pse_observation.original_independent auditpolicy_observation.original_independent

end
