(* ===== verification/SchemaTypes.thy ===== *)
theory SchemaTypes
  imports GoMemory
begin

text \<open>
  The package \<open>apis/schema/v1alpha1\<close>: database schemas. For every struct of the package its type, with
  the fields as they are declared, and its generated methods \<open>DeepCopyInto\<close>, \<open>DeepCopy\<close> and, for the objects
  of the API, \<open>DeepCopyObject\<close> (\<open>zz_generated.deepcopy.go\<close>). The lemmas of the collection \<open>deep_copies\<close> say that
  every \<open>DeepCopyInto\<close> is a deep copy: no field of the type that holds an address is left out.
\<close>

section \<open>Schemas\<close>

definition DbSchemaParameters_ty :: ty where
  "DbSchemaParameters_ty = TStruct
     [(''SchemaName'', TString), (''Owner'', TString)]"

definition DbSchemaParameters_DeepCopyInto :: copier where
  "DbSchemaParameters_DeepCopyInto = copy_assign"

definition DbSchemaParameters_DeepCopy :: copier where
  "DbSchemaParameters_DeepCopy = copy_ptr DbSchemaParameters_ty DbSchemaParameters_DeepCopyInto"

definition DbSchemaObservation_ty :: ty where
  "DbSchemaObservation_ty = TStruct
     [(''SchemaName'', TString), (''Owner'', TString)]"

definition DbSchemaObservation_DeepCopyInto :: copier where
  "DbSchemaObservation_DeepCopyInto = copy_assign"

definition DbSchemaObservation_DeepCopy :: copier where
  "DbSchemaObservation_DeepCopy = copy_ptr DbSchemaObservation_ty DbSchemaObservation_DeepCopyInto"

definition DbSchemaSpec_ty :: "api_env \<Rightarrow> ty" where
  "DbSchemaSpec_ty e = TStruct
     [(''ResourceSpec'', ext_type e ''xpv1.ResourceSpec''), (''ForProvider'', DbSchemaParameters_ty)]"

definition DbSchemaSpec_DeepCopyInto :: "api_env \<Rightarrow> copier" where
  "DbSchemaSpec_DeepCopyInto e = copy_fields
     [(''ResourceSpec'', ext_copy e ''xpv1.ResourceSpec''), (''ForProvider'', copy_assign)]"

definition DbSchemaSpec_DeepCopy :: "api_env \<Rightarrow> copier" where
  "DbSchemaSpec_DeepCopy e = copy_ptr (DbSchemaSpec_ty e) (DbSchemaSpec_DeepCopyInto e)"

definition DbSchemaStatus_ty :: "api_env \<Rightarrow> ty" where
  "DbSchemaStatus_ty e = TStruct
     [(''ResourceStatus'', ext_type e ''xpv1.ResourceStatus''), (''AtProvider'', DbSchemaObservation_ty)]"

definition DbSchemaStatus_DeepCopyInto :: "api_env \<Rightarrow> copier" where
  "DbSchemaStatus_DeepCopyInto e = copy_fields
     [(''ResourceStatus'', ext_copy e ''xpv1.ResourceStatus''), (''AtProvider'', copy_assign)]"

definition DbSchemaStatus_DeepCopy :: "api_env \<Rightarrow> copier" where
  "DbSchemaStatus_DeepCopy e = copy_ptr (DbSchemaStatus_ty e) (DbSchemaStatus_DeepCopyInto e)"

definition DbSchema_ty :: "api_env \<Rightarrow> ty" where
  "DbSchema_ty e = TStruct
     [(''TypeMeta'', ext_type e ''metav1.TypeMeta''), (''ObjectMeta'', ext_type e ''metav1.ObjectMeta''),
      (''Spec'', DbSchemaSpec_ty e), (''Status'', DbSchemaStatus_ty e)]"

definition DbSchema_DeepCopyInto :: "api_env \<Rightarrow> copier" where
  "DbSchema_DeepCopyInto e = copy_fields
     [(''TypeMeta'', copy_assign), (''ObjectMeta'', ext_copy e ''metav1.ObjectMeta''),
      (''Spec'', DbSchemaSpec_DeepCopyInto e), (''Status'', DbSchemaStatus_DeepCopyInto e)]"

definition DbSchema_DeepCopy :: "api_env \<Rightarrow> copier" where
  "DbSchema_DeepCopy e = copy_ptr (DbSchema_ty e) (DbSchema_DeepCopyInto e)"

definition DbSchema_DeepCopyObject :: "api_env \<Rightarrow> val \<Rightarrow> memory \<Rightarrow> Object \<times> memory" where
  "DbSchema_DeepCopyObject e v m = as_Object ''DbSchema'' (DbSchema_DeepCopy e v m)"

definition DbSchemaList_ty :: "api_env \<Rightarrow> ty" where
  "DbSchemaList_ty e = TStruct
     [(''TypeMeta'', ext_type e ''metav1.TypeMeta''), (''ListMeta'', ext_type e ''metav1.ListMeta''),
      (''Items'', TSlice (DbSchema_ty e))]"

definition DbSchemaList_DeepCopyInto :: "api_env \<Rightarrow> copier" where
  "DbSchemaList_DeepCopyInto e = copy_fields
     [(''TypeMeta'', copy_assign), (''ListMeta'', ext_copy e ''metav1.ListMeta''),
      (''Items'', copy_slice (DbSchema_ty e) (DbSchema_DeepCopyInto e))]"

definition DbSchemaList_DeepCopy :: "api_env \<Rightarrow> copier" where
  "DbSchemaList_DeepCopy e = copy_ptr (DbSchemaList_ty e) (DbSchemaList_DeepCopyInto e)"

definition DbSchemaList_DeepCopyObject :: "api_env \<Rightarrow> val \<Rightarrow> memory \<Rightarrow> Object \<times> memory" where
  "DbSchemaList_DeepCopyObject e v m = as_Object ''DbSchemaList'' (DbSchemaList_DeepCopy e v m)"


section \<open>Every copy is deep\<close>

lemma DbSchemaParameters_deep [deep_copies]:
  "plain DbSchemaParameters_ty" "deep_copy DbSchemaParameters_ty DbSchemaParameters_DeepCopyInto"
  by (simp_all add: DbSchemaParameters_DeepCopyInto_def DbSchemaParameters_ty_def deep_copies)

lemma DbSchemaObservation_deep [deep_copies]:
  "plain DbSchemaObservation_ty" "deep_copy DbSchemaObservation_ty DbSchemaObservation_DeepCopyInto"
  by (simp_all add: DbSchemaObservation_DeepCopyInto_def DbSchemaObservation_ty_def deep_copies)

lemma DbSchemaSpec_deep [deep_copies]:
  "env_ok e \<Longrightarrow> deep_copy (DbSchemaSpec_ty e) (DbSchemaSpec_DeepCopyInto e)"
  unfolding DbSchemaSpec_ty_def DbSchemaSpec_DeepCopyInto_def
  by (intro deep_copy_struct) (simp add: fields_covered_def deep_copies)

lemma DbSchemaStatus_deep [deep_copies]:
  "env_ok e \<Longrightarrow> deep_copy (DbSchemaStatus_ty e) (DbSchemaStatus_DeepCopyInto e)"
  unfolding DbSchemaStatus_ty_def DbSchemaStatus_DeepCopyInto_def
  by (intro deep_copy_struct) (simp add: fields_covered_def deep_copies)

lemma DbSchema_deep [deep_copies]:
  "env_ok e \<Longrightarrow> deep_copy (DbSchema_ty e) (DbSchema_DeepCopyInto e)"
  unfolding DbSchema_ty_def DbSchema_DeepCopyInto_def
  by (intro deep_copy_struct) (simp add: fields_covered_def deep_copies)

lemma DbSchemaList_deep [deep_copies]:
  "env_ok e \<Longrightarrow> deep_copy (DbSchemaList_ty e) (DbSchemaList_DeepCopyInto e)"
  unfolding DbSchemaList_ty_def DbSchemaList_DeepCopyInto_def
  by (intro deep_copy_struct) (simp add: fields_covered_def deep_copies)

end
