(* ===== verification/InventoryTypes.thy ===== *)
theory InventoryTypes
  imports GoMemory
begin

text \<open>
  The package \<open>apis/inventory/v1alpha1\<close>: instance mappings. For every struct of the package its type, with
  the fields as they are declared, and its generated methods \<open>DeepCopyInto\<close>, \<open>DeepCopy\<close> and, for the objects
  of the API, \<open>DeepCopyObject\<close> (\<open>zz_generated.deepcopy.go\<close>). The lemmas of the collection \<open>deep_copies\<close> say that
  every \<open>DeepCopyInto\<close> is a deep copy: no field of the type that holds an address is left out.
\<close>

section \<open>Instance mappings\<close>

definition AdminCredentialsSecretRef_ty :: ty where
  "AdminCredentialsSecretRef_ty = TStruct
     [(''Name'', TString), (''Namespace'', TString), (''Key'', TString)]"

definition AdminCredentialsSecretRef_DeepCopyInto :: copier where
  "AdminCredentialsSecretRef_DeepCopyInto = copy_assign"

definition AdminCredentialsSecretRef_DeepCopy :: copier where
  "AdminCredentialsSecretRef_DeepCopy = copy_ptr AdminCredentialsSecretRef_ty AdminCredentialsSecretRef_DeepCopyInto"

definition InstanceMappingParameters_ty :: ty where
  "InstanceMappingParameters_ty = TStruct
     [(''ServiceInstanceID'', TString), (''Platform'', TString), (''PrimaryID'', TString),
      (''SecondaryID'', TPtr TString), (''IsDefault'', TBool),
      (''AdminCredentialsSecretRef'', AdminCredentialsSecretRef_ty)]"

definition InstanceMappingParameters_DeepCopyInto :: copier where
  "InstanceMappingParameters_DeepCopyInto = copy_fields
     [(''SecondaryID'', copy_ptr TString copy_assign), (''AdminCredentialsSecretRef'', copy_assign)]"

definition InstanceMappingParameters_DeepCopy :: copier where
  "InstanceMappingParameters_DeepCopy = copy_ptr InstanceMappingParameters_ty InstanceMappingParameters_DeepCopyInto"

definition InstanceMappingObservation_ty :: "api_env \<Rightarrow> ty" where
  "InstanceMappingObservation_ty e = TStruct
     [(''MappingExists'', TBool), (''LastSyncTime'', TPtr (ext_type e ''metav1.Time''))]"

definition InstanceMappingObservation_DeepCopyInto :: "api_env \<Rightarrow> copier" where
  "InstanceMappingObservation_DeepCopyInto e = copy_fields
     [(''LastSyncTime'', ext_copy e ''*metav1.Time'')]"

definition InstanceMappingObservation_DeepCopy :: "api_env \<Rightarrow> copier" where
  "InstanceMappingObservation_DeepCopy e = copy_ptr (InstanceMappingObservation_ty e) (InstanceMappingObservation_DeepCopyInto e)"

definition InstanceMappingSpec_ty :: "api_env \<Rightarrow> ty" where
  "InstanceMappingSpec_ty e = TStruct
     [(''ResourceSpec'', ext_type e ''xpv1.ResourceSpec''), (''ForProvider'', InstanceMappingParameters_ty)]"

definition InstanceMappingSpec_DeepCopyInto :: "api_env \<Rightarrow> copier" where
  "InstanceMappingSpec_DeepCopyInto e = copy_fields
     [(''ResourceSpec'', ext_copy e ''xpv1.ResourceSpec''), (''ForProvider'', InstanceMappingParameters_DeepCopyInto)]"

definition InstanceMappingSpec_DeepCopy :: "api_env \<Rightarrow> copier" where
  "InstanceMappingSpec_DeepCopy e = copy_ptr (InstanceMappingSpec_ty e) (InstanceMappingSpec_DeepCopyInto e)"

definition InstanceMappingStatus_ty :: "api_env \<Rightarrow> ty" where
  "InstanceMappingStatus_ty e = TStruct
     [(''ResourceStatus'', ext_type e ''xpv1.ResourceStatus''), (''AtProvider'', InstanceMappingObservation_ty e)]"

definition InstanceMappingStatus_DeepCopyInto :: "api_env \<Rightarrow> copier" where
  "InstanceMappingStatus_DeepCopyInto e = copy_fields
     [(''ResourceStatus'', ext_copy e ''xpv1.ResourceStatus''),
      (''AtProvider'', InstanceMappingObservation_DeepCopyInto e)]"

definition InstanceMappingStatus_DeepCopy :: "api_env \<Rightarrow> copier" where
  "InstanceMappingStatus_DeepCopy e = copy_ptr (InstanceMappingStatus_ty e) (InstanceMappingStatus_DeepCopyInto e)"

definition InstanceMapping_ty :: "api_env \<Rightarrow> ty" where
  "InstanceMapping_ty e = TStruct
     [(''TypeMeta'', ext_type e ''metav1.TypeMeta''), (''ObjectMeta'', ext_type e ''metav1.ObjectMeta''),
      (''Spec'', InstanceMappingSpec_ty e), (''Status'', InstanceMappingStatus_ty e)]"

definition InstanceMapping_DeepCopyInto :: "api_env \<Rightarrow> copier" where
  "InstanceMapping_DeepCopyInto e = copy_fields
     [(''TypeMeta'', copy_assign), (''ObjectMeta'', ext_copy e ''metav1.ObjectMeta''),
      (''Spec'', InstanceMappingSpec_DeepCopyInto e), (''Status'', InstanceMappingStatus_DeepCopyInto e)]"

definition InstanceMapping_DeepCopy :: "api_env \<Rightarrow> copier" where
  "InstanceMapping_DeepCopy e = copy_ptr (InstanceMapping_ty e) (InstanceMapping_DeepCopyInto e)"

definition InstanceMapping_DeepCopyObject :: "api_env \<Rightarrow> val \<Rightarrow> memory \<Rightarrow> Object \<times> memory" where
  "InstanceMapping_DeepCopyObject e v m = as_Object ''InstanceMapping'' (InstanceMapping_DeepCopy e v m)"

definition InstanceMappingList_ty :: "api_env \<Rightarrow> ty" where
  "InstanceMappingList_ty e = TStruct
     [(''TypeMeta'', ext_type e ''metav1.TypeMeta''), (''ListMeta'', ext_type e ''metav1.ListMeta''),
      (''Items'', TSlice (InstanceMapping_ty e))]"

definition InstanceMappingList_DeepCopyInto :: "api_env \<Rightarrow> copier" where
  "InstanceMappingList_DeepCopyInto e = copy_fields
     [(''TypeMeta'', copy_assign), (''ListMeta'', ext_copy e ''metav1.ListMeta''),
      (''Items'', copy_slice (InstanceMapping_ty e) (InstanceMapping_DeepCopyInto e))]"

definition InstanceMappingList_DeepCopy :: "api_env \<Rightarrow> copier" where
  "InstanceMappingList_DeepCopy e = copy_ptr (InstanceMappingList_ty e) (InstanceMappingList_DeepCopyInto e)"

definition InstanceMappingList_DeepCopyObject :: "api_env \<Rightarrow> val \<Rightarrow> memory \<Rightarrow> Object \<times> memory" where
  "InstanceMappingList_DeepCopyObject e v m = as_Object ''InstanceMappingList'' (InstanceMappingList_DeepCopy e v m)"


section \<open>Kyma instance mappings\<close>

definition SecretReference_ty :: ty where
  "SecretReference_ty = TStruct
     [(''Name'', TString), (''Namespace'', TString)]"

definition SecretReference_DeepCopyInto :: copier where
  "SecretReference_DeepCopyInto = copy_assign"

definition SecretReference_DeepCopy :: copier where
  "SecretReference_DeepCopy = copy_ptr SecretReference_ty SecretReference_DeepCopyInto"

definition ResourceReference_ty :: ty where
  "ResourceReference_ty = TStruct
     [(''Name'', TString), (''Namespace'', TString)]"

definition ResourceReference_DeepCopyInto :: copier where
  "ResourceReference_DeepCopyInto = copy_assign"

definition ResourceReference_DeepCopy :: copier where
  "ResourceReference_DeepCopy = copy_ptr ResourceReference_ty ResourceReference_DeepCopyInto"

definition KymaConnectionReference_ty :: ty where
  "KymaConnectionReference_ty = TStruct
     [(''SecretRef'', SecretReference_ty), (''KubeconfigKey'', TString)]"

definition KymaConnectionReference_DeepCopyInto :: copier where
  "KymaConnectionReference_DeepCopyInto = copy_fields
     [(''SecretRef'', copy_assign)]"

definition KymaConnectionReference_DeepCopy :: copier where
  "KymaConnectionReference_DeepCopy = copy_ptr KymaConnectionReference_ty KymaConnectionReference_DeepCopyInto"

definition KymaInstanceMappingParameters_ty :: ty where
  "KymaInstanceMappingParameters_ty = TStruct
     [(''KymaConnectionRef'', TPtr KymaConnectionReference_ty), (''AdminBindingRef'', ResourceReference_ty),
      (''ServiceInstanceRef'', ResourceReference_ty), (''TargetNamespace'', TPtr TString),
      (''ClusterIDConfigMapRef'', TPtr ResourceReference_ty), (''IsDefault'', TBool),
      (''CredentialsSecretNamespace'', TString)]"

definition KymaInstanceMappingParameters_DeepCopyInto :: copier where
  "KymaInstanceMappingParameters_DeepCopyInto = copy_fields
     [(''KymaConnectionRef'', copy_ptr KymaConnectionReference_ty copy_assign), (''AdminBindingRef'', copy_assign),
      (''ServiceInstanceRef'', copy_assign), (''TargetNamespace'', copy_ptr TString copy_assign),
      (''ClusterIDConfigMapRef'', copy_ptr ResourceReference_ty copy_assign)]"

definition KymaInstanceMappingParameters_DeepCopy :: copier where
  "KymaInstanceMappingParameters_DeepCopy = copy_ptr KymaInstanceMappingParameters_ty KymaInstanceMappingParameters_DeepCopyInto"

definition KymaClusterObservation_ty :: ty where
  "KymaClusterObservation_ty = TStruct
     [(''ServiceInstanceID'', TString), (''ClusterID'', TString), (''ServiceInstanceName'', TString),
      (''ServiceInstanceReady'', TBool)]"

definition KymaClusterObservation_DeepCopyInto :: copier where
  "KymaClusterObservation_DeepCopyInto = copy_assign"

definition KymaClusterObservation_DeepCopy :: copier where
  "KymaClusterObservation_DeepCopy = copy_ptr KymaClusterObservation_ty KymaClusterObservation_DeepCopyInto"

definition MappingID_ty :: ty where
  "MappingID_ty = TStruct
     [(''ServiceInstanceID'', TString), (''PrimaryID'', TString), (''SecondaryID'', TPtr TString)]"

definition MappingID_DeepCopyInto :: copier where
  "MappingID_DeepCopyInto = copy_fields
     [(''SecondaryID'', copy_ptr TString copy_assign)]"

definition MappingID_DeepCopy :: copier where
  "MappingID_DeepCopy = copy_ptr MappingID_ty MappingID_DeepCopyInto"

definition HANACloudObservation_ty :: ty where
  "HANACloudObservation_ty = TStruct
     [(''MappingID'', TPtr MappingID_ty), (''Ready'', TBool)]"

definition HANACloudObservation_DeepCopyInto :: copier where
  "HANACloudObservation_DeepCopyInto = copy_fields
     [(''MappingID'', copy_ptr MappingID_ty MappingID_DeepCopyInto)]"

definition HANACloudObservation_DeepCopy :: copier where
  "HANACloudObservation_DeepCopy = copy_ptr HANACloudObservation_ty HANACloudObservation_DeepCopyInto"

definition ChildResourcesReference_ty :: ty where
  "ChildResourcesReference_ty = TStruct
     [(''InstanceMappingName'', TString), (''CredentialsSecretName'', TString),
      (''CredentialsSecretNamespace'', TString), (''InstanceMappingReady'', TBool), (''InstanceMappingSynced'', TBool)]"

definition ChildResourcesReference_DeepCopyInto :: copier where
  "ChildResourcesReference_DeepCopyInto = copy_assign"

definition ChildResourcesReference_DeepCopy :: copier where
  "ChildResourcesReference_DeepCopy = copy_ptr ChildResourcesReference_ty ChildResourcesReference_DeepCopyInto"

definition KymaInstanceMappingObservation_ty :: ty where
  "KymaInstanceMappingObservation_ty = TStruct
     [(''Kyma'', TPtr KymaClusterObservation_ty), (''Hana'', TPtr HANACloudObservation_ty),
      (''ChildResources'', TPtr ChildResourcesReference_ty)]"

definition KymaInstanceMappingObservation_DeepCopyInto :: copier where
  "KymaInstanceMappingObservation_DeepCopyInto = copy_fields
     [(''Kyma'', copy_ptr KymaClusterObservation_ty copy_assign),
      (''Hana'', copy_ptr HANACloudObservation_ty HANACloudObservation_DeepCopyInto),
      (''ChildResources'', copy_ptr ChildResourcesReference_ty copy_assign)]"

definition KymaInstanceMappingObservation_DeepCopy :: copier where
  "KymaInstanceMappingObservation_DeepCopy = copy_ptr KymaInstanceMappingObservation_ty KymaInstanceMappingObservation_DeepCopyInto"

definition KymaInstanceMappingSpec_ty :: "api_env \<Rightarrow> ty" where
  "KymaInstanceMappingSpec_ty e = TStruct
     [(''ResourceSpec'', ext_type e ''xpv1.ResourceSpec''), (''ForProvider'', KymaInstanceMappingParameters_ty)]"

definition KymaInstanceMappingSpec_DeepCopyInto :: "api_env \<Rightarrow> copier" where
  "KymaInstanceMappingSpec_DeepCopyInto e = copy_fields
     [(''ResourceSpec'', ext_copy e ''xpv1.ResourceSpec''),
      (''ForProvider'', KymaInstanceMappingParameters_DeepCopyInto)]"

definition KymaInstanceMappingSpec_DeepCopy :: "api_env \<Rightarrow> copier" where
  "KymaInstanceMappingSpec_DeepCopy e = copy_ptr (KymaInstanceMappingSpec_ty e) (KymaInstanceMappingSpec_DeepCopyInto e)"

definition KymaInstanceMappingStatus_ty :: "api_env \<Rightarrow> ty" where
  "KymaInstanceMappingStatus_ty e = TStruct
     [(''ResourceStatus'', ext_type e ''xpv1.ResourceStatus''), (''AtProvider'', KymaInstanceMappingObservation_ty)]"

definition KymaInstanceMappingStatus_DeepCopyInto :: "api_env \<Rightarrow> copier" where
  "KymaInstanceMappingStatus_DeepCopyInto e = copy_fields
     [(''ResourceStatus'', ext_copy e ''xpv1.ResourceStatus''),
      (''AtProvider'', KymaInstanceMappingObservation_DeepCopyInto)]"

definition KymaInstanceMappingStatus_DeepCopy :: "api_env \<Rightarrow> copier" where
  "KymaInstanceMappingStatus_DeepCopy e = copy_ptr (KymaInstanceMappingStatus_ty e) (KymaInstanceMappingStatus_DeepCopyInto e)"

definition KymaInstanceMapping_ty :: "api_env \<Rightarrow> ty" where
  "KymaInstanceMapping_ty e = TStruct
     [(''TypeMeta'', ext_type e ''metav1.TypeMeta''), (''ObjectMeta'', ext_type e ''metav1.ObjectMeta''),
      (''Spec'', KymaInstanceMappingSpec_ty e), (''Status'', KymaInstanceMappingStatus_ty e)]"

definition KymaInstanceMapping_DeepCopyInto :: "api_env \<Rightarrow> copier" where
  "KymaInstanceMapping_DeepCopyInto e = copy_fields
     [(''TypeMeta'', copy_assign), (''ObjectMeta'', ext_copy e ''metav1.ObjectMeta''),
      (''Spec'', KymaInstanceMappingSpec_DeepCopyInto e), (''Status'', KymaInstanceMappingStatus_DeepCopyInto e)]"

definition KymaInstanceMapping_DeepCopy :: "api_env \<Rightarrow> copier" where
  "KymaInstanceMapping_DeepCopy e = copy_ptr (KymaInstanceMapping_ty e) (KymaInstanceMapping_DeepCopyInto e)"

definition KymaInstanceMapping_DeepCopyObject :: "api_env \<Rightarrow> val \<Rightarrow> memory \<Rightarrow> Object \<times> memory" where
  "KymaInstanceMapping_DeepCopyObject e v m = as_Object ''KymaInstanceMapping'' (KymaInstanceMapping_DeepCopy e v m)"

definition KymaInstanceMappingList_ty :: "api_env \<Rightarrow> ty" where
  "KymaInstanceMappingList_ty e = TStruct
     [(''TypeMeta'', ext_type e ''metav1.TypeMeta''), (''ListMeta'', ext_type e ''metav1.ListMeta''),
      (''Items'', TSlice (KymaInstanceMapping_ty e))]"

definition KymaInstanceMappingList_DeepCopyInto :: "api_env \<Rightarrow> copier" where
  "KymaInstanceMappingList_DeepCopyInto e = copy_fields
     [(''TypeMeta'', copy_assign), (''ListMeta'', ext_copy e ''metav1.ListMeta''),
      (''Items'', copy_slice (KymaInstanceMapping_ty e) (KymaInstanceMapping_DeepCopyInto e))]"

definition KymaInstanceMappingList_DeepCopy :: "api_env \<Rightarrow> copier" where
  "KymaInstanceMappingList_DeepCopy e = copy_ptr (KymaInstanceMappingList_ty e) (KymaInstanceMappingList_DeepCopyInto e)"

definition KymaInstanceMappingList_DeepCopyObject :: "api_env \<Rightarrow> val \<Rightarrow> memory \<Rightarrow> Object \<times> memory" where
  "KymaInstanceMappingList_DeepCopyObject e v m = as_Object ''KymaInstanceMappingList'' (KymaInstanceMappingList_DeepCopy e v m)"


section \<open>Every copy is deep\<close>

lemma AdminCredentialsSecretRef_deep [deep_copies]:
  "plain AdminCredentialsSecretRef_ty" "deep_copy AdminCredentialsSecretRef_ty AdminCredentialsSecretRef_DeepCopyInto"
  by (simp_all add: AdminCredentialsSecretRef_DeepCopyInto_def AdminCredentialsSecretRef_ty_def deep_copies)

lemma InstanceMappingParameters_deep [deep_copies]:
  "deep_copy InstanceMappingParameters_ty InstanceMappingParameters_DeepCopyInto"
  unfolding InstanceMappingParameters_ty_def InstanceMappingParameters_DeepCopyInto_def
  by (intro deep_copy_struct) (simp add: fields_covered_def deep_copies)

lemma InstanceMappingObservation_deep [deep_copies]:
  "env_ok e \<Longrightarrow> deep_copy (InstanceMappingObservation_ty e) (InstanceMappingObservation_DeepCopyInto e)"
  unfolding InstanceMappingObservation_ty_def InstanceMappingObservation_DeepCopyInto_def
  by (intro deep_copy_struct) (simp add: fields_covered_def deep_copies)

lemma InstanceMappingSpec_deep [deep_copies]:
  "env_ok e \<Longrightarrow> deep_copy (InstanceMappingSpec_ty e) (InstanceMappingSpec_DeepCopyInto e)"
  unfolding InstanceMappingSpec_ty_def InstanceMappingSpec_DeepCopyInto_def
  by (intro deep_copy_struct) (simp add: fields_covered_def deep_copies)

lemma InstanceMappingStatus_deep [deep_copies]:
  "env_ok e \<Longrightarrow> deep_copy (InstanceMappingStatus_ty e) (InstanceMappingStatus_DeepCopyInto e)"
  unfolding InstanceMappingStatus_ty_def InstanceMappingStatus_DeepCopyInto_def
  by (intro deep_copy_struct) (simp add: fields_covered_def deep_copies)

lemma InstanceMapping_deep [deep_copies]:
  "env_ok e \<Longrightarrow> deep_copy (InstanceMapping_ty e) (InstanceMapping_DeepCopyInto e)"
  unfolding InstanceMapping_ty_def InstanceMapping_DeepCopyInto_def
  by (intro deep_copy_struct) (simp add: fields_covered_def deep_copies)

lemma InstanceMappingList_deep [deep_copies]:
  "env_ok e \<Longrightarrow> deep_copy (InstanceMappingList_ty e) (InstanceMappingList_DeepCopyInto e)"
  unfolding InstanceMappingList_ty_def InstanceMappingList_DeepCopyInto_def
  by (intro deep_copy_struct) (simp add: fields_covered_def deep_copies)

lemma SecretReference_deep [deep_copies]:
  "plain SecretReference_ty" "deep_copy SecretReference_ty SecretReference_DeepCopyInto"
  by (simp_all add: SecretReference_DeepCopyInto_def SecretReference_ty_def deep_copies)

lemma ResourceReference_deep [deep_copies]:
  "plain ResourceReference_ty" "deep_copy ResourceReference_ty ResourceReference_DeepCopyInto"
  by (simp_all add: ResourceReference_DeepCopyInto_def ResourceReference_ty_def deep_copies)

lemma KymaConnectionReference_plain [deep_copies]: "plain KymaConnectionReference_ty"
  by (simp add: KymaConnectionReference_ty_def deep_copies)

lemma KymaConnectionReference_deep [deep_copies]:
  "deep_copy KymaConnectionReference_ty KymaConnectionReference_DeepCopyInto"
  unfolding KymaConnectionReference_ty_def KymaConnectionReference_DeepCopyInto_def
  by (intro deep_copy_struct) (simp add: fields_covered_def deep_copies)

lemma KymaInstanceMappingParameters_deep [deep_copies]:
  "deep_copy KymaInstanceMappingParameters_ty KymaInstanceMappingParameters_DeepCopyInto"
  unfolding KymaInstanceMappingParameters_ty_def KymaInstanceMappingParameters_DeepCopyInto_def
  by (intro deep_copy_struct) (simp add: fields_covered_def deep_copies)

lemma KymaClusterObservation_deep [deep_copies]:
  "plain KymaClusterObservation_ty" "deep_copy KymaClusterObservation_ty KymaClusterObservation_DeepCopyInto"
  by (simp_all add: KymaClusterObservation_DeepCopyInto_def KymaClusterObservation_ty_def deep_copies)

lemma MappingID_deep [deep_copies]:
  "deep_copy MappingID_ty MappingID_DeepCopyInto"
  unfolding MappingID_ty_def MappingID_DeepCopyInto_def
  by (intro deep_copy_struct) (simp add: fields_covered_def deep_copies)

lemma HANACloudObservation_deep [deep_copies]:
  "deep_copy HANACloudObservation_ty HANACloudObservation_DeepCopyInto"
  unfolding HANACloudObservation_ty_def HANACloudObservation_DeepCopyInto_def
  by (intro deep_copy_struct) (simp add: fields_covered_def deep_copies)

lemma ChildResourcesReference_deep [deep_copies]:
  "plain ChildResourcesReference_ty" "deep_copy ChildResourcesReference_ty ChildResourcesReference_DeepCopyInto"
  by (simp_all add: ChildResourcesReference_DeepCopyInto_def ChildResourcesReference_ty_def deep_copies)

lemma KymaInstanceMappingObservation_deep [deep_copies]:
  "deep_copy KymaInstanceMappingObservation_ty KymaInstanceMappingObservation_DeepCopyInto"
  unfolding KymaInstanceMappingObservation_ty_def KymaInstanceMappingObservation_DeepCopyInto_def
  by (intro deep_copy_struct) (simp add: fields_covered_def deep_copies)

lemma KymaInstanceMappingSpec_deep [deep_copies]:
  "env_ok e \<Longrightarrow> deep_copy (KymaInstanceMappingSpec_ty e) (KymaInstanceMappingSpec_DeepCopyInto e)"
  unfolding KymaInstanceMappingSpec_ty_def KymaInstanceMappingSpec_DeepCopyInto_def
  by (intro deep_copy_struct) (simp add: fields_covered_def deep_copies)

lemma KymaInstanceMappingStatus_deep [deep_copies]:
  "env_ok e \<Longrightarrow> deep_copy (KymaInstanceMappingStatus_ty e) (KymaInstanceMappingStatus_DeepCopyInto e)"
  unfolding KymaInstanceMappingStatus_ty_def KymaInstanceMappingStatus_DeepCopyInto_def
  by (intro deep_copy_struct) (simp add: fields_covered_def deep_copies)

lemma KymaInstanceMapping_deep [deep_copies]:
  "env_ok e \<Longrightarrow> deep_copy (KymaInstanceMapping_ty e) (KymaInstanceMapping_DeepCopyInto e)"
  unfolding KymaInstanceMapping_ty_def KymaInstanceMapping_DeepCopyInto_def
  by (intro deep_copy_struct) (simp add: fields_covered_def deep_copies)

lemma KymaInstanceMappingList_deep [deep_copies]:
  "env_ok e \<Longrightarrow> deep_copy (KymaInstanceMappingList_ty e) (KymaInstanceMappingList_DeepCopyInto e)"
  unfolding KymaInstanceMappingList_ty_def KymaInstanceMappingList_DeepCopyInto_def
  by (intro deep_copy_struct) (simp add: fields_covered_def deep_copies)

end
