(* ===== verification/ApiObjects.thy ===== *)
theory ApiObjects
  imports GoFields ConfigTypes AdminTypes SchemaTypes InventoryTypes
begin

text \<open>
  The objects of the API as the Kubernetes and Crossplane runtimes see them: the registration of their types
  (\<open>groupversion_info.go\<close>, the functions \<open>init\<close>, \<open>zz_register.go\<close>, \<open>custom_register.go\<close>), the accessors of managed
  resources and configurations (\<open>zz_generated.managed.go\<close>, \<open>.pc.go\<close>, \<open>.pcu.go\<close>), and the items of lists
  (\<open>zz_generated.managedlist.go\<close>, \<open>.pculist.go\<close>).
\<close>

section \<open>Registration\<close>

text \<open>
  What \<open>SchemeBuilder.Register\<close> is given: the group, version and kind (the name of the Go type), the type, and its method
  \<open>DeepCopyObject\<close>. Go runs the functions \<open>init\<close> of a package in the order of its files.
\<close>

record object_type =
  ot_GroupVersionKind :: "(string \<times> string) \<times> string"
  ot_Type :: ty
  ot_DeepCopyObject :: "val \<Rightarrow> memory \<Rightarrow> Object \<times> memory"

fun Register :: "string \<times> string \<Rightarrow> string \<times> ty \<times> (val \<Rightarrow> memory \<Rightarrow> Object \<times> memory) \<Rightarrow> object_type" where
  "Register gv (kind, t, dc) = \<lparr>ot_GroupVersionKind = (gv, kind), ot_Type = t, ot_DeepCopyObject = dc\<rparr>"

definition admin_SchemeGroupVersion :: "string \<times> string" where
  "admin_SchemeGroupVersion = (''admin.hana.sap.crossplane.io'', ''v1alpha1'')"

definition AuditPolicy_GroupVersionKind :: "(string \<times> string) \<times> string" where
  "AuditPolicy_GroupVersionKind = (admin_SchemeGroupVersion, ''AuditPolicy'')"

definition AuditPolicy_init :: "api_env \<Rightarrow> object_type list" where
  "AuditPolicy_init e = map (Register admin_SchemeGroupVersion)
     [(''AuditPolicy'', AuditPolicy_ty e, AuditPolicy_DeepCopyObject e),
      (''AuditPolicyList'', AuditPolicyList_ty e, AuditPolicyList_DeepCopyObject e)]"

definition Certificate_GroupVersionKind :: "(string \<times> string) \<times> string" where
  "Certificate_GroupVersionKind = (admin_SchemeGroupVersion, ''Certificate'')"

definition Certificate_init :: "api_env \<Rightarrow> object_type list" where
  "Certificate_init e = map (Register admin_SchemeGroupVersion)
     [(''Certificate'', Certificate_ty e, Certificate_DeepCopyObject e),
      (''CertificateList'', CertificateList_ty e, CertificateList_DeepCopyObject e)]"

definition PersonalSecurityEnvironment_GroupVersionKind :: "(string \<times> string) \<times> string" where
  "PersonalSecurityEnvironment_GroupVersionKind = (admin_SchemeGroupVersion, ''PersonalSecurityEnvironment'')"

definition PersonalSecurityEnvironment_init :: "api_env \<Rightarrow> object_type list" where
  "PersonalSecurityEnvironment_init e = map (Register admin_SchemeGroupVersion)
     [(''PersonalSecurityEnvironment'', PersonalSecurityEnvironment_ty e, PersonalSecurityEnvironment_DeepCopyObject e),
      (''PersonalSecurityEnvironmentList'', PersonalSecurityEnvironmentList_ty e, PersonalSecurityEnvironmentList_DeepCopyObject e)]"

definition Role_GroupVersionKind :: "(string \<times> string) \<times> string" where
  "Role_GroupVersionKind = (admin_SchemeGroupVersion, ''Role'')"

definition Role_init :: "api_env \<Rightarrow> object_type list" where
  "Role_init e = map (Register admin_SchemeGroupVersion)
     [(''Role'', Role_ty e, Role_DeepCopyObject e),
      (''RoleList'', RoleList_ty e, RoleList_DeepCopyObject e)]"

definition Rolegroup_GroupVersionKind :: "(string \<times> string) \<times> string" where
  "Rolegroup_GroupVersionKind = (admin_SchemeGroupVersion, ''Rolegroup'')"

definition Rolegroup_init :: "api_env \<Rightarrow> object_type list" where
  "Rolegroup_init e = map (Register admin_SchemeGroupVersion)
     [(''Rolegroup'', Rolegroup_ty e, Rolegroup_DeepCopyObject e),
      (''RolegroupList'', RolegroupList_ty e, RolegroupList_DeepCopyObject e)]"

definition User_GroupVersionKind :: "(string \<times> string) \<times> string" where
  "User_GroupVersionKind = (admin_SchemeGroupVersion, ''User'')"

definition User_init :: "api_env \<Rightarrow> object_type list" where
  "User_init e = map (Register admin_SchemeGroupVersion)
     [(''User'', User_ty e, User_DeepCopyObject e),
      (''UserList'', UserList_ty e, UserList_DeepCopyObject e)]"

definition Usergroup_GroupVersionKind :: "(string \<times> string) \<times> string" where
  "Usergroup_GroupVersionKind = (admin_SchemeGroupVersion, ''Usergroup'')"

definition Usergroup_init :: "api_env \<Rightarrow> object_type list" where
  "Usergroup_init e = map (Register admin_SchemeGroupVersion)
     [(''Usergroup'', Usergroup_ty e, Usergroup_DeepCopyObject e),
      (''UsergroupList'', UsergroupList_ty e, UsergroupList_DeepCopyObject e)]"

definition X509Provider_GroupVersionKind :: "(string \<times> string) \<times> string" where
  "X509Provider_GroupVersionKind = (admin_SchemeGroupVersion, ''X509Provider'')"

definition X509Provider_init :: "api_env \<Rightarrow> object_type list" where
  "X509Provider_init e = map (Register admin_SchemeGroupVersion)
     [(''X509Provider'', X509Provider_ty e, X509Provider_DeepCopyObject e),
      (''X509ProviderList'', X509ProviderList_ty e, X509ProviderList_DeepCopyObject e)]"

definition admin_SchemeBuilder :: "api_env \<Rightarrow> object_type list" where
  "admin_SchemeBuilder e = AuditPolicy_init e @ Certificate_init e @ PersonalSecurityEnvironment_init e @
     Role_init e @ Rolegroup_init e @ User_init e @ Usergroup_init e @
     X509Provider_init e"

definition inventory_SchemeGroupVersion :: "string \<times> string" where
  "inventory_SchemeGroupVersion = (''inventory.hana.orchestrate.cloud.sap'', ''v1alpha1'')"

definition InstanceMapping_GroupVersionKind :: "(string \<times> string) \<times> string" where
  "InstanceMapping_GroupVersionKind = (inventory_SchemeGroupVersion, ''InstanceMapping'')"

definition InstanceMapping_init :: "api_env \<Rightarrow> object_type list" where
  "InstanceMapping_init e = map (Register inventory_SchemeGroupVersion)
     [(''InstanceMapping'', InstanceMapping_ty e, InstanceMapping_DeepCopyObject e),
      (''InstanceMappingList'', InstanceMappingList_ty e, InstanceMappingList_DeepCopyObject e)]"

definition KymaInstanceMapping_GroupVersionKind :: "(string \<times> string) \<times> string" where
  "KymaInstanceMapping_GroupVersionKind = (inventory_SchemeGroupVersion, ''KymaInstanceMapping'')"

definition KymaInstanceMapping_init :: "api_env \<Rightarrow> object_type list" where
  "KymaInstanceMapping_init e = map (Register inventory_SchemeGroupVersion)
     [(''KymaInstanceMapping'', KymaInstanceMapping_ty e, KymaInstanceMapping_DeepCopyObject e),
      (''KymaInstanceMappingList'', KymaInstanceMappingList_ty e, KymaInstanceMappingList_DeepCopyObject e)]"

definition inventory_SchemeBuilder :: "api_env \<Rightarrow> object_type list" where
  "inventory_SchemeBuilder e = InstanceMapping_init e @ KymaInstanceMapping_init e"

definition schema_SchemeGroupVersion :: "string \<times> string" where
  "schema_SchemeGroupVersion = (''schema.hana.sap.crossplane.io'', ''v1alpha1'')"

definition DbSchema_GroupVersionKind :: "(string \<times> string) \<times> string" where
  "DbSchema_GroupVersionKind = (schema_SchemeGroupVersion, ''DbSchema'')"

definition DbSchema_init :: "api_env \<Rightarrow> object_type list" where
  "DbSchema_init e = map (Register schema_SchemeGroupVersion)
     [(''DbSchema'', DbSchema_ty e, DbSchema_DeepCopyObject e),
      (''DbSchemaList'', DbSchemaList_ty e, DbSchemaList_DeepCopyObject e)]"

definition schema_SchemeBuilder :: "api_env \<Rightarrow> object_type list" where
  "schema_SchemeBuilder e = DbSchema_init e"

definition config_SchemeGroupVersion :: "string \<times> string" where
  "config_SchemeGroupVersion = (''hana.sap.crossplane.io'', ''v1alpha1'')"

definition ProviderConfig_GroupVersionKind :: "(string \<times> string) \<times> string" where
  "ProviderConfig_GroupVersionKind = (config_SchemeGroupVersion, ''ProviderConfig'')"

definition ProviderConfig_init :: "api_env \<Rightarrow> object_type list" where
  "ProviderConfig_init e = map (Register config_SchemeGroupVersion)
     [(''ProviderConfig'', ProviderConfig_ty e, ProviderConfig_DeepCopyObject e),
      (''ProviderConfigList'', ProviderConfigList_ty e, ProviderConfigList_DeepCopyObject e)]"

definition ProviderConfigUsage_GroupVersionKind :: "(string \<times> string) \<times> string" where
  "ProviderConfigUsage_GroupVersionKind = (config_SchemeGroupVersion, ''ProviderConfigUsage'')"

definition ProviderConfigUsage_init :: "api_env \<Rightarrow> object_type list" where
  "ProviderConfigUsage_init e = map (Register config_SchemeGroupVersion)
     [(''ProviderConfigUsage'', ProviderConfigUsage_ty e, ProviderConfigUsage_DeepCopyObject e),
      (''ProviderConfigUsageList'', ProviderConfigUsageList_ty e, ProviderConfigUsageList_DeepCopyObject e)]"

definition StoreConfig_GroupVersionKind :: "(string \<times> string) \<times> string" where
  "StoreConfig_GroupVersionKind = (config_SchemeGroupVersion, ''StoreConfig'')"

definition StoreConfig_init :: "api_env \<Rightarrow> object_type list" where
  "StoreConfig_init e = map (Register config_SchemeGroupVersion)
     [(''StoreConfig'', StoreConfig_ty e, StoreConfig_DeepCopyObject e),
      (''StoreConfigList'', StoreConfigList_ty e, StoreConfigList_DeepCopyObject e)]"

definition config_SchemeBuilder :: "api_env \<Rightarrow> object_type list" where
  "config_SchemeBuilder e = ProviderConfig_init e @ ProviderConfigUsage_init e @ StoreConfig_init e"

definition custom_AddToSchemes :: "api_env \<Rightarrow> object_type list" where
  "custom_AddToSchemes e = admin_SchemeBuilder e @ inventory_SchemeBuilder e @ schema_SchemeBuilder e"

definition AddToSchemes :: "api_env \<Rightarrow> object_type list" where
  "AddToSchemes e = custom_AddToSchemes e @ config_SchemeBuilder e"

section \<open>Accessors\<close>

text \<open>
  The methods of \<open>resource.Managed\<close>. The generator emits the same bodies for every kind: the fields are those of
  the embedded \<open>ResourceSpec\<close>, the conditions are left to the embedded \<open>ResourceStatus\<close>.
\<close>

record managed_methods =
  GetCondition :: "string \<Rightarrow> val \<Rightarrow> memory \<Rightarrow> error + val"
  GetDeletionPolicy :: "val \<Rightarrow> memory \<Rightarrow> error + val"
  GetManagementPolicies :: "val \<Rightarrow> memory \<Rightarrow> error + val"
  GetProviderConfigReference :: "val \<Rightarrow> memory \<Rightarrow> error + val"
  GetPublishConnectionDetailsTo :: "val \<Rightarrow> memory \<Rightarrow> error + val"
  GetWriteConnectionSecretToReference :: "val \<Rightarrow> memory \<Rightarrow> error + val"
  SetConditions :: "val list \<Rightarrow> val \<Rightarrow> memory \<Rightarrow> error + memory"
  SetDeletionPolicy :: "val \<Rightarrow> val \<Rightarrow> memory \<Rightarrow> error + memory"
  SetManagementPolicies :: "val \<Rightarrow> val \<Rightarrow> memory \<Rightarrow> error + memory"
  SetProviderConfigReference :: "val \<Rightarrow> val \<Rightarrow> memory \<Rightarrow> error + memory"
  SetPublishConnectionDetailsTo :: "val \<Rightarrow> val \<Rightarrow> memory \<Rightarrow> error + memory"
  SetWriteConnectionSecretToReference :: "val \<Rightarrow> val \<Rightarrow> memory \<Rightarrow> error + memory"

text \<open>\<open>GetCondition\<close> and \<open>SetConditions\<close> of a status at a path, which inherits them from a type of the runtime.\<close>

definition status_get :: "api_env \<Rightarrow> string \<Rightarrow> string list \<Rightarrow> string \<Rightarrow> val \<Rightarrow> memory \<Rightarrow> error + val" where
  "status_get e n p ct mg m =
     (case field_get p mg m of Inl err \<Rightarrow> Inl err | Inr st \<Rightarrow> Inr (ext_GetCondition e n ct st m))"

definition status_set :: "api_env \<Rightarrow> string \<Rightarrow> string list \<Rightarrow> val list \<Rightarrow> val \<Rightarrow> memory \<Rightarrow> error + memory" where
  "status_set e n p cs mg m =
     (case field_get p mg m of Inl err \<Rightarrow> Inl err
      | Inr st \<Rightarrow> (case ext_SetConditions e n cs st m of (st', m') \<Rightarrow> field_set p st' mg m'))"

definition generated_methods :: "api_env \<Rightarrow> managed_methods" where
  "generated_methods e =
     \<lparr>GetCondition = status_get e ''xpv1.ResourceStatus'' [''Status'', ''ResourceStatus''],
      GetDeletionPolicy = field_get [''Spec'', ''ResourceSpec'', ''DeletionPolicy''],
      GetManagementPolicies = field_get [''Spec'', ''ResourceSpec'', ''ManagementPolicies''],
      GetProviderConfigReference = field_get [''Spec'', ''ResourceSpec'', ''ProviderConfigReference''],
      GetPublishConnectionDetailsTo = field_get [''Spec'', ''ResourceSpec'', ''PublishConnectionDetailsTo''],
      GetWriteConnectionSecretToReference = field_get [''Spec'', ''ResourceSpec'', ''WriteConnectionSecretToReference''],
      SetConditions = status_set e ''xpv1.ResourceStatus'' [''Status'', ''ResourceStatus''],
      SetDeletionPolicy = field_set [''Spec'', ''ResourceSpec'', ''DeletionPolicy''],
      SetManagementPolicies = field_set [''Spec'', ''ResourceSpec'', ''ManagementPolicies''],
      SetProviderConfigReference = field_set [''Spec'', ''ResourceSpec'', ''ProviderConfigReference''],
      SetPublishConnectionDetailsTo = field_set [''Spec'', ''ResourceSpec'', ''PublishConnectionDetailsTo''],
      SetWriteConnectionSecretToReference = field_set [''Spec'', ''ResourceSpec'', ''WriteConnectionSecretToReference'']\<rparr>"

definition Certificate_methods :: "api_env \<Rightarrow> managed_methods" where
  "Certificate_methods = generated_methods"

definition AuditPolicy_methods :: "api_env \<Rightarrow> managed_methods" where
  "AuditPolicy_methods = generated_methods"

definition PersonalSecurityEnvironment_methods :: "api_env \<Rightarrow> managed_methods" where
  "PersonalSecurityEnvironment_methods = generated_methods"

definition Role_methods :: "api_env \<Rightarrow> managed_methods" where
  "Role_methods = generated_methods"

definition Rolegroup_methods :: "api_env \<Rightarrow> managed_methods" where
  "Rolegroup_methods = generated_methods"

definition User_methods :: "api_env \<Rightarrow> managed_methods" where
  "User_methods = generated_methods"

definition Usergroup_methods :: "api_env \<Rightarrow> managed_methods" where
  "Usergroup_methods = generated_methods"

definition X509Provider_methods :: "api_env \<Rightarrow> managed_methods" where
  "X509Provider_methods = generated_methods"

definition InstanceMapping_methods :: "api_env \<Rightarrow> managed_methods" where
  "InstanceMapping_methods = generated_methods"

definition KymaInstanceMapping_methods :: "api_env \<Rightarrow> managed_methods" where
  "KymaInstanceMapping_methods = generated_methods"

definition DbSchema_methods :: "api_env \<Rightarrow> managed_methods" where
  "DbSchema_methods = generated_methods"

text \<open>The methods of configurations, of their usages, and of secret stores.\<close>

record config_methods =
  pc_GetCondition :: "string \<Rightarrow> val \<Rightarrow> memory \<Rightarrow> error + val"
  pc_GetUsers :: "val \<Rightarrow> memory \<Rightarrow> error + val"
  pc_SetConditions :: "val list \<Rightarrow> val \<Rightarrow> memory \<Rightarrow> error + memory"
  pc_SetUsers :: "val \<Rightarrow> val \<Rightarrow> memory \<Rightarrow> error + memory"

definition ProviderConfig_methods :: "api_env \<Rightarrow> config_methods" where
  "ProviderConfig_methods e =
     \<lparr>pc_GetCondition = status_get e ''xpv1.ProviderConfigStatus'' [''Status'', ''ProviderConfigStatus''],
      pc_GetUsers = field_get [''Status'', ''ProviderConfigStatus'', ''Users''],
      pc_SetConditions = status_set e ''xpv1.ProviderConfigStatus'' [''Status'', ''ProviderConfigStatus''],
      pc_SetUsers = field_set [''Status'', ''ProviderConfigStatus'', ''Users'']\<rparr>"

record usage_methods =
  pcu_GetProviderConfigReference :: "val \<Rightarrow> memory \<Rightarrow> error + val"
  pcu_GetResourceReference :: "val \<Rightarrow> memory \<Rightarrow> error + val"
  pcu_SetProviderConfigReference :: "val \<Rightarrow> val \<Rightarrow> memory \<Rightarrow> error + memory"
  pcu_SetResourceReference :: "val \<Rightarrow> val \<Rightarrow> memory \<Rightarrow> error + memory"

definition ProviderConfigUsage_methods :: usage_methods where
  "ProviderConfigUsage_methods =
     \<lparr>pcu_GetProviderConfigReference = field_get [''ProviderConfigUsage'', ''ProviderConfigReference''],
      pcu_GetResourceReference = field_get [''ProviderConfigUsage'', ''ResourceReference''],
      pcu_SetProviderConfigReference = field_set [''ProviderConfigUsage'', ''ProviderConfigReference''],
      pcu_SetResourceReference = field_set [''ProviderConfigUsage'', ''ResourceReference'']\<rparr>"

definition StoreConfig_GetStoreConfig :: "val \<Rightarrow> memory \<Rightarrow> error + val" where
  "StoreConfig_GetStoreConfig = field_get [''Spec'', ''SecretStoreConfig'']"

definition StoreConfig_GetCondition :: "api_env \<Rightarrow> string \<Rightarrow> val \<Rightarrow> memory \<Rightarrow> error + val" where
  "StoreConfig_GetCondition e = status_get e ''xpv1.ConditionedStatus'' [''Status'', ''ConditionedStatus'']"

definition StoreConfig_SetConditions :: "api_env \<Rightarrow> val list \<Rightarrow> val \<Rightarrow> memory \<Rightarrow> error + memory" where
  "StoreConfig_SetConditions e = status_set e ''xpv1.ConditionedStatus'' [''Status'', ''ConditionedStatus'']"

text \<open>The fields that a kind gives access to, with the method that reads and the one that assigns each.\<close>

record accessor =
  ac_Path :: "string list"
  ac_Get :: "val \<Rightarrow> memory \<Rightarrow> error + val"
  ac_Set :: "val \<Rightarrow> val \<Rightarrow> memory \<Rightarrow> error + memory"

definition managed_accessors :: "managed_methods \<Rightarrow> accessor list" where
  "managed_accessors ms =
     [\<lparr>ac_Path = [''Spec'', ''ResourceSpec'', ''DeletionPolicy''], ac_Get = GetDeletionPolicy ms, ac_Set = SetDeletionPolicy ms\<rparr>,
      \<lparr>ac_Path = [''Spec'', ''ResourceSpec'', ''ManagementPolicies''], ac_Get = GetManagementPolicies ms,
        ac_Set = SetManagementPolicies ms\<rparr>,
      \<lparr>ac_Path = [''Spec'', ''ResourceSpec'', ''ProviderConfigReference''], ac_Get = GetProviderConfigReference ms,
        ac_Set = SetProviderConfigReference ms\<rparr>,
      \<lparr>ac_Path = [''Spec'', ''ResourceSpec'', ''PublishConnectionDetailsTo''], ac_Get = GetPublishConnectionDetailsTo ms,
        ac_Set = SetPublishConnectionDetailsTo ms\<rparr>,
      \<lparr>ac_Path = [''Spec'', ''ResourceSpec'', ''WriteConnectionSecretToReference''], ac_Get = GetWriteConnectionSecretToReference ms,
        ac_Set = SetWriteConnectionSecretToReference ms\<rparr>]"

definition managed_kinds :: "api_env \<Rightarrow> (ty \<times> managed_methods) list" where
  "managed_kinds e =
     [(Certificate_ty e, Certificate_methods e), (AuditPolicy_ty e, AuditPolicy_methods e),
      (PersonalSecurityEnvironment_ty e, PersonalSecurityEnvironment_methods e), (Role_ty e, Role_methods e),
      (Rolegroup_ty e, Rolegroup_methods e), (User_ty e, User_methods e), (Usergroup_ty e, Usergroup_methods e),
      (X509Provider_ty e, X509Provider_methods e), (InstanceMapping_ty e, InstanceMapping_methods e),
      (KymaInstanceMapping_ty e, KymaInstanceMapping_methods e), (DbSchema_ty e, DbSchema_methods e)]"

definition api_accessors :: "api_env \<Rightarrow> (ty \<times> accessor list) list" where
  "api_accessors e = map (\<lambda>(t, ms). (t, managed_accessors ms)) (managed_kinds e) @
     [(ProviderConfig_ty e, [\<lparr>ac_Path = [''Status'', ''ProviderConfigStatus'', ''Users''], ac_Get = pc_GetUsers (ProviderConfig_methods e),
         ac_Set = pc_SetUsers (ProviderConfig_methods e)\<rparr>]),
      (ProviderConfigUsage_ty e,
        [\<lparr>ac_Path = [''ProviderConfigUsage'', ''ProviderConfigReference''],
           ac_Get = pcu_GetProviderConfigReference ProviderConfigUsage_methods,
           ac_Set = pcu_SetProviderConfigReference ProviderConfigUsage_methods\<rparr>,
         \<lparr>ac_Path = [''ProviderConfigUsage'', ''ResourceReference''], ac_Get = pcu_GetResourceReference ProviderConfigUsage_methods,
           ac_Set = pcu_SetResourceReference ProviderConfigUsage_methods\<rparr>])]"

section \<open>Lists\<close>

text \<open>\<open>GetItems\<close>: pointers to the elements of the slice, as values of an interface; the same body for every list.\<close>

definition generated_GetItems :: "val \<Rightarrow> memory \<Rightarrow> error + val list" where
  "generated_GetItems l m =
     (case field_get [''Items''] l m of
        Inl err \<Rightarrow> Inl err
      | Inr items \<Rightarrow> Inr (case items of VSlice (Some (a, n)) \<Rightarrow> map (\<lambda>i. VPtr (Some (a + i))) [0..<n] | _ \<Rightarrow> []))"

definition AuditPolicyList_GetItems :: "val \<Rightarrow> memory \<Rightarrow> error + val list" where
  "AuditPolicyList_GetItems = generated_GetItems"

definition PersonalSecurityEnvironmentList_GetItems :: "val \<Rightarrow> memory \<Rightarrow> error + val list" where
  "PersonalSecurityEnvironmentList_GetItems = generated_GetItems"

definition RoleList_GetItems :: "val \<Rightarrow> memory \<Rightarrow> error + val list" where
  "RoleList_GetItems = generated_GetItems"

definition RolegroupList_GetItems :: "val \<Rightarrow> memory \<Rightarrow> error + val list" where
  "RolegroupList_GetItems = generated_GetItems"

definition UserList_GetItems :: "val \<Rightarrow> memory \<Rightarrow> error + val list" where
  "UserList_GetItems = generated_GetItems"

definition UsergroupList_GetItems :: "val \<Rightarrow> memory \<Rightarrow> error + val list" where
  "UsergroupList_GetItems = generated_GetItems"

definition X509ProviderList_GetItems :: "val \<Rightarrow> memory \<Rightarrow> error + val list" where
  "X509ProviderList_GetItems = generated_GetItems"

definition InstanceMappingList_GetItems :: "val \<Rightarrow> memory \<Rightarrow> error + val list" where
  "InstanceMappingList_GetItems = generated_GetItems"

definition KymaInstanceMappingList_GetItems :: "val \<Rightarrow> memory \<Rightarrow> error + val list" where
  "KymaInstanceMappingList_GetItems = generated_GetItems"

definition DbSchemaList_GetItems :: "val \<Rightarrow> memory \<Rightarrow> error + val list" where
  "DbSchemaList_GetItems = generated_GetItems"

definition ProviderConfigUsageList_GetItems :: "val \<Rightarrow> memory \<Rightarrow> error + val list" where
  "ProviderConfigUsageList_GetItems = generated_GetItems"

definition api_lists :: "api_env \<Rightarrow> (ty \<times> ty \<times> (val \<Rightarrow> memory \<Rightarrow> error + val list)) list" where
  "api_lists e =
     [(AuditPolicyList_ty e, AuditPolicy_ty e, AuditPolicyList_GetItems),
      (PersonalSecurityEnvironmentList_ty e, PersonalSecurityEnvironment_ty e, PersonalSecurityEnvironmentList_GetItems),
      (RoleList_ty e, Role_ty e, RoleList_GetItems), (RolegroupList_ty e, Rolegroup_ty e, RolegroupList_GetItems),
      (UserList_ty e, User_ty e, UserList_GetItems), (UsergroupList_ty e, Usergroup_ty e, UsergroupList_GetItems),
      (X509ProviderList_ty e, X509Provider_ty e, X509ProviderList_GetItems),
      (InstanceMappingList_ty e, InstanceMapping_ty e, InstanceMappingList_GetItems),
      (KymaInstanceMappingList_ty e, KymaInstanceMapping_ty e, KymaInstanceMappingList_GetItems),
      (DbSchemaList_ty e, DbSchema_ty e, DbSchemaList_GetItems),
      (ProviderConfigUsageList_ty e, ProviderConfigUsage_ty e, ProviderConfigUsageList_GetItems)]"

section \<open>Every object is copied deeply\<close>

lemma as_Object_copy:
  "as_Object kind (copy_ptr t c v m) =
     (case v of VPtr (Some a) \<Rightarrow> (case copy_ptr t c v m of (w, m') \<Rightarrow> (Some (kind, length m), m')) | _ \<Rightarrow> (None, m))"
  by (auto simp: as_Object_def copy_ptr_def split: val.split option.split prod.split)

definition copies_objects :: "object_type \<Rightarrow> bool" where
  "copies_objects ot \<longleftrightarrow> (\<exists>c. deep_copy (ot_Type ot) c
     \<and> ot_DeepCopyObject ot = (\<lambda>v m. as_Object (snd (ot_GroupVersionKind ot)) (copy_ptr (ot_Type ot) c v m)))"

lemma copies_objects_Register:
  "deep_copy t c \<Longrightarrow> dc = (\<lambda>v m. as_Object kind (copy_ptr t c v m)) \<Longrightarrow> copies_objects (Register gv (kind, t, dc))"
  by (auto simp: copies_objects_def)

lemmas object_defs =
    AuditPolicy_DeepCopyObject_def AuditPolicy_DeepCopy_def AuditPolicyList_DeepCopyObject_def
  AuditPolicyList_DeepCopy_def Certificate_DeepCopyObject_def Certificate_DeepCopy_def
  CertificateList_DeepCopyObject_def CertificateList_DeepCopy_def PersonalSecurityEnvironment_DeepCopyObject_def
  PersonalSecurityEnvironment_DeepCopy_def PersonalSecurityEnvironmentList_DeepCopyObject_def
  PersonalSecurityEnvironmentList_DeepCopy_def Role_DeepCopyObject_def Role_DeepCopy_def RoleList_DeepCopyObject_def
  RoleList_DeepCopy_def Rolegroup_DeepCopyObject_def Rolegroup_DeepCopy_def RolegroupList_DeepCopyObject_def
  RolegroupList_DeepCopy_def User_DeepCopyObject_def User_DeepCopy_def UserList_DeepCopyObject_def
  UserList_DeepCopy_def Usergroup_DeepCopyObject_def Usergroup_DeepCopy_def UsergroupList_DeepCopyObject_def
  UsergroupList_DeepCopy_def X509Provider_DeepCopyObject_def X509Provider_DeepCopy_def
  X509ProviderList_DeepCopyObject_def X509ProviderList_DeepCopy_def InstanceMapping_DeepCopyObject_def
  InstanceMapping_DeepCopy_def InstanceMappingList_DeepCopyObject_def InstanceMappingList_DeepCopy_def
  KymaInstanceMapping_DeepCopyObject_def KymaInstanceMapping_DeepCopy_def KymaInstanceMappingList_DeepCopyObject_def
  KymaInstanceMappingList_DeepCopy_def DbSchema_DeepCopyObject_def DbSchema_DeepCopy_def
  DbSchemaList_DeepCopyObject_def DbSchemaList_DeepCopy_def ProviderConfig_DeepCopyObject_def
  ProviderConfig_DeepCopy_def ProviderConfigList_DeepCopyObject_def ProviderConfigList_DeepCopy_def
  ProviderConfigUsage_DeepCopyObject_def ProviderConfigUsage_DeepCopy_def ProviderConfigUsageList_DeepCopyObject_def
  ProviderConfigUsageList_DeepCopy_def StoreConfig_DeepCopyObject_def StoreConfig_DeepCopy_def
  StoreConfigList_DeepCopyObject_def StoreConfigList_DeepCopy_def

lemmas init_defs =
    AuditPolicy_init_def Certificate_init_def PersonalSecurityEnvironment_init_def Role_init_def Rolegroup_init_def
  User_init_def Usergroup_init_def X509Provider_init_def InstanceMapping_init_def KymaInstanceMapping_init_def
  DbSchema_init_def ProviderConfig_init_def ProviderConfigUsage_init_def StoreConfig_init_def

lemmas method_defs =
    Certificate_methods_def AuditPolicy_methods_def PersonalSecurityEnvironment_methods_def Role_methods_def
  Rolegroup_methods_def User_methods_def Usergroup_methods_def X509Provider_methods_def InstanceMapping_methods_def
  KymaInstanceMapping_methods_def DbSchema_methods_def

lemmas list_defs =
    AuditPolicyList_GetItems_def PersonalSecurityEnvironmentList_GetItems_def RoleList_GetItems_def
  RolegroupList_GetItems_def UserList_GetItems_def UsergroupList_GetItems_def X509ProviderList_GetItems_def
  InstanceMappingList_GetItems_def KymaInstanceMappingList_GetItems_def DbSchemaList_GetItems_def
  ProviderConfigUsageList_GetItems_def

lemmas list_type_defs =
    AuditPolicyList_ty_def PersonalSecurityEnvironmentList_ty_def RoleList_ty_def RolegroupList_ty_def
  UserList_ty_def UsergroupList_ty_def X509ProviderList_ty_def InstanceMappingList_ty_def
  KymaInstanceMappingList_ty_def DbSchemaList_ty_def ProviderConfigUsageList_ty_def

lemma AddToSchemes_copies: "env_ok e \<Longrightarrow> ot \<in> set (AddToSchemes e) \<Longrightarrow> copies_objects ot"
proof -
  assume e: "env_ok e"
  have "list_all copies_objects (AddToSchemes e)"
    unfolding AddToSchemes_def custom_AddToSchemes_def admin_SchemeBuilder_def inventory_SchemeBuilder_def schema_SchemeBuilder_def
      config_SchemeBuilder_def init_defs list_all_append list.map list.pred_inject
    by (intro conjI TrueI copies_objects_Register) (auto simp: object_defs fun_eq_iff intro: deep_copies e)
  then show "ot \<in> set (AddToSchemes e) \<Longrightarrow> copies_objects ot" by (simp add: list_all_iff)
qed

lemma registered_once: "distinct (map ot_GroupVersionKind (AddToSchemes e))"
  by (simp add: AddToSchemes_def custom_AddToSchemes_def admin_SchemeBuilder_def inventory_SchemeBuilder_def schema_SchemeBuilder_def
    config_SchemeBuilder_def init_defs admin_SchemeGroupVersion_def inventory_SchemeGroupVersion_def schema_SchemeGroupVersion_def
    config_SchemeGroupVersion_def)

text \<open>
  C3. \<open>DeepCopyObject\<close> copies everything. For every type that the provider registers, nil is copied to nil; for an
  object the result is a new object of the same kind with the same content, and no memory is shared:
  whatever is later written to the memory that was there before leaves the content of the copy alone,
  and whatever is written to the memory of the copy leaves the content of the original alone.
\<close>

theorem deepcopy_objects_independent:
  assumes "env_ok e" and "ot \<in> set (AddToSchemes e)" and "has_ty m (TPtr (ot_Type ot)) (VPtr p)"
    and "ot_DeepCopyObject ot (VPtr p) m = (r, m1)"
  shows "case p of
      None \<Rightarrow> r = None \<and> m1 = m
    | Some a \<Rightarrow> \<exists>b. r = Some (snd (ot_GroupVersionKind ot), b) \<and> b \<in> {length m..<length m1}
        \<and> has_ty m1 (TPtr (ot_Type ot)) (VPtr (Some b))
        \<and> (\<forall>m2. agree_on {length m..<length m1} m1 m2 \<longrightarrow>
             content_of m2 (ot_Type ot) (m2 ! b) = content_of m (ot_Type ot) (m ! a))
        \<and> (\<forall>m2. agree_on {..<length m} m1 m2 \<longrightarrow>
             content_of m2 (ot_Type ot) (m2 ! a) = content_of m (ot_Type ot) (m ! a))"
proof -
  let ?t = "ot_Type ot"
  obtain c where c: "deep_copy ?t c"
      "ot_DeepCopyObject ot = (\<lambda>v m. as_Object (snd (ot_GroupVersionKind ot)) (copy_ptr ?t c v m))"
    using AddToSchemes_copies [OF assms(1,2)] by (auto simp: copies_objects_def)
  have d: "deep_copy (TPtr ?t) (copy_ptr ?t c)" by (rule deep_copy_ptr [OF c(1)])
  show ?thesis
  proof (cases p)
    case None
    then show ?thesis using assms(4) by (simp add: c(2) as_Object_copy)
  next
    case (Some a)
    obtain w where w: "copy_ptr ?t c (VPtr p) m = (w, m1)" and r: "r = Some (snd (ot_GroupVersionKind ot), length m)"
      using assms(4) by (auto simp: c(2) as_Object_copy Some split: prod.splits)
    have b: "w = VPtr (Some (length m))" using w by (auto simp: copy_ptr_def Some split: prod.splits)
    have cp: "copied m m1 (TPtr ?t) (VPtr p) w" using deep_copy.copies [OF d assms(3)] w by simp
    have "content_of m2 ?t (m2 ! length m) = content_of m ?t (m ! a)" if "agree_on {length m..<length m1} m1 m2" for m2
      using deep_copy.copy_independent [OF d assms(3) w that] by (simp add: Some b)
    moreover have "content_of m2 ?t (m2 ! a) = content_of m ?t (m ! a)" if "agree_on {..<length m} m1 m2" for m2
      using deep_copy.original_independent [OF d assms(3) w assms(3) that] by (simp add: Some)
    ultimately show ?thesis using cp r by (auto simp: Some b copied_def)
  qed
qed

section \<open>Accessors assign one field\<close>

definition by_path :: "accessor list \<Rightarrow> bool" where
  "by_path acs \<longleftrightarrow> list_all (\<lambda>ac. ac_Get ac = field_get (ac_Path ac) \<and> ac_Set ac = field_set (ac_Path ac)
     \<and> list_all (\<lambda>p. p = ac_Path ac \<or> \<not> prefix p (ac_Path ac)) (map ac_Path acs)) acs"

lemma managed_by_path: "(t, ms) \<in> set (managed_kinds e) \<Longrightarrow> by_path (managed_accessors ms)"
proof -
  assume "(t, ms) \<in> set (managed_kinds e)"
  then have "ms = generated_methods e" by (auto simp: managed_kinds_def method_defs)
  then show ?thesis by (simp add: by_path_def managed_accessors_def generated_methods_def)
qed

lemma accessors_by_path:
  assumes "(t, acs) \<in> set (api_accessors e)" "ac \<in> set acs"
  shows "ac_Get ac = field_get (ac_Path ac)" "ac_Set ac = field_set (ac_Path ac)"
    "ac' \<in> set acs \<Longrightarrow> ac_Path ac' \<noteq> ac_Path ac \<Longrightarrow> \<not> prefix (ac_Path ac') (ac_Path ac)"
proof -
  have "by_path acs" using assms(1) managed_by_path unfolding api_accessors_def
    by (auto simp: by_path_def ProviderConfig_methods_def ProviderConfigUsage_methods_def)
  then show "ac_Get ac = field_get (ac_Path ac)" "ac_Set ac = field_set (ac_Path ac)"
    "ac' \<in> set acs \<Longrightarrow> ac_Path ac' \<noteq> ac_Path ac \<Longrightarrow> \<not> prefix (ac_Path ac') (ac_Path ac)"
    using assms(2) by (auto simp: by_path_def list_all_iff)
qed

text \<open>
  C11. The accessors of every managed kind, of configurations and of their usages. Assigning a value of the type of the
  field to an object keeps the object well typed and changes nothing else in memory; the getter of the
  field then returns the value, every other getter what it returned before, and every field that is
  not on the path of the assigned one, such as the desired state or the status, is what it was. A nil
  object panics.
\<close>

theorem accessors_assign_one_field:
  assumes "(t, acs) \<in> set (api_accessors e)" "ac \<in> set acs" "type_at (ac_Path ac) t = Some u"
    and "a < length m" "has_ty m t (m ! a)" "has_ty m u r" "a \<notin> reach m t (m ! a)" "a \<notin> reach m u r"
  shows "\<exists>m'. ac_Set ac r (VPtr (Some a)) m = Inr m' \<and> has_ty m' (TPtr t) (VPtr (Some a))
    \<and> length m' = length m \<and> (\<forall>b. b \<noteq> a \<longrightarrow> m' ! b = m ! b)
    \<and> (\<forall>ac' \<in> set acs. ac_Get ac' (VPtr (Some a)) m' =
         (if ac_Path ac' = ac_Path ac then Inr r else ac_Get ac' (VPtr (Some a)) m))
    \<and> (\<forall>q. \<not> prefix (ac_Path ac) q \<and> \<not> prefix q (ac_Path ac) \<longrightarrow> get_path q (m' ! a) = get_path q (m ! a))
    \<and> ac_Set ac r (VPtr None) m = Inl nil_dereference"
proof -
  let ?p = "ac_Path ac"
  define m' where "m' = m[a := put_path ?p r (m ! a)]"
  have s: "field_set ?p r (VPtr (Some a)) m = Inr m'" by (simp add: field_set_def m'_def)
  note law = field_set_typed [OF assms(4,5,3,6-8) s]
  have "ac_Get ac' (VPtr (Some a)) m' = (if ac_Path ac' = ?p then Inr r else ac_Get ac' (VPtr (Some a)) m)" if "ac' \<in> set acs" for ac'
    using accessors_by_path [OF assms(1)] that assms(2) law(2,3) by auto
  moreover have "get_path q (m' ! a) = get_path q (m ! a)" if "\<not> prefix ?p q \<and> \<not> prefix q ?p" for q
    using law(3) [of q] that by (simp add: field_get_def)
  ultimately show ?thesis using law(1,4,5) s accessors_by_path(2) [OF assms(1,2)] by (auto simp: field_set_def)
qed

text \<open>\<open>SetConditions\<close> writes the status and nothing of the specification, as long as the runtime's method does not write to
  the object itself.\<close>

lemma SetConditions_keeps_fields:
  assumes "(t, ms) \<in> set (managed_kinds e)" "SetConditions ms cs (VPtr (Some a)) m = Inr m'" "a < length m"
    and "\<And>st st' m1. ext_SetConditions e ''xpv1.ResourceStatus'' cs st m = (st', m1) \<Longrightarrow> a < length m1 \<and> m1 ! a = m ! a"
    and "\<not> prefix [''Status'', ''ResourceStatus''] q" "\<not> prefix q [''Status'', ''ResourceStatus'']"
  shows "get_path q (m' ! a) = get_path q (m ! a)"
proof -
  have "ms = generated_methods e" using assms(1) by (auto simp: managed_kinds_def method_defs)
  then show ?thesis using assms(2-)
    by (auto simp: generated_methods_def status_set_def field_get_def field_set_def get_put_other
      simp del: get_path.simps put_path.simps split: prod.splits)
qed

section \<open>Items of lists\<close>

lemma list_types:
  "(lt, t, items) \<in> set (api_lists e) \<Longrightarrow>
     items = generated_GetItems \<and> (\<exists>fs. lt = TStruct fs \<and> distinct (map fst fs) \<and> (''Items'', TSlice t) \<in> set fs)"
  by (auto simp: api_lists_def list_defs list_type_defs)

text \<open>Pointers to the elements of a slice, one by one.\<close>

definition items_of :: "memory \<Rightarrow> ty \<Rightarrow> val \<Rightarrow> val list \<Rightarrow> bool" where
  "items_of m t s items \<longleftrightarrow> list_all (has_ty m (TPtr t)) items
     \<and> map (content_of m (TPtr t)) items = (case content_of m (TSlice t) s of CSlice cs \<Rightarrow> map CPtr cs | _ \<Rightarrow> [])
     \<and> (\<forall>i. VPtr (Some i) \<in> set items \<longrightarrow> i \<in> reach m (TSlice t) s)"

lemma GetItems_typed:
  assumes "has_ty m (TStruct fs) (m ! a)" "(''Items'', TSlice t) \<in> set fs"
  obtains items where "generated_GetItems (VPtr (Some a)) m = Inr items" "items_of m t (field ''Items'' (m ! a)) items"
proof -
  have "has_ty m (TSlice t) (field ''Items'' (m ! a))" by (rule field_typed [OF assms])
  then consider "field ''Items'' (m ! a) = VSlice None"
    | i n where "field ''Items'' (m ! a) = VSlice (Some (i, n))" "i + n \<le> length m" "\<forall>j \<in> {i..<i + n}. has_ty m t (m ! j)"
    by (auto simp: typing)
  then show thesis
  proof cases
    case 1
    then show thesis by (intro that [of "[]"]) (simp_all add: generated_GetItems_def field_get_def items_of_def)
  next
    case 2
    then show thesis
      by (intro that [of "map (\<lambda>j. VPtr (Some (i + j))) [0..<n]"])
        (auto simp: generated_GetItems_def field_get_def items_of_def list_all_iff typing intro!: nth_equalityI)
  qed
qed

lemma list_content:
  assumes "distinct (map fst fs)" "(''Items'', TSlice t) \<in> set fs"
    and "has_ty m (TStruct fs) v" "has_ty m' (TStruct fs) w" "content_of m' (TStruct fs) w = content_of m (TStruct fs) v"
  shows "content_of m' (TSlice t) (field ''Items'' w) = content_of m (TSlice t) (field ''Items'' v)"
proof -
  obtain vs ws where v: "v = VStruct vs" "map fst vs = map fst fs" and w: "w = VStruct ws" "map fst ws = map fst fs"
    using assms(3,4) fields_names by (auto simp: typing)
  have "map (\<lambda>(f, t). (f, content_of m' t (field f w))) fs = map (\<lambda>(f, t). (f, content_of m t (field f v))) fs"
    using assms(5) fields_by_name(2) [OF assms(1) v(2)] fields_by_name(2) [OF assms(1) w(2)] by (simp add: v(1) w(1) del: field.simps)
  then show ?thesis using assms(2) by fastforce
qed

lemma list_reach:
  "has_ty m (TStruct fs) v \<Longrightarrow> (f, t) \<in> set fs \<Longrightarrow> reach m t (field f v) \<subseteq> reach m (TStruct fs) v"
  using fields_by_name(3) [OF _ fields_names] by (fastforce simp: typing simp del: field.simps)

text \<open>
  The items of a list are its elements. For every list with \<open>GetItems\<close>, the method returns pointers to the elements of
  the list, in their order and of their type, so that a write through one is a write to the list. A copy
  of the list by \<open>DeepCopyObject\<close> has as many items with the same contents, and none of their pointers points to
  memory that was there before.
\<close>

theorem list_items_are_elements:
  assumes "env_ok e" and "(lt, t, GetItems) \<in> set (api_lists e)" and "ot \<in> set (AddToSchemes e)" "ot_Type ot = lt"
    and "has_ty m (TPtr lt) (VPtr (Some a))" and "ot_DeepCopyObject ot (VPtr (Some a)) m = (r, m1)"
  shows "\<exists>items b items'. GetItems (VPtr (Some a)) m = Inr items \<and> list_all (has_ty m (TPtr t)) items
    \<and> map (content_of m (TPtr t)) items = (case content_of m (TSlice t) (field ''Items'' (m ! a)) of CSlice cs \<Rightarrow> map CPtr cs | _ \<Rightarrow> [])
    \<and> r = Some (snd (ot_GroupVersionKind ot), b) \<and> GetItems (VPtr (Some b)) m1 = Inr items'
    \<and> list_all (has_ty m1 (TPtr t)) items' \<and> map (content_of m1 (TPtr t)) items' = map (content_of m (TPtr t)) items
    \<and> (\<forall>i. VPtr (Some i) \<in> set items \<longrightarrow> i < length m) \<and> (\<forall>i. VPtr (Some i) \<in> set items' \<longrightarrow> length m \<le> i)"
proof -
  obtain fs where lt: "GetItems = generated_GetItems" "lt = TStruct fs" "distinct (map fst fs)" "(''Items'', TSlice t) \<in> set fs"
    using list_types [OF assms(2)] by auto
  obtain c where c: "deep_copy lt c" "ot_DeepCopyObject ot = (\<lambda>v m. as_Object (snd (ot_GroupVersionKind ot)) (copy_ptr lt c v m))"
    using AddToSchemes_copies [OF assms(1,3)] assms(4) by (auto simp: copies_objects_def)
  let ?b = "length m"
  obtain w where w: "copy_ptr lt c (VPtr (Some a)) m = (w, m1)" and r: "r = Some (snd (ot_GroupVersionKind ot), ?b)"
    using assms(6) by (auto simp: c(2) as_Object_copy split: prod.splits)
  have wb: "w = VPtr (Some ?b)" using w by (auto simp: copy_ptr_def split: prod.splits)
  have cp: "copied m m1 (TPtr lt) (VPtr (Some a)) (VPtr (Some ?b))"
    using deep_copy.copies [OF deep_copy_ptr [OF c(1)] assms(5)] w wb by simp
  have a: "a < length m" "has_ty m (TStruct fs) (m ! a)" using assms(5) by (auto simp: typing lt(2))
  have b: "?b < length m1" "has_ty m1 (TStruct fs) (m1 ! ?b)" "content_of m1 (TStruct fs) (m1 ! ?b) = content_of m (TStruct fs) (m ! a)"
      "reach m1 (TStruct fs) (m1 ! ?b) \<subseteq> {?b..<length m1}"
    using cp by (auto simp: copied_def typing(4) lt(2))
  obtain items where items: "generated_GetItems (VPtr (Some a)) m = Inr items" "items_of m t (field ''Items'' (m ! a)) items"
    by (rule GetItems_typed [OF a(2) lt(4)])
  obtain items' where items': "generated_GetItems (VPtr (Some ?b)) m1 = Inr items'" "items_of m1 t (field ''Items'' (m1 ! ?b)) items'"
    by (rule GetItems_typed [OF b(2) lt(4)])
  have "map (content_of m1 (TPtr t)) items' = map (content_of m (TPtr t)) items"
    using items(2) items'(2) list_content [OF lt(3,4) a(2) b(2,3)] unfolding items_of_def by metis
  moreover have "i < length m" if "VPtr (Some i) \<in> set items" for i
    using items(2) that reach_bound(1) [OF field_typed [OF a(2) lt(4)]] by (auto simp: items_of_def simp del: reach.simps)
  moreover have "?b \<le> i" if "VPtr (Some i) \<in> set items'" for i
  proof -
    have "i \<in> reach m1 (TSlice t) (field ''Items'' (m1 ! ?b))" using items'(2) that unfolding items_of_def by blast
    then show ?thesis using list_reach [OF b(2) lt(4)] b(4) by (meson atLeastLessThan_iff subsetD)
  qed
  ultimately show ?thesis using items items' r unfolding lt(1) items_of_def by blast
qed

section \<open>Examples\<close>

text \<open>An instance of the imported packages, with pointers where the real types have some, and a schema in memory.\<close>

definition sample_ResourceSpec :: "(string \<times> ty) list" where
  "sample_ResourceSpec = [(''WriteConnectionSecretToReference'', TPtr TString), (''PublishConnectionDetailsTo'', TPtr TString),
     (''ProviderConfigReference'', TPtr TString), (''ManagementPolicies'', TSlice TString), (''DeletionPolicy'', TString)]"

definition sample_env :: api_env where
  "sample_env =
     \<lparr>ext_type = (\<lambda>n. if n = ''metav1.ObjectMeta'' then TStruct [(''Name'', TString), (''DeletionGracePeriodSeconds'', TPtr TInt)]
         else if n = ''xpv1.ResourceSpec'' then TStruct sample_ResourceSpec else TString),
      ext_copy = (\<lambda>n. if n = ''metav1.ObjectMeta'' then copy_fields [(''DeletionGracePeriodSeconds'', copy_ptr TInt copy_assign)]
         else if n = ''xpv1.ResourceSpec'' then copy_fields
           [(''WriteConnectionSecretToReference'', copy_ptr TString copy_assign),
            (''PublishConnectionDetailsTo'', copy_ptr TString copy_assign),
            (''ProviderConfigReference'', copy_ptr TString copy_assign), (''ManagementPolicies'', copy_slice TString copy_assign)]
         else if n = ''*metav1.Time'' then copy_ptr TString copy_assign else copy_assign),
      ext_GetCondition = (\<lambda>n ct st m. st), ext_SetConditions = (\<lambda>n cs st m. (st, m)), range_order = (\<lambda>tab. tab)\<rparr>"

definition sample_schema :: val where
  "sample_schema = VStruct
     [(''TypeMeta'', VString ''DbSchema''),
      (''ObjectMeta'', VStruct [(''Name'', VString ''s''), (''DeletionGracePeriodSeconds'', VPtr (Some 0))]),
      (''Spec'', VStruct [(''ResourceSpec'', VStruct
          [(''WriteConnectionSecretToReference'', VPtr None), (''PublishConnectionDetailsTo'', VPtr None),
           (''ProviderConfigReference'', VPtr (Some 1)), (''ManagementPolicies'', VSlice None), (''DeletionPolicy'', VString ''Delete'')]),
        (''ForProvider'', VStruct [(''SchemaName'', VString ''S''), (''Owner'', VString ''O'')])]),
      (''Status'', VStruct [(''ResourceStatus'', VString []),
        (''AtProvider'', VStruct [(''SchemaName'', VString ''S''), (''Owner'', VString ''O'')])])]"

definition sample_memory :: memory where
  "sample_memory = [VInt 30, VString ''default'', sample_schema,
     VStruct [(''TypeMeta'', VString ''DbSchemaList''), (''ListMeta'', VString []), (''Items'', VSlice (Some (2, 1)))]]"

lemma sample_env_ok: "env_ok sample_env"
proof -
  have "deep_copy (ext_type sample_env ''metav1.ObjectMeta'') (ext_copy sample_env ''metav1.ObjectMeta'')"
    by (simp add: sample_env_def) (rule deep_copy_struct, simp add: fields_covered_def deep_copies)
  moreover have "deep_copy (ext_type sample_env ''xpv1.ResourceSpec'') (ext_copy sample_env ''xpv1.ResourceSpec'')"
    by (simp add: sample_env_def sample_ResourceSpec_def) (rule deep_copy_struct, simp add: fields_covered_def deep_copies)
  ultimately show ?thesis
    by (simp add: env_ok_def plain_externals_def deep_externals_def) (simp add: sample_env_def deep_copies)
qed

lemmas schema_types = DbSchema_ty_def DbSchemaSpec_ty_def DbSchemaStatus_ty_def DbSchemaParameters_ty_def DbSchemaObservation_ty_def
  DbSchemaList_ty_def sample_env_def sample_ResourceSpec_def

lemma sample_typed:
  "has_ty sample_memory (DbSchema_ty sample_env) sample_schema"
  "has_ty sample_memory (TPtr (DbSchemaList_ty sample_env)) (VPtr (Some 3))"
  by (simp_all add: schema_types typing sample_memory_def sample_schema_def)

lemma sample_registered:
  "Register schema_SchemeGroupVersion (''DbSchema'', DbSchema_ty e, DbSchema_DeepCopyObject e) \<in> set (AddToSchemes e)"
  "Register schema_SchemeGroupVersion (''DbSchemaList'', DbSchemaList_ty e, DbSchemaList_DeepCopyObject e) \<in> set (AddToSchemes e)"
  by (simp_all add: AddToSchemes_def custom_AddToSchemes_def schema_SchemeBuilder_def DbSchema_init_def)

theorem deepcopy_objects_independent_witness:
  "\<exists>m1. DbSchema_DeepCopyObject sample_env (VPtr (Some 2)) sample_memory = (Some (''DbSchema'', 4), m1)
     \<and> content_of (m1[0 := VInt 0, 2 := VInt 0]) (DbSchema_ty sample_env) (m1 ! 4) =
       content_of sample_memory (DbSchema_ty sample_env) sample_schema"
proof -
  let ?t = "DbSchema_ty sample_env"
  obtain r m1 where d: "DbSchema_DeepCopyObject sample_env (VPtr (Some 2)) sample_memory = (r, m1)" by (metis prod.exhaust)
  have r: "r = Some (''DbSchema'', 4)"
    using d by (auto simp: DbSchema_DeepCopyObject_def DbSchema_DeepCopy_def as_Object_copy sample_memory_def split: prod.splits)
  have ty: "has_ty sample_memory (TPtr ?t) (VPtr (Some 2))" using sample_typed(1) by (simp add: typing(4) sample_memory_def)
  obtain b where b: "r = Some (''DbSchema'', b)" "b \<in> {length sample_memory..<length m1}"
      "\<And>m2. agree_on {length sample_memory..<length m1} m1 m2 \<Longrightarrow> content_of m2 ?t (m2 ! b) = content_of sample_memory ?t (sample_memory ! 2)"
    using deepcopy_objects_independent [OF sample_env_ok sample_registered(1), of sample_memory "Some 2" r m1] ty d by auto
  have "agree_on {length sample_memory..<length m1} m1 (m1[0 := VInt 0, 2 := VInt 0])" by (auto simp: agree_on_def sample_memory_def)
  from b(3) [OF this] r b(1,2) d show ?thesis by (auto simp: sample_memory_def)
qed

theorem accessors_assign_one_field_witness:
  "\<exists>m'. SetProviderConfigReference (DbSchema_methods sample_env) (VPtr None) (VPtr (Some 2)) sample_memory = Inr m'
     \<and> has_ty m' (TPtr (DbSchema_ty sample_env)) (VPtr (Some 2))
     \<and> GetProviderConfigReference (DbSchema_methods sample_env) (VPtr (Some 2)) m' = Inr (VPtr None)
     \<and> GetDeletionPolicy (DbSchema_methods sample_env) (VPtr (Some 2)) m' = Inr (VString ''Delete'')"
proof -
  let ?ms = "DbSchema_methods sample_env" and ?m = sample_memory
  let ?path = "[''Spec'', ''ResourceSpec'', ''ProviderConfigReference'']"
  let ?ac = "\<lparr>ac_Path = ?path, ac_Get = GetProviderConfigReference ?ms, ac_Set = SetProviderConfigReference ?ms\<rparr>"
  have ac: "(DbSchema_ty sample_env, managed_accessors ?ms) \<in> set (api_accessors sample_env)" "?ac \<in> set (managed_accessors ?ms)"
    by (simp_all add: api_accessors_def managed_kinds_def managed_accessors_def)
  have t: "type_at ?path (DbSchema_ty sample_env) = Some (TPtr TString)" by (simp add: schema_types)
  have a: "2 < length ?m" "?m ! 2 = sample_schema" by (simp_all add: sample_memory_def)
  have n: "2 \<notin> reach ?m (DbSchema_ty sample_env) (?m ! 2)" by (simp add: schema_types sample_memory_def sample_schema_def)
  obtain m' where m': "SetProviderConfigReference ?ms (VPtr None) (VPtr (Some 2)) ?m = Inr m'"
      "has_ty m' (TPtr (DbSchema_ty sample_env)) (VPtr (Some 2))"
      "\<forall>ac' \<in> set (managed_accessors ?ms). ac_Get ac' (VPtr (Some 2)) m' =
         (if ac_Path ac' = ?path then Inr (VPtr None) else ac_Get ac' (VPtr (Some 2)) ?m)"
    using accessors_assign_one_field [OF ac, of "TPtr TString" 2 ?m "VPtr None"] t a sample_typed(1) n by (auto simp: typing)
  have "GetDeletionPolicy ?ms (VPtr (Some 2)) ?m = Inr (VString ''Delete'')"
    by (simp add: DbSchema_methods_def generated_methods_def field_get_def a(2) sample_schema_def)
  then show ?thesis using m' by (simp add: managed_accessors_def)
qed

theorem list_items_are_elements_witness:
  "\<exists>m1 items'. DbSchemaList_DeepCopyObject sample_env (VPtr (Some 3)) sample_memory = (Some (''DbSchemaList'', 4), m1)
     \<and> DbSchemaList_GetItems (VPtr (Some 3)) sample_memory = Inr [VPtr (Some 2)]
     \<and> DbSchemaList_GetItems (VPtr (Some 4)) m1 = Inr items' \<and> length items' = 1"
proof -
  obtain r m1 where d: "DbSchemaList_DeepCopyObject sample_env (VPtr (Some 3)) sample_memory = (r, m1)" by (metis prod.exhaust)
  have r: "r = Some (''DbSchemaList'', 4)"
    using d by (auto simp: DbSchemaList_DeepCopyObject_def DbSchemaList_DeepCopy_def as_Object_copy sample_memory_def split: prod.splits)
  have l: "(DbSchemaList_ty sample_env, DbSchema_ty sample_env, DbSchemaList_GetItems) \<in> set (api_lists sample_env)"
    by (simp add: api_lists_def)
  obtain items b items' where i: "DbSchemaList_GetItems (VPtr (Some 3)) sample_memory = Inr items" "r = Some (''DbSchemaList'', b)"
      "DbSchemaList_GetItems (VPtr (Some b)) m1 = Inr items'"
      "map (content_of m1 (TPtr (DbSchema_ty sample_env))) items' = map (content_of sample_memory (TPtr (DbSchema_ty sample_env))) items"
    using list_items_are_elements [OF sample_env_ok l sample_registered(2), of sample_memory 3 r m1] sample_typed(2) d by auto
  have "items = [VPtr (Some 2)]" using i(1)
    by (auto simp: DbSchemaList_GetItems_def generated_GetItems_def field_get_def sample_memory_def numeral_2_eq_2)
  then show ?thesis using d r i map_eq_imp_length_eq [OF i(4)] by auto
qed

end
