(* ===== verification/ProviderSetup.thy ===== *)
theory ProviderSetup
  imports ApiObjects KymaInstanceMappings
begin

text \<open>
  The start of the provider: \<open>main\<close> (\<open>cmd/provider\<close>), the functions \<open>Setup\<close> of the controllers
  (\<open>internal/controller\<close>) and the feature flags. The packages that build a manager, complete a controller
  and start it are the arguments \<open>rt\<close>; what the program decides, which controllers there are and with
  which kinds and options, is written out.
\<close>

section \<open>Options and features\<close>

type_synonym gvk = "(string \<times> string) \<times> string"

text \<open>\<open>controller.Options\<close>, as far as it is read: intervals are in seconds.\<close>

record options =
  o_PollInterval :: int
  o_MaxConcurrentReconciles :: int
  o_GlobalRateLimiter :: int
  o_Features :: "string list"

definition EnableAlphaExternalSecretStores :: string where
  "EnableAlphaExternalSecretStores = ''EnableAlphaExternalSecretStores''"

definition EnableAlphaManagementPolicies :: string where
  "EnableAlphaManagementPolicies = ''EnableAlphaManagementPolicies''"

definition Features_Enabled :: "options \<Rightarrow> string \<Rightarrow> bool" where
  "Features_Enabled o1 flag = (flag \<in> set (o_Features o1))"

text \<open>Whether the option turns management policies on in the reconciler it is applied to.\<close>

definition ConfigureBetaManagementPolicies :: "options \<Rightarrow> bool" where
  "ConfigureBetaManagementPolicies o1 = Features_Enabled o1 EnableAlphaManagementPolicies"

section \<open>Controllers\<close>

text \<open>
  What a \<open>Setup\<close> hands to \<open>managed.NewReconciler\<close> and \<open>ctrl.NewControllerManagedBy\<close>: the name, the kind that is
  reconciled, the package of the connector, the options of the reconciler (None or False where none is
  given), the Go type of \<open>For\<close>, and the types of \<open>Owns\<close> and \<open>Watches\<close>.
\<close>

datatype publisher = APISecretPublisher | DetailsManager gvk

record controller_setup =
  cs_Name :: string
  cs_ManagedKind :: gvk
  cs_Connector :: string
  cs_PollInterval :: "int option"
  cs_ManagementPolicies :: bool
  cs_Publishers :: "publisher list option"
  cs_Options :: "int option"
  cs_RateLimiter :: "int option"
  cs_For :: string
  cs_Owns :: "string list"
  cs_Watches :: "string list"

text \<open>The runtime: names of controllers from group and kind, and the calls of \<open>main\<close> and of \<open>Complete\<close>.\<close>

record 'w runtime =
  rt_GroupKind_String :: "string \<times> string \<Rightarrow> string"
  rt_ControllerName :: "string \<Rightarrow> string"
  rt_Complete :: "controller_setup \<Rightarrow> 'w \<Rightarrow> error option \<times> 'w"
  rt_GetConfig :: "'w \<Rightarrow> error option \<times> 'w"
  rt_NewManager :: "int \<Rightarrow> int \<Rightarrow> bool \<Rightarrow> 'w \<Rightarrow> error option \<times> 'w"
  rt_AddToScheme :: "object_type list \<Rightarrow> 'w \<Rightarrow> error option \<times> 'w"
  rt_CreateStoreConfig :: "string \<Rightarrow> string \<Rightarrow> 'w \<Rightarrow> error option \<times> 'w"
  rt_Start :: "'w \<Rightarrow> error option \<times> 'w"
  rt_Disconnect :: "'w \<Rightarrow> error option \<times> 'w"

text \<open>The name of the controller of a kind, \<open>managed.ControllerName(GroupKind)\<close>.\<close>

definition controller_name :: "'w runtime \<Rightarrow> gvk \<Rightarrow> string" where
  "controller_name rt k = rt_ControllerName rt (rt_GroupKind_String rt (fst (fst k), snd k))"

definition publishers :: "options \<Rightarrow> publisher list" where
  "publishers o1 = APISecretPublisher #
     (if Features_Enabled o1 EnableAlphaExternalSecretStores then [DetailsManager StoreConfig_GroupVersionKind] else [])"

definition role_Setup :: "'w runtime \<Rightarrow> options \<Rightarrow> controller_setup" where
  "role_Setup rt o1 =
     \<lparr>cs_Name = controller_name rt Role_GroupVersionKind, cs_ManagedKind = Role_GroupVersionKind, cs_Connector = ''role'',
      cs_PollInterval = Some (o_PollInterval o1), cs_ManagementPolicies = ConfigureBetaManagementPolicies o1,
      cs_Publishers = None, cs_Options = None, cs_RateLimiter = None,
      cs_For = ''Role'', cs_Owns = [], cs_Watches = []\<rparr>"

definition rolegroup_Setup :: "'w runtime \<Rightarrow> options \<Rightarrow> controller_setup" where
  "rolegroup_Setup rt o1 =
     \<lparr>cs_Name = controller_name rt Rolegroup_GroupVersionKind, cs_ManagedKind = Rolegroup_GroupVersionKind, cs_Connector = ''rolegroup'',
      cs_PollInterval = Some (o_PollInterval o1), cs_ManagementPolicies = ConfigureBetaManagementPolicies o1,
      cs_Publishers = None, cs_Options = None, cs_RateLimiter = None,
      cs_For = ''Rolegroup'', cs_Owns = [], cs_Watches = []\<rparr>"

definition usergroup_Setup :: "'w runtime \<Rightarrow> options \<Rightarrow> controller_setup" where
  "usergroup_Setup rt o1 =
     \<lparr>cs_Name = controller_name rt Usergroup_GroupVersionKind, cs_ManagedKind = Usergroup_GroupVersionKind, cs_Connector = ''usergroup'',
      cs_PollInterval = Some (o_PollInterval o1), cs_ManagementPolicies = ConfigureBetaManagementPolicies o1,
      cs_Publishers = None, cs_Options = None, cs_RateLimiter = None,
      cs_For = ''Usergroup'', cs_Owns = [], cs_Watches = []\<rparr>"

definition dbschema_Setup :: "'w runtime \<Rightarrow> options \<Rightarrow> controller_setup" where
  "dbschema_Setup rt o1 =
     \<lparr>cs_Name = controller_name rt DbSchema_GroupVersionKind, cs_ManagedKind = DbSchema_GroupVersionKind, cs_Connector = ''dbschema'',
      cs_PollInterval = Some (o_PollInterval o1), cs_ManagementPolicies = ConfigureBetaManagementPolicies o1,
      cs_Publishers = Some (publishers o1), cs_Options = None, cs_RateLimiter = None,
      cs_For = ''DbSchema'', cs_Owns = [], cs_Watches = []\<rparr>"

definition auditpolicy_Setup :: "'w runtime \<Rightarrow> options \<Rightarrow> controller_setup" where
  "auditpolicy_Setup rt o1 =
     \<lparr>cs_Name = controller_name rt AuditPolicy_GroupVersionKind, cs_ManagedKind = AuditPolicy_GroupVersionKind, cs_Connector = ''auditpolicy'',
      cs_PollInterval = Some (o_PollInterval o1), cs_ManagementPolicies = ConfigureBetaManagementPolicies o1,
      cs_Publishers = Some (publishers o1), cs_Options = Some (o_MaxConcurrentReconciles o1), cs_RateLimiter = Some (o_GlobalRateLimiter o1),
      cs_For = ''AuditPolicy'', cs_Owns = [], cs_Watches = []\<rparr>"

definition user_Setup :: "'w runtime \<Rightarrow> options \<Rightarrow> controller_setup" where
  "user_Setup rt o1 =
     \<lparr>cs_Name = controller_name rt User_GroupVersionKind, cs_ManagedKind = User_GroupVersionKind, cs_Connector = ''user'',
      cs_PollInterval = Some (o_PollInterval o1), cs_ManagementPolicies = ConfigureBetaManagementPolicies o1,
      cs_Publishers = None, cs_Options = None, cs_RateLimiter = None,
      cs_For = ''User'', cs_Owns = [], cs_Watches = [''Secret'']\<rparr>"

definition x509provider_Setup :: "'w runtime \<Rightarrow> options \<Rightarrow> controller_setup" where
  "x509provider_Setup rt o1 =
     \<lparr>cs_Name = controller_name rt X509Provider_GroupVersionKind, cs_ManagedKind = X509Provider_GroupVersionKind, cs_Connector = ''x509provider'',
      cs_PollInterval = Some (o_PollInterval o1), cs_ManagementPolicies = ConfigureBetaManagementPolicies o1,
      cs_Publishers = Some (publishers o1), cs_Options = Some (o_MaxConcurrentReconciles o1), cs_RateLimiter = Some (o_GlobalRateLimiter o1),
      cs_For = ''X509Provider'', cs_Owns = [], cs_Watches = []\<rparr>"

definition personalsecurityenvironment_Setup :: "'w runtime \<Rightarrow> options \<Rightarrow> controller_setup" where
  "personalsecurityenvironment_Setup rt o1 =
     \<lparr>cs_Name = controller_name rt PersonalSecurityEnvironment_GroupVersionKind,
      cs_ManagedKind = PersonalSecurityEnvironment_GroupVersionKind, cs_Connector = ''personalsecurityenvironment'',
      cs_PollInterval = Some (o_PollInterval o1), cs_ManagementPolicies = ConfigureBetaManagementPolicies o1,
      cs_Publishers = Some (publishers o1), cs_Options = Some (o_MaxConcurrentReconciles o1), cs_RateLimiter = Some (o_GlobalRateLimiter o1),
      cs_For = ''PersonalSecurityEnvironment'', cs_Owns = [], cs_Watches = []\<rparr>"

definition certificate_Setup :: "'w runtime \<Rightarrow> options \<Rightarrow> controller_setup" where
  "certificate_Setup rt o1 =
     \<lparr>cs_Name = controller_name rt Certificate_GroupVersionKind, cs_ManagedKind = Certificate_GroupVersionKind, cs_Connector = ''certificate'',
      cs_PollInterval = Some (o_PollInterval o1), cs_ManagementPolicies = ConfigureBetaManagementPolicies o1,
      cs_Publishers = Some (publishers o1), cs_Options = Some (o_MaxConcurrentReconciles o1), cs_RateLimiter = Some (o_GlobalRateLimiter o1),
      cs_For = ''Certificate'', cs_Owns = [], cs_Watches = []\<rparr>"

definition instancemapping_Setup :: "'w runtime \<Rightarrow> options \<Rightarrow> controller_setup" where
  "instancemapping_Setup rt o1 =
     \<lparr>cs_Name = controller_name rt InstanceMapping_GroupVersionKind, cs_ManagedKind = InstanceMapping_GroupVersionKind,
      cs_Connector = ''instancemapping'', cs_PollInterval = None, cs_ManagementPolicies = ConfigureBetaManagementPolicies o1,
      cs_Publishers = None, cs_Options = None, cs_RateLimiter = None,
      cs_For = ''InstanceMapping'', cs_Owns = [], cs_Watches = []\<rparr>"

definition kymainstancemapping_Setup :: "'w runtime \<Rightarrow> options \<Rightarrow> controller_setup" where
  "kymainstancemapping_Setup rt o1 =
     \<lparr>cs_Name = controller_name rt KymaInstanceMapping_GroupVersionKind, cs_ManagedKind = KymaInstanceMapping_GroupVersionKind,
      cs_Connector = ''kymainstancemapping'', cs_PollInterval = None, cs_ManagementPolicies = False,
      cs_Publishers = Some (publishers o1), cs_Options = None, cs_RateLimiter = None,
      cs_For = ''KymaInstanceMapping'', cs_Owns = [''InstanceMapping'', ''Secret''], cs_Watches = []\<rparr>"

text \<open>Calls one after the other, until the first that returns an error.\<close>

fun until_error :: "('w \<Rightarrow> error option \<times> 'w) list \<Rightarrow> 'w \<Rightarrow> error option \<times> 'w" where
  "until_error [] w = (None, w)"
| "until_error (f # fs) w = (case f w of (Some err, w') \<Rightarrow> (Some err, w') | (None, w') \<Rightarrow> until_error fs w')"

definition sql_setups :: "'w runtime \<Rightarrow> options \<Rightarrow> controller_setup list" where
  "sql_setups rt o1 = map (\<lambda>setup. setup rt o1)
     [role_Setup, rolegroup_Setup, usergroup_Setup, dbschema_Setup, auditpolicy_Setup, user_Setup, x509provider_Setup,
      personalsecurityenvironment_Setup, certificate_Setup]"

definition controller_Setup :: "'w runtime \<Rightarrow> options \<Rightarrow> 'w \<Rightarrow> error option \<times> 'w" where
  "controller_Setup rt o1 w =
     (case until_error (map (rt_Complete rt) (sql_setups rt o1)) w of
        (Some err, w1) \<Rightarrow> (Some err, w1)
      | (None, w1) \<Rightarrow>
          (case rt_Complete rt (instancemapping_Setup rt o1) w1 of
             (Some err, w2) \<Rightarrow> (Some err, w2)
           | (None, w2) \<Rightarrow>
               (case rt_Complete rt (kymainstancemapping_Setup rt o1) w2 of
                  (Some err, w3) \<Rightarrow> (Some err, w3)
                | (None, w3) \<Rightarrow> (None, w3))))"

text \<open>The controller of provider configurations (\<open>internal/controller/config\<close>), which nothing adds.\<close>

record config_setup =
  pcs_Name :: string
  pcs_Config :: gvk
  pcs_UsageList :: gvk
  pcs_Options :: int
  pcs_RateLimiter :: int
  pcs_For :: string
  pcs_Watches :: "string list"

definition config_Setup :: "(string \<Rightarrow> string) \<Rightarrow> 'w runtime \<Rightarrow> options \<Rightarrow> config_setup" where
  "config_Setup ControllerName rt o1 =
     \<lparr>pcs_Name = ControllerName (rt_GroupKind_String rt (fst (fst ProviderConfig_GroupVersionKind), snd ProviderConfig_GroupVersionKind)),
      pcs_Config = ProviderConfig_GroupVersionKind, pcs_UsageList = (config_SchemeGroupVersion, ''ProviderConfigUsageList''),
      pcs_Options = o_MaxConcurrentReconciles o1, pcs_RateLimiter = o_GlobalRateLimiter o1,
      pcs_For = ''ProviderConfig'', pcs_Watches = [''ProviderConfigUsage'']\<rparr>"

section \<open>main\<close>

text \<open>The flags that are read, with their defaults.\<close>

record main_flags =
  fl_leaderElection :: bool
  fl_syncInterval :: int
  fl_pollInterval :: int
  fl_maxReconcileRate :: int
  fl_namespace :: string
  fl_enableExternalSecretStores :: bool

definition default_flags :: main_flags where
  "default_flags = \<lparr>fl_leaderElection = False, fl_syncInterval = 3600, fl_pollInterval = 60, fl_maxReconcileRate = 10,
     fl_namespace = ''crossplane-system'', fl_enableExternalSecretStores = False\<rparr>"

definition main_options :: "main_flags \<Rightarrow> options" where
  "main_options fl = \<lparr>o_PollInterval = fl_pollInterval fl, o_MaxConcurrentReconciles = fl_maxReconcileRate fl,
     o_GlobalRateLimiter = fl_maxReconcileRate fl,
     o_Features = EnableAlphaManagementPolicies # (if fl_enableExternalSecretStores fl then [EnableAlphaExternalSecretStores] else [])\<rparr>"

text \<open>
  \<open>kingpin.FatalIfError\<close> ends the process, so that nothing that was deferred runs; \<open>Ended\<close> is a return of \<open>main\<close>,
  which disconnects the pool and ignores the error.
\<close>

datatype outcome = Fatal string error | Ended

fun fatal_steps :: "(string \<times> ('w \<Rightarrow> error option \<times> 'w)) list \<Rightarrow> 'w \<Rightarrow> outcome \<times> 'w" where
  "fatal_steps [] w = (Ended, w)"
| "fatal_steps ((msg, f) # fs) w =
     (case f w of (Some err, w') \<Rightarrow> (Fatal msg err, w') | (None, w') \<Rightarrow> fatal_steps fs w')"

definition ensure_store_config :: "'w runtime \<Rightarrow> main_flags \<Rightarrow> 'w \<Rightarrow> error option \<times> 'w" where
  "ensure_store_config rt fl w =
     (if fl_enableExternalSecretStores fl
      then case rt_CreateStoreConfig rt ''default'' (fl_namespace fl) w of
             (Some err, w') \<Rightarrow> (if IsAlreadyExists err then None else Some err, w')
           | (None, w') \<Rightarrow> (None, w')
      else (None, w))"

definition main_steps :: "'w runtime \<Rightarrow> api_env \<Rightarrow> main_flags \<Rightarrow> (string \<times> ('w \<Rightarrow> error option \<times> 'w)) list" where
  "main_steps rt e fl =
     [(''Cannot get API server rest config'', rt_GetConfig rt),
      (''Cannot create controller manager'', rt_NewManager rt (fl_maxReconcileRate fl) (fl_syncInterval fl) (fl_leaderElection fl)),
      (''Cannot add hana APIs to scheme'', rt_AddToScheme rt (AddToSchemes e)),
      (''cannot create default store config'', ensure_store_config rt fl),
      (''Cannot setup hana controllers'', controller_Setup rt (main_options fl)),
      (''Cannot start controller manager'', rt_Start rt)]"

definition provider_main :: "'w runtime \<Rightarrow> api_env \<Rightarrow> main_flags \<Rightarrow> 'w \<Rightarrow> outcome \<times> 'w" where
  "provider_main rt e fl w =
     (case fatal_steps (main_steps rt e fl) w of
        (Fatal msg err, w') \<Rightarrow> (Fatal msg err, w')
      | (Ended, w') \<Rightarrow> (Ended, snd (rt_Disconnect rt w')))"

section \<open>The controllers fit the API\<close>

text \<open>The kinds that the scheme has for a Go type, by the name of the type.\<close>

definition scheme_kinds :: "api_env \<Rightarrow> string \<Rightarrow> gvk list" where
  "scheme_kinds e n = filter (\<lambda>k. snd k = n) (map ot_GroupVersionKind (AddToSchemes e))"

definition all_setups :: "'w runtime \<Rightarrow> options \<Rightarrow> controller_setup list" where
  "all_setups rt o1 = sql_setups rt o1 @ [instancemapping_Setup rt o1, kymainstancemapping_Setup rt o1]"

lemma until_error_append:
  "until_error (fs @ gs) w = (case until_error fs w of (Some err, w') \<Rightarrow> (Some err, w') | (None, w') \<Rightarrow> until_error gs w')"
  by (induction fs arbitrary: w) (auto split: prod.split option.split)

lemma controller_Setup_in_order: "controller_Setup rt o1 w = until_error (map (rt_Complete rt) (all_setups rt o1)) w"
  by (auto simp: controller_Setup_def all_setups_def until_error_append split: prod.split option.split)

lemmas setup_defs = role_Setup_def rolegroup_Setup_def usergroup_Setup_def dbschema_Setup_def auditpolicy_Setup_def
  user_Setup_def x509provider_Setup_def personalsecurityenvironment_Setup_def certificate_Setup_def instancemapping_Setup_def
  kymainstancemapping_Setup_def

lemmas kind_defs = Role_GroupVersionKind_def Rolegroup_GroupVersionKind_def Usergroup_GroupVersionKind_def
  DbSchema_GroupVersionKind_def AuditPolicy_GroupVersionKind_def User_GroupVersionKind_def X509Provider_GroupVersionKind_def
  PersonalSecurityEnvironment_GroupVersionKind_def Certificate_GroupVersionKind_def InstanceMapping_GroupVersionKind_def
  KymaInstanceMapping_GroupVersionKind_def admin_SchemeGroupVersion_def schema_SchemeGroupVersion_def
  inventory_SchemeGroupVersion_def config_SchemeGroupVersion_def

lemma scheme_kinds_of_setups:
  "list_all (\<lambda>c. scheme_kinds e (cs_For c) = [cs_ManagedKind c]) (all_setups rt o1)"
  by (simp add: all_setups_def sql_setups_def setup_defs kind_defs scheme_kinds_def AddToSchemes_def custom_AddToSchemes_def
    admin_SchemeBuilder_def inventory_SchemeBuilder_def schema_SchemeBuilder_def config_SchemeBuilder_def init_defs)

lemma setup_kinds_distinct: "distinct (map cs_ManagedKind (all_setups rt o1))"
  by (simp add: all_setups_def sql_setups_def setup_defs kind_defs)

lemma setup_names: "map cs_Name (all_setups rt o1) = map (controller_name rt \<circ> cs_ManagedKind) (all_setups rt o1)"
  by (simp add: all_setups_def sql_setups_def setup_defs)

lemma setup_types:
  "set (map ot_Type (filter (\<lambda>ot. ot_GroupVersionKind ot \<in> set (map cs_ManagedKind (all_setups rt o1))) (AddToSchemes e))) =
     set (map fst (managed_kinds e))"
  by (simp add: all_setups_def sql_setups_def setup_defs kind_defs AddToSchemes_def custom_AddToSchemes_def managed_kinds_def
    admin_SchemeBuilder_def inventory_SchemeBuilder_def schema_SchemeBuilder_def config_SchemeBuilder_def init_defs) blast

lemma setup_options:
  "map cs_Connector (filter (\<lambda>c. cs_PollInterval c = None) (all_setups rt o1)) = [''instancemapping'', ''kymainstancemapping'']"
  "map cs_Connector (filter (\<lambda>c. cs_RateLimiter c \<noteq> None) (all_setups rt o1)) =
     [''auditpolicy'', ''x509provider'', ''personalsecurityenvironment'', ''certificate'']"
  "map cs_Connector (filter (\<lambda>c. \<not> cs_ManagementPolicies c) (all_setups rt (main_options fl))) = [''kymainstancemapping'']"
  by (simp_all add: all_setups_def sql_setups_def setup_defs main_options_def ConfigureBetaManagementPolicies_def Features_Enabled_def)

lemma fatal_steps_ended: "fatal_steps fs w = (Ended, w') \<longleftrightarrow> until_error (map snd fs) w = (None, w')"
  by (induction fs w rule: fatal_steps.induct) (auto split: prod.splits option.splits)

lemma main_ends:
  "provider_main rt e fl w = (Ended, w') \<longleftrightarrow>
     (\<exists>w1. until_error (map snd (main_steps rt e fl)) w = (None, w1) \<and> w' = snd (rt_Disconnect rt w1))"
  by (auto simp: provider_main_def fatal_steps_ended [symmetric] split: prod.split outcome.split)

text \<open>
  C17. The controllers fit the API. \<open>Setup\<close> completes eleven controllers, one after the other, until one fails. The Go
  type that a controller watches is registered in the scheme with exactly the kind that the controller
  reconciles; every managed kind has a controller, no two controllers have the same name. With the options
  of \<open>main\<close>, all but the two for mappings poll in the configured interval, all but the one for Kyma follow
  management policies, and only four obey the configured rate.
\<close>

theorem setup_fits_api:
  assumes "inj_on (\<lambda>k. rt_ControllerName rt (rt_GroupKind_String rt (fst (fst k), snd k))) (set (map ot_GroupVersionKind (AddToSchemes e)))"
  shows "controller_Setup rt (main_options fl) w = until_error (map (rt_Complete rt) (all_setups rt (main_options fl))) w
    \<and> list_all (\<lambda>c. scheme_kinds e (cs_For c) = [cs_ManagedKind c]) (all_setups rt (main_options fl))
    \<and> set (map ot_Type (filter (\<lambda>ot. ot_GroupVersionKind ot \<in> set (map cs_ManagedKind (all_setups rt (main_options fl)))) (AddToSchemes e))) =
       set (map fst (managed_kinds e))
    \<and> distinct (map cs_Name (all_setups rt (main_options fl))) \<and> length (all_setups rt (main_options fl)) = 11
    \<and> map cs_Connector (filter (\<lambda>c. cs_PollInterval c = None) (all_setups rt (main_options fl))) = [''instancemapping'', ''kymainstancemapping'']
    \<and> map cs_Connector (filter (\<lambda>c. \<not> cs_ManagementPolicies c) (all_setups rt (main_options fl))) = [''kymainstancemapping'']
    \<and> map cs_Connector (filter (\<lambda>c. cs_RateLimiter c \<noteq> None) (all_setups rt (main_options fl))) =
       [''auditpolicy'', ''x509provider'', ''personalsecurityenvironment'', ''certificate'']"
proof -
  let ?cs = "all_setups rt (main_options fl)"
  have "set (map cs_ManagedKind ?cs) \<subseteq> set (map ot_GroupVersionKind (AddToSchemes e))"
  proof
    fix k
    assume "k \<in> set (map cs_ManagedKind ?cs)"
    then obtain c where c: "c \<in> set ?cs" "k = cs_ManagedKind c" by auto
    have "k \<in> set (scheme_kinds e (cs_For c))" using scheme_kinds_of_setups [of e rt "main_options fl"] c by (simp add: list_all_iff)
    then show "k \<in> set (map ot_GroupVersionKind (AddToSchemes e))" by (simp add: scheme_kinds_def)
  qed
  then have "inj_on (controller_name rt) (cs_ManagedKind ` set ?cs)"
    using inj_on_subset [OF assms] by (simp add: controller_name_def [abs_def])
  then have "distinct (map cs_Name ?cs)"
    using setup_kinds_distinct [of rt "main_options fl"] unfolding setup_names by (simp add: distinct_map comp_inj_on)
  moreover have "length ?cs = 11" by (simp add: all_setups_def sql_setups_def)
  ultimately show ?thesis
    by - (intro conjI controller_Setup_in_order scheme_kinds_of_setups setup_types setup_options, assumption+)
qed

text \<open>A runtime in which everything succeeds and the world counts the calls.\<close>

definition sample_runtime :: "nat runtime" where
  "sample_runtime =
     \<lparr>rt_GroupKind_String = (\<lambda>(g, k). k @ ''.'' @ g), rt_ControllerName = (\<lambda>s. ''managed/'' @ s), rt_Complete = (\<lambda>c n. (None, Suc n)),
      rt_GetConfig = (\<lambda>n. (None, Suc n)), rt_NewManager = (\<lambda>r s l n. (None, Suc n)), rt_AddToScheme = (\<lambda>ts n. (None, Suc n)),
      rt_CreateStoreConfig = (\<lambda>k d n. (None, Suc n)), rt_Start = (\<lambda>n. (None, Suc n)), rt_Disconnect = (\<lambda>n. (None, Suc n))\<rparr>"

theorem setup_fits_api_witness:
  "distinct (map cs_Name (all_setups sample_runtime (main_options default_flags)))
     \<and> controller_Setup sample_runtime (main_options default_flags) 0 = (None, 11)"
proof -
  let ?name = "\<lambda>k. rt_ControllerName sample_runtime (rt_GroupKind_String sample_runtime (fst (fst k), snd k))"
  have "distinct (map ?name (map ot_GroupVersionKind (AddToSchemes sample_env)))"
    by (simp add: sample_runtime_def AddToSchemes_def custom_AddToSchemes_def admin_SchemeBuilder_def inventory_SchemeBuilder_def
      schema_SchemeBuilder_def config_SchemeBuilder_def init_defs admin_SchemeGroupVersion_def inventory_SchemeGroupVersion_def
      schema_SchemeGroupVersion_def config_SchemeGroupVersion_def)
  then have inj: "inj_on ?name (set (map ot_GroupVersionKind (AddToSchemes sample_env)))"
    by (rule distinct_map [THEN iffD1, THEN conjunct2])
  have "controller_Setup sample_runtime (main_options default_flags) 0 = (None, 11)"
    by (simp add: controller_Setup_def sql_setups_def sample_runtime_def)
  then show ?thesis using setup_fits_api [OF inj, of default_flags 0] by blast
qed

end
