(* ===== verification/Spec2Isabelle.thy ===== *)
theory Spec2Isabelle
  imports Rolegroup Usergroup DbSchemas Roles UserController AuditPolicies X509Providers
    PersonalSecurityEnvironments Certificates HanaPool InstanceMappings KymaInstanceMappings ApiObjects ProviderSetup
begin

text \<open>
  \<^bold>\<open>A verification library of the Crossplane provider for SAP HANA.\<close>

  \<^bold>\<open>The program.\<close> The provider runs eleven controllers (\<open>internal/controller\<close>). Each has a connector,
  which turns a custom resource into a connected client, and an external client with the four handlers
  \<open>Observe\<close>, \<open>Create\<close>, \<open>Update\<close> and \<open>Delete\<close>, which the Crossplane runtime calls. Nine of them manage
  objects of a HANA database through SQL (\<open>internal/clients/hana\<close>) over one shared pool of connections
  (\<open>hana.go\<close>); privileges and roles are parsed, printed, granted and revoked by the package \<open>privilege\<close>;
  slices and maps are compared, and names quoted, by \<open>internal/utils\<close>. The other two manage instance
  mappings: one talks to the HANA Cloud Admin API over HTTP (\<open>internal/clients/hanacloud\<close>), the other reads
  a Kyma cluster (\<open>internal/clients/remotecluster\<close>) and creates the resource of the first.

  \<^bold>\<open>How code becomes definitions.\<close> A function of the source is a definition of the same name, with the
  package in front where names clash (\<open>role_Read\<close> is \<open>Client.Read\<close> of the role client,
  \<open>role_controller_Update\<close> is \<open>external.Update\<close> of its controller). A struct is a record, an interface a
  record of functions, a pointer an option, an error a value of \<open>error\<close>; a nil dereference is the error
  \<open>Panic\<close>. State is passed explicitly: an operation takes the world, of any type, and returns the new one.
  What is not in the repository is an argument: the database server (\<open>DB\<close>), its driver, the Kubernetes
  API (\<open>Kube\<close>, \<open>ManagementClient\<close>, \<open>ClusterClient\<close>), HTTP and OAuth2, PEM and X.509, Argon2. A theorem
  that does not restrict such an argument holds for every server and every way it can fail. The order in
  which Go ranges over a map or lists a set is an argument too, as is the schedule of goroutines.

  \<^bold>\<open>Theories.\<close>
  \<^item> \<open>Prelude\<close>: errors, the functions of \<open>strings\<close>, \<open>strconv\<close> and \<open>fmt\<close> that are used, maps; \<open>Regexp\<close>:
    regular expressions with capture groups, for the patterns of the privilege parser; \<open>Encodings\<close>:
    percent encoding and Base64; \<open>Json\<close>: \<open>encoding/json\<close>, with reading as the inverse of writing.
  \<^item> \<open>Apis\<close>: the resources of \<open>apis/\<close>, and \<open>Managed\<close>, the sum of their kinds.
  \<^item> \<open>Utils\<close> (\<open>internal/utils\<close>): differences of slices and maps (C1, C2), quoting (C4).
  \<^item> \<open>Xsql\<close> (\<open>internal/clients/xsql\<close>): the interface \<open>DB\<close>, rows and \<open>Scan\<close>; plans, that is lists of statements
    with what is made of their errors; the locale \<open>query_client\<close>.
  \<^item> \<open>Privilege\<close>, \<open>PrivilegeParse\<close>, \<open>PrivilegeClient\<close> (\<open>clients/hana/privilege\<close>): printing and parsing are
    inverse (C5, C6), granting and revoking by groups (C7), what is managed under a policy (C8); the
    locale \<open>privilege_client\<close>.
  \<^item> \<open>ExternalClients\<close>: what the controllers share: \<open>Connect\<close>, updates in steps, reachable states, and the
    locales \<open>managed_client\<close> and \<open>external_client\<close> with the contract of the runtime.
  \<^item> \<open>Rolegroup\<close> (C9), \<open>Usergroup\<close> (C10), \<open>DbSchemas\<close>, \<open>Roles\<close> (C12, C13), \<open>Users\<close> and \<open>UserController\<close>
    (C14--C16, C18, C19), \<open>AuditPolicies\<close> (C20, C21): client and controller of a kind. Their main theorems say which
    statements an update executes, that a successful update reaches the desired state, and that a
    resource in the desired state is left alone; and where the code does not do so.
  \<^item> \<open>Concurrency\<close>: goroutines, run under any schedule; \<open>X509Providers\<close> (C22) and
    \<open>PersonalSecurityEnvironments\<close> (C23--C25) start goroutines that execute statements.
  \<^item> \<open>Certificates\<close> (C26--C30): transactions, names of certificates, PEM chains.
  \<^item> \<open>HanaPool\<close> (C31--C35, C40): the pool as a function and as interleaved atomic steps, with its invariant;
    every call returns, and the number of open connections is bounded.
  \<^item> \<open>InstanceMappings\<close> (C36) and \<open>KymaInstanceMappings\<close> (C37, C38): the REST client, JSON, and how the two
    controllers work together through the API server.
  \<^item> \<open>GoMemory\<close> and \<open>GoFields\<close>: values, types and memory, with pointers, slices and maps as addresses; \<open>ConfigTypes\<close>,
    \<open>AdminTypes\<close>, \<open>SchemaTypes\<close> and \<open>InventoryTypes\<close>: the structs of the four API packages with their generated copies;
    \<open>ApiObjects\<close>: registration, accessors and lists. Copies are deep for every registered type (C3), accessors
    assign one field and keep types (C11), the items of a list are its elements.
  \<^item> \<open>ProviderSetup\<close> (C17): \<open>main\<close>, the functions \<open>Setup\<close> and the feature flags: the controllers fit the API.
  \<^item> this theory: all controllers together (C39).

  \<^bold>\<open>Interfaces.\<close> \<open>query_client\<close> (reading changes nothing, creating and deleting execute a plan),
  \<open>privilege_client\<close> (granting and revoking execute plans), \<open>managed_client\<close> (other kinds are refused, kind and
  desired state are kept, conditions only added) and \<open>external_client\<close> (deleting is announced) are
  interpreted for every client and controller that has them. \<open>deep_copy\<close> (new memory, same content) is the
  contract of a generated copy; the theories of the API packages prove it for every struct.

  \<^bold>\<open>Two levels of data.\<close> The handlers are modelled over records (\<open>Apis\<close>), where a copy is the same value: what
  a handler writes to the copy of a resource does not change the resource. That this is right is what
  C3 shows over memory. Where the program compares addresses, for the references of X.509 mappings,
  the record carries the address and the copy of a user gets new ones (\<open>UserController\<close>).

  \<^bold>\<open>Bounds and termination.\<close> Every definition is total. Loops over slices are structural; \<open>splitPEMChain\<close> and
  the JSON scanner consume their input, which is their termination measure; the regular expression matcher
  has no fuel; types have no recursion, so that following the pointers of a value ends. The only bound is the
  nesting depth of 10000 in JSON, which is that of the Go package. Strings are byte sequences; letter case and
  white space are those of ASCII. The integers of the program are read from the database and printed, never
  computed with, and are of type \<^typ>\<open>int\<close>; where a text is converted the range of \<open>int64\<close> is checked. Memory
  grows as long as something is allocated; the limits of a machine are not modelled.

  \<^bold>\<open>Not modelled.\<close> What the Crossplane and Kubernetes runtimes do with the controllers once they are set up (the
  reconciler, watches, caches, leader election); the parsing of the command line; logging; contexts and
  their cancellation; validation markers of \<open>apis/\<close>, which
  the API server enforces; \<open>clients/fake\<close> and the other test code. Of the Kubernetes and Crossplane packages
  only what the theorems name is assumed: \<open>env_ok\<close> for their types, and the documented results of their
  calls where a theorem needs them.
\<close>

section \<open>All controllers\<close>

text \<open>The controllers in the order in which \<open>controller.Setup\<close> adds them, each with a connected client.\<close>

definition controllers ::
  "'w roleClient \<Rightarrow> (string list \<Rightarrow> string list) \<Rightarrow> 'w userExternal \<Rightarrow> nat list \<Rightarrow> pem \<Rightarrow> 'w Kube \<Rightarrow> 'w DB \<Rightarrow>
     ('w \<Rightarrow> string) \<Rightarrow> 'w imClient \<Rightarrow> kymaExtractedData \<Rightarrow> 'w ManagementClient \<Rightarrow> 'w ExternalClient list" where
  "controllers rc ord ux sched p kube db now im kymaData mk =
     [role_external rc ord, rolegroup_external db, usergroup_external db, dbschema_external db, auditpolicy_external db,
      user_external ux, x509provider_external sched db, pse_external sched kube db, certificate_external p kube db,
      instancemapping_external now im, kyma_external kymaData mk]"

text \<open>The position of the controller of a resource.\<close>

fun kind_index :: "Managed \<Rightarrow> nat" where
  "kind_index (MRole cr) = 0"
| "kind_index (MRolegroup cr) = 1"
| "kind_index (MUsergroup cr) = 2"
| "kind_index (MDbSchema cr) = 3"
| "kind_index (MAuditPolicy cr) = 4"
| "kind_index (MUser cr) = 5"
| "kind_index (MX509Provider cr) = 6"
| "kind_index (MPersonalSecurityEnvironment cr) = 7"
| "kind_index (MCertificate cr) = 8"
| "kind_index (MInstanceMapping cr) = 9"
| "kind_index (MKymaInstanceMapping cr) = 10"

text \<open>The desired state of a resource, with its kind.\<close>

datatype Desired =
    DRole RoleParameters
  | DRolegroup RolegroupParameters
  | DUsergroup UsergroupParameters
  | DDbSchema DbSchemaParameters
  | DAuditPolicy AuditPolicyParameters
  | DUser UserParameters
  | DX509Provider X509ProviderParameters
  | DPersonalSecurityEnvironment PersonalSecurityEnvironmentParameters
  | DCertificate CertificateParameters
  | DInstanceMapping InstanceMappingParameters
  | DKymaInstanceMapping KymaInstanceMappingParameters

fun desired :: "Managed \<Rightarrow> Desired" where
  "desired (MRole cr) = DRole (role_ForProvider cr)"
| "desired (MRolegroup cr) = DRolegroup (rolegroup_ForProvider cr)"
| "desired (MUsergroup cr) = DUsergroup (usergroup_ForProvider cr)"
| "desired (MDbSchema cr) = DDbSchema (dbschema_ForProvider cr)"
| "desired (MAuditPolicy cr) = DAuditPolicy (auditpolicy_ForProvider cr)"
| "desired (MUser cr) = DUser (user_ForProvider cr)"
| "desired (MX509Provider cr) = DX509Provider (x509provider_ForProvider cr)"
| "desired (MPersonalSecurityEnvironment cr) = DPersonalSecurityEnvironment (pse_ForProvider cr)"
| "desired (MCertificate cr) = DCertificate (certificate_ForProvider cr)"
| "desired (MInstanceMapping cr) = DInstanceMapping (instancemapping_ForProvider cr)"
| "desired (MKymaInstanceMapping cr) = DKymaInstanceMapping (kyma_ForProvider cr)"

text \<open>What the contract of the runtime gives for a controller that serves the kind at a position.\<close>

definition serves :: "'w ExternalClient \<Rightarrow> nat \<Rightarrow> bool" where
  "serves c i \<longleftrightarrow> (\<forall>mg w t. reachable c (mg, w) t \<longrightarrow> desired (fst t) = desired mg \<and> (kind_index mg \<noteq> i \<longrightarrow> fst t = mg))"

lemma managed_client_serves:
  assumes "managed_client c M sp conds e" and "\<And>cr cr'. sp cr' = sp cr \<Longrightarrow> desired (M cr') = desired (M cr)"
    and "\<And>cr. kind_index (M cr) = i"
  shows "serves c i"
  unfolding serves_def
proof (intro allI impI)
  fix mg w t
  assume r: "reachable c (mg, w) t"
  show "desired (fst t) = desired mg \<and> (kind_index mg \<noteq> i \<longrightarrow> fst t = mg)"
  proof (cases "\<exists>cr. mg = M cr")
    case True
    then obtain cr where mg: "mg = M cr" by blast
    obtain cr' where t: "fst t = M cr'" "sp cr' = sp cr"
      using managed_client.reachable_own [OF assms(1) r] mg by (metis fst_conv)
    show ?thesis using assms(2) [OF t(2)] assms(3) by (simp add: mg t(1))
  next
    case False
    then show ?thesis using managed_client.reachable_other_kind [OF assms(1) r] by simp
  qed
qed

lemmas controller_contracts = role_client.managed_client_axioms rolegroup_client.managed_client_axioms
  usergroup_client.managed_client_axioms dbschema_client.managed_client_axioms auditpolicy_client.managed_client_axioms
  user_client.managed_client_axioms x509provider_client.managed_client_axioms pse_client.managed_client_axioms
  certificate_client.managed_client_axioms instancemapping_client.managed_client_axioms kyma_client.managed_client_axioms

lemma controllers_serve: "i < 11 \<Longrightarrow> serves (controllers rc ord ux sched p kube db now im kymaData mk ! i) i"
proof -
  have "list_all2 serves (controllers rc ord ux sched p kube db now im kymaData mk) [0, 1, 2, 3, 4, 5, 6, 7, 8, 9, 10]"
    unfolding controllers_def by (intro list_all2_Cons [THEN iffD2] conjI list_all2_Nil [THEN iffD2] TrueI
      controller_contracts [THEN managed_client_serves]) simp_all
  then have l: "list_all2 serves (controllers rc ord ux sched p kube db now im kymaData mk) [0..<11]" by (simp add: upt_rec eval_nat_numeral)
  assume i: "i < 11"
  from list_all2_nthD2 [OF l, of i] i show ?thesis by simp
qed

text \<open>
  C39. No controller changes what a user asked for. Whatever sequence of handlers of a controller is
  called, with whatever results, and whatever happens in the rest of the world in between, the resource
  keeps its kind and its desired state; and a controller does not touch a resource of another kind at
  all. Hence every resource is changed by exactly one of the controllers.
\<close>

theorem controllers_keep_desired_state:
  assumes "i < 11" and "reachable (controllers rc ord ux sched p kube db now im kymaData mk ! i) (mg, w) (mg', w')"
  shows "desired mg' = desired mg \<and> (i \<noteq> kind_index mg \<longrightarrow> mg' = mg)"
  using controllers_serve [OF assms(1)] assms(2) unfolding serves_def by fastforce

theorem controllers_keep_desired_state_witness:
  "\<forall>rc ord ux sched p kube db now im kymaData mk w.
     desired (fst (after_call (controllers rc ord ux sched p kube db now im kymaData mk ! 8) CallDelete (MInstanceMapping sample_instancemapping) w)) =
       desired (MInstanceMapping sample_instancemapping)
     \<and> fst (after_call (controllers rc ord ux sched p kube db now im kymaData mk ! 8) CallDelete (MInstanceMapping sample_instancemapping) w) =
       MInstanceMapping sample_instancemapping"
proof (intro allI)
  fix rc :: "'w roleClient" and ord ux sched p kube db now im kymaData mk w
  let ?c = "controllers rc ord ux sched p kube db now im kymaData mk ! 8"
  let ?t = "after_call ?c CallDelete (MInstanceMapping sample_instancemapping) w"
  have "reachable ?c (MInstanceMapping sample_instancemapping, w) (fst ?t, snd ?t)"
    using reachable.Called [OF reachable.Start] by simp
  from controllers_keep_desired_state [OF _ this]
  show "desired (fst ?t) = desired (MInstanceMapping sample_instancemapping) \<and> fst ?t = MInstanceMapping sample_instancemapping"
    by simp
qed

end
